(* ===== verification/Keeper_Prelude.thy ===== *)
theory Keeper_Prelude
  imports Main "HOL-Library.Signed_Division"
begin

text \<open>
  Shared ground of the development: the outcome of a Rust computation, the arithmetic of the
  \<open>i128\<close> type as the sources use it, and the list and option lemmas the components share.

  The crate is built with \<open>overflow-checks = true\<close> and \<open>panic = "abort"\<close>
  (\<^verbatim>\<open>src/Cargo.toml\<close>), so an overflowing raw operator, an integer division by zero and an
  overflowing \<open>pow\<close> abort the process.  A computation therefore has three outcomes: a value
  (\<open>Ok\<close>), an error value (\<open>Err\<close>) or an abort (\<open>Panic\<close>).
\<close>

section \<open>Collections of the development\<close>

named_theorems outcome_simps \<open>case analysis of outcomes\<close>
named_theorems i128_simps \<open>definitions and bounds of the i128 operations\<close>

section \<open>Outcomes\<close>

datatype ('e, 'a) outcome = Ok 'a | Err 'e | Panic

text \<open>\<open>bindr m f\<close> is the \<open>?\<close> operator: it continues with the value of \<open>m\<close> and
  returns its error or its abort otherwise.\<close>

fun bindr :: "('e, 'a) outcome \<Rightarrow> ('a \<Rightarrow> ('e, 'b) outcome) \<Rightarrow> ('e, 'b) outcome" where
  "bindr (Ok x) f = f x"
| "bindr (Err e) f = Err e"
| "bindr Panic f = Panic"

fun_cases bindr_OkE: "bindr m f = Ok y"
fun_cases bindr_ErrE: "bindr m f = Err e"
fun_cases bindr_PanicE: "bindr m f = Panic"

lemma bindr_eq_Ok_iff [simp, outcome_simps]:
  "bindr m f = Ok y \<longleftrightarrow> (\<exists>x. m = Ok x \<and> f x = Ok y)"
  by (cases m) auto

lemma bindr_okE: "bindr m f = Ok y \<Longrightarrow> (\<And>x. m = Ok x \<Longrightarrow> f x = Ok y \<Longrightarrow> R) \<Longrightarrow> R"
  by auto

lemma if_okE:
  "(if c then a else b) = Ok y \<Longrightarrow> (c \<Longrightarrow> a = Ok y \<Longrightarrow> R) \<Longrightarrow> (\<not> c \<Longrightarrow> b = Ok y \<Longrightarrow> R) \<Longrightarrow> R"
  by (simp split: if_splits)

lemma opt_caseE:
  "(case v of None \<Rightarrow> a | Some x \<Rightarrow> f x) = r \<Longrightarrow> (v = None \<Longrightarrow> a = r \<Longrightarrow> R) \<Longrightarrow>
     (\<And>x. v = Some x \<Longrightarrow> f x = r \<Longrightarrow> R) \<Longrightarrow> R"
  by (cases v) auto

lemma sum_caseE:
  "(case v of Inl e \<Rightarrow> a e | Inr x \<Rightarrow> f x) = r \<Longrightarrow> (\<And>e. v = Inl e \<Longrightarrow> a e = r \<Longrightarrow> R) \<Longrightarrow>
     (\<And>x. v = Inr x \<Longrightarrow> f x = r \<Longrightarrow> R) \<Longrightarrow> R"
  by (cases v) auto

lemma pair_caseE: "(case z of (a, b) \<Rightarrow> f a b) = r \<Longrightarrow> (\<And>a b. z = (a, b) \<Longrightarrow> f a b = r \<Longrightarrow> R) \<Longrightarrow> R"
  by (cases z) auto

lemma bindr_eq_Err_iff [outcome_simps]:
  "bindr m f = Err e \<longleftrightarrow> m = Err e \<or> (\<exists>x. m = Ok x \<and> f x = Err e)"
  by (cases m) auto

lemma bindr_eq_Panic_iff [outcome_simps]:
  "bindr m f = Panic \<longleftrightarrow> m = Panic \<or> (\<exists>x. m = Ok x \<and> f x = Panic)"
  by (cases m) auto

lemma bindr_cong [fundef_cong]:
  "m = m' \<Longrightarrow> (\<And>x. m' = Ok x \<Longrightarrow> f x = g x) \<Longrightarrow> bindr m f = bindr m' g"
  by (cases m') auto

text \<open>With this congruence rule the simplifier runs a computation step by step: it leaves a
  continuation alone until the value it continues with is known.\<close>

lemma bindr_step_cong: "m = m' \<Longrightarrow> bindr m f = bindr m' f"
  by simp

text \<open>\<open>map_ok\<close> is \<open>Result::map\<close>; \<open>ok_of\<close> is \<open>Result::ok\<close>, which keeps an abort apart
  from an error.\<close>

fun map_ok :: "('a \<Rightarrow> 'b) \<Rightarrow> ('e, 'a) outcome \<Rightarrow> ('e, 'b) outcome" where
  "map_ok f (Ok x) = Ok (f x)"
| "map_ok f (Err e) = Err e"
| "map_ok f Panic = Panic"

fun ok_of :: "('e, 'a) outcome \<Rightarrow> ('d, 'a option) outcome" where
  "ok_of (Ok x) = Ok (Some x)"
| "ok_of (Err e) = Ok None"
| "ok_of Panic = Panic"

lemma ok_of_eq_Some_iff [simp, outcome_simps]: "ok_of m = Ok (Some x) \<longleftrightarrow> m = Ok x"
  by (cases m) auto

lemma ok_of_eq_None_iff [simp, outcome_simps]: "ok_of m = Ok None \<longleftrightarrow> (\<exists>e. m = Err e)"
  by (cases m) auto

lemma ok_of_not_Err [simp, outcome_simps]: "ok_of m \<noteq> Err e"
  by (cases m) auto

lemma ok_of_eq_Panic_iff [simp, outcome_simps]: "ok_of m = Panic \<longleftrightarrow> m = Panic"
  by (cases m) auto

text \<open>\<open>or_stop\<close> is the pattern \<open>let Some(x) = .. else { return None }\<close>, or \<open>?\<close> on an
  option, inside a function that returns an option and may abort.\<close>

definition or_stop ::
  "('e, 'a option) outcome \<Rightarrow> ('a \<Rightarrow> ('e, 'b option) outcome) \<Rightarrow> ('e, 'b option) outcome" where
  "or_stop m f = bindr m (\<lambda>v. case v of None \<Rightarrow> Ok None | Some x \<Rightarrow> f x)"

lemma or_stop_eq_Some_iff [simp, outcome_simps]:
  "or_stop m f = Ok (Some y) \<longleftrightarrow> (\<exists>x. m = Ok (Some x) \<and> f x = Ok (Some y))"
  by (auto simp: or_stop_def split: option.splits)

lemma or_stop_simps [simp]:
  "or_stop (Ok (Some x)) f = f x" "or_stop (Ok None) f = Ok None"
  "or_stop (Err e) f = Err e" "or_stop Panic f = Panic"
  by (simp_all add: or_stop_def)

lemma or_stop_eq_Panic_iff:
  "or_stop m f = Panic \<longleftrightarrow> m = Panic \<or> (\<exists>x. m = Ok (Some x) \<and> f x = Panic)"
  by (cases m) (auto simp: or_stop_def split: option.splits)

section \<open>The i128 type\<close>

text \<open>An \<open>i128\<close> is an \<open>int\<close> in the range of the type.  Every operation below writes out what
  the Rust operation does at the ends of that range.\<close>

type_synonym i128 = int

definition i128_max :: i128 where
  "i128_max = 170141183460469231731687303715884105727"

definition i128_min :: i128 where
  "i128_min = - 170141183460469231731687303715884105728"

definition in_i128 :: "int \<Rightarrow> bool" where
  "in_i128 x \<longleftrightarrow> i128_min \<le> x \<and> x \<le> i128_max"

lemma i128_max_pow: "i128_max = 2 ^ 127 - 1"
  by (simp add: i128_max_def)

lemma i128_min_pow: "i128_min = - (2 ^ 127)"
  by (simp add: i128_min_def)

definition checked_add :: "i128 \<Rightarrow> i128 \<Rightarrow> i128 option" where
  "checked_add a b = (if in_i128 (a + b) then Some (a + b) else None)"

definition checked_sub :: "i128 \<Rightarrow> i128 \<Rightarrow> i128 option" where
  "checked_sub a b = (if in_i128 (a - b) then Some (a - b) else None)"

definition checked_mul :: "i128 \<Rightarrow> i128 \<Rightarrow> i128 option" where
  "checked_mul a b = (if in_i128 (a * b) then Some (a * b) else None)"

text \<open>Rust's integer division truncates towards zero: \<open>sdiv\<close>, not \<open>div\<close>.\<close>

definition checked_div :: "i128 \<Rightarrow> i128 \<Rightarrow> i128 option" where
  "checked_div a b = (if b = 0 \<or> \<not> in_i128 (a sdiv b) then None else Some (a sdiv b))"

definition checked_neg :: "i128 \<Rightarrow> i128 option" where
  "checked_neg a = (if in_i128 (- a) then Some (- a) else None)"

definition checked_abs :: "i128 \<Rightarrow> i128 option" where
  "checked_abs a = (if in_i128 \<bar>a\<bar> then Some \<bar>a\<bar> else None)"

text \<open>Powers of ten are the only powers the sources take; the exponent is a \<open>u32\<close>.\<close>

definition checked_pow10 :: "nat \<Rightarrow> i128 option" where
  "checked_pow10 k = (if k \<le> 38 then Some (10 ^ k) else None)"

definition clamp_i128 :: "int \<Rightarrow> i128" where
  "clamp_i128 x = max i128_min (min i128_max x)"

definition saturating_add :: "i128 \<Rightarrow> i128 \<Rightarrow> i128" where
  "saturating_add a b = clamp_i128 (a + b)"

definition saturating_sub :: "i128 \<Rightarrow> i128 \<Rightarrow> i128" where
  "saturating_sub a b = clamp_i128 (a - b)"

definition saturating_mul :: "i128 \<Rightarrow> i128 \<Rightarrow> i128" where
  "saturating_mul a b = clamp_i128 (a * b)"

text \<open>\<open>saturating_div\<close> panics on a zero divisor.  Every call in the sources divides by
  \<open>BPS_FACTOR\<close>, by 100 or by a power of ten, so the divisor is positive at each use.\<close>

definition saturating_div :: "i128 \<Rightarrow> i128 \<Rightarrow> i128" where
  "saturating_div a b = clamp_i128 (a sdiv b)"

definition saturating_pow10 :: "nat \<Rightarrow> i128" where
  "saturating_pow10 k = (if k \<le> 38 then 10 ^ k else i128_max)"

text \<open>The raw operators abort where the checked ones return \<open>None\<close>.\<close>

definition or_abort :: "'a option \<Rightarrow> ('e, 'a) outcome" where
  "or_abort v = (case v of None \<Rightarrow> Panic | Some x \<Rightarrow> Ok x)"

definition raw_add :: "i128 \<Rightarrow> i128 \<Rightarrow> ('e, i128) outcome" where
  "raw_add a b = or_abort (checked_add a b)"

definition raw_sub :: "i128 \<Rightarrow> i128 \<Rightarrow> ('e, i128) outcome" where
  "raw_sub a b = or_abort (checked_sub a b)"

definition raw_mul :: "i128 \<Rightarrow> i128 \<Rightarrow> ('e, i128) outcome" where
  "raw_mul a b = or_abort (checked_mul a b)"

definition raw_div :: "i128 \<Rightarrow> i128 \<Rightarrow> ('e, i128) outcome" where
  "raw_div a b = or_abort (checked_div a b)"

definition raw_pow10 :: "nat \<Rightarrow> ('e, i128) outcome" where
  "raw_pow10 k = or_abort (checked_pow10 k)"

lemmas i128_op_defs =
  checked_add_def checked_sub_def checked_mul_def checked_div_def checked_neg_def checked_abs_def
  checked_pow10_def saturating_add_def saturating_sub_def saturating_mul_def saturating_div_def
  saturating_pow10_def clamp_i128_def raw_add_def raw_sub_def raw_mul_def raw_div_def raw_pow10_def
  or_abort_def

lemmas i128_eval = i128_op_defs in_i128_def i128_max_def i128_min_def

subsection \<open>Results of the operations\<close>

lemma or_abort_eq_Ok_iff [simp]: "or_abort v = Ok x \<longleftrightarrow> v = Some x"
  by (simp add: or_abort_def split: option.splits)

lemma or_abort_eq_Panic_iff [simp]: "or_abort v = Panic \<longleftrightarrow> v = None"
  by (simp add: or_abort_def split: option.splits)

lemma or_abort_not_Err [simp]: "or_abort v \<noteq> Err e"
  by (simp add: or_abort_def split: option.splits)

lemma checked_add_eq_Some_iff [simp]: "checked_add a b = Some c \<longleftrightarrow> c = a + b \<and> in_i128 (a + b)"
  by (auto simp: checked_add_def)

lemma checked_sub_eq_Some_iff [simp]: "checked_sub a b = Some c \<longleftrightarrow> c = a - b \<and> in_i128 (a - b)"
  by (auto simp: checked_sub_def)

lemma checked_mul_eq_Some_iff [simp]: "checked_mul a b = Some c \<longleftrightarrow> c = a * b \<and> in_i128 (a * b)"
  by (auto simp: checked_mul_def)

lemma checked_div_eq_Some_iff [simp]:
  "checked_div a b = Some c \<longleftrightarrow> b \<noteq> 0 \<and> c = a sdiv b \<and> in_i128 (a sdiv b)"
  by (auto simp: checked_div_def)

lemma checked_pow10_eq_Some_iff [simp]: "checked_pow10 k = Some c \<longleftrightarrow> k \<le> 38 \<and> c = 10 ^ k"
  by (auto simp: checked_pow10_def)

lemma raw_add_eq_Ok_iff [simp]: "raw_add a b = Ok c \<longleftrightarrow> c = a + b \<and> in_i128 (a + b)"
  by (simp add: raw_add_def)

lemma raw_sub_eq_Ok_iff [simp]: "raw_sub a b = Ok c \<longleftrightarrow> c = a - b \<and> in_i128 (a - b)"
  by (simp add: raw_sub_def)

lemma raw_mul_eq_Ok_iff [simp]: "raw_mul a b = Ok c \<longleftrightarrow> c = a * b \<and> in_i128 (a * b)"
  by (simp add: raw_mul_def)

lemma raw_div_eq_Ok_iff [simp]:
  "raw_div a b = Ok c \<longleftrightarrow> b \<noteq> 0 \<and> c = a sdiv b \<and> in_i128 (a sdiv b)"
  by (simp add: raw_div_def)

lemma raw_pow10_eq_Ok_iff [simp]: "raw_pow10 k = Ok c \<longleftrightarrow> k \<le> 38 \<and> c = 10 ^ k"
  by (simp add: raw_pow10_def)

lemma raw_op_not_Err [simp]:
  "raw_add a b \<noteq> Err e" "raw_sub a b \<noteq> Err e" "raw_mul a b \<noteq> Err e" "raw_div a b \<noteq> Err e"
  "raw_pow10 k \<noteq> Err e"
  by (simp_all add: raw_add_def raw_sub_def raw_mul_def raw_div_def raw_pow10_def)

subsection \<open>Range facts\<close>

lemma in_i128_0 [simp, intro!]: "in_i128 0"
  by (simp add: i128_eval)

lemma in_i128_D: "in_i128 x \<Longrightarrow> i128_min \<le> x" "in_i128 x \<Longrightarrow> x \<le> i128_max"
  by (simp_all add: in_i128_def)

lemma in_i128_between: "in_i128 a \<Longrightarrow> in_i128 c \<Longrightarrow> a \<le> b \<Longrightarrow> b \<le> c \<Longrightarrow> in_i128 b"
  by (simp add: in_i128_def)

lemma in_i128_nonneg_le: "0 \<le> a \<Longrightarrow> a \<le> b \<Longrightarrow> in_i128 b \<Longrightarrow> in_i128 a"
  by (rule in_i128_between [of 0 b]) simp_all

lemma in_i128_min: "in_i128 a \<Longrightarrow> in_i128 b \<Longrightarrow> in_i128 (min a b)"
  by (simp add: min_def)

lemma in_i128_max: "in_i128 a \<Longrightarrow> in_i128 b \<Longrightarrow> in_i128 (max a b)"
  by (simp add: max_def)

lemma in_i128_clamp [simp, intro!]: "in_i128 (clamp_i128 x)"
  by (simp add: i128_eval)

lemma clamp_i128_id [simp]: "in_i128 x \<Longrightarrow> clamp_i128 x = x"
  by (simp add: clamp_i128_def in_i128_def)

lemma clamp_i128_mono: "x \<le> y \<Longrightarrow> clamp_i128 x \<le> clamp_i128 y"
  by (simp add: clamp_i128_def)

lemma clamp_i128_le: "0 \<le> x \<Longrightarrow> clamp_i128 x \<le> x"
  by (simp add: i128_eval)

lemma clamp_i128_nonneg: "0 \<le> x \<Longrightarrow> 0 \<le> clamp_i128 x"
  by (simp add: i128_eval)

lemma ten_pow_in_i128 [intro]: "k \<le> 38 \<Longrightarrow> in_i128 (10 ^ k)"
proof -
  assume "k \<le> 38"
  then have "(10::int) ^ k \<le> 10 ^ 38" by (intro power_increasing) simp_all
  then show ?thesis by (simp add: in_i128_def i128_max_def i128_min_def order_trans [OF _ zero_le_power])
qed

subsection \<open>Truncating division on non-negative numbers\<close>

lemma sdiv_nonneg_eq_div: "0 \<le> a \<Longrightarrow> 0 \<le> b \<Longrightarrow> (a::int) sdiv b = a div b"
  by (cases "a = 0"; cases "b = 0") (simp_all add: signed_divide_int_def sgn_if)

lemma sdiv_mono: "0 < c \<Longrightarrow> (a::int) \<le> b \<Longrightarrow> a sdiv c \<le> b sdiv c"
proof -
  assume c: "0 < c" and le: "a \<le> b"
  show ?thesis
  proof (cases "0 \<le> a")
    case True
    with c le show ?thesis by (simp add: sdiv_nonneg_eq_div zdiv_mono1)
  next
    case neg: False
    then have a: "a sdiv c = - ((- a) div c)"
      using c sdiv_nonneg_eq_div [of "- a" c] by simp
    show ?thesis
    proof (cases "0 \<le> b")
      case True
      with neg c have "a sdiv c \<le> 0" "0 \<le> b sdiv c"
        by (simp_all add: a sdiv_nonneg_eq_div pos_imp_zdiv_nonneg_iff)
      then show ?thesis by linarith
    next
      case False
      then have "b sdiv c = - ((- b) div c)"
        using c sdiv_nonneg_eq_div [of "- b" c] by simp
      with a le c show ?thesis by (simp add: zdiv_mono1)
    qed
  qed
qed

lemma sdiv_nonneg [simp]: "0 \<le> a \<Longrightarrow> 0 \<le> b \<Longrightarrow> 0 \<le> (a::int) sdiv b"
  by (cases "b = 0") (simp_all add: sdiv_nonneg_eq_div pos_imp_zdiv_nonneg_iff)

lemma sdiv_le_self: "0 \<le> a \<Longrightarrow> 0 < b \<Longrightarrow> (a::int) sdiv b \<le> a"
  using sdiv_int_range [of a b] by auto

lemma in_i128_sdiv: "in_i128 a \<Longrightarrow> 0 < b \<Longrightarrow> in_i128 (a sdiv b)"
proof -
  assume a: "in_i128 a" and b: "0 < b"
  from sdiv_mono [OF b, of 0 a] sdiv_mono [OF b, of a 0]
  have "0 \<le> a \<Longrightarrow> 0 \<le> a sdiv b" "a \<le> 0 \<Longrightarrow> a sdiv b \<le> 0" by simp_all
  moreover have "\<bar>a sdiv b\<bar> \<le> \<bar>a\<bar>" using sdiv_int_range [of a b] by auto
  ultimately show ?thesis using a
    by (cases "0 \<le> a") (auto simp: in_i128_def i128_max_def i128_min_def)
qed

text \<open>The usual ceiling \<open>(a + (b - 1)) / b\<close> and floor \<open>a / b\<close> of the sources, characterised by
  the products they are compared with.\<close>

lemma floor_div_le_iff: "0 < b \<Longrightarrow> q \<le> a div b \<longleftrightarrow> q * b \<le> (a::int)"
proof
  assume b: "0 < b" and "q \<le> a div b"
  then have "q * b \<le> (a div b) * b" by simp
  also have "\<dots> \<le> a" using b div_mult_mod_eq [of a b] pos_mod_sign [OF b, of a] by linarith
  finally show "q * b \<le> a" .
next
  assume b: "0 < b" and "q * b \<le> a"
  then have "(q * b) div b \<le> a div b" by (intro zdiv_mono1)
  with b show "q \<le> a div b" by simp
qed

lemma ceil_div_le_iff: "0 < b \<Longrightarrow> (a + (b - 1)) div b \<le> q \<longleftrightarrow> (a::int) \<le> q * b"
  using floor_div_le_iff [of b "q + 1" "a + (b - 1)"] by (auto simp: algebra_simps)

lemma floor_div_bounds: "0 < b \<Longrightarrow> (a div b) * b \<le> (a::int) \<and> a < (a div b + 1) * b"
  using floor_div_le_iff [of b "a div b" a] floor_div_le_iff [of b "a div b + 1" a] by simp

lemma ceil_div_bounds:
  "0 < b \<Longrightarrow> ((a + (b - 1)) div b - 1) * b < (a::int) \<and> a \<le> ((a + (b - 1)) div b) * b"
  using ceil_div_le_iff [of b a "(a + (b - 1)) div b - 1"] ceil_div_le_iff [of b a "(a + (b - 1)) div b"]
  by (simp add: not_le [symmetric])

lemma floor_le_ceil_div: "0 < b \<Longrightarrow> (a::int) div b \<le> (a + (b - 1)) div b"
  by (simp add: zdiv_mono1)

lemma ceil_div_le_floor_Suc: "0 < b \<Longrightarrow> (a + (b - 1)) div b \<le> (a::int) div b + 1"
  using floor_div_bounds [of b a] by (simp add: ceil_div_le_iff)

section \<open>Results\<close>

text \<open>A \<open>Result\<close> whose computation cannot abort is a sum with the error on the left.  \<open>ebind\<close> is its
  \<open>?\<close> operator, \<open>with_context\<close> is \<open>anyhow\<close>'s \<open>context\<close> on the rendered error, \<open>ok_or_else\<close> turns an
  option into a result.\<close>

fun ebind :: "'e + 'a \<Rightarrow> ('a \<Rightarrow> 'e + 'b) \<Rightarrow> 'e + 'b" where
  "ebind (Inl e) f = Inl e"
| "ebind (Inr x) f = f x"

fun with_context :: "string \<Rightarrow> string + 'a \<Rightarrow> string + 'a" where
  "with_context c (Inl e) = Inl (c @ '': '' @ e)"
| "with_context c (Inr x) = Inr x"

definition ok_or_else :: "'e \<Rightarrow> 'a option \<Rightarrow> 'e + 'a" where
  "ok_or_else e v = (case v of None \<Rightarrow> Inl e | Some x \<Rightarrow> Inr x)"

fun or_value :: "'a \<Rightarrow> 'e + 'a \<Rightarrow> 'a" where
  "or_value d (Inl e) = d"
| "or_value d (Inr x) = x"

lemma ebind_eq_Inr_iff [simp]: "ebind m f = Inr y \<longleftrightarrow> (\<exists>x. m = Inr x \<and> f x = Inr y)"
  by (cases m) auto

lemma ebind_InrE: "ebind m f = Inr y \<Longrightarrow> (\<And>x. m = Inr x \<Longrightarrow> f x = Inr y \<Longrightarrow> R) \<Longrightarrow> R"
  by auto

lemma with_context_eq_Inr_iff [simp]: "with_context c m = Inr x \<longleftrightarrow> m = Inr x"
  by (cases m) auto

lemma with_context_eq_Inl_iff [simp]: "with_context c m = Inl e \<longleftrightarrow> (\<exists>e'. m = Inl e' \<and> e = c @ '': '' @ e')"
  by (cases m) auto

lemma ok_or_else_eq_Inr_iff [simp]: "ok_or_else e v = Inr x \<longleftrightarrow> v = Some x"
  by (simp add: ok_or_else_def split: option.splits)

lemma ok_or_else_Some [simp]: "ok_or_else e (Some x) = Inr x"
  by simp

text \<open>\<open>collect::<Result<Vec<_>, _>>\<close>: the first error, or all values.\<close>

fun collect_results :: "('a \<Rightarrow> 'e + 'b) \<Rightarrow> 'a list \<Rightarrow> 'e + 'b list" where
  "collect_results f [] = Inr []"
| "collect_results f (x # xs) =
     (case f x of
        Inl e \<Rightarrow> Inl e
      | Inr y \<Rightarrow> (case collect_results f xs of Inl e \<Rightarrow> Inl e | Inr ys \<Rightarrow> Inr (y # ys)))"

lemma collect_results_eq_Inr_iff:
  "collect_results f xs = Inr ys \<longleftrightarrow> list_all2 (\<lambda>x y. f x = Inr y) xs ys"
proof (induction xs arbitrary: ys)
  case (Cons x xs)
  show ?case
    by (cases "f x"; cases "collect_results f xs") (auto simp: list_all2_Cons1 Cons.IH [symmetric])
qed auto

section \<open>Lists\<close>

lemma find_Some_iff_mem: "List.find P xs = Some x \<Longrightarrow> x \<in> set xs \<and> P x"
  by (induction xs) (auto split: if_splits)

lemma find_None_iff_all: "List.find P xs = None \<longleftrightarrow> (\<forall>x \<in> set xs. \<not> P x)"
  by (induction xs) auto

lemma find_is_some_iff: "(\<exists>x. List.find P xs = Some x) \<longleftrightarrow> (\<exists>x \<in> set xs. P x)"
  by (induction xs) auto

lemma raw_pow10_not_Panic: "k \<le> 38 \<Longrightarrow> raw_pow10 k \<noteq> Panic"
  by (simp add: raw_pow10_def checked_pow10_def or_abort_def)

section \<open>The u32 type\<close>

text \<open>The sources add decimals of type \<open>u32\<close> with the raw operator.\<close>

definition u32_max :: nat where
  "u32_max = 2 ^ 32 - 1"

definition raw_add_u32 :: "nat \<Rightarrow> nat \<Rightarrow> ('e, nat) outcome" where
  "raw_add_u32 a b = (if a + b \<le> u32_max then Ok (a + b) else Panic)"

end
