(* ===== verification/Hash_Map.thy ===== *)
theory Hash_Map
  imports Keeper_Prelude
begin

text \<open>
  \<open>HashMap\<close>: the sources keep their caches in hash maps and use \<open>insert\<close>, \<open>remove\<close>, \<open>get\<close>,
  \<open>retain\<close> and iteration.  A map is an association list without repeated keys; the list's order
  stands for the unspecified iteration order.  The laws the clients rely on are the locale
  \<open>key_value\<close>.
\<close>

type_synonym ('k, 'v) hash_map = "('k \<times> 'v) list"

definition hm_get :: "('k, 'v) hash_map \<Rightarrow> 'k \<Rightarrow> 'v option" where
  "hm_get m k = map_of m k"

definition hm_remove :: "'k \<Rightarrow> ('k, 'v) hash_map \<Rightarrow> ('k, 'v) hash_map" where
  "hm_remove k m = filter (\<lambda>e. fst e \<noteq> k) m"

definition hm_insert :: "'k \<Rightarrow> 'v \<Rightarrow> ('k, 'v) hash_map \<Rightarrow> ('k, 'v) hash_map" where
  "hm_insert k v m = (k, v) # hm_remove k m"

definition hm_retain :: "('v \<Rightarrow> bool) \<Rightarrow> ('k, 'v) hash_map \<Rightarrow> ('k, 'v) hash_map" where
  "hm_retain P m = filter (\<lambda>e. P (snd e)) m"

definition hm_wf :: "('k, 'v) hash_map \<Rightarrow> bool" where
  "hm_wf m \<longleftrightarrow> distinct (map fst m)"

locale key_value =
  fixes get :: "'m \<Rightarrow> 'k \<Rightarrow> 'v option"
    and put :: "'k \<Rightarrow> 'v \<Rightarrow> 'm \<Rightarrow> 'm"
    and del :: "'k \<Rightarrow> 'm \<Rightarrow> 'm"
    and inv :: "'m \<Rightarrow> bool"
  assumes get_put: "get (put k v m) = (get m)(k \<mapsto> v)"
    and get_del: "get (del k m) = (get m)(k := None)"
    and inv_put: "inv m \<Longrightarrow> inv (put k v m)"
    and inv_del: "inv m \<Longrightarrow> inv (del k m)"
begin

lemma put_put: "get (put k v (put k u m)) = get (put k v m)"
  by (simp add: get_put)

lemma del_put: "get (del k (put k v m)) = get (del k m)"
  by (simp add: get_put get_del)

lemma put_commute: "k \<noteq> l \<Longrightarrow> get (put k v (put l u m)) = get (put l u (put k v m))"
  by (simp add: get_put fun_upd_twist)

end

lemma hm_get_remove [simp]: "hm_get (hm_remove k m) = (hm_get m)(k := None)"
  by (rule ext, induction m) (auto simp: hm_get_def hm_remove_def)

lemma hm_get_insert [simp]: "hm_get (hm_insert k v m) = (hm_get m)(k \<mapsto> v)"
proof
  fix x
  show "hm_get (hm_insert k v m) x = ((hm_get m)(k \<mapsto> v)) x"
    using fun_cong [OF hm_get_remove [of k m], of x]
    by (simp add: hm_insert_def hm_get_def del: hm_get_remove)
qed

lemma hm_wf_remove [simp]: "hm_wf m \<Longrightarrow> hm_wf (hm_remove k m)"
  by (simp add: hm_wf_def hm_remove_def distinct_map_filter)

lemma hm_wf_insert [simp]: "hm_wf m \<Longrightarrow> hm_wf (hm_insert k v m)"
  using hm_wf_remove [of m k] by (auto simp: hm_insert_def hm_wf_def hm_remove_def)

lemma hm_wf_retain [simp]: "hm_wf m \<Longrightarrow> hm_wf (hm_retain P m)"
  by (simp add: hm_wf_def hm_retain_def distinct_map_filter)

lemma hm_wf_empty [simp]: "hm_wf []"
  by (simp add: hm_wf_def)

interpretation hm: key_value hm_get hm_insert hm_remove hm_wf
  by unfold_locales simp_all

lemma hm_remove_fresh: "hm_get m k = None \<Longrightarrow> hm_remove k m = m"
  unfolding hm_get_def hm_remove_def by (auto simp: map_of_eq_None_iff filter_id_conv)

lemma hm_get_mem: "hm_wf m \<Longrightarrow> (k, v) \<in> set m \<Longrightarrow> hm_get m k = Some v"
  by (simp add: hm_wf_def hm_get_def)

lemma hm_get_SomeD: "hm_get m k = Some v \<Longrightarrow> (k, v) \<in> set m"
  by (simp add: hm_get_def map_of_SomeD)

lemma map_le_filter: "distinct (map fst m) \<Longrightarrow> map_of (filter P m) \<subseteq>\<^sub>m map_of m"
  by (auto simp: map_le_def dom_map_of_conv_image_fst distinct_map_filter dest!: map_of_SomeD
      intro!: map_of_is_SomeI [symmetric])

lemma hm_retain_le: "hm_wf m \<Longrightarrow> hm_get (hm_retain P m) \<subseteq>\<^sub>m hm_get m"
  using map_le_filter [of m] by (simp add: hm_wf_def hm_retain_def hm_get_def [abs_def])

end
