(* ===== verification/Capital.thy ===== *)
theory Capital
  imports Hash_Map "HOL-Library.Word"
begin

unbundle bit_operations_syntax

text \<open>
  \<^verbatim>\<open>keeper/src/liquidator_capital.rs\<close>: the ledger of reservations that keeps concurrent strategies
  from spending the same wallet balance twice, and the cache of balances.  A monotonic \<open>Instant\<close> is
  a natural number of time units and \<open>elapsed\<close> is subtraction, which saturates at zero.  Each
  operation holds the mutex for its whole body, so it is one atomic step on the state.
\<close>

section \<open>Data\<close>

datatype keeper_error = KeeperInternalError | NotEnoughAvailableBalance

record reservation =
  res_amount :: i128
  created_at :: nat
  res_token :: string

record cached_balance =
  cb_amount :: i128
  fetched_at :: nat

record capital_inner =
  reservations :: "(64 word, reservation) hash_map"
  balances :: "(string, cached_balance) hash_map"

record capital_config =
  cap_xlm_address :: string
  reservation_ttl :: nat
  balance_cache_ttl :: nat

record liquidator_capital =
  cap_pkey :: string
  inner :: capital_inner
  cap_config :: capital_config

section \<open>Operations\<close>

definition capital_new :: "string \<Rightarrow> capital_config \<Rightarrow> liquidator_capital" where
  "capital_new pkey cfg = \<lparr>cap_pkey = pkey, inner = \<lparr>reservations = [], balances = []\<rparr>, cap_config = cfg\<rparr>"

definition unlock_expired :: "nat \<Rightarrow> nat \<Rightarrow> capital_inner \<Rightarrow> capital_inner" where
  "unlock_expired now ttl c =
     c\<lparr>reservations := hm_retain (\<lambda>r. now - created_at r < ttl) (reservations c)\<rparr>"

text \<open>\<open>Iterator::sum\<close> adds with the raw operator.\<close>

fun raw_sum :: "i128 list \<Rightarrow> ('e, i128) outcome" where
  "raw_sum [] = Ok 0"
| "raw_sum (x # xs) = bindr (raw_sum xs) (\<lambda>s. raw_add x s)"

definition amounts_of :: "string \<Rightarrow> capital_inner \<Rightarrow> i128 list" where
  "amounts_of token c =
     map res_amount (filter (\<lambda>r. res_token r = token) (map snd (reservations c)))"

text \<open>\<open>rid\<close> is the fresh \<open>random_id()\<close>; \<open>now\<close> and \<open>now'\<close> are the two clock readings.\<close>

definition reserve ::
  "nat \<Rightarrow> nat \<Rightarrow> 64 word \<Rightarrow> i128 \<Rightarrow> i128 \<Rightarrow> string \<Rightarrow> liquidator_capital \<Rightarrow>
     (keeper_error, 64 word) outcome \<times> liquidator_capital" where
  "reserve now now' rid amount available token cap =
     (if \<not> amount > 0 then (Err KeeperInternalError, cap)
      else
        let c = unlock_expired now (reservation_ttl (cap_config cap)) (inner cap) in
        case raw_sum (amounts_of token c) of
          Ok committed \<Rightarrow>
            if saturating_add committed amount > available
            then (Err NotEnoughAvailableBalance, cap\<lparr>inner := c\<rparr>)
            else (Ok rid, cap\<lparr>inner := c\<lparr>reservations :=
                   hm_insert rid \<lparr>res_amount = amount, created_at = now', res_token = token\<rparr>
                     (reservations c)\<rparr>\<rparr>)
        | Err e \<Rightarrow> (Err e, cap\<lparr>inner := c\<rparr>)
        | Panic \<Rightarrow> (Panic, cap\<lparr>inner := c\<rparr>))"

definition release :: "64 word \<Rightarrow> liquidator_capital \<Rightarrow> liquidator_capital" where
  "release rid cap =
     cap\<lparr>inner := (inner cap)\<lparr>reservations := hm_remove rid (reservations (inner cap))\<rparr>\<rparr>"

definition get_freshly_cached_balance :: "nat \<Rightarrow> string \<Rightarrow> liquidator_capital \<Rightarrow> i128 option" where
  "get_freshly_cached_balance now token cap =
     (case hm_get (balances (inner cap)) token of
        None \<Rightarrow> None
      | Some c \<Rightarrow> if now - fetched_at c < balance_cache_ttl (cap_config cap) then Some (cb_amount c)
                  else None)"

definition cache_balance :: "nat \<Rightarrow> string \<Rightarrow> i128 \<Rightarrow> liquidator_capital \<Rightarrow> liquidator_capital" where
  "cache_balance now token amount cap =
     cap\<lparr>inner := (inner cap)\<lparr>balances :=
       hm_insert token \<lparr>cb_amount = amount, fetched_at = now\<rparr> (balances (inner cap))\<rparr>\<rparr>"

subsection \<open>Identifiers\<close>

text \<open>The counter behind \<open>rand_seed\<close> starts at zero and wraps; \<open>nanos\<close> is the wall clock, absent
  before the epoch, and \<open>pid\<close> the process id.\<close>

definition rand_seed :: "64 word \<Rightarrow> 64 word \<times> 64 word" where
  "rand_seed counter = (counter, counter + 0x9E3779B97F4A7C15)"

definition random_id :: "64 word option \<Rightarrow> 64 word \<Rightarrow> 64 word \<Rightarrow> 64 word \<times> 64 word" where
  "random_id nanos pid counter =
     (let (s, counter') = rand_seed counter;
          n = (case nanos of None \<Rightarrow> 0 | Some t \<Rightarrow> t)
      in ((n XOR push_bit 32 pid) XOR s, counter'))"

section \<open>Lemmas\<close>

definition committed :: "string \<Rightarrow> liquidator_capital \<Rightarrow> int" where
  "committed token cap = sum_list (amounts_of token (inner cap))"

text \<open>Reservations that have not expired at \<open>now\<close>.\<close>

definition live :: "nat \<Rightarrow> liquidator_capital \<Rightarrow> liquidator_capital" where
  "live now cap = cap\<lparr>inner := unlock_expired now (reservation_ttl (cap_config cap)) (inner cap)\<rparr>"

definition positive_reservations :: "liquidator_capital \<Rightarrow> bool" where
  "positive_reservations cap \<longleftrightarrow> (\<forall>e \<in> set (reservations (inner cap)). 0 < res_amount (snd e))"

lemma raw_sum_Ok: "raw_sum xs = Ok s \<Longrightarrow> s = sum_list xs"
  by (induction xs arbitrary: s) auto

lemma raw_sum_abort_free:
  "\<forall>x \<in> set xs. 0 \<le> x \<Longrightarrow> in_i128 (sum_list xs) \<Longrightarrow> raw_sum xs = Ok (sum_list xs)"
proof (induction xs)
  case (Cons x xs)
  have "0 \<le> sum_list xs" using Cons.prems by (auto intro: sum_list_nonneg)
  then have "in_i128 (sum_list xs)" using Cons.prems by (auto intro: in_i128_nonneg_le [of _ "x + sum_list xs"])
  with Cons show ?case by (simp add: raw_add_def)
qed simp

lemma sum_list_filter_le:
  "\<forall>x \<in> set xs. 0 \<le> f x \<Longrightarrow> sum_list (map f (filter P xs)) \<le> (sum_list (map f xs) :: int)"
  by (induction xs) auto

lemma amounts_of_as_entries:
  "amounts_of token c = map (\<lambda>e. res_amount (snd e)) (filter (\<lambda>e. res_token (snd e) = token) (reservations c))"
  by (simp add: amounts_of_def filter_map o_def)

lemma committed_filter_le:
  assumes "positive_reservations cap" "reservations c = filter P (reservations (inner cap))"
  shows "sum_list (amounts_of token c) \<le> committed token cap"
proof -
  have "sum_list (amounts_of token c) =
      sum_list (map (\<lambda>e. res_amount (snd e))
        (filter P (filter (\<lambda>e. res_token (snd e) = token) (reservations (inner cap)))))"
    by (simp add: amounts_of_as_entries assms(2) conj_commute)
  also have "\<dots> \<le> committed token cap"
    unfolding committed_def amounts_of_as_entries
    by (rule sum_list_filter_le) (use assms in \<open>auto simp: positive_reservations_def less_imp_le\<close>)
  finally show ?thesis .
qed

lemma committed_release_le: "positive_reservations cap \<Longrightarrow> committed token (release rid cap) \<le> committed token cap"
  unfolding committed_def [of _ "release rid cap"]
  by (rule committed_filter_le) (simp_all add: release_def hm_remove_def)

lemma committed_live_le: "positive_reservations cap \<Longrightarrow> committed token (live now cap) \<le> committed token cap"
  unfolding committed_def [of _ "live now cap"]
  by (rule committed_filter_le) (simp_all add: live_def unlock_expired_def hm_retain_def)

lemma committed_nonneg: "positive_reservations cap \<Longrightarrow> 0 \<le> committed token cap"
  unfolding committed_def
  by (rule sum_list_nonneg) (force simp: amounts_of_def positive_reservations_def)

lemma positive_live: "positive_reservations cap \<Longrightarrow> positive_reservations (live now cap)"
  by (auto simp: positive_reservations_def live_def unlock_expired_def hm_retain_def)

lemma positive_release: "positive_reservations cap \<Longrightarrow> positive_reservations (release rid cap)"
  by (auto simp: positive_reservations_def release_def hm_remove_def)

text \<open>The reservation \<open>reserve\<close> enters into the ledger.\<close>

definition entered :: "nat \<Rightarrow> 64 word \<Rightarrow> i128 \<Rightarrow> string \<Rightarrow> liquidator_capital \<Rightarrow> liquidator_capital" where
  "entered now' rid amount token cap =
     cap\<lparr>inner := (inner cap)\<lparr>reservations :=
       hm_insert rid \<lparr>res_amount = amount, created_at = now', res_token = token\<rparr>
         (reservations (inner cap))\<rparr>\<rparr>"

lemma committed_entered:
  "committed t (entered now' rid amount token cap) =
     (if t = token then amount else 0) + committed t (release rid cap)"
  by (simp add: committed_def entered_def release_def amounts_of_as_entries hm_insert_def)

lemma positive_entered:
  "positive_reservations cap \<Longrightarrow> 0 < amount \<Longrightarrow> positive_reservations (entered now' rid amount token cap)"
  by (auto simp: positive_reservations_def entered_def hm_insert_def hm_remove_def)

lemma release_fresh: "hm_get (reservations (inner cap)) rid = None \<Longrightarrow> release rid cap = cap"
  by (simp add: release_def hm_remove_fresh)

lemma reserve_cases:
  assumes pos: "positive_reservations cap" and rng: "in_i128 (committed token (live now cap))"
  shows "reserve now now' rid amount available token cap =
    (if amount \<le> 0 then (Err KeeperInternalError, cap)
     else if available < saturating_add (committed token (live now cap)) amount
     then (Err NotEnoughAvailableBalance, live now cap)
     else (Ok rid, entered now' rid amount token (live now cap)))"
proof -
  have "\<forall>x \<in> set (amounts_of token (inner (live now cap))). 0 \<le> x"
    using positive_live [OF pos, of now] by (auto simp: amounts_of_def positive_reservations_def intro: less_imp_le)
  then have "(raw_sum (amounts_of token (inner (live now cap))) :: (keeper_error, i128) outcome)
      = Ok (committed token (live now cap))"
    using rng by (simp add: raw_sum_abort_free committed_def)
  then show ?thesis
    by (simp add: reserve_def Let_def live_def entered_def)
qed

section \<open>Interleavings\<close>

text \<open>
  The strategies, the executor's settle hooks and the clock act on the shared ledger in any order.
  \<open>A token\<close> bounds the balance any caller finds available.
\<close>

inductive capital_step ::
  "(string \<Rightarrow> int) \<Rightarrow> nat \<times> liquidator_capital \<Rightarrow> nat \<times> liquidator_capital \<Rightarrow> bool" for A where
  tick: "capital_step A (t, c) (t + d, c)"
| reserving: "available \<le> A token \<Longrightarrow> reserve t t' rid amount available token c = (r, c') \<Longrightarrow>
    capital_step A (t, c) (t', c')"
| releasing: "capital_step A (t, c) (t, release rid c)"
| caching: "capital_step A (t, c) (t, cache_balance t token amount c)"

inductive_cases capital_stepE: "capital_step A s s'"

definition capital_reachable :: "(string \<Rightarrow> int) \<Rightarrow> capital_config \<Rightarrow> nat \<times> liquidator_capital \<Rightarrow> bool" where
  "capital_reachable A cfg s \<longleftrightarrow> (\<exists>pk. (capital_step A)\<^sup>*\<^sup>* (0, capital_new pk cfg) s)"

definition capital_inv :: "(string \<Rightarrow> int) \<Rightarrow> liquidator_capital \<Rightarrow> bool" where
  "capital_inv A c \<longleftrightarrow> positive_reservations c \<and> hm_wf (reservations (inner c)) \<and>
     (\<forall>token. committed token c \<le> max 0 (A token))"

lemma capital_inv_new: "capital_inv A (capital_new pk cfg)"
  by (simp add: capital_inv_def capital_new_def positive_reservations_def committed_def amounts_of_def)

lemma hm_wf_ledger:
  "hm_wf (reservations (inner c)) \<Longrightarrow> hm_wf (reservations (inner (live t c)))"
  "hm_wf (reservations (inner c)) \<Longrightarrow> hm_wf (reservations (inner (release rid c)))"
  "hm_wf (reservations (inner c)) \<Longrightarrow> hm_wf (reservations (inner (entered t rid a tk c)))"
  by (simp_all add: live_def unlock_expired_def release_def entered_def)

lemma capital_inv_live: "capital_inv A c \<Longrightarrow> capital_inv A (live t c)"
  by (auto simp: capital_inv_def hm_wf_ledger positive_live intro: order_trans [OF committed_live_le])

lemma capital_inv_release: "capital_inv A c \<Longrightarrow> capital_inv A (release rid c)"
  by (auto simp: capital_inv_def hm_wf_ledger positive_release intro: order_trans [OF committed_release_le])

lemma capital_inv_range:
  "capital_inv A c \<Longrightarrow> A token < i128_max \<Longrightarrow> in_i128 (committed token c)"
  using committed_nonneg [of c token]
  by (auto simp: capital_inv_def in_i128_def i128_max_def i128_min_def dest!: spec [of _ token])

lemma saturating_add_le:
  "0 \<le> a \<Longrightarrow> 0 \<le> b \<Longrightarrow> c < i128_max \<Longrightarrow> saturating_add a b \<le> c \<longleftrightarrow> a + b \<le> c"
  by (auto simp: saturating_add_def clamp_i128_def i128_max_def i128_min_def)

lemma capital_inv_reserve:
  assumes inv: "capital_inv A c" and av: "available \<le> A token" and A: "\<forall>token. A token < i128_max"
    and r: "reserve t t' rid amount available token c = (r, c')"
  shows "capital_inv A c' \<and> r \<noteq> Panic"
proof -
  have l: "capital_inv A (live t c)" using capital_inv_live [OF inv] .
  have pos: "positive_reservations c" using inv by (simp add: capital_inv_def)
  have rng: "in_i128 (committed token (live t c))" using capital_inv_range [OF l] A by blast
  have "capital_inv A (entered t' rid amount token (live t c))"
    if amt: "0 < amount" and room: "saturating_add (committed token (live t c)) amount \<le> available"
  proof -
    have nn: "0 \<le> committed token (live t c)" using committed_nonneg positive_live [OF pos] by blast
    have "available < i128_max" using av A by (meson order_le_less_trans)
    then have "committed token (live t c) + amount \<le> available"
      using saturating_add_le nn amt room by simp
    note room' = this
    have "committed tk (entered t' rid amount token (live t c)) \<le> max 0 (A tk)" for tk
    proof -
      have rel: "committed tk (release rid (live t c)) \<le> committed tk (live t c)"
        by (rule committed_release_le [OF positive_live [OF pos]])
      have bound: "committed tk (live t c) \<le> max 0 (A tk)" using l by (simp add: capital_inv_def)
      show ?thesis
      proof (cases "tk = token")
        case True
        then show ?thesis using rel room' av unfolding committed_entered by simp
      next
        case False
        then show ?thesis using rel bound unfolding committed_entered by simp
      qed
    qed
    then show ?thesis
      using l amt positive_entered [OF positive_live [OF pos]] by (simp add: capital_inv_def hm_wf_ledger)
  qed
  then show ?thesis
    using r inv l by (auto simp: reserve_cases [OF pos rng] split: if_splits)
qed

lemma capital_inv_cache: "capital_inv A c \<Longrightarrow> capital_inv A (cache_balance t token amount c)"
  by (simp add: capital_inv_def cache_balance_def positive_reservations_def committed_def amounts_of_def)

lemma capital_inv_step:
  assumes "capital_step A s s'" "capital_inv A (snd s)" "\<forall>token. A token < i128_max"
  shows "capital_inv A (snd s')"
  using assms
  by (cases rule: capital_step.cases) (auto intro: capital_inv_release capital_inv_cache dest: capital_inv_reserve)

lemma capital_inv_steps:
  assumes "(capital_step A)\<^sup>*\<^sup>* s s'" "capital_inv A (snd s)" "\<forall>token. A token < i128_max"
  shows "capital_inv A (snd s')"
  using assms by (induction rule: rtranclp_induct) (auto intro: capital_inv_step)

lemma capital_reachable_inv:
  "capital_reachable A cfg s \<Longrightarrow> \<forall>token. A token < i128_max \<Longrightarrow> capital_inv A (snd s)"
  using capital_inv_steps [OF _ _ , of A "(0, capital_new _ cfg)" s] capital_inv_new
  by (auto simp: capital_reachable_def)

section \<open>Properties\<close>

text \<open>C10. No interleaving of reservations, releases, expiries and balance reads overcommits the
  wallet: in every reachable state the reservations of a token sum up to at most the balance callers
  have found available for it, and no reservation request aborts.\<close>

theorem capital_never_overcommitted:
  assumes "capital_reachable A cfg (t, c)" "\<forall>token. A token < i128_max"
  shows "committed token c \<le> max 0 (A token) \<and>
    (available \<le> A token \<longrightarrow> fst (reserve t t' rid amount available token c) \<noteq> Panic)"
  using capital_reachable_inv [OF assms] capital_inv_reserve [OF _ _ assms(2), of c available token t t' rid amount]
  by (cases "reserve t t' rid amount available token c") (auto simp: capital_inv_def)

definition example_capital_config :: capital_config where
  "example_capital_config = \<lparr>cap_xlm_address = ''XLM'', reservation_ttl = 30, balance_cache_ttl = 5\<rparr>"

text \<open>A ledger with a first reservation of 60 of token \<open>USDC\<close>.\<close>

definition example_capital :: liquidator_capital where
  "example_capital = snd (reserve 1 1 7 60 100 ''USDC'' (capital_new ''K'' example_capital_config))"

lemma example_capital_eq:
  "example_capital = \<lparr>cap_pkey = ''K'', inner = \<lparr>reservations =
     [(7, \<lparr>res_amount = 60, created_at = 1, res_token = ''USDC''\<rparr>)], balances = []\<rparr>,
     cap_config = example_capital_config\<rparr>"
  by (simp add: example_capital_def reserve_def capital_new_def unlock_expired_def hm_retain_def
      amounts_of_def hm_insert_def hm_remove_def i128_eval)

lemma example_capital_reachable: "capital_reachable (\<lambda>_. 100) example_capital_config (1, example_capital)"
proof -
  have "capital_step (\<lambda>_. 100) (0, capital_new ''K'' example_capital_config)
      (0 + 1, capital_new ''K'' example_capital_config)" by (rule capital_step.tick)
  moreover have "capital_step (\<lambda>_. 100) (1, capital_new ''K'' example_capital_config) (1, example_capital)"
    by (rule capital_step.reserving [of 100 _ "''USDC''" 1 1 7 60 _ "fst (reserve 1 1 7 60 100 ''USDC''
          (capital_new ''K'' example_capital_config))"]) (simp_all add: example_capital_def)
  ultimately show ?thesis unfolding capital_reachable_def
    by (intro exI [of _ "''K''"]) (auto intro: rtranclp.rtrancl_into_rtrancl)
qed

theorem capital_never_overcommitted_witness:
  "capital_reachable (\<lambda>_. 100) example_capital_config (1, example_capital) \<and>
   committed ''USDC'' example_capital \<le> max 0 100 \<and>
   fst (reserve 1 2 9 50 100 ''USDC'' example_capital) \<noteq> Panic"
  using capital_never_overcommitted [OF example_capital_reachable, of "''USDC''" 100 2 9 50]
    example_capital_reachable
  by (simp add: i128_max_def)

text \<open>A reservation is exact and reversible: with a fresh identifier it succeeds iff the amount is
  positive and fits beside the unexpired reservations of the token, it then raises what is committed
  of that token by the amount and of no other, and releasing it restores the unexpired ledger.\<close>

theorem reserve_exact:
  assumes "capital_reachable A cfg (t, c)" "\<forall>token. A token < i128_max" "available \<le> A token"
    and fresh: "hm_get (reservations (inner c)) rid = None"
    and r: "reserve t t' rid amount available token c = (r, c')"
  shows "(r = Ok rid \<longleftrightarrow> 0 < amount \<and> committed token (live t c) + amount \<le> available) \<and>
    (r = Ok rid \<longrightarrow>
       (\<forall>tk. committed tk c' = committed tk (live t c) + (if tk = token then amount else 0)) \<and>
       release rid c' = live t c)"
proof -
  have inv: "capital_inv A c" using capital_reachable_inv [OF assms(1,2)] by simp
  then have pos: "positive_reservations c" by (simp add: capital_inv_def)
  have rng: "in_i128 (committed token (live t c))"
    using capital_inv_range [OF capital_inv_live [OF inv]] assms(2) by blast
  have fr: "hm_get (reservations (inner (live t c))) rid = None"
    using fresh by (auto simp: live_def unlock_expired_def hm_retain_def hm_get_def map_of_eq_None_iff)
  have sat: "saturating_add (committed token (live t c)) amount \<le> available \<longleftrightarrow>
      committed token (live t c) + amount \<le> available" if "0 < amount"
    using that assms(2,3) committed_nonneg [OF positive_live [OF pos]]
    by (intro saturating_add_le) (auto intro: order_le_less_trans)
  have undo: "release rid (entered t' rid amount token (live t c)) = live t c"
    using hm_remove_fresh [OF fr] by (simp add: release_def entered_def hm_insert_def hm_remove_def)
  show ?thesis
    using r sat undo release_fresh [OF fr]
    by (auto simp: reserve_cases [OF pos rng] committed_entered not_less split: if_splits)
qed

theorem reserve_exact_witness:
  "fst (reserve 1 2 9 40 100 ''USDC'' example_capital) = Ok 9 \<and>
   fst (reserve 1 2 9 41 100 ''USDC'' example_capital) \<noteq> Ok 9 \<and>
   release 9 (snd (reserve 1 2 9 40 100 ''USDC'' example_capital)) = live 1 example_capital"
proof -
  have A: "\<forall>token::string. 100 < i128_max" by (simp add: i128_max_def)
  have fresh: "hm_get (reservations (inner example_capital)) 9 = None"
    by (simp add: example_capital_eq hm_get_def)
  have c: "committed ''USDC'' (live 1 example_capital) = 60"
    by (simp add: example_capital_eq committed_def live_def unlock_expired_def hm_retain_def amounts_of_def
        example_capital_config_def)
  have "reserve 1 2 9 a 100 ''USDC'' example_capital =
    (fst (reserve 1 2 9 a 100 ''USDC'' example_capital), snd (reserve 1 2 9 a 100 ''USDC'' example_capital))" for a
    by simp
  from reserve_exact [OF example_capital_reachable A _ fresh this, of 40]
    reserve_exact [OF example_capital_reachable A _ fresh this, of 41] c
  show ?thesis by simp
qed

end
