(* ===== verification/Amount.thy ===== *)
theory Amount
  imports Keeper_Prelude
begin

text \<open>
  \<^verbatim>\<open>engine/src/lending_model/error.rs\<close> and \<^verbatim>\<open>engine/src/lending_model/amount.rs\<close>: the error
  type of the lending model and the fixed-point operations on token amounts.

  The macro \<open>amount_newtype!\<close> generates the same operations for \<open>JTokens\<close>, \<open>DTokens\<close> and
  \<open>Underlying\<close>, each a wrapper around one \<open>i128\<close>.  The wrappers carry no behaviour, so the three
  are synonyms here and each operation is defined once.
\<close>

section \<open>Errors\<close>

datatype lm_error = InternalError | OverOrUnderflow

type_synonym 'a lm = "(lm_error, 'a) outcome"

definition m_ou :: "'a option \<Rightarrow> 'a lm" where
  "m_ou v = (case v of None \<Rightarrow> Err OverOrUnderflow | Some x \<Rightarrow> Ok x)"

definition ok_or :: "'a option \<Rightarrow> lm_error \<Rightarrow> 'a lm" where
  "ok_or v e = (case v of None \<Rightarrow> Err e | Some x \<Rightarrow> Ok x)"

lemma m_ou_eq_Ok_iff [simp, outcome_simps]: "m_ou v = Ok x \<longleftrightarrow> v = Some x"
  by (simp add: m_ou_def split: option.splits)

lemma m_ou_eq_Err_iff [simp, outcome_simps]: "m_ou v = Err e \<longleftrightarrow> v = None \<and> e = OverOrUnderflow"
  by (auto simp: m_ou_def split: option.splits)

lemma m_ou_not_Panic [simp, outcome_simps]: "m_ou v \<noteq> Panic"
  by (simp add: m_ou_def split: option.splits)

lemma m_ou_simps [simp]: "m_ou (Some x) = Ok x" "m_ou None = Err OverOrUnderflow"
  by (simp_all add: m_ou_def)

lemma ok_or_eq_Ok_iff [simp, outcome_simps]: "ok_or v e = Ok x \<longleftrightarrow> v = Some x"
  by (simp add: ok_or_def split: option.splits)

lemma ok_or_not_Panic [simp, outcome_simps]: "ok_or v e \<noteq> Panic"
  by (simp add: ok_or_def split: option.splits)

lemma ok_or_simps [simp]: "ok_or (Some x) e = Ok x" "ok_or None e = Err e"
  by (simp_all add: ok_or_def)

section \<open>Amounts\<close>

type_synonym jtokens = i128
type_synonym dtokens = i128
type_synonym underlying = i128

definition BPS_FACTOR :: i128 where
  "BPS_FACTOR = 10000"

lemma BPS_FACTOR_pos [simp]: "0 < BPS_FACTOR" "BPS_FACTOR \<noteq> 0" "0 \<le> BPS_FACTOR"
  by (simp_all add: BPS_FACTOR_def)

definition amount_checked_add :: "i128 \<Rightarrow> i128 \<Rightarrow> i128 lm" where
  "amount_checked_add a b = m_ou (checked_add a b)"

definition amount_checked_sub :: "i128 \<Rightarrow> i128 \<Rightarrow> i128 lm" where
  "amount_checked_sub a b = m_ou (checked_sub a b)"

definition amount_checked_mul :: "i128 \<Rightarrow> i128 \<Rightarrow> i128 lm" where
  "amount_checked_mul a b = m_ou (checked_mul a b)"

definition checked_div_floor :: "i128 \<Rightarrow> i128 \<Rightarrow> i128 lm" where
  "checked_div_floor a b = m_ou (checked_div a b)"

definition checked_div_ceil :: "i128 \<Rightarrow> i128 \<Rightarrow> i128 lm" where
  "checked_div_ceil a denominator =
     bindr (raw_sub denominator 1) (\<lambda>d1.
     bindr (m_ou (checked_add a d1)) (\<lambda>numerator.
     m_ou (checked_div numerator denominator)))"

definition scale_with_bps_floor :: "i128 \<Rightarrow> i128 \<Rightarrow> i128 lm" where
  "scale_with_bps_floor a bps =
     bindr (m_ou (checked_mul a bps)) (\<lambda>n. raw_div n BPS_FACTOR)"

definition scale_with_bps_ceil :: "i128 \<Rightarrow> i128 \<Rightarrow> i128 lm" where
  "scale_with_bps_ceil a bps =
     bindr (m_ou (checked_mul a bps)) (\<lambda>numerator.
     bindr (m_ou (checked_add numerator (BPS_FACTOR - 1))) (\<lambda>numerator_adjusted.
     m_ou (checked_div numerator_adjusted BPS_FACTOR)))"

definition amount_add :: "i128 \<Rightarrow> i128 \<Rightarrow> ('e, i128) outcome" where
  "amount_add a b = raw_add a b"

definition amount_sub :: "i128 \<Rightarrow> i128 \<Rightarrow> ('e, i128) outcome" where
  "amount_sub a b = raw_sub a b"

text \<open>The free functions return an \<open>Option\<close>: \<open>Err ()\<close> stands for their \<open>None\<close>, since the raw
  division can also abort.\<close>

definition opt_out :: "'a option \<Rightarrow> (unit, 'a) outcome" where
  "opt_out v = (case v of None \<Rightarrow> Err () | Some x \<Rightarrow> Ok x)"

fun m_ou_out :: "(unit, 'a) outcome \<Rightarrow> 'a lm" where
  "m_ou_out (Ok x) = Ok x"
| "m_ou_out (Err u) = Err OverOrUnderflow"
| "m_ou_out Panic = Panic"

definition bps_fixed_div_ceil :: "i128 \<Rightarrow> i128 \<Rightarrow> (unit, i128) outcome" where
  "bps_fixed_div_ceil a denominator =
     bindr (opt_out (checked_mul a BPS_FACTOR)) (\<lambda>numerator.
     bindr (raw_sub denominator 1) (\<lambda>d1.
     bindr (opt_out (checked_add numerator d1)) (\<lambda>numerator_adjusted.
     raw_div numerator_adjusted denominator)))"

definition bps_fixed_div_floor :: "i128 \<Rightarrow> i128 \<Rightarrow> (unit, i128) outcome" where
  "bps_fixed_div_floor a denominator =
     bindr (opt_out (checked_mul a BPS_FACTOR)) (\<lambda>numerator. raw_div numerator denominator)"

definition amount_bps_fixed_div_ceil :: "i128 \<Rightarrow> i128 \<Rightarrow> i128 lm" where
  "amount_bps_fixed_div_ceil a v = m_ou_out (bps_fixed_div_ceil a v)"

definition amount_bps_fixed_div_floor :: "i128 \<Rightarrow> i128 \<Rightarrow> i128 lm" where
  "amount_bps_fixed_div_floor a v = m_ou_out (bps_fixed_div_floor a v)"

lemma opt_out_eq_Ok_iff [simp, outcome_simps]: "opt_out v = Ok x \<longleftrightarrow> v = Some x"
  by (simp add: opt_out_def split: option.splits)

lemma opt_out_not_Panic [simp, outcome_simps]: "opt_out v \<noteq> Panic"
  by (simp add: opt_out_def split: option.splits)

lemma opt_out_eq_Err_iff [simp, outcome_simps]: "opt_out v = Err u \<longleftrightarrow> v = None"
  by (auto simp: opt_out_def split: option.splits)

lemma m_ou_out_eq_Ok_iff [simp, outcome_simps]: "m_ou_out m = Ok x \<longleftrightarrow> m = Ok x"
  by (cases m) auto

lemma m_ou_out_eq_Panic_iff [simp, outcome_simps]: "m_ou_out m = Panic \<longleftrightarrow> m = Panic"
  by (cases m) auto

lemmas amount_defs =
  amount_checked_add_def amount_checked_sub_def amount_checked_mul_def checked_div_floor_def
  checked_div_ceil_def scale_with_bps_floor_def scale_with_bps_ceil_def
  amount_bps_fixed_div_ceil_def amount_bps_fixed_div_floor_def bps_fixed_div_ceil_def
  bps_fixed_div_floor_def amount_add_def amount_sub_def

section \<open>Exact values\<close>

text \<open>What the fixed-point operations compute, over the integers.\<close>

definition floor_div :: "int \<Rightarrow> int \<Rightarrow> int" where
  "floor_div a b = a div b"

definition ceil_div :: "int \<Rightarrow> int \<Rightarrow> int" where
  "ceil_div a b = (a + (b - 1)) div b"

lemma ceil_div_mono: "0 < b \<Longrightarrow> a \<le> a' \<Longrightarrow> ceil_div a b \<le> ceil_div a' b"
  by (simp add: ceil_div_def zdiv_mono1)

lemma floor_div_mono: "0 < b \<Longrightarrow> a \<le> a' \<Longrightarrow> floor_div a b \<le> floor_div a' b"
  by (simp add: floor_div_def zdiv_mono1)

lemma ceil_div_nonneg [simp]: "0 \<le> a \<Longrightarrow> 0 < b \<Longrightarrow> 0 \<le> ceil_div a b"
  by (simp add: ceil_div_def pos_imp_zdiv_nonneg_iff)

lemma floor_div_nonneg [simp]: "0 \<le> a \<Longrightarrow> 0 < b \<Longrightarrow> 0 \<le> floor_div a b"
  by (simp add: floor_div_def pos_imp_zdiv_nonneg_iff)

lemma ceil_div_le: "0 < b \<Longrightarrow> ceil_div a b \<le> q \<longleftrightarrow> a \<le> q * b"
  by (simp add: ceil_div_def ceil_div_le_iff)

lemma le_floor_div: "0 < b \<Longrightarrow> q \<le> floor_div a b \<longleftrightarrow> q * b \<le> a"
  by (simp add: floor_div_def floor_div_le_iff)

lemma ceil_div_covers: "0 < b \<Longrightarrow> a \<le> ceil_div a b * b"
  using ceil_div_bounds [of b a] by (simp add: ceil_div_def)

lemma floor_div_below: "0 < b \<Longrightarrow> floor_div a b * b \<le> a"
  using floor_div_bounds [of b a] by (simp add: floor_div_def)

lemma sdiv_eq_floor_div: "0 \<le> a \<Longrightarrow> 0 < b \<Longrightarrow> a sdiv b = floor_div a b"
  by (simp add: floor_div_def sdiv_nonneg_eq_div)

lemma sdiv_eq_ceil_div: "0 \<le> a \<Longrightarrow> 0 < b \<Longrightarrow> (a + (b - 1)) sdiv b = ceil_div a b"
  by (simp add: ceil_div_def sdiv_nonneg_eq_div)

lemma scale_with_bps_ceil_Ok:
  "0 \<le> a \<Longrightarrow> 0 \<le> bps \<Longrightarrow> scale_with_bps_ceil a bps = Ok r \<Longrightarrow> r = ceil_div (a * bps) BPS_FACTOR"
  by (auto simp: scale_with_bps_ceil_def sdiv_eq_ceil_div)

lemma scale_with_bps_never_aborts:
  "scale_with_bps_floor a bps \<noteq> Panic" "scale_with_bps_ceil a bps \<noteq> Panic"
  by (auto simp: scale_with_bps_floor_def scale_with_bps_ceil_def raw_div_def checked_div_def
      bindr_eq_Panic_iff in_i128_sdiv)

lemma bps_fixed_div_ceil_Ok:
  "0 \<le> a \<Longrightarrow> 0 < d \<Longrightarrow> amount_bps_fixed_div_ceil a d = Ok r \<Longrightarrow> r = ceil_div (a * BPS_FACTOR) d"
  by (auto simp: amount_bps_fixed_div_ceil_def bps_fixed_div_ceil_def sdiv_eq_ceil_div)

lemma bps_fixed_div_floor_Ok:
  "0 \<le> a \<Longrightarrow> 0 < d \<Longrightarrow> amount_bps_fixed_div_floor a d = Ok r \<Longrightarrow>
     r = floor_div (a * BPS_FACTOR) d"
  by (auto simp: amount_bps_fixed_div_floor_def bps_fixed_div_floor_def sdiv_eq_floor_div)

lemma bps_fixed_div_never_aborts:
  "in_i128 d \<Longrightarrow> 0 < d \<Longrightarrow> amount_bps_fixed_div_ceil a d \<noteq> Panic"
  "in_i128 d \<Longrightarrow> 0 < d \<Longrightarrow> amount_bps_fixed_div_floor a d \<noteq> Panic"
  by (auto simp: amount_bps_fixed_div_ceil_def bps_fixed_div_ceil_def amount_bps_fixed_div_floor_def
      bps_fixed_div_floor_def bindr_eq_Panic_iff raw_div_def raw_sub_def checked_div_def checked_sub_def
      in_i128_sdiv intro: in_i128_between [of 0 d])

end
