(* ===== verification/Obligation.thy ===== *)
theory Obligation
  imports Amount
begin

text \<open>
  \<^verbatim>\<open>engine/src/lending_model/obligation.rs\<close>: a borrower's positions and the key that names them.
\<close>

record obligation_key =
  user :: string
  seed :: "string option"

definition obligation_key_new :: "string \<Rightarrow> obligation_key" where
  "obligation_key_new u = \<lparr>user = u, seed = None\<rparr>"

definition new_with_seed :: "string \<Rightarrow> string \<Rightarrow> obligation_key" where
  "new_with_seed u s = \<lparr>user = u, seed = Some s\<rparr>"

definition seed_as_str :: "obligation_key \<Rightarrow> string" where
  "seed_as_str k = (case seed k of None \<Rightarrow> [] | Some s \<Rightarrow> s)"

record deposit_position =
  j_tokens :: jtokens
  collateral :: underlying
  dp_pool_address :: string

record borrow_position =
  d_tokens :: dtokens
  bp_pool_address :: string

record obligation =
  borrows :: "borrow_position list"
  deposits :: "deposit_position list"
  open_bad_debt_requests :: nat

end
