(* ===== verification/Pool.thy ===== *)
theory Pool
  imports Obligation "HOL-Library.Word"
begin

unbundle bit_operations_syntax

text \<open>
  \<^verbatim>\<open>engine/src/lending_model/pool.rs\<close> and \<^verbatim>\<open>engine/src/lending_model/market.rs\<close>: the pool
  snapshot with its share-to-token conversions and its withdrawal bound, and the market snapshot.
  Decimals and timestamps are \<open>u32\<close> and \<open>u64\<close> values that the sources only read, so they are
  \<open>nat\<close>; the status flags are tested bitwise and are a 32-bit word.
\<close>

section \<open>Data\<close>

record pool_data =
  total_supply :: underlying
  open_ltv_bps :: i128
  close_ltv_bps :: i128
  token_decimals :: nat
  token_symbol :: string
  pool_address :: string
  total_borrowed :: underlying
  total_d_tokens :: dtokens
  total_j_tokens :: jtokens
  token_address :: string
  total_available :: underlying
  total_collateral :: underlying
  oracle_asset_price :: i128
  flash_loan_fee_bps :: i128
  status_flags :: "32 word"
  liability_factor_bps :: i128
  d_token_rate_ceil_bps :: i128
  j_token_rate_floor_bps :: i128
  total_available_adjusted :: underlying
  utilization_ratio_limit_bps :: i128
  liquidation_close_factor_bps :: i128
  max_liquidation_incentive_bps :: i128
  last_accrual_timestamp :: nat
  borrow_apy_bps :: i128
  supply_apy_bps :: i128

record market_data =
  insolvency_ltv_bps :: i128
  pools_data :: "pool_data list"
  oracle_price_decimals :: nat
  min_collateral_value_cents :: i128
  unavailable_pools :: "string list"

definition prices_nothing :: "market_data \<Rightarrow> bool" where
  "prices_nothing md \<longleftrightarrow> pools_data md = [] \<and> unavailable_pools md \<noteq> []"

text \<open>The lookup \<open>pools.iter().find(|p| p.pool_address == a)\<close>, which every component makes.\<close>

definition find_pool :: "pool_data list \<Rightarrow> string \<Rightarrow> pool_data option" where
  "find_pool ps a = List.find (\<lambda>p. pool_address p = a) ps"

lemma find_pool_SomeD: "find_pool ps a = Some p \<Longrightarrow> p \<in> set ps \<and> pool_address p = a"
  by (auto simp: find_pool_def dest: find_Some_iff_mem)

lemma find_pool_None_iff: "find_pool ps a = None \<longleftrightarrow> (\<forall>p \<in> set ps. pool_address p \<noteq> a)"
  by (simp add: find_pool_def find_None_iff_all)

section \<open>Operations\<close>

definition POOL_STATUS_FLASH_LOAN_ENABLED :: "32 word" where
  "POOL_STATUS_FLASH_LOAN_ENABLED = push_bit 3 1"

definition SECONDS_IN_YEAR :: i128 where
  "SECONDS_IN_YEAR = 31556926"

definition is_flash_loan_enabled :: "pool_data \<Rightarrow> bool" where
  "is_flash_loan_enabled p \<longleftrightarrow> status_flags p AND POOL_STATUS_FLASH_LOAN_ENABLED \<noteq> 0"

text \<open>\<open>u64::saturating_sub\<close> is subtraction on \<open>nat\<close>.\<close>

definition accrued :: "i128 \<Rightarrow> i128 \<Rightarrow> i128" where
  "accrued elapsed apy_bps =
     saturating_add (saturating_mul apy_bps elapsed) (SECONDS_IN_YEAR - 1) sdiv SECONDS_IN_YEAR"

definition accrual_since_update_bps :: "pool_data \<Rightarrow> nat \<Rightarrow> i128 \<times> i128" where
  "accrual_since_update_bps p now =
     (let elapsed = int (now - last_accrual_timestamp p)
      in (accrued elapsed (borrow_apy_bps p), accrued elapsed (supply_apy_bps p)))"

definition utilization_ratio_bps :: "pool_data \<Rightarrow> i128 lm" where
  "utilization_ratio_bps p =
     (if total_supply p = 0 then Ok 0
      else amount_bps_fixed_div_floor (total_borrowed p) (total_supply p))"

definition available_for_borrow :: "pool_data \<Rightarrow> underlying lm" where
  "available_for_borrow p =
     bindr (utilization_ratio_bps p) (\<lambda>utilization.
     if utilization \<ge> utilization_ratio_limit_bps p then Ok 0
     else bindr (raw_sub (utilization_ratio_limit_bps p) utilization) (\<lambda>left_bps.
       Ok (saturating_div (saturating_mul (total_supply p) left_bps) BPS_FACTOR)))"

definition j_tokens_to_tokens_floor :: "pool_data \<Rightarrow> jtokens \<Rightarrow> underlying lm" where
  "j_tokens_to_tokens_floor p x =
     (if total_j_tokens p = 0 then Ok 0
      else bindr (amount_checked_mul x (total_supply p)) (\<lambda>numerator.
           raw_div numerator (total_j_tokens p)))"

definition j_tokens_to_tokens_ceil :: "pool_data \<Rightarrow> jtokens \<Rightarrow> underlying lm" where
  "j_tokens_to_tokens_ceil p x =
     (if total_j_tokens p = 0 then Ok 0
      else bindr (amount_checked_mul x (total_supply p)) (\<lambda>numerator.
           bindr (raw_sub (total_j_tokens p) 1) (\<lambda>d1.
           bindr (m_ou (checked_add numerator d1)) (\<lambda>numerator_adjusted.
           raw_div numerator_adjusted (total_j_tokens p)))))"

definition tokens_to_j_tokens_floor :: "pool_data \<Rightarrow> underlying \<Rightarrow> jtokens lm" where
  "tokens_to_j_tokens_floor p x =
     (if total_supply p = 0 then Ok x
      else bindr (amount_checked_mul x (total_j_tokens p)) (\<lambda>numerator.
           raw_div numerator (total_supply p)))"

definition tokens_to_j_tokens_ceil :: "pool_data \<Rightarrow> underlying \<Rightarrow> jtokens lm" where
  "tokens_to_j_tokens_ceil p x =
     (if total_supply p = 0 then Ok x
      else bindr (amount_checked_mul x (total_j_tokens p)) (\<lambda>numerator.
           bindr (raw_sub (total_supply p) 1) (\<lambda>d1.
           bindr (m_ou (checked_add numerator d1)) (\<lambda>numerator_adjusted.
           raw_div numerator_adjusted (total_supply p)))))"

definition d_tokens_to_tokens_floor :: "pool_data \<Rightarrow> dtokens \<Rightarrow> underlying lm" where
  "d_tokens_to_tokens_floor p x =
     (if total_d_tokens p = 0 then Ok 0
      else bindr (amount_checked_mul x (total_borrowed p)) (\<lambda>numerator.
           raw_div numerator (total_d_tokens p)))"

definition d_tokens_to_tokens_ceil :: "pool_data \<Rightarrow> dtokens \<Rightarrow> underlying lm" where
  "d_tokens_to_tokens_ceil p x =
     (if total_d_tokens p = 0 then Ok 0
      else bindr (amount_checked_mul x (total_borrowed p)) (\<lambda>numerator.
           bindr (raw_sub (total_d_tokens p) 1) (\<lambda>d1.
           bindr (m_ou (checked_add numerator d1)) (\<lambda>numerator_adjusted.
           raw_div numerator_adjusted (total_d_tokens p)))))"

definition tokens_to_d_tokens_floor :: "pool_data \<Rightarrow> underlying \<Rightarrow> dtokens lm" where
  "tokens_to_d_tokens_floor p x =
     (if total_borrowed p = 0 then Ok x
      else bindr (amount_checked_mul x (total_d_tokens p)) (\<lambda>numerator.
           raw_div numerator (total_borrowed p)))"

definition tokens_to_d_tokens_ceil :: "pool_data \<Rightarrow> underlying \<Rightarrow> dtokens lm" where
  "tokens_to_d_tokens_ceil p x =
     (if total_borrowed p = 0 then Ok x
      else bindr (amount_checked_mul x (total_d_tokens p)) (\<lambda>numerator.
           bindr (raw_sub (total_borrowed p) 1) (\<lambda>d1.
           bindr (m_ou (checked_add numerator d1)) (\<lambda>numerator_adjusted.
           raw_div numerator_adjusted (total_borrowed p)))))"

definition compute_max_safe_withdrawal :: "pool_data \<Rightarrow> i128 \<Rightarrow> underlying lm" where
  "compute_max_safe_withdrawal p safety_margin_bps =
     bindr (utilization_ratio_bps p) (\<lambda>current_utilization_bps.
     let safe = saturating_sub (utilization_ratio_limit_bps p) safety_margin_bps in
     if safe \<le> 0 then Ok 0
     else if current_utilization_bps \<ge> safe then Ok 0
     else bindr (amount_bps_fixed_div_ceil (total_borrowed p) safe) (\<lambda>min_allowed_total_supply.
       if min_allowed_total_supply \<ge> total_supply p then Ok 0
       else amount_sub (total_supply p) min_allowed_total_supply))"

section \<open>Well-formed pools\<close>

text \<open>A snapshot as the market reports it: totals are non-negative \<open>i128\<close> values.\<close>

definition wf_pool :: "pool_data \<Rightarrow> bool" where
  "wf_pool p \<longleftrightarrow>
     0 \<le> total_supply p \<and> 0 \<le> total_borrowed p \<and> 0 \<le> total_j_tokens p \<and> 0 \<le> total_d_tokens p \<and>
     in_i128 (total_supply p) \<and> in_i128 (total_borrowed p) \<and>
     in_i128 (total_j_tokens p) \<and> in_i128 (total_d_tokens p)"

lemma raw_div_abort_free: "0 < d \<Longrightarrow> in_i128 n \<Longrightarrow> raw_div n d \<noteq> Panic"
  by (simp add: raw_div_def checked_div_def in_i128_sdiv)

lemma raw_pred_abort_free: "0 < d \<Longrightarrow> in_i128 d \<Longrightarrow> raw_sub d 1 \<noteq> Panic"
  by (auto simp: raw_sub_def checked_sub_def intro: in_i128_between [of 0 d])

lemma mul_div_floor_abort_free:
  "0 \<le> d \<Longrightarrow> d \<noteq> 0 \<Longrightarrow> bindr (m_ou (checked_mul x y)) (\<lambda>n. raw_div n d) \<noteq> Panic"
  by (simp add: bindr_eq_Panic_iff raw_div_abort_free)

lemma mul_div_ceil_abort_free:
  "0 \<le> d \<Longrightarrow> d \<noteq> 0 \<Longrightarrow> in_i128 d \<Longrightarrow> bindr (m_ou (checked_mul x y)) (\<lambda>n. bindr (raw_sub d 1) (\<lambda>d1.
     bindr (m_ou (checked_add n d1)) (\<lambda>m. raw_div m d))) \<noteq> Panic"
  by (simp add: bindr_eq_Panic_iff raw_div_abort_free raw_pred_abort_free)

lemma wf_pool_abort_free:
  assumes "wf_pool p"
  shows "j_tokens_to_tokens_floor p x \<noteq> Panic" "j_tokens_to_tokens_ceil p x \<noteq> Panic"
    "tokens_to_j_tokens_floor p x \<noteq> Panic" "tokens_to_j_tokens_ceil p x \<noteq> Panic"
    "d_tokens_to_tokens_floor p x \<noteq> Panic" "d_tokens_to_tokens_ceil p x \<noteq> Panic"
    "tokens_to_d_tokens_floor p x \<noteq> Panic" "tokens_to_d_tokens_ceil p x \<noteq> Panic"
  using assms
  by (simp_all add: wf_pool_def j_tokens_to_tokens_floor_def j_tokens_to_tokens_ceil_def
      tokens_to_j_tokens_floor_def tokens_to_j_tokens_ceil_def d_tokens_to_tokens_floor_def
      d_tokens_to_tokens_ceil_def tokens_to_d_tokens_floor_def tokens_to_d_tokens_ceil_def
      amount_checked_mul_def mul_div_floor_abort_free mul_div_ceil_abort_free)

section \<open>Share conversions\<close>

text \<open>
  The j-token and the d-token conversions are the same contract over different totals: shares are
  worth \<open>tokens / shares\<close> each, and every operation comes in a floor and a ceiling version.  The
  laws are what the operations compute when they succeed and when they succeed.
\<close>

locale share_conversion =
  fixes shares tokens :: "pool_data \<Rightarrow> i128"
    and to_floor to_ceil from_floor from_ceil :: "pool_data \<Rightarrow> i128 \<Rightarrow> i128 lm"
  assumes to_floor_Ok: "0 < shares p \<Longrightarrow> 0 \<le> tokens p \<Longrightarrow> 0 \<le> x \<Longrightarrow> to_floor p x = Ok y \<Longrightarrow>
      y = floor_div (x * tokens p) (shares p)"
    and to_ceil_Ok: "0 < shares p \<Longrightarrow> 0 \<le> tokens p \<Longrightarrow> 0 \<le> x \<Longrightarrow> to_ceil p x = Ok y \<Longrightarrow>
      y = ceil_div (x * tokens p) (shares p)"
    and from_floor_Ok: "0 < tokens p \<Longrightarrow> 0 \<le> shares p \<Longrightarrow> 0 \<le> x \<Longrightarrow> from_floor p x = Ok y \<Longrightarrow>
      y = floor_div (x * shares p) (tokens p)"
    and from_ceil_Ok: "0 < tokens p \<Longrightarrow> 0 \<le> shares p \<Longrightarrow> 0 \<le> x \<Longrightarrow> from_ceil p x = Ok y \<Longrightarrow>
      y = ceil_div (x * shares p) (tokens p)"
begin

lemma floor_below_ceil:
  assumes "0 < shares p" "0 \<le> tokens p" "0 \<le> x" "to_floor p x = Ok f" "to_ceil p x = Ok c"
  shows "f * shares p \<le> x * tokens p \<and> x * tokens p \<le> c * shares p \<and> f \<le> c \<and> c \<le> f + 1"
proof -
  have f: "f = floor_div (x * tokens p) (shares p)" and c: "c = ceil_div (x * tokens p) (shares p)"
    using assms to_floor_Ok to_ceil_Ok by auto
  show ?thesis
    unfolding f c floor_div_def ceil_div_def
    using assms(1) floor_div_bounds ceil_div_bounds floor_le_ceil_div ceil_div_le_floor_Suc by blast
qed

lemma to_floor_mono:
  assumes "0 < shares p" "0 \<le> tokens p" "0 \<le> x" "x \<le> x'" "to_floor p x = Ok y" "to_floor p x' = Ok y'"
  shows "y \<le> y'"
proof -
  have "y = floor_div (x * tokens p) (shares p)" "y' = floor_div (x' * tokens p) (shares p)"
    using assms to_floor_Ok by auto
  then show ?thesis using assms by (simp add: floor_div_mono mult_right_mono)
qed

lemma floor_round_trip:
  assumes "0 < shares p" "0 < tokens p" "0 \<le> x" "to_floor p x = Ok y" "from_floor p y = Ok x'"
  shows "x' \<le> x"
proof -
  have y: "y = floor_div (x * tokens p) (shares p)" using assms to_floor_Ok by auto
  then have "0 \<le> y" using assms by simp
  then have "x' = floor_div (y * shares p) (tokens p)" using assms from_floor_Ok by auto
  then have "x' * tokens p \<le> y * shares p" using assms by (simp add: floor_div_def floor_div_bounds)
  also have "\<dots> \<le> x * tokens p" using assms y by (simp add: floor_div_def floor_div_bounds)
  finally show ?thesis using assms by simp
qed

lemma ceil_round_trip:
  assumes "0 < shares p" "0 < tokens p" "0 \<le> x" "to_ceil p x = Ok y" "from_ceil p y = Ok x'"
  shows "x \<le> x'"
proof -
  have y: "y = ceil_div (x * tokens p) (shares p)" using assms to_ceil_Ok by auto
  then have "0 \<le> y" using assms by simp
  then have "x' = ceil_div (y * shares p) (tokens p)" using assms from_ceil_Ok by auto
  then have "y * shares p \<le> x' * tokens p" using assms by (simp add: ceil_div_def ceil_div_bounds)
  moreover have "x * tokens p \<le> y * shares p" using assms y by (simp add: ceil_div_def ceil_div_bounds)
  ultimately have "x * tokens p \<le> x' * tokens p" by simp
  then show ?thesis using assms by simp
qed

end

lemmas conversion_defs =
  j_tokens_to_tokens_floor_def j_tokens_to_tokens_ceil_def tokens_to_j_tokens_floor_def
  tokens_to_j_tokens_ceil_def d_tokens_to_tokens_floor_def d_tokens_to_tokens_ceil_def
  tokens_to_d_tokens_floor_def tokens_to_d_tokens_ceil_def amount_checked_mul_def

interpretation j: share_conversion total_j_tokens total_supply
  j_tokens_to_tokens_floor j_tokens_to_tokens_ceil tokens_to_j_tokens_floor tokens_to_j_tokens_ceil
  by unfold_locales (auto simp: conversion_defs sdiv_nonneg_eq_div floor_div_def ceil_div_def split: if_splits)

interpretation d: share_conversion total_d_tokens total_borrowed
  d_tokens_to_tokens_floor d_tokens_to_tokens_ceil tokens_to_d_tokens_floor tokens_to_d_tokens_ceil
  by unfold_locales (auto simp: conversion_defs sdiv_nonneg_eq_div floor_div_def ceil_div_def split: if_splits)

lemma j_to_floor_nonneg:
  "wf_pool p \<Longrightarrow> 0 \<le> x \<Longrightarrow> j_tokens_to_tokens_floor p x = Ok y \<Longrightarrow> 0 \<le> y"
  by (auto simp: j_tokens_to_tokens_floor_def wf_pool_def amount_checked_mul_def split: if_splits)

lemma d_to_ceil_nonneg:
  "wf_pool p \<Longrightarrow> 0 \<le> x \<Longrightarrow> d_tokens_to_tokens_ceil p x = Ok y \<Longrightarrow> 0 \<le> y"
  by (auto simp: d_tokens_to_tokens_ceil_def wf_pool_def amount_checked_mul_def split: if_splits)

section \<open>Utilization\<close>

lemma utilization_ratio_bps_abort_free: "wf_pool p \<Longrightarrow> utilization_ratio_bps p \<noteq> Panic"
  by (auto simp: utilization_ratio_bps_def wf_pool_def order_le_less bps_fixed_div_never_aborts)

lemma utilization_ratio_bps_Ok:
  "wf_pool p \<Longrightarrow> utilization_ratio_bps p = Ok u \<Longrightarrow> 0 < total_supply p \<Longrightarrow>
     u = floor_div (total_borrowed p * BPS_FACTOR) (total_supply p)"
  by (auto simp: utilization_ratio_bps_def wf_pool_def dest: bps_fixed_div_floor_Ok)

lemma compute_max_safe_withdrawal_abort_free:
  assumes wf: "wf_pool p" shows "compute_max_safe_withdrawal p m \<noteq> Panic"
proof -
  have sub: "raw_sub (total_supply p) r \<noteq> Panic"
    if "amount_bps_fixed_div_ceil (total_borrowed p) s = Ok r" "\<not> s \<le> 0" "\<not> total_supply p \<le> r" for r s
  proof -
    have "0 \<le> r" using that wf bps_fixed_div_ceil_Ok [of "total_borrowed p" s r] by (simp add: wf_pool_def)
    with that wf show ?thesis by (auto simp: raw_sub_def checked_sub_def wf_pool_def
        intro: in_i128_between [of 0 "total_supply p"])
  qed
  show ?thesis
    using utilization_ratio_bps_abort_free [OF wf]
    by (auto simp: compute_max_safe_withdrawal_def Let_def bindr_eq_Panic_iff amount_sub_def
        saturating_sub_def bps_fixed_div_never_aborts split: if_splits dest: sub)
qed

text \<open>The post-withdrawal utilization the market computes, with its ceiling division.\<close>

definition utilization_after :: "pool_data \<Rightarrow> i128 \<Rightarrow> int" where
  "utilization_after p w = ceil_div (total_borrowed p * BPS_FACTOR) (total_supply p - w)"

lemma utilization_after_le_iff:
  "w < total_supply p \<Longrightarrow>
     utilization_after p w \<le> s \<longleftrightarrow> total_borrowed p * BPS_FACTOR \<le> s * (total_supply p - w)"
  by (simp add: utilization_after_def ceil_div_le)

lemma max_safe_withdrawal_cases:
  assumes wf: "wf_pool p" and s: "s = saturating_sub (utilization_ratio_limit_bps p) m" "0 < s"
    and w: "compute_max_safe_withdrawal p m = Ok w"
  shows "(w = 0 \<and> s * total_supply p \<le> total_borrowed p * BPS_FACTOR) \<or>
         (w = 0 \<and> total_supply p \<le> ceil_div (total_borrowed p * BPS_FACTOR) s) \<or>
         (w = total_supply p - ceil_div (total_borrowed p * BPS_FACTOR) s \<and> 0 < w)"
proof -
  from w s obtain u where u: "utilization_ratio_bps p = Ok u" and
    rest: "(if u \<ge> s then Ok 0 else bindr (amount_bps_fixed_div_ceil (total_borrowed p) s) (\<lambda>r.
       if r \<ge> total_supply p then Ok 0 else amount_sub (total_supply p) r)) = Ok w"
    by (auto simp: compute_max_safe_withdrawal_def Let_def)
  show ?thesis
  proof (cases "u \<ge> s")
    case True
    have "s * total_supply p \<le> total_borrowed p * BPS_FACTOR"
    proof (cases "total_supply p = 0")
      case False
      then have "0 < total_supply p" using wf by (simp add: wf_pool_def)
      with True utilization_ratio_bps_Ok [OF wf u] show ?thesis by (simp add: le_floor_div)
    qed (use wf in \<open>simp add: wf_pool_def\<close>)
    with True rest show ?thesis by simp
  next
    case False
    with rest show ?thesis using wf s bps_fixed_div_ceil_Ok [of "total_borrowed p" s]
      by (auto simp: amount_sub_def wf_pool_def split: if_splits)
  qed
qed

section \<open>Properties\<close>

text \<open>C11. The withdrawal bound of a pool is safe and tight.  On a well-formed pool with a positive
  safe band, \<open>compute_max_safe_withdrawal\<close> returns an amount \<open>w\<close> between zero and the supply such
  that a positive withdrawal that leaves some supply keeps the utilization the market computes
  afterwards (with its ceiling division) inside the band exactly when it is at most \<open>w\<close>.\<close>

theorem max_safe_withdrawal_exact:
  assumes wf: "wf_pool p" and s: "s = saturating_sub (utilization_ratio_limit_bps p) m" "0 < s"
    and w: "compute_max_safe_withdrawal p m = Ok w"
    and w': "0 < w'" "w' < total_supply p"
  shows "0 \<le> w \<and> w \<le> total_supply p \<and> (utilization_after p w' \<le> s \<longleftrightarrow> w' \<le> w)"
proof -
  let ?b = "total_borrowed p * BPS_FACTOR"
  have b: "0 \<le> ?b" using wf by (simp add: wf_pool_def)
  have iff: "utilization_after p w' \<le> s \<longleftrightarrow> ceil_div ?b s \<le> total_supply p - w'"
    using s w' by (simp add: utilization_after_le_iff ceil_div_le mult.commute)
  consider "w = 0" "s * total_supply p \<le> ?b" | "w = 0" "total_supply p \<le> ceil_div ?b s"
    | "w = total_supply p - ceil_div ?b s" "0 < w"
    using max_safe_withdrawal_cases [OF wf s w] by blast
  then show ?thesis
  proof cases
    case 1
    have "s * (total_supply p - w') < s * total_supply p" using s w' by simp
    then have "\<not> utilization_after p w' \<le> s" using 1 w' by (simp add: utilization_after_le_iff)
    with 1 w' wf show ?thesis by (simp add: wf_pool_def)
  next
    case 2
    with iff w' wf show ?thesis by (auto simp: wf_pool_def)
  next
    case 3
    with iff b s wf show ?thesis by (auto simp: wf_pool_def)
  qed
qed

definition example_pool :: pool_data where
  "example_pool = \<lparr>total_supply = 50000000000000, open_ltv_bps = 8000, close_ltv_bps = 8500,
     token_decimals = 7, token_symbol = ''TST'', pool_address = ''P'',
     total_borrowed = 10000000000000, total_d_tokens = 9000000000000,
     total_j_tokens = 40000000000000, token_address = ''P'', total_available = 40000000000000,
     total_collateral = 30000000000000, oracle_asset_price = 100000000000000,
     flash_loan_fee_bps = 5, status_flags = 4294967295, liability_factor_bps = 10000,
     d_token_rate_ceil_bps = 11112, j_token_rate_floor_bps = 12500,
     total_available_adjusted = 40000000000000, utilization_ratio_limit_bps = 9000,
     liquidation_close_factor_bps = 5000, max_liquidation_incentive_bps = 1000,
     last_accrual_timestamp = 0, borrow_apy_bps = 1200, supply_apy_bps = 700\<rparr>"

theorem max_safe_withdrawal_exact_witness:
  "compute_max_safe_withdrawal example_pool 100 = Ok 38764044943820 \<and>
   utilization_after example_pool 38764044943820 \<le> 8900 \<and>
   \<not> utilization_after example_pool 38764044943821 \<le> 8900"
proof -
  have wf: "wf_pool example_pool" by (simp add: wf_pool_def example_pool_def i128_eval)
  have s: "8900 = saturating_sub (utilization_ratio_limit_bps example_pool) 100"
    by (simp add: example_pool_def i128_eval)
  have w: "compute_max_safe_withdrawal example_pool 100 = Ok 38764044943820"
    by (simp add: compute_max_safe_withdrawal_def utilization_ratio_bps_def amount_defs example_pool_def
        i128_eval BPS_FACTOR_def opt_out_def)
  show ?thesis
    using max_safe_withdrawal_exact [OF wf s _ w, of 38764044943820]
      max_safe_withdrawal_exact [OF wf s _ w, of 38764044943821] w
    by (simp add: example_pool_def)
qed

text \<open>Share conversions round in the stated direction and by less than one unit: on a
  well-formed pool with shares outstanding, the floor and the ceiling value of \<open>x\<close> j-tokens enclose
  the exact value \<open>x * total_supply / total_j_tokens\<close> and differ by at most one; the same holds for
  d-tokens over \<open>total_borrowed / total_d_tokens\<close>.\<close>

theorem conversions_enclose_exact_value:
  assumes "wf_pool p" "0 \<le> x" "0 < total_j_tokens p" "0 < total_d_tokens p"
    and "j_tokens_to_tokens_floor p x = Ok jf" "j_tokens_to_tokens_ceil p x = Ok jc"
    and "d_tokens_to_tokens_floor p x = Ok df" "d_tokens_to_tokens_ceil p x = Ok dc"
  shows "jf * total_j_tokens p \<le> x * total_supply p \<and> x * total_supply p \<le> jc * total_j_tokens p \<and>
         jf \<le> jc \<and> jc \<le> jf + 1 \<and>
         df * total_d_tokens p \<le> x * total_borrowed p \<and> x * total_borrowed p \<le> dc * total_d_tokens p \<and>
         df \<le> dc \<and> dc \<le> df + 1"
  using j.floor_below_ceil [of p x jf jc] d.floor_below_ceil [of p x df dc] assms
  by (simp add: wf_pool_def)

theorem conversions_enclose_exact_value_witness:
  "wf_pool example_pool \<and> j_tokens_to_tokens_floor example_pool 1001 = Ok 1251 \<and>
   j_tokens_to_tokens_ceil example_pool 1001 = Ok 1252 \<and> (1252::int) \<le> 1251 + 1"
proof -
  have wf: "wf_pool example_pool" by (simp add: wf_pool_def example_pool_def i128_eval)
  have vals: "j_tokens_to_tokens_floor example_pool 1001 = Ok 1251"
    "j_tokens_to_tokens_ceil example_pool 1001 = Ok 1252"
    "d_tokens_to_tokens_floor example_pool 1001 = Ok 1112"
    "d_tokens_to_tokens_ceil example_pool 1001 = Ok 1113"
    by (simp_all add: conversion_defs example_pool_def i128_eval)
  have "0 < total_j_tokens example_pool" "0 < total_d_tokens example_pool"
    by (simp_all add: example_pool_def)
  from conversions_enclose_exact_value [OF wf _ this vals] wf vals show ?thesis by simp
qed

text \<open>A round trip through tokens never creates shares when rounding down and never loses any
  when rounding up, for j-tokens and for d-tokens.\<close>

theorem conversion_round_trips:
  assumes "wf_pool p" "0 \<le> x" "0 < total_j_tokens p" "0 < total_supply p" "0 < total_d_tokens p"
    "0 < total_borrowed p"
    and "j_tokens_to_tokens_floor p x = Ok t1" "tokens_to_j_tokens_floor p t1 = Ok x1"
    and "j_tokens_to_tokens_ceil p x = Ok t2" "tokens_to_j_tokens_ceil p t2 = Ok x2"
    and "d_tokens_to_tokens_floor p x = Ok t3" "tokens_to_d_tokens_floor p t3 = Ok x3"
    and "d_tokens_to_tokens_ceil p x = Ok t4" "tokens_to_d_tokens_ceil p t4 = Ok x4"
  shows "x1 \<le> x \<and> x \<le> x2 \<and> x3 \<le> x \<and> x \<le> x4"
  using assms j.floor_round_trip j.ceil_round_trip d.floor_round_trip d.ceil_round_trip by blast

theorem conversion_round_trips_witness:
  "wf_pool example_pool \<and> j_tokens_to_tokens_floor example_pool 1001 = Ok 1251 \<and>
   tokens_to_j_tokens_floor example_pool 1251 = Ok 1000 \<and> (1000::int) \<le> 1001"
proof -
  have wf: "wf_pool example_pool" by (simp add: wf_pool_def example_pool_def i128_eval)
  have vals: "j_tokens_to_tokens_floor example_pool 1001 = Ok 1251"
    "tokens_to_j_tokens_floor example_pool 1251 = Ok 1000"
    "j_tokens_to_tokens_ceil example_pool 1001 = Ok 1252"
    "tokens_to_j_tokens_ceil example_pool 1252 = Ok 1002"
    "d_tokens_to_tokens_floor example_pool 1001 = Ok 1112"
    "tokens_to_d_tokens_floor example_pool 1112 = Ok 1000"
    "d_tokens_to_tokens_ceil example_pool 1001 = Ok 1113"
    "tokens_to_d_tokens_ceil example_pool 1113 = Ok 1002"
    by (simp_all add: conversion_defs example_pool_def i128_eval)
  have "0 < total_j_tokens example_pool" "0 < total_supply example_pool"
    "0 < total_d_tokens example_pool" "0 < total_borrowed example_pool"
    by (simp_all add: example_pool_def)
  from conversion_round_trips [OF wf _ this vals] wf vals show ?thesis by simp
qed

end
