(* ===== verification/Profitability.thy ===== *)
theory Profitability
  imports Pool
begin

text \<open>
  \<^verbatim>\<open>engine/src/lending_model/profitability.rs\<close>: the flash-loan fee, the profit margin in borrow
  tokens, the cap a collateral position puts on the repay amount, and the acceptance test of a
  liquidation.
\<close>

section \<open>Operations\<close>

definition compute_flash_fee :: "underlying \<Rightarrow> i128 \<Rightarrow> underlying lm" where
  "compute_flash_fee amount flash_fee_bps = scale_with_bps_ceil amount flash_fee_bps"

definition cents_to_oracle_value_ceil :: "i128 \<Rightarrow> nat \<Rightarrow> i128 lm" where
  "cents_to_oracle_value_ceil cents price_decimals =
     (if cents < 0 then Err InternalError
      else bindr (m_ou (checked_pow10 price_decimals)) (\<lambda>multiplier.
           bindr (m_ou (checked_mul cents multiplier)) (\<lambda>scaled.
           bindr (m_ou (checked_add scaled 99)) (\<lambda>adjusted.
           m_ou (checked_div adjusted 100)))))"

definition value_to_underlying_asset_amount_ceil :: "i128 \<Rightarrow> i128 \<Rightarrow> nat \<Rightarrow> underlying lm" where
  "value_to_underlying_asset_amount_ceil val price decimals =
     (if val < 0 then Err InternalError
      else if \<not> price > 0 then Err InternalError
      else bindr (m_ou (checked_pow10 decimals)) (\<lambda>multiplier.
           bindr (m_ou (checked_mul val multiplier)) (\<lambda>scaled.
           bindr (raw_sub price 1) (\<lambda>p1.
           bindr (m_ou (checked_add scaled p1)) (\<lambda>numerator.
           m_ou (checked_div numerator price))))))"

definition compute_profit_margin_in_borrow_token :: "i128 \<Rightarrow> nat \<Rightarrow> pool_data \<Rightarrow> underlying lm" where
  "compute_profit_margin_in_borrow_token min_profit_margin_cents price_decimals borrow_pool =
     (if \<not> oracle_asset_price borrow_pool > 0 then Err InternalError
      else if min_profit_margin_cents = 0 then Ok 0
      else bindr (m_ou (checked_abs min_profit_margin_cents)) (\<lambda>magnitude_cents.
           bindr (cents_to_oracle_value_ceil magnitude_cents price_decimals) (\<lambda>margin_value.
           bindr (value_to_underlying_asset_amount_ceil margin_value
                    (oracle_asset_price borrow_pool) (token_decimals borrow_pool)) (\<lambda>magnitude.
           if min_profit_margin_cents < 0 then m_ou (checked_neg magnitude) else Ok magnitude))))"

definition compute_repay_cap_from_collateral ::
  "bool \<Rightarrow> pool_data \<Rightarrow> i128 \<Rightarrow> pool_data \<Rightarrow> i128 \<Rightarrow> i128 \<Rightarrow> i128 \<Rightarrow> i128 \<Rightarrow> i128 lm" where
  "compute_repay_cap_from_collateral is_solvent borrow_pool max_feasible_repay collateral_pool
       available_collateral obligation_debt profit_margin_borrow_tokens obligation_collateral =
     (if available_collateral \<le> 0 then Err InternalError
      else let borrow_price = oracle_asset_price borrow_pool;
               collateral_price = oracle_asset_price collateral_pool in
      if borrow_price \<le> 0 \<or> collateral_price \<le> 0 then Err InternalError
      else let pool_incentive_bps = min (max_liquidation_incentive_bps borrow_pool)
                                        (max_liquidation_incentive_bps collateral_pool) in
      bindr (if is_solvent
             then bindr (m_ou (checked_mul obligation_collateral 9990)) (\<lambda>v.
                  bindr (m_ou (checked_div v obligation_debt)) (\<lambda>max_allowed_multiplier.
                  Ok (min pool_incentive_bps (saturating_sub max_allowed_multiplier 10000))))
             else Ok pool_incentive_bps) (\<lambda>effective_incentive_bps.
      bindr (m_ou (checked_add BPS_FACTOR effective_incentive_bps)) (\<lambda>incentive_bps_factor.
      if incentive_bps_factor \<le> 0 then Err InternalError
      else
      bindr (raw_pow10 (token_decimals borrow_pool)) (\<lambda>borrow_decimals_pow.
      bindr (raw_pow10 (token_decimals collateral_pool)) (\<lambda>collateral_decimals_pow.
      bindr (m_ou (checked_mul available_collateral collateral_price)) (\<lambda>v.
      bindr (m_ou (checked_div v collateral_decimals_pow)) (\<lambda>all_collateral_value.
      bindr (m_ou (checked_mul all_collateral_value borrow_decimals_pow)) (\<lambda>numerator.
      bindr (m_ou (checked_mul borrow_price incentive_bps_factor)) (\<lambda>v.
      bindr (m_ou (checked_div v BPS_FACTOR)) (\<lambda>denominator.
      bindr (m_ou (checked_div numerator denominator)) (\<lambda>max_repay_borrow_units.
      Ok (min max_feasible_repay
            (saturating_sub max_repay_borrow_units profit_margin_borrow_tokens)))))))))))))"

record liquidation_profitability =
  net_value :: i128
  gain_value :: i128
  is_acceptable :: bool

definition compute_liquidation_profitability ::
  "i128 \<Rightarrow> i128 \<Rightarrow> i128 \<Rightarrow> liquidation_profitability lm" where
  "compute_liquidation_profitability gain cost min_profit_margin_value =
     (if \<not> gain > 0 \<or> \<not> cost > 0 then Err InternalError
      else bindr (m_ou (checked_sub gain cost)) (\<lambda>net.
           Ok \<lparr>net_value = net, gain_value = gain,
               is_acceptable = (net > min_profit_margin_value)\<rparr>))"

section \<open>Lemmas\<close>

lemma compute_liquidation_profitability_Ok_iff:
  "compute_liquidation_profitability g c m = Ok r \<longleftrightarrow>
     0 < g \<and> 0 < c \<and> in_i128 (g - c) \<and>
     r = \<lparr>net_value = g - c, gain_value = g, is_acceptable = (m < g - c)\<rparr>"
  by (auto simp: compute_liquidation_profitability_def)

lemma cents_to_oracle_value_ceil_Ok:
  "cents_to_oracle_value_ceil c k = Ok v \<Longrightarrow> 0 \<le> c \<and> v = ceil_div (c * 10 ^ k) 100 \<and> k \<le> 38"
  by (auto simp: cents_to_oracle_value_ceil_def ceil_div_def sdiv_nonneg_eq_div split: if_splits)

lemma value_to_underlying_asset_amount_ceil_Ok:
  "value_to_underlying_asset_amount_ceil v p k = Ok a \<Longrightarrow>
     0 \<le> v \<and> 0 < p \<and> a = ceil_div (v * 10 ^ k) p \<and> in_i128 a \<and> k \<le> 38"
  by (auto simp: value_to_underlying_asset_amount_ceil_def ceil_div_def sdiv_nonneg_eq_div
      split: if_splits)

text \<open>The margin of \<open>c\<close> cents, rounded up twice as the source does.\<close>

definition margin_magnitude :: "int \<Rightarrow> nat \<Rightarrow> pool_data \<Rightarrow> int" where
  "margin_magnitude c k bp =
     ceil_div (ceil_div (\<bar>c\<bar> * 10 ^ k) 100 * 10 ^ token_decimals bp) (oracle_asset_price bp)"

lemma profit_margin_Ok:
  assumes "compute_profit_margin_in_borrow_token c k bp = Ok m"
  shows "0 < oracle_asset_price bp \<and> m = sgn c * margin_magnitude c k bp"
  using assms
  by (auto simp: compute_profit_margin_in_borrow_token_def margin_magnitude_def checked_abs_def
      checked_neg_def dest!: cents_to_oracle_value_ceil_Ok value_to_underlying_asset_amount_ceil_Ok
      split: if_splits)

lemma ceil_div_pos: "0 < a \<Longrightarrow> 0 < b \<Longrightarrow> 0 < ceil_div a b"
  using ceil_div_le [of b a 0] by (simp add: not_le [symmetric])

lemma margin_magnitude_pos: "c \<noteq> 0 \<Longrightarrow> 0 < oracle_asset_price bp \<Longrightarrow> 0 < margin_magnitude c k bp"
  by (simp add: margin_magnitude_def ceil_div_pos)

text \<open>The margin's magnitude depends on the absolute value of the cents only; the sign is restored
  at the end.\<close>

definition margin_steps :: "int \<Rightarrow> nat \<Rightarrow> pool_data \<Rightarrow> int lm" where
  "margin_steps c k bp =
     bindr (m_ou (checked_abs c)) (\<lambda>a. bindr (cents_to_oracle_value_ceil a k) (\<lambda>v.
       value_to_underlying_asset_amount_ceil v (oracle_asset_price bp) (token_decimals bp)))"

lemma margin_steps_uminus: "margin_steps (- c) k bp = margin_steps c k bp"
  by (simp add: margin_steps_def checked_abs_def)

lemma margin_steps_Ok: "margin_steps c k bp = Ok a \<Longrightarrow> 0 \<le> a \<and> in_i128 a"
  by (auto simp: margin_steps_def checked_abs_def split: if_splits
      dest!: cents_to_oracle_value_ceil_Ok value_to_underlying_asset_amount_ceil_Ok)

lemma profit_margin_by_steps:
  "compute_profit_margin_in_borrow_token c k bp = Ok m \<longleftrightarrow>
     0 < oracle_asset_price bp \<and>
     (c = 0 \<and> m = 0 \<or> (\<exists>a. c \<noteq> 0 \<and> margin_steps c k bp = Ok a \<and> m = sgn c * a))"
proof -
  have "checked_neg a = Some (- a)" if "margin_steps c k bp = Ok a" for a
    using margin_steps_Ok [OF that] by (simp add: checked_neg_def in_i128_def i128_max_def i128_min_def)
  then show ?thesis
    by (auto simp: compute_profit_margin_in_borrow_token_def margin_steps_def sgn_if split: if_splits)
qed

lemma profit_margin_uminus:
  "compute_profit_margin_in_borrow_token c k bp = Ok m \<Longrightarrow>
     compute_profit_margin_in_borrow_token (- c) k bp = Ok (- m)"
  by (auto simp: profit_margin_by_steps margin_steps_uminus)

definition incentive_factor :: "bool \<Rightarrow> pool_data \<Rightarrow> pool_data \<Rightarrow> int \<Rightarrow> int \<Rightarrow> int" where
  "incentive_factor is_solvent bp cp od oc =
     BPS_FACTOR + (let i = min (max_liquidation_incentive_bps bp) (max_liquidation_incentive_bps cp)
                   in if is_solvent then min i (saturating_sub ((oc * 9990) sdiv od) 10000) else i)"

lemma repay_cap_Ok:
  assumes "compute_repay_cap_from_collateral sol bp mf cp ac od pm oc = Ok r"
  defines "f \<equiv> incentive_factor sol bp cp od oc"
  defines "n \<equiv> (ac * oracle_asset_price cp) sdiv 10 ^ token_decimals cp * 10 ^ token_decimals bp"
  defines "d \<equiv> (oracle_asset_price bp * f) sdiv BPS_FACTOR"
  shows "0 < ac \<and> 0 < oracle_asset_price bp \<and> 0 < oracle_asset_price cp \<and> 0 < f \<and> d \<noteq> 0 \<and>
    token_decimals bp \<le> 38 \<and> token_decimals cp \<le> 38 \<and> in_i128 (n sdiv d) \<and>
    r = min mf (saturating_sub (n sdiv d) pm)"
  using assms
  by (auto simp: compute_repay_cap_from_collateral_def Let_def incentive_factor_def
      split: if_splits)

lemma repay_cap_abort_free:
  "token_decimals bp \<le> 38 \<Longrightarrow> token_decimals cp \<le> 38 \<Longrightarrow>
     compute_repay_cap_from_collateral sol bp mf cp ac od pm oc \<noteq> Panic"
  by (auto simp: compute_repay_cap_from_collateral_def Let_def raw_pow10_def checked_pow10_def
      or_abort_def bindr_eq_Panic_iff)

lemma repay_cap_le_feasible:
  "compute_repay_cap_from_collateral sol bp mf cp ac od pm oc = Ok r \<Longrightarrow> r \<le> mf"
  by (auto dest!: repay_cap_Ok)

section \<open>Properties\<close>

text \<open>The repay cap never offers more than the collateral is worth.  Whatever
  \<open>compute_repay_cap_from_collateral\<close> returns is at most the feasible repay, and together with the
  profit margin, priced with the liquidation incentive, it is at most the oracle value of the
  available collateral.\<close>

theorem repay_cap_within_collateral_value:
  assumes r: "compute_repay_cap_from_collateral sol bp mf cp ac od pm oc = Ok r" and pm: "in_i128 pm"
  shows "r \<le> mf \<and>
    (r + pm) * floor_div (oracle_asset_price bp * incentive_factor sol bp cp od oc) BPS_FACTOR
      \<le> floor_div (ac * oracle_asset_price cp) (10 ^ token_decimals cp) * 10 ^ token_decimals bp"
proof -
  define n where "n = floor_div (ac * oracle_asset_price cp) (10 ^ token_decimals cp) * 10 ^ token_decimals bp"
  define d where "d = floor_div (oracle_asset_price bp * incentive_factor sol bp cp od oc) BPS_FACTOR"
  note cap = repay_cap_Ok [OF r]
  have d0: "0 \<le> d" "d \<noteq> 0" and n0: "0 \<le> n"
    and eq: "r = min mf (saturating_sub (n sdiv d) pm)" "in_i128 (n sdiv d)"
    using cap by (auto simp: n_def d_def sdiv_eq_floor_div)
  have q: "n sdiv d = n div d" "0 \<le> n div d" using d0 n0
    by (simp_all add: sdiv_nonneg_eq_div pos_imp_zdiv_nonneg_iff)
  have "r \<le> n div d - pm"
    using eq pm q by (auto simp: saturating_sub_def clamp_i128_def in_i128_def i128_max_def i128_min_def)
  then have "(r + pm) * d \<le> (n div d) * d" using d0 by (intro mult_right_mono) auto
  also have "\<dots> \<le> n" using d0 floor_div_bounds [of d n] by simp
  finally show ?thesis using eq by (simp add: n_def d_def)
qed

theorem repay_cap_within_collateral_value_witness:
  "compute_repay_cap_from_collateral True example_pool 400000000 example_pool 1000000000 60000000000000000 250000000 120000000000000000
     = Ok 400000000 \<and> (400000000::int) \<le> 400000000"
proof -
  have "compute_repay_cap_from_collateral True example_pool 400000000 example_pool 1000000000 60000000000000000 250000000
      120000000000000000 = Ok 400000000"
    by (simp add: compute_repay_cap_from_collateral_def Let_def example_pool_def i128_eval BPS_FACTOR_def)
  from this repay_cap_within_collateral_value [OF this] show ?thesis by (simp add: i128_eval)
qed

text \<open>The profit margin is signed and symmetric: its sign is the sign of the configured cents,
  its magnitude covers the exact value of those cents in borrow tokens, and negating the cents
  negates the margin.\<close>

theorem profit_margin_signed:
  assumes m: "compute_profit_margin_in_borrow_token c k bp = Ok m"
  shows "sgn m = sgn c \<and>
         \<bar>c\<bar> * 10 ^ k * 10 ^ token_decimals bp \<le> \<bar>m\<bar> * oracle_asset_price bp * 100 \<and>
         compute_profit_margin_in_borrow_token (- c) k bp = Ok (- m)"
proof -
  let ?v = "ceil_div (\<bar>c\<bar> * 10 ^ k) 100"
  have price: "0 < oracle_asset_price bp" and eq: "m = sgn c * margin_magnitude c k bp"
    using profit_margin_Ok [OF m] by auto
  have sg: "sgn m = sgn c"
    using eq margin_magnitude_pos [OF _ price, of c k] by (cases "c = 0") (auto simp: sgn_mult)
  have "\<bar>m\<bar> = margin_magnitude c k bp"
    using eq margin_magnitude_pos [OF _ price, of c k]
    by (cases "c = 0") (use price in \<open>auto simp: abs_mult margin_magnitude_def ceil_div_def\<close>)
  then have "?v * 10 ^ token_decimals bp \<le> \<bar>m\<bar> * oracle_asset_price bp"
    using price by (simp add: margin_magnitude_def ceil_div_covers)
  moreover have "\<bar>c\<bar> * 10 ^ k \<le> ?v * 100"
    by (simp add: ceil_div_covers)
  then have "\<bar>c\<bar> * 10 ^ k * 10 ^ token_decimals bp \<le> ?v * 100 * 10 ^ token_decimals bp"
    by (rule mult_right_mono) simp
  ultimately have mag: "\<bar>c\<bar> * 10 ^ k * 10 ^ token_decimals bp \<le> \<bar>m\<bar> * oracle_asset_price bp * 100"
    by linarith
  note profit_margin_uminus [OF m]
  with sg mag show ?thesis by blast
qed

theorem profit_margin_signed_witness:
  "compute_profit_margin_in_borrow_token 100 14 example_pool = Ok 10000000 \<and>
   compute_profit_margin_in_borrow_token (- 100) 14 example_pool = Ok (- 10000000)"
proof -
  have "compute_profit_margin_in_borrow_token 100 14 example_pool = Ok 10000000"
    by (simp add: compute_profit_margin_in_borrow_token_def cents_to_oracle_value_ceil_def
        value_to_underlying_asset_amount_ceil_def example_pool_def i128_eval)
  from this profit_margin_signed [OF this] show ?thesis by (simp add: i128_eval)
qed

end
