(* ===== verification/Valuation.thy ===== *)
theory Valuation
  imports Profitability
begin

text \<open>
  \<^verbatim>\<open>engine/src/lending_model/liquidation.rs\<close>, first half: the health test of an obligation, its
  unscaled debt and collateral values, the pools a snapshot does not price, the close-factor cap and
  the seizure a sweep market makes.  A \<open>for\<close> loop over positions is a recursive function on the
  list with the running total as its accumulator; logging is left out.
\<close>

section \<open>Data\<close>

record liquidation_result =
  debt_repaid :: i128
  j_tokens_seized :: i128
  d_tokens_burned :: i128
  amount_to_send_back :: i128
  plain_collateral_seized :: i128
  tokens_from_j_tokens_seized :: i128

datatype dust_rules = Sweep | NoDust

record clearing_margin =
  refunded_bps :: i128
  unrefunded_bps :: i128

definition MARGIN_INITIAL :: clearing_margin where
  "MARGIN_INITIAL = \<lparr>refunded_bps = 100, unrefunded_bps = 0\<rparr>"

definition MARGIN_RETRY :: clearing_margin where
  "MARGIN_RETRY = \<lparr>refunded_bps = 500, unrefunded_bps = 100\<rparr>"

section \<open>Saturating basis-point products\<close>

definition fixed_mul_floor :: "i128 \<Rightarrow> i128 \<Rightarrow> i128" where
  "fixed_mul_floor amount bps = saturating_div (saturating_mul amount bps) BPS_FACTOR"

definition fixed_mul_ceil :: "i128 \<Rightarrow> i128 \<Rightarrow> i128" where
  "fixed_mul_ceil amount bps =
     saturating_div (saturating_add (saturating_mul amount bps) (BPS_FACTOR - 1)) BPS_FACTOR"

section \<open>Health\<close>

definition has_any_collateral :: "obligation \<Rightarrow> pool_data list \<Rightarrow> bool" where
  "has_any_collateral ob pools =
     list_ex (\<lambda>dep. case find_pool pools (dp_pool_address dep) of
         None \<Rightarrow> False
       | Some pool \<Rightarrow>
           saturating_add (fixed_mul_floor (j_tokens dep) (j_token_rate_floor_bps pool))
             (collateral dep) > 0) (deposits ob)"

fun liquidatable_debt_loop :: "pool_data list \<Rightarrow> borrow_position list \<Rightarrow> i128 \<Rightarrow> i128 lm" where
  "liquidatable_debt_loop pools [] debt_value = Ok debt_value"
| "liquidatable_debt_loop pools (b # bs) debt_value =
     (case find_pool pools (bp_pool_address b) of
        None \<Rightarrow> liquidatable_debt_loop pools bs debt_value
      | Some pool \<Rightarrow>
          let real_debt = fixed_mul_ceil (d_tokens b) (d_token_rate_ceil_bps pool) in
          bindr (m_ou (checked_pow10 (token_decimals pool))) (\<lambda>decimals_divisor.
          bindr (m_ou (checked_mul real_debt (oracle_asset_price pool))) (\<lambda>v.
          bindr (m_ou (checked_add v (decimals_divisor - 1))) (\<lambda>v.
          bindr (m_ou (checked_div v decimals_divisor)) (\<lambda>val.
          let scaled = fixed_mul_ceil val (liability_factor_bps pool) in
          bindr (m_ou (checked_add debt_value scaled)) (\<lambda>debt_value.
          liquidatable_debt_loop pools bs debt_value))))))"

fun liquidatable_collateral_loop ::
  "pool_data list \<Rightarrow> deposit_position list \<Rightarrow> i128 \<Rightarrow> i128 lm" where
  "liquidatable_collateral_loop pools [] collateral_value = Ok collateral_value"
| "liquidatable_collateral_loop pools (dep # ds) collateral_value =
     (case find_pool pools (dp_pool_address dep) of
        None \<Rightarrow> liquidatable_collateral_loop pools ds collateral_value
      | Some pool \<Rightarrow>
          let real_supply = fixed_mul_floor (j_tokens dep) (j_token_rate_floor_bps pool) in
          bindr (m_ou (checked_add real_supply (collateral dep))) (\<lambda>total_tokens.
          bindr (m_ou (checked_pow10 (token_decimals pool))) (\<lambda>decimals_divisor.
          bindr (m_ou (checked_mul total_tokens (oracle_asset_price pool))) (\<lambda>v.
          bindr (m_ou (checked_div v decimals_divisor)) (\<lambda>val.
          let scaled = fixed_mul_floor val (close_ltv_bps pool) in
          bindr (m_ou (checked_add collateral_value scaled)) (\<lambda>collateral_value.
          liquidatable_collateral_loop pools ds collateral_value))))))"

definition compute_is_liquidatable :: "obligation \<Rightarrow> market_data \<Rightarrow> dust_rules \<Rightarrow> bool lm" where
  "compute_is_liquidatable ob md rules =
     (let pools = pools_data md in
      if \<not> has_any_collateral ob pools then Ok False
      else
      bindr (liquidatable_debt_loop pools (borrows ob) 0) (\<lambda>debt_value.
      if debt_value = 0 then Ok False
      else
      bindr (liquidatable_collateral_loop pools (deposits ob) 0) (\<lambda>collateral_value.
      bindr (m_ou (checked_pow10 (oracle_price_decimals md))) (\<lambda>price_factor.
      bindr (m_ou (checked_mul (min_collateral_value_cents md) price_factor)) (\<lambda>v.
      bindr (m_ou (checked_div v 100)) (\<lambda>min_collateral_value_per_deposit_position.
      bindr (m_ou (checked_mul min_collateral_value_per_deposit_position
                     (int (length (deposits ob))))) (\<lambda>collateral_value_to_substract.
      if rules = Sweep \<and> collateral_value_to_substract > collateral_value then Ok False
      else
      bindr (m_ou (checked_sub collateral_value collateral_value_to_substract))
        (\<lambda>collateral_value_adjusted. Ok (debt_value > collateral_value_adjusted)))))))))"

section \<open>Unpriced pools\<close>

fun unpriced_loop :: "market_data \<Rightarrow> string list \<Rightarrow> string list \<Rightarrow> string list" where
  "unpriced_loop md [] unpriced = unpriced"
| "unpriced_loop md (held # rest) unpriced =
     (let priced = list_ex (\<lambda>p. pool_address p = held) (pools_data md) in
      if \<not> priced \<and> \<not> List.member unpriced held
      then unpriced_loop md rest (unpriced @ [held])
      else unpriced_loop md rest unpriced)"

definition held_pools :: "obligation \<Rightarrow> string list" where
  "held_pools ob = map bp_pool_address (borrows ob) @ map dp_pool_address (deposits ob)"

definition unpriced_pools_touched :: "obligation \<Rightarrow> market_data \<Rightarrow> string list" where
  "unpriced_pools_touched ob md = unpriced_loop md (held_pools ob) []"

section \<open>Unscaled values\<close>

fun obligation_debt_loop :: "pool_data list \<Rightarrow> borrow_position list \<Rightarrow> i128 \<Rightarrow> i128 lm" where
  "obligation_debt_loop pools [] sum_value = Ok sum_value"
| "obligation_debt_loop pools (b # bs) sum_value =
     bindr (ok_or (find_pool pools (bp_pool_address b)) InternalError) (\<lambda>pool.
     let real_debt = fixed_mul_ceil (d_tokens b) (d_token_rate_ceil_bps pool) in
     bindr (m_ou (checked_pow10 (token_decimals pool))) (\<lambda>decimals_divisor.
     bindr (m_ou (checked_mul real_debt (oracle_asset_price pool))) (\<lambda>v.
     bindr (m_ou (checked_add v (decimals_divisor - 1))) (\<lambda>v.
     bindr (m_ou (checked_div v decimals_divisor)) (\<lambda>val.
     bindr (m_ou (checked_add sum_value val)) (\<lambda>sum_value.
     obligation_debt_loop pools bs sum_value))))))"

definition compute_obligation_debt_value :: "obligation \<Rightarrow> market_data \<Rightarrow> i128 lm" where
  "compute_obligation_debt_value ob md = obligation_debt_loop (pools_data md) (borrows ob) 0"

fun obligation_collateral_loop :: "pool_data list \<Rightarrow> deposit_position list \<Rightarrow> i128 \<Rightarrow> i128 lm" where
  "obligation_collateral_loop pools [] sum_value = Ok sum_value"
| "obligation_collateral_loop pools (dep # ds) sum_value =
     bindr (ok_or (find_pool pools (dp_pool_address dep)) InternalError) (\<lambda>pool.
     let real_supply = fixed_mul_floor (j_tokens dep) (j_token_rate_floor_bps pool) in
     bindr (m_ou (checked_add real_supply (collateral dep))) (\<lambda>total_tokens.
     bindr (m_ou (checked_pow10 (token_decimals pool))) (\<lambda>pool_token_factor.
     bindr (m_ou (checked_mul total_tokens (oracle_asset_price pool))) (\<lambda>v.
     bindr (m_ou (checked_div v pool_token_factor)) (\<lambda>val.
     bindr (m_ou (checked_add sum_value val)) (\<lambda>sum_value.
     obligation_collateral_loop pools ds sum_value))))))"

definition compute_obligation_collateral_value :: "obligation \<Rightarrow> market_data \<Rightarrow> i128 lm" where
  "compute_obligation_collateral_value ob md =
     obligation_collateral_loop (pools_data md) (deposits ob) 0"

definition compute_close_factor_repay_cap :: "bool \<Rightarrow> i128 \<Rightarrow> i128 \<Rightarrow> i128" where
  "compute_close_factor_repay_cap is_lifted position_debt_tokens close_factor_bps =
     (if is_lifted then position_debt_tokens
      else fixed_mul_floor position_debt_tokens close_factor_bps)"

definition compute_is_insolvent :: "obligation \<Rightarrow> market_data \<Rightarrow> bool lm" where
  "compute_is_insolvent ob md =
     bindr (compute_obligation_debt_value ob md) (\<lambda>debt_value.
     if debt_value < 0 then Err InternalError
     else if debt_value = 0 then Ok False
     else
     bindr (compute_obligation_collateral_value ob md) (\<lambda>collateral_value.
     if collateral_value < 0 then Err InternalError
     else if collateral_value = 0 then Ok True
     else
     bindr (m_ou_out (bps_fixed_div_ceil debt_value collateral_value)) (\<lambda>unparameterized_ltv.
     Ok (unparameterized_ltv \<ge> insolvency_ltv_bps md))))"

section \<open>The sweep market's seizure\<close>

definition SCALAR_9 :: i128 where
  "SCALAR_9 = 1000000000"

definition compute_expected_seized_collateral ::
  "i128 \<Rightarrow> pool_data \<Rightarrow> pool_data \<Rightarrow> deposit_position \<Rightarrow> i128 \<Rightarrow> i128 \<Rightarrow> bool \<Rightarrow> i128 \<Rightarrow> nat \<Rightarrow> i128 lm"
where
  "compute_expected_seized_collateral repay_amount borrow_pool collateral_pool deposit
       obligation_debt obligation_collateral insolvent min_cents price_decimals =
     (if repay_amount \<le> 0 \<or> oracle_asset_price collateral_pool \<le> 0 then Ok 0
      else
      let real_supply = fixed_mul_floor (j_tokens deposit) (j_token_rate_floor_bps collateral_pool) in
      bindr (m_ou (checked_add real_supply (collateral deposit))) (\<lambda>position_collateral_sum.
      if position_collateral_sum \<le> 0 then Ok 0
      else
      bindr (m_ou (checked_pow10 (token_decimals borrow_pool))) (\<lambda>borrow_token_factor.
      bindr (m_ou (checked_mul repay_amount (oracle_asset_price borrow_pool))) (\<lambda>v.
      bindr (m_ou (checked_div v borrow_token_factor)) (\<lambda>liquidated_value.
      let min_incentive_bps = min (max_liquidation_incentive_bps borrow_pool)
                                  (max_liquidation_incentive_bps collateral_pool) in
      bindr (m_ou (checked_pow10 (token_decimals collateral_pool))) (\<lambda>collateral_token_factor.
      bindr (m_ou (checked_mul liquidated_value collateral_token_factor)) (\<lambda>v.
      bindr (m_ou (checked_div v (oracle_asset_price collateral_pool))) (\<lambda>collateral_amount_no_bonus.
      bindr (m_ou (checked_add BPS_FACTOR min_incentive_bps)) (\<lambda>factor.
      bindr (m_ou (checked_mul collateral_amount_no_bonus factor)) (\<lambda>v.
      bindr (m_ou (checked_div v BPS_FACTOR)) (\<lambda>with_incentive.
      if \<not> insolvent \<and> (obligation_debt \<le> 0 \<or> obligation_collateral \<le> 0) then Ok 0
      else
      bindr (if \<not> insolvent then
               bindr (m_ou (checked_mul obligation_collateral SCALAR_9)) (\<lambda>v.
               bindr (m_ou (checked_div v obligation_debt)) (\<lambda>health_factor_sc9.
               bindr (m_ou (checked_mul liquidated_value health_factor_sc9)) (\<lambda>v.
               bindr (m_ou (checked_div v SCALAR_9)) (\<lambda>max_value_recv.
               bindr (m_ou (checked_mul max_value_recv 999)) (\<lambda>v.
               bindr (m_ou (checked_div v 1000)) (\<lambda>strict_max_value_recv.
               bindr (m_ou (checked_mul strict_max_value_recv collateral_token_factor)) (\<lambda>v.
               bindr (m_ou (checked_div v (oracle_asset_price collateral_pool))) (\<lambda>ltv_collateral.
               Ok (Some ltv_collateral)))))))))
             else Ok None) (\<lambda>ltv_cap.
      let seized = (case ltv_cap of
                      Some cap \<Rightarrow> min (min position_collateral_sum with_incentive) cap
                    | None \<Rightarrow> min position_collateral_sum with_incentive) in
      bindr (m_ou (checked_sub position_collateral_sum seized)) (\<lambda>collateral_left.
      bindr (m_ou (checked_mul collateral_left (oracle_asset_price collateral_pool))) (\<lambda>v.
      bindr (m_ou (checked_div v collateral_token_factor)) (\<lambda>collateral_value_left.
      bindr (m_ou (checked_pow10 price_decimals)) (\<lambda>oracle_price_factor.
      bindr (m_ou (checked_mul min_cents oracle_price_factor)) (\<lambda>v.
      bindr (m_ou (checked_div v 100)) (\<lambda>min_collateral_threshold.
      Ok (max (if collateral_value_left < min_collateral_threshold
               then position_collateral_sum else seized) 0)))))))))))))))))))"

section \<open>Lemmas\<close>

subsection \<open>Saturating products\<close>

lemma saturating_div_BPS: "in_i128 a \<Longrightarrow> saturating_div a BPS_FACTOR = a sdiv BPS_FACTOR"
  by (simp add: saturating_div_def in_i128_sdiv)

lemma fixed_mul_floor_exact:
  "0 \<le> a \<Longrightarrow> 0 \<le> b \<Longrightarrow> in_i128 (a * b) \<Longrightarrow> fixed_mul_floor a b = floor_div (a * b) BPS_FACTOR"
  by (simp add: fixed_mul_floor_def saturating_mul_def saturating_div_BPS sdiv_eq_floor_div)

lemma fixed_mul_ceil_exact:
  assumes "0 \<le> a" "0 \<le> b" "in_i128 (a * b + (BPS_FACTOR - 1))"
  shows "fixed_mul_ceil a b = ceil_div (a * b) BPS_FACTOR"
proof -
  have "in_i128 (a * b)"
    using assms by (intro in_i128_nonneg_le [of "a * b" "a * b + (BPS_FACTOR - 1)"]) (simp_all add: BPS_FACTOR_def)
  with assms show ?thesis
    by (simp add: fixed_mul_ceil_def saturating_mul_def saturating_add_def saturating_div_BPS
        sdiv_eq_ceil_div)
qed

lemma fixed_mul_floor_mono:
  assumes "a \<le> a'" "0 \<le> b" shows "fixed_mul_floor a b \<le> fixed_mul_floor a' b"
  using assms by (simp add: fixed_mul_floor_def saturating_mul_def saturating_div_BPS sdiv_mono
      clamp_i128_mono mult_right_mono)

lemma fixed_mul_nonneg [simp]:
  assumes "0 \<le> a" "0 \<le> b" shows "0 \<le> fixed_mul_floor a b" "0 \<le> fixed_mul_ceil a b"
proof -
  show "0 \<le> fixed_mul_floor a b"
    using assms by (simp add: fixed_mul_floor_def saturating_mul_def saturating_div_BPS clamp_i128_nonneg)
  have "0 \<le> saturating_add (saturating_mul a b) (BPS_FACTOR - 1)"
    unfolding saturating_add_def saturating_mul_def using assms
    by (intro clamp_i128_nonneg add_nonneg_nonneg) (simp_all add: clamp_i128_nonneg BPS_FACTOR_def)
  then show "0 \<le> fixed_mul_ceil a b"
    by (simp add: fixed_mul_ceil_def saturating_div_BPS saturating_add_def)
qed

lemma fixed_mul_floor_le: "0 \<le> a \<Longrightarrow> 0 \<le> b \<Longrightarrow> b \<le> BPS_FACTOR \<Longrightarrow> fixed_mul_floor a b \<le> a"
proof -
  assume a: "0 \<le> a" and b: "0 \<le> b" "b \<le> BPS_FACTOR"
  have "clamp_i128 (a * b) \<le> a * BPS_FACTOR"
    using a b clamp_i128_le [of "a * b"] mult_left_mono [of b BPS_FACTOR a] by simp
  then have "clamp_i128 (a * b) sdiv BPS_FACTOR \<le> (a * BPS_FACTOR) sdiv BPS_FACTOR"
    by (intro sdiv_mono) simp_all
  also have "\<dots> = a" using a by (simp add: sdiv_nonneg_eq_div)
  finally show ?thesis by (simp add: fixed_mul_floor_def saturating_mul_def saturating_div_BPS)
qed

lemma fixed_mul_in_i128 [simp]: "in_i128 (fixed_mul_floor a b)" "in_i128 (fixed_mul_ceil a b)"
  by (simp_all add: fixed_mul_floor_def fixed_mul_ceil_def saturating_div_def)

subsection \<open>Unpriced pools\<close>

lemma unpriced_loop_set:
  "set (unpriced_loop md hs u) =
     set u \<union> {h \<in> set hs. find_pool (pools_data md) h = None}"
  by (induction md hs u rule: unpriced_loop.induct)
     (auto simp: Let_def list_ex_iff find_pool_None_iff)

lemma unpriced_loop_distinct: "distinct u \<Longrightarrow> distinct (unpriced_loop md hs u)"
  by (induction md hs u rule: unpriced_loop.induct) (auto simp: Let_def)

subsection \<open>The valuation loops\<close>

lemma obligation_debt_loop_abort_free: "obligation_debt_loop ps bs t \<noteq> Panic"
  by (induction ps bs t rule: obligation_debt_loop.induct) (auto simp: bindr_eq_Panic_iff Let_def)

lemma obligation_collateral_loop_abort_free: "obligation_collateral_loop ps ds t \<noteq> Panic"
  by (induction ps ds t rule: obligation_collateral_loop.induct) (auto simp: bindr_eq_Panic_iff Let_def)

lemma liquidatable_debt_loop_abort_free: "liquidatable_debt_loop ps bs t \<noteq> Panic"
proof (induction bs arbitrary: t)
  case (Cons b bs)
  then show ?case
    by (cases "find_pool ps (bp_pool_address b)") (simp_all add: bindr_eq_Panic_iff Let_def)
qed simp

lemma liquidatable_collateral_loop_abort_free: "liquidatable_collateral_loop ps ds t \<noteq> Panic"
proof (induction ds arbitrary: t)
  case (Cons dep ds)
  then show ?case
    by (cases "find_pool ps (dp_pool_address dep)") (simp_all add: bindr_eq_Panic_iff Let_def)
qed simp

lemma compute_is_liquidatable_abort_free: "compute_is_liquidatable ob md rules \<noteq> Panic"
  by (auto simp: compute_is_liquidatable_def Let_def bindr_eq_Panic_iff
      liquidatable_debt_loop_abort_free liquidatable_collateral_loop_abort_free)

lemma compute_values_abort_free:
  "compute_obligation_debt_value ob md \<noteq> Panic" "compute_obligation_collateral_value ob md \<noteq> Panic"
  by (simp_all add: compute_obligation_debt_value_def compute_obligation_collateral_value_def
      obligation_debt_loop_abort_free obligation_collateral_loop_abort_free)

lemma priced_debt_loop:
  "\<forall>b \<in> set bs. find_pool ps (bp_pool_address b) \<noteq> None \<Longrightarrow>
     obligation_debt_loop ps bs t \<noteq> Err InternalError"
  by (induction bs arbitrary: t) (auto simp: bindr_eq_Err_iff Let_def)

lemma priced_collateral_loop:
  "\<forall>d \<in> set ds. find_pool ps (dp_pool_address d) \<noteq> None \<Longrightarrow>
     obligation_collateral_loop ps ds t \<noteq> Err InternalError"
  by (induction ds arbitrary: t) (auto simp: bindr_eq_Err_iff Let_def)

subsection \<open>Exact values of the positions\<close>

text \<open>What a position is worth over the integers, rounded where the code rounds: a debt up, a
  collateral down.  Positions in pools the snapshot does not hold count for nothing in the health
  test.\<close>

definition debt_tokens :: "pool_data \<Rightarrow> borrow_position \<Rightarrow> int" where
  "debt_tokens p b = ceil_div (d_tokens b * d_token_rate_ceil_bps p) BPS_FACTOR"

definition debt_worth :: "pool_data \<Rightarrow> borrow_position \<Rightarrow> int" where
  "debt_worth p b = ceil_div (debt_tokens p b * oracle_asset_price p) (10 ^ token_decimals p)"

definition debt_weight :: "pool_data \<Rightarrow> borrow_position \<Rightarrow> int" where
  "debt_weight p b = ceil_div (debt_worth p b * liability_factor_bps p) BPS_FACTOR"

definition deposit_tokens :: "pool_data \<Rightarrow> deposit_position \<Rightarrow> int" where
  "deposit_tokens p d = floor_div (j_tokens d * j_token_rate_floor_bps p) BPS_FACTOR + collateral d"

definition deposit_worth :: "pool_data \<Rightarrow> deposit_position \<Rightarrow> int" where
  "deposit_worth p d = floor_div (deposit_tokens p d * oracle_asset_price p) (10 ^ token_decimals p)"

definition deposit_weight :: "pool_data \<Rightarrow> deposit_position \<Rightarrow> int" where
  "deposit_weight p d = floor_div (deposit_worth p d * close_ltv_bps p) BPS_FACTOR"

definition over_pools :: "pool_data list \<Rightarrow> ('a \<Rightarrow> string) \<Rightarrow> (pool_data \<Rightarrow> 'a \<Rightarrow> int) \<Rightarrow> 'a list \<Rightarrow> int"
where
  "over_pools ps addr worth xs =
     sum_list (map (\<lambda>x. case find_pool ps (addr x) of None \<Rightarrow> 0 | Some p \<Rightarrow> worth p x) xs)"

lemma over_pools_simps [simp]:
  "over_pools ps addr worth [] = 0"
  "over_pools ps addr worth (x # xs) =
     (case find_pool ps (addr x) of None \<Rightarrow> 0 | Some p \<Rightarrow> worth p x) + over_pools ps addr worth xs"
  by (simp_all add: over_pools_def)

text \<open>Positions whose basis-point products stay inside the type, so that the saturating operations
  do not saturate.\<close>

definition exact_borrow :: "pool_data \<Rightarrow> borrow_position \<Rightarrow> bool" where
  "exact_borrow p b \<longleftrightarrow>
     0 \<le> d_tokens b \<and> 0 \<le> d_token_rate_ceil_bps p \<and> 0 \<le> oracle_asset_price p \<and>
     0 \<le> liability_factor_bps p \<and>
     in_i128 (d_tokens b * d_token_rate_ceil_bps p + (BPS_FACTOR - 1)) \<and>
     in_i128 (debt_worth p b * liability_factor_bps p + (BPS_FACTOR - 1))"

definition exact_deposit :: "pool_data \<Rightarrow> deposit_position \<Rightarrow> bool" where
  "exact_deposit p d \<longleftrightarrow>
     0 \<le> j_tokens d \<and> 0 \<le> collateral d \<and> 0 \<le> j_token_rate_floor_bps p \<and> 0 \<le> oracle_asset_price p \<and>
     0 \<le> close_ltv_bps p \<and>
     in_i128 (j_tokens d * j_token_rate_floor_bps p) \<and>
     in_i128 (deposit_worth p d * close_ltv_bps p)"

definition exact_positions :: "market_data \<Rightarrow> obligation \<Rightarrow> bool" where
  "exact_positions md ob \<longleftrightarrow>
     list_all (\<lambda>b. list_all (\<lambda>p. pool_address p = bp_pool_address b \<longrightarrow> exact_borrow p b) (pools_data md))
       (borrows ob) \<and>
     list_all (\<lambda>d. list_all (\<lambda>p. pool_address p = dp_pool_address d \<longrightarrow> exact_deposit p d) (pools_data md))
       (deposits ob)"

lemma debt_tokens_nonneg: "exact_borrow p b \<Longrightarrow> 0 \<le> debt_tokens p b"
  by (simp add: exact_borrow_def debt_tokens_def)

lemma debt_worth_nonneg: "exact_borrow p b \<Longrightarrow> 0 \<le> debt_worth p b"
  using debt_tokens_nonneg [of p b] by (simp add: exact_borrow_def debt_worth_def)

lemma deposit_tokens_nonneg: "exact_deposit p d \<Longrightarrow> 0 \<le> deposit_tokens p d"
  by (simp add: exact_deposit_def deposit_tokens_def)

lemma deposit_worth_nonneg: "exact_deposit p d \<Longrightarrow> 0 \<le> deposit_worth p d"
  using deposit_tokens_nonneg [of p d] by (simp add: exact_deposit_def deposit_worth_def)

lemma exact_borrow_steps:
  assumes "exact_borrow p b"
  shows "fixed_mul_ceil (d_tokens b) (d_token_rate_ceil_bps p) = debt_tokens p b"
    and "(debt_tokens p b * oracle_asset_price p + (10 ^ token_decimals p - 1)) sdiv 10 ^ token_decimals p
           = debt_worth p b"
    and "fixed_mul_ceil (debt_worth p b) (liability_factor_bps p) = debt_weight p b"
  using assms debt_tokens_nonneg [OF assms] debt_worth_nonneg [OF assms]
  by (simp_all add: exact_borrow_def debt_tokens_def debt_worth_def debt_weight_def
      fixed_mul_ceil_exact sdiv_eq_ceil_div)

lemma exact_deposit_steps:
  assumes "exact_deposit p d"
  shows "fixed_mul_floor (j_tokens d) (j_token_rate_floor_bps p) + collateral d = deposit_tokens p d"
    and "(deposit_tokens p d * oracle_asset_price p) sdiv 10 ^ token_decimals p = deposit_worth p d"
    and "fixed_mul_floor (deposit_worth p d) (close_ltv_bps p) = deposit_weight p d"
  using assms deposit_tokens_nonneg [OF assms] deposit_worth_nonneg [OF assms]
  by (simp_all add: exact_deposit_def deposit_tokens_def deposit_worth_def deposit_weight_def
      fixed_mul_floor_exact sdiv_eq_floor_div)

definition exact_borrows :: "pool_data list \<Rightarrow> borrow_position list \<Rightarrow> bool" where
  "exact_borrows ps bs \<longleftrightarrow> (\<forall>b \<in> set bs. \<forall>p. find_pool ps (bp_pool_address b) = Some p \<longrightarrow> exact_borrow p b)"

definition exact_deposits :: "pool_data list \<Rightarrow> deposit_position list \<Rightarrow> bool" where
  "exact_deposits ps ds \<longleftrightarrow>
     (\<forall>d \<in> set ds. \<forall>p. find_pool ps (dp_pool_address d) = Some p \<longrightarrow> exact_deposit p d)"

lemma exact_positionsD:
  assumes "exact_positions md ob"
  shows "exact_borrows (pools_data md) (borrows ob)" "exact_deposits (pools_data md) (deposits ob)"
  using assms
  by (auto simp: exact_positions_def exact_borrows_def exact_deposits_def list_all_iff dest: find_pool_SomeD)

lemma liquidatable_debt_loop_Ok:
  "exact_borrows ps bs \<Longrightarrow> liquidatable_debt_loop ps bs t = Ok r \<Longrightarrow>
     r = t + over_pools ps bp_pool_address debt_weight bs"
proof (induction bs arbitrary: t)
  case (Cons b bs)
  then have rest: "exact_borrows ps bs" by (simp add: exact_borrows_def)
  show ?case
  proof (cases "find_pool ps (bp_pool_address b)")
    case None
    then show ?thesis using Cons rest by simp
  next
    case (Some p)
    then have "exact_borrow p b" using Cons.prems by (simp add: exact_borrows_def)
    then show ?thesis
      using Cons.prems Some by (auto simp: Let_def exact_borrow_steps dest!: Cons.IH [OF rest])
  qed
qed simp

lemma liquidatable_collateral_loop_Ok:
  "exact_deposits ps ds \<Longrightarrow> liquidatable_collateral_loop ps ds t = Ok r \<Longrightarrow>
     r = t + over_pools ps dp_pool_address deposit_weight ds"
proof (induction ds arbitrary: t)
  case (Cons d ds)
  then have rest: "exact_deposits ps ds" by (simp add: exact_deposits_def)
  show ?case
  proof (cases "find_pool ps (dp_pool_address d)")
    case None
    then show ?thesis using Cons rest by simp
  next
    case (Some p)
    then have "exact_deposit p d" using Cons.prems by (simp add: exact_deposits_def)
    then show ?thesis
      using Cons.prems Some by (auto simp: Let_def exact_deposit_steps dest!: Cons.IH [OF rest])
  qed
qed simp

lemma obligation_debt_loop_Ok:
  "exact_borrows ps bs \<Longrightarrow> obligation_debt_loop ps bs t = Ok r \<Longrightarrow>
     r = t + over_pools ps bp_pool_address debt_worth bs"
proof (induction bs arbitrary: t)
  case (Cons b bs)
  then have rest: "exact_borrows ps bs" by (simp add: exact_borrows_def)
  from Cons.prems obtain p where p: "find_pool ps (bp_pool_address b) = Some p" by auto
  then have "exact_borrow p b" using Cons.prems by (simp add: exact_borrows_def)
  then show ?case
    using Cons.prems p by (auto simp: Let_def exact_borrow_steps dest!: Cons.IH [OF rest])
qed simp

lemma obligation_collateral_loop_Ok:
  "exact_deposits ps ds \<Longrightarrow> obligation_collateral_loop ps ds t = Ok r \<Longrightarrow>
     r = t + over_pools ps dp_pool_address deposit_worth ds"
proof (induction ds arbitrary: t)
  case (Cons d ds)
  then have rest: "exact_deposits ps ds" by (simp add: exact_deposits_def)
  from Cons.prems obtain p where p: "find_pool ps (dp_pool_address d) = Some p" by auto
  then have "exact_deposit p d" using Cons.prems by (simp add: exact_deposits_def)
  then show ?case
    using Cons.prems p by (auto simp: Let_def exact_deposit_steps dest!: Cons.IH [OF rest])
qed simp

lemma over_pools_nonneg:
  "(\<And>x p. x \<in> set xs \<Longrightarrow> find_pool ps (addr x) = Some p \<Longrightarrow> 0 \<le> worth p x) \<Longrightarrow>
     0 \<le> over_pools ps addr worth xs"
  by (induction xs) (auto split: option.splits)

lemma exact_value_sums_nonneg:
  assumes "exact_positions md ob"
  shows "0 \<le> over_pools (pools_data md) bp_pool_address debt_worth (borrows ob)"
    "0 \<le> over_pools (pools_data md) dp_pool_address deposit_worth (deposits ob)"
  using exact_positionsD [OF assms]
  by (auto intro!: over_pools_nonneg simp: exact_borrows_def exact_deposits_def debt_worth_nonneg
      deposit_worth_nonneg)

lemma obligation_debt_value_Ok:
  "exact_positions md ob \<Longrightarrow> compute_obligation_debt_value ob md = Ok v \<Longrightarrow>
     v = over_pools (pools_data md) bp_pool_address debt_worth (borrows ob)"
  using obligation_debt_loop_Ok [OF exact_positionsD(1), of md ob 0 v]
  by (simp add: compute_obligation_debt_value_def)

lemma obligation_collateral_value_Ok:
  "exact_positions md ob \<Longrightarrow> compute_obligation_collateral_value ob md = Ok v \<Longrightarrow>
     v = over_pools (pools_data md) dp_pool_address deposit_worth (deposits ob)"
  using obligation_collateral_loop_Ok [OF exact_positionsD(2), of md ob 0 v]
  by (simp add: compute_obligation_collateral_value_def)

text \<open>The shape of a sweep seizure: a part of the position that the two caps allow, or the whole
  position when the rest would fall below the floor.\<close>

lemma expected_seizure_Ok:
  assumes "compute_expected_seized_collateral repay bp cp dep od oc ins cents k = Ok s"
  defines "pos \<equiv> fixed_mul_floor (j_tokens dep) (j_token_rate_floor_bps cp) + collateral dep"
  shows "s = 0 \<or> (\<exists>seized \<le> pos.
    s = max (if ((pos - seized) * oracle_asset_price cp) sdiv 10 ^ token_decimals cp
                  < (cents * 10 ^ k) sdiv 100 then pos else seized) 0)"
proof -
  have cap: "(case c of None \<Rightarrow> min pos w | Some x \<Rightarrow> min (min pos w) x) \<le> pos" for c w
    by (cases c) simp_all
  let ?P = "\<lambda>z. s = max (if ((pos - z) * oracle_asset_price cp) sdiv 10 ^ token_decimals cp
                  < (cents * 10 ^ k) sdiv 100 then pos else z) 0"
  have part: ?thesis if "z \<le> pos" "?P z" for z
    using that by blast
  from assms(1) show ?thesis
    unfolding compute_expected_seized_collateral_def Let_def
    apply (elim if_okE bindr_okE)
    apply (simp_all only: m_ou_eq_Ok_iff checked_add_eq_Some_iff checked_sub_eq_Some_iff
          checked_mul_eq_Some_iff checked_div_eq_Some_iff checked_pow10_eq_Some_iff
          outcome.inject not_le pos_def [symmetric] refl simp_thms)
    apply (rule part [OF cap], rule sym, assumption)+
    done
qed

text \<open>The part of the collateral value a market keeps per deposit position.\<close>

definition position_floor :: "market_data \<Rightarrow> int" where
  "position_floor md = (min_collateral_value_cents md * 10 ^ oracle_price_decimals md) sdiv 100"

section \<open>Properties\<close>

text \<open>C16. The health test is exact: when it returns, an obligation is liquidatable iff it has any
  collateral, its liability-weighted debt is non-zero and exceeds its LTV-weighted collateral less
  the market's floor per deposit, and, on a sweep market, the collateral reaches that floor.\<close>

theorem is_liquidatable_exact:
  assumes exact: "exact_positions md ob" and res: "compute_is_liquidatable ob md rules = Ok r"
  defines "debt \<equiv> over_pools (pools_data md) bp_pool_address debt_weight (borrows ob)"
  defines "coll \<equiv> over_pools (pools_data md) dp_pool_address deposit_weight (deposits ob)"
  defines "kept \<equiv> position_floor md * int (length (deposits ob))"
  shows "r \<longleftrightarrow> has_any_collateral ob (pools_data md) \<and> debt \<noteq> 0 \<and> coll - kept < debt \<and>
               (rules = Sweep \<longrightarrow> kept \<le> coll)"
  using res
  by (auto simp: compute_is_liquidatable_def Let_def debt_def coll_def kept_def position_floor_def
      dest!: liquidatable_debt_loop_Ok [OF exact_positionsD(1) [OF exact]]
        liquidatable_collateral_loop_Ok [OF exact_positionsD(2) [OF exact]] split: if_splits)

definition example_market :: market_data where
  "example_market = \<lparr>insolvency_ltv_bps = 9900, pools_data = [example_pool],
     oracle_price_decimals = 14, min_collateral_value_cents = 100, unavailable_pools = []\<rparr>"

definition example_obligation :: obligation where
  "example_obligation = \<lparr>borrows = [\<lparr>d_tokens = 9000000000, bp_pool_address = ''P''\<rparr>],
     deposits = [\<lparr>j_tokens = 4000000000, collateral = 6000000000, dp_pool_address = ''P''\<rparr>],
     open_bad_debt_requests = 0\<rparr>"

lemmas example_defs = example_market_def example_obligation_def example_pool_def

theorem is_liquidatable_exact_witness:
  "exact_positions example_market example_obligation \<and>
   compute_is_liquidatable example_obligation example_market NoDust = Ok True \<and>
   over_pools [example_pool] dp_pool_address deposit_weight (deposits example_obligation)
     - position_floor example_market <
   over_pools [example_pool] bp_pool_address debt_weight (borrows example_obligation)"
proof -
  have e: "exact_positions example_market example_obligation"
    by (simp add: exact_positions_def exact_borrow_def exact_deposit_def example_defs debt_worth_def
        debt_tokens_def deposit_worth_def deposit_tokens_def ceil_div_def floor_div_def BPS_FACTOR_def
        in_i128_def i128_max_def i128_min_def)
  have r: "compute_is_liquidatable example_obligation example_market NoDust = Ok True"
    by (simp add: compute_is_liquidatable_def has_any_collateral_def example_defs find_pool_def
        fixed_mul_floor_def fixed_mul_ceil_def i128_eval BPS_FACTOR_def cong: bindr_step_cong)
  have "pools_data example_market = [example_pool]" "length (deposits example_obligation) = 1"
    by (simp_all add: example_market_def example_obligation_def)
  with e r is_liquidatable_exact [OF e r] show ?thesis by simp
qed

text \<open>\<open>unpriced_pools_touched\<close> lists, without repetition, exactly the pools an obligation holds
  a position in and the snapshot has no data for; when it is empty, neither unscaled value fails for
  a missing pool.\<close>

theorem unpriced_pools_touched_exact:
  "distinct (unpriced_pools_touched ob md) \<and>
   set (unpriced_pools_touched ob md) =
     {a \<in> bp_pool_address ` set (borrows ob) \<union> dp_pool_address ` set (deposits ob).
        find_pool (pools_data md) a = None} \<and>
   (unpriced_pools_touched ob md = [] \<longrightarrow>
      compute_obligation_debt_value ob md \<noteq> Err InternalError \<and>
      compute_obligation_collateral_value ob md \<noteq> Err InternalError)"
proof -
  have s: "set (unpriced_pools_touched ob md) =
     {a \<in> bp_pool_address ` set (borrows ob) \<union> dp_pool_address ` set (deposits ob).
        find_pool (pools_data md) a = None}"
    by (auto simp: unpriced_pools_touched_def unpriced_loop_set held_pools_def)
  have "unpriced_pools_touched ob md = [] \<longrightarrow>
      (\<forall>b \<in> set (borrows ob). find_pool (pools_data md) (bp_pool_address b) \<noteq> None) \<and>
      (\<forall>d \<in> set (deposits ob). find_pool (pools_data md) (dp_pool_address d) \<noteq> None)"
    by (metis (mono_tags, lifting) Un_iff empty_iff image_eqI list.set(1) mem_Collect_eq s)
  then show ?thesis
    using s priced_debt_loop priced_collateral_loop
    by (simp add: unpriced_pools_touched_def unpriced_loop_distinct compute_obligation_debt_value_def
        compute_obligation_collateral_value_def)
qed

theorem unpriced_pools_touched_exact_witness:
  "unpriced_pools_touched example_obligation example_market = [] \<and>
   compute_obligation_debt_value example_obligation example_market \<noteq> Err InternalError"
proof -
  have "unpriced_pools_touched example_obligation example_market = []"
    by (simp add: unpriced_pools_touched_def held_pools_def example_defs)
  with unpriced_pools_touched_exact [of example_obligation example_market] show ?thesis by simp
qed

text \<open>The insolvency test compares the exact loan-to-value ratio with the market's threshold:
  when it returns, an obligation is insolvent iff it owes something and either has no collateral
  value or its debt, in basis points, exceeds \<open>insolvency_ltv_bps - 1\<close> times its collateral value.\<close>

theorem is_insolvent_exact:
  assumes exact: "exact_positions md ob" and res: "compute_is_insolvent ob md = Ok r"
  defines "debt \<equiv> over_pools (pools_data md) bp_pool_address debt_worth (borrows ob)"
  defines "coll \<equiv> over_pools (pools_data md) dp_pool_address deposit_worth (deposits ob)"
  shows "r \<longleftrightarrow> 0 < debt \<and> (coll = 0 \<or> (insolvency_ltv_bps md - 1) * coll < debt * BPS_FACTOR)"
proof -
  have nn: "0 \<le> debt" "0 \<le> coll"
    using exact_value_sums_nonneg [OF exact] by (simp_all add: debt_def coll_def)
  have ratio: "insolvency_ltv_bps md \<le> ceil_div (debt * BPS_FACTOR) coll \<longleftrightarrow>
      (insolvency_ltv_bps md - 1) * coll < debt * BPS_FACTOR" if "0 < coll"
    using ceil_div_le [OF that, of "debt * BPS_FACTOR" "insolvency_ltv_bps md - 1"]
    by (auto simp: not_le [symmetric])
  have q: "x = ceil_div (debt * BPS_FACTOR) coll"
    if "bps_fixed_div_ceil debt coll = Ok x" "0 < debt" "0 < coll" for x
    using bps_fixed_div_ceil_Ok [of debt coll x] that by (simp add: amount_bps_fixed_div_ceil_def)
  show ?thesis
    using res nn ratio unfolding compute_is_insolvent_def
    by (auto simp flip: debt_def coll_def
        dest!: obligation_debt_value_Ok [OF exact, folded debt_def]
          obligation_collateral_value_Ok [OF exact, folded coll_def] q split: if_splits)
qed

theorem is_insolvent_exact_witness:
  "compute_is_insolvent example_obligation example_market = Ok False \<and>
   \<not> (9900 - 1) * over_pools [example_pool] dp_pool_address deposit_worth (deposits example_obligation)
      < over_pools [example_pool] bp_pool_address debt_worth (borrows example_obligation) * BPS_FACTOR"
proof -
  have e: "exact_positions example_market example_obligation"
    by (simp add: exact_positions_def exact_borrow_def exact_deposit_def example_defs debt_worth_def
        debt_tokens_def deposit_worth_def deposit_tokens_def ceil_div_def floor_div_def BPS_FACTOR_def
        in_i128_def i128_max_def i128_min_def)
  have r: "compute_is_insolvent example_obligation example_market = Ok False"
    by (simp add: compute_is_insolvent_def compute_obligation_debt_value_def
        compute_obligation_collateral_value_def example_defs find_pool_def fixed_mul_floor_def
        fixed_mul_ceil_def i128_eval BPS_FACTOR_def bps_fixed_div_ceil_def opt_out_def
        cong: bindr_step_cong)
  have "0 < over_pools [example_pool] bp_pool_address debt_worth (borrows example_obligation)"
    by (simp add: example_defs over_pools_def find_pool_def debt_worth_def debt_tokens_def ceil_div_def
        BPS_FACTOR_def)
  moreover have "pools_data example_market = [example_pool]" "insolvency_ltv_bps example_market = 9900"
    by (simp_all add: example_market_def)
  ultimately show ?thesis using r is_insolvent_exact [OF e r] by simp
qed

text \<open>The seizure a sweep market makes stays within the position and leaves no dust: it is
  non-negative, at most the position's collateral, and when it takes only a part of the position the
  rest is worth at least the market's floor.\<close>

theorem expected_seizure_bounds:
  assumes "compute_expected_seized_collateral repay bp cp dep od oc ins cents k = Ok s"
  defines "pos \<equiv> fixed_mul_floor (j_tokens dep) (j_token_rate_floor_bps cp) + collateral dep"
  shows "0 \<le> s \<and> s \<le> max 0 pos \<and>
    (0 < s \<and> s < pos \<longrightarrow>
       (cents * 10 ^ k) sdiv 100 \<le> ((pos - s) * oracle_asset_price cp) sdiv 10 ^ token_decimals cp)"
  using expected_seizure_Ok [OF assms(1)] by (auto simp flip: pos_def split: if_splits)

theorem expected_seizure_bounds_witness:
  "compute_expected_seized_collateral 1000000000 example_pool example_pool
     \<lparr>j_tokens = 4000000000, collateral = 6000000000, dp_pool_address = ''P''\<rparr>
     100010000000000000 110000000000000000 False 100 14 = Ok 1098790119 \<and>
   (100 * 10 ^ 14) sdiv 100 \<le> ((11000000000 - 1098790119) * 100000000000000) sdiv (10 ^ 7 :: int)"
proof -
  have "compute_expected_seized_collateral 1000000000 example_pool example_pool
     \<lparr>j_tokens = 4000000000, collateral = 6000000000, dp_pool_address = ''P''\<rparr>
     100010000000000000 110000000000000000 False 100 14 = Ok 1098790119"
    by (simp add: compute_expected_seized_collateral_def example_pool_def i128_eval BPS_FACTOR_def
        SCALAR_9_def fixed_mul_floor_def cong: bindr_step_cong)
  from this expected_seizure_bounds [OF this] show ?thesis
    by (simp add: example_pool_def fixed_mul_floor_def i128_eval BPS_FACTOR_def)
qed

end
