(* ===== verification/Liquidation_Pair.thy ===== *)
theory Liquidation_Pair
  imports Valuation
begin

text \<open>
  \<^verbatim>\<open>engine/src/lending_model/liquidation.rs\<close>, second half: \<open>LiquidationPair\<close>, one (borrow,
  collateral) pair of an obligation as the market's \<open>liquidate\<close> judges it.  The pair quotes a repay
  offer, finds the offer that clears one side of the pair, and fits a planned repay to the dust
  rules by two binary searches.

  A closure of the source is a definition with its captured values as extra arguments.
\<close>

section \<open>Data\<close>

datatype seizure = Accepted (seizure_seized: i128) (seizure_repaid: i128) | OverCloseFactor | LeavesDust

fun is_accepted :: "seizure \<Rightarrow> bool" where
  "is_accepted (Accepted s r) = True"
| "is_accepted OverCloseFactor = False"
| "is_accepted LeavesDust = False"

record liquidation_pair =
  rules :: dust_rules
  borrow_pool :: pool_data
  collateral_pool :: pool_data
  deposit :: deposit_position
  position_debt :: i128
  obligation_debt_value :: i128
  obligation_collateral_value :: i128
  is_insolvent :: bool
  pair_min_cents :: i128
  pair_price_decimals :: nat
  debt_accrual_bps :: i128
  supply_accrual_bps :: i128
  margin :: clearing_margin

record clearing =
  at_snapshot :: i128
  clearing_offer :: i128

section \<open>Prices\<close>

definition token_factor :: "pool_data \<Rightarrow> i128 lm" where
  "token_factor pool = m_ou (checked_pow10 (token_decimals pool))"

definition value_floor :: "i128 \<Rightarrow> pool_data \<Rightarrow> i128 lm" where
  "value_floor amount pool =
     bindr (m_ou (checked_mul amount (oracle_asset_price pool))) (\<lambda>v.
     bindr (token_factor pool) (\<lambda>factor. m_ou (checked_div v factor)))"

definition value_ceil :: "i128 \<Rightarrow> pool_data \<Rightarrow> i128 lm" where
  "value_ceil amount pool =
     bindr (token_factor pool) (\<lambda>factor.
     bindr (m_ou (checked_mul amount (oracle_asset_price pool))) (\<lambda>v.
     bindr (raw_sub factor 1) (\<lambda>f1.
     bindr (m_ou (checked_add v f1)) (\<lambda>v. m_ou (checked_div v factor)))))"

definition amount_floor :: "i128 \<Rightarrow> pool_data \<Rightarrow> i128 lm" where
  "amount_floor val pool =
     bindr (token_factor pool) (\<lambda>factor.
     bindr (m_ou (checked_mul val factor)) (\<lambda>v. m_ou (checked_div v (oracle_asset_price pool))))"

definition amount_ceil :: "i128 \<Rightarrow> pool_data \<Rightarrow> i128 lm" where
  "amount_ceil val pool =
     (let price = oracle_asset_price pool in
      bindr (token_factor pool) (\<lambda>factor.
      bindr (m_ou (checked_mul val factor)) (\<lambda>v.
      bindr (raw_sub price 1) (\<lambda>p1.
      bindr (m_ou (checked_add v p1)) (\<lambda>v. m_ou (checked_div v price))))))"

section \<open>Operations\<close>

definition pair_new ::
  "dust_rules \<Rightarrow> obligation \<Rightarrow> market_data \<Rightarrow> pool_data \<Rightarrow> pool_data \<Rightarrow> deposit_position \<Rightarrow> bool \<Rightarrow>
     liquidation_pair lm" where
  "pair_new rs ob md bp cp dep insolvent =
     bindr (ok_or (List.find (\<lambda>b. bp_pool_address b = pool_address bp) (borrows ob)) InternalError) (\<lambda>borrow.
     bindr (d_tokens_to_tokens_ceil bp (d_tokens borrow)) (\<lambda>debt.
     bindr (compute_obligation_debt_value ob md) (\<lambda>debt_value.
     bindr (compute_obligation_collateral_value ob md) (\<lambda>collateral_value.
     Ok \<lparr>rules = rs, borrow_pool = bp, collateral_pool = cp, deposit = dep, position_debt = debt,
         obligation_debt_value = debt_value, obligation_collateral_value = collateral_value,
         is_insolvent = insolvent, pair_min_cents = min_collateral_value_cents md,
         pair_price_decimals = oracle_price_decimals md, debt_accrual_bps = 0,
         supply_accrual_bps = 0, margin = MARGIN_INITIAL\<rparr>))))"

definition accruing_until :: "liquidation_pair \<Rightarrow> nat \<Rightarrow> liquidation_pair" where
  "accruing_until p now =
     p\<lparr>debt_accrual_bps := fst (accrual_since_update_bps (borrow_pool p) now),
       supply_accrual_bps := snd (accrual_since_update_bps (collateral_pool p) now)\<rparr>"

definition with_margin :: "liquidation_pair \<Rightarrow> clearing_margin \<Rightarrow> liquidation_pair" where
  "with_margin p m = p\<lparr>margin := m\<rparr>"

definition supplied_tokens :: "liquidation_pair \<Rightarrow> i128 lm" where
  "supplied_tokens p = j_tokens_to_tokens_floor (collateral_pool p) (j_tokens (deposit p))"

definition position_collateral :: "liquidation_pair \<Rightarrow> i128 lm" where
  "position_collateral p =
     bindr (supplied_tokens p) (\<lambda>t. m_ou (checked_add t (collateral (deposit p))))"

definition dust_floor :: "liquidation_pair \<Rightarrow> i128 lm" where
  "dust_floor p =
     bindr (m_ou (checked_pow10 (pair_price_decimals p))) (\<lambda>f.
     bindr (m_ou (checked_mul (pair_min_cents p) f)) (\<lambda>v. m_ou (checked_div v 100)))"

definition is_small_position :: "liquidation_pair \<Rightarrow> bool lm" where
  "is_small_position p =
     bindr (dust_floor p) (\<lambda>floor.
     bindr (m_ou (checked_mul floor 2)) (\<lambda>small.
     bindr (position_collateral p) (\<lambda>pc.
     bindr (value_floor pc (collateral_pool p)) (\<lambda>v.
     if v < small then Ok True
     else bindr (value_ceil (position_debt p) (borrow_pool p)) (\<lambda>v. Ok (v < small))))))"

definition leaves_dust :: "liquidation_pair \<Rightarrow> i128 \<Rightarrow> i128 \<Rightarrow> bool lm" where
  "leaves_dust p collateral_left debt_left =
     (if collateral_left \<le> 0 \<or> debt_left \<le> 0 then Ok False
      else bindr (dust_floor p) (\<lambda>floor.
           bindr (value_floor collateral_left (collateral_pool p)) (\<lambda>v.
           if v < floor then Ok True
           else bindr (value_ceil debt_left (borrow_pool p)) (\<lambda>v. Ok (v < floor)))))"

definition lifts_close_factor :: "liquidation_pair \<Rightarrow> bool lm" where
  "lifts_close_factor p =
     (if is_insolvent p then Ok True
      else if rules p = NoDust then is_small_position p else Ok False)"

definition incentive_bps :: "liquidation_pair \<Rightarrow> i128" where
  "incentive_bps p = min (max_liquidation_incentive_bps (borrow_pool p))
                         (max_liquidation_incentive_bps (collateral_pool p))"

definition whole_position_repay :: "liquidation_pair \<Rightarrow> i128 \<Rightarrow> i128 lm" where
  "whole_position_repay p pc =
     bindr (m_ou (checked_add BPS_FACTOR (incentive_bps p))) (\<lambda>incentive_factor.
     bindr (value_ceil pc (collateral_pool p)) (\<lambda>v.
     bindr (m_ou (checked_mul v BPS_FACTOR)) (\<lambda>v.
     bindr (raw_sub incentive_factor 1) (\<lambda>i1.
     bindr (m_ou (checked_add v i1)) (\<lambda>v.
     bindr (m_ou (checked_div v incentive_factor)) (\<lambda>v.
     amount_ceil v (borrow_pool p)))))))"

definition buys :: "liquidation_pair \<Rightarrow> i128 \<Rightarrow> bool \<Rightarrow> i128 lm" where
  "buys p repaid lifted =
     bindr (value_floor repaid (borrow_pool p)) (\<lambda>repaid_value.
     bindr (amount_floor repaid_value (collateral_pool p)) (\<lambda>a.
     bindr (m_ou (checked_add BPS_FACTOR (incentive_bps p))) (\<lambda>f.
     bindr (m_ou (checked_mul a f)) (\<lambda>v.
     bindr (m_ou (checked_div v BPS_FACTOR)) (\<lambda>with_incentive.
     if lifted then Ok with_incentive
     else if obligation_debt_value p \<le> 0 \<or> obligation_collateral_value p \<le> 0 then Ok 0
     else
     bindr (m_ou (checked_mul repaid_value (obligation_collateral_value p))) (\<lambda>v.
     bindr (m_ou (checked_div v (obligation_debt_value p))) (\<lambda>v.
     bindr (m_ou (checked_mul v 999)) (\<lambda>v.
     bindr (m_ou (checked_div v 1000)) (\<lambda>ltv_improving_value.
     bindr (amount_floor ltv_improving_value (collateral_pool p)) (\<lambda>a.
     Ok (min with_incentive a)))))))))))"

definition over_close_factor :: "liquidation_pair \<Rightarrow> i128 \<Rightarrow> bool lm" where
  "over_close_factor p repaid =
     bindr (m_ou (checked_mul repaid BPS_FACTOR)) (\<lambda>v.
     bindr (raw_sub (position_debt p) 1) (\<lambda>d1.
     bindr (m_ou (checked_add v d1)) (\<lambda>v.
     bindr (m_ou (checked_div v (position_debt p))) (\<lambda>repaid_bps.
     Ok (repaid_bps > liquidation_close_factor_bps (borrow_pool p))))))"

definition charged :: "liquidation_pair \<Rightarrow> i128 \<Rightarrow> i128 \<Rightarrow> i128 \<Rightarrow> i128 lm" where
  "charged p pc seized repaid =
     bindr (if seized = pc then is_small_position p else Ok False) (\<lambda>whole.
     if whole then bindr (whole_position_repay p pc) (\<lambda>w. Ok (min repaid w)) else Ok repaid)"

definition quote_no_dust :: "liquidation_pair \<Rightarrow> i128 \<Rightarrow> seizure lm" where
  "quote_no_dust p repay =
     bindr (position_collateral p) (\<lambda>pc.
     if repay \<le> 0 \<or> position_debt p \<le> 0 \<or> pc \<le> 0 \<or>
        oracle_asset_price (borrow_pool p) \<le> 0 \<or> oracle_asset_price (collateral_pool p) \<le> 0
     then Ok (Accepted 0 0)
     else
     bindr (lifts_close_factor p) (\<lambda>lifted.
     let repaid = min repay (position_debt p) in
     bindr (if lifted then Ok False else over_close_factor p repaid) (\<lambda>over.
     if over then Ok OverCloseFactor
     else
     bindr (buys p repaid lifted) (\<lambda>bought.
     let seized = min pc bought in
     bindr (charged p pc seized repaid) (\<lambda>repaid.
     bindr (raw_sub pc seized) (\<lambda>collateral_left.
     bindr (raw_sub (position_debt p) repaid) (\<lambda>debt_left.
     bindr (leaves_dust p collateral_left debt_left) (\<lambda>dust.
     if dust then Ok LeavesDust else Ok (Accepted seized repaid)))))))))"

definition quote :: "liquidation_pair \<Rightarrow> i128 \<Rightarrow> seizure lm" where
  "quote p repay =
     (case rules p of
        Sweep \<Rightarrow>
          bindr (compute_expected_seized_collateral repay (borrow_pool p) (collateral_pool p)
                   (deposit p) (obligation_debt_value p) (obligation_collateral_value p)
                   (is_insolvent p) (pair_min_cents p) (pair_price_decimals p)) (\<lambda>seized.
          Ok (Accepted seized repay))
      | NoDust \<Rightarrow> quote_no_dust p repay)"

definition accepts :: "liquidation_pair \<Rightarrow> i128 \<Rightarrow> bool lm" where
  "accepts p offer = bindr (quote p offer) (\<lambda>s. Ok (is_accepted s))"

subsection \<open>The clearing offer\<close>

text \<open>The loop of \<open>repay_buying\<close>.  The bounds start at 1 and at most \<open>i128::MAX\<close> and only come
  closer, so the sums on the loop's indices cannot overflow.\<close>

lemma halving:
  assumes "low < (high::int)"
  shows "low \<le> low + (high - low) sdiv 2 \<and> low + (high - low) sdiv 2 < high"
    "low < low + (high - low + 1) sdiv 2 \<and> low + (high - low + 1) sdiv 2 \<le> high"
  using assms by (auto simp: sdiv_nonneg_eq_div)

function repay_buying_loop :: "(i128 \<Rightarrow> i128 lm) \<Rightarrow> i128 \<Rightarrow> i128 \<Rightarrow> i128 \<Rightarrow> i128 lm" where
  "repay_buying_loop bought target low high =
     (if low < high then
        let mid = low + (high - low) sdiv 2 in
        bindr (bought mid) (\<lambda>b.
          if b \<ge> target then repay_buying_loop bought target low mid
          else repay_buying_loop bought target (mid + 1) high)
      else Ok high)"
  by pat_completeness auto
termination
  by (relation "measure (\<lambda>(f, t, low, high). nat (high - low))") (auto dest: halving(1))

declare repay_buying_loop.simps [simp del]

definition repay_buying :: "liquidation_pair \<Rightarrow> bool \<Rightarrow> i128 \<Rightarrow> i128 \<Rightarrow> i128 option lm" where
  "repay_buying p lifted target debt =
     bindr (buys p debt lifted) (\<lambda>b.
     if b < target then Ok None
     else map_ok Some (repay_buying_loop (\<lambda>r. buys p r lifted) target 1 debt))"

definition grown :: "i128 \<Rightarrow> i128 \<Rightarrow> i128 lm" where
  "grown amount bps = m_ou (checked_add amount (fixed_mul_ceil amount bps))"

definition clearing_of :: "liquidation_pair \<Rightarrow> clearing option lm" where
  "clearing_of p =
     bindr (position_collateral p) (\<lambda>pc.
     let debt = position_debt p in
     if debt \<le> 0 \<or> pc \<le> 0 then Ok None
     else
     bindr (lifts_close_factor p) (\<lambda>lifted.
     bindr (grown debt (debt_accrual_bps p)) (\<lambda>grown_debt.
     bindr (supplied_tokens p) (\<lambda>t.
     bindr (grown t (supply_accrual_bps p)) (\<lambda>gt.
     bindr (m_ou (checked_add (collateral (deposit p)) gt)) (\<lambda>grown_collateral.
     bindr (repay_buying p lifted grown_collateral grown_debt) (\<lambda>found.
     bindr (case found of
              Some repay \<Rightarrow>
                bindr (is_small_position p) (\<lambda>small.
                if small then grown repay (refunded_bps (margin p))
                else grown repay (unrefunded_bps (margin p)))
            | None \<Rightarrow> grown grown_debt (refunded_bps (margin p))) (\<lambda>offer.
     bindr (repay_buying p lifted pc debt) (\<lambda>at.
     Ok (Some \<lparr>at_snapshot = (case at of None \<Rightarrow> debt | Some r \<Rightarrow> r),
               clearing_offer = offer\<rparr>))))))))))"

subsection \<open>The largest partial repay\<close>

definition keeps_both_sides :: "liquidation_pair \<Rightarrow> i128 \<Rightarrow> bool \<Rightarrow> i128 \<Rightarrow> i128 \<Rightarrow> bool lm" where
  "keeps_both_sides p pc lifted floor repay =
     (let debt = position_debt p; repaid = min repay debt in
      bindr (buys p repaid lifted) (\<lambda>b.
      bindr (raw_sub pc (min pc b)) (\<lambda>collateral_left.
      bindr (raw_sub debt repaid) (\<lambda>debt_left.
      if \<not> (collateral_left > 0 \<and> debt_left > 0) then Ok False
      else bindr (value_floor collateral_left (collateral_pool p)) (\<lambda>v.
        if \<not> v \<ge> floor then Ok False
        else bindr (value_ceil debt_left (borrow_pool p)) (\<lambda>v. Ok (v \<ge> floor)))))))"

function largest_loop :: "(i128 \<Rightarrow> bool lm) \<Rightarrow> i128 \<Rightarrow> i128 \<Rightarrow> i128 lm" where
  "largest_loop keeps low high =
     (if low < high then
        let mid = low + (high - low + 1) sdiv 2 in
        bindr (keeps mid) (\<lambda>k.
          if k then largest_loop keeps mid high else largest_loop keeps low (mid - 1))
      else Ok low)"
  by pat_completeness auto
termination
  by (relation "measure (\<lambda>(f, low, high). nat (high - low))") (auto dest: halving(2))

declare largest_loop.simps [simp del]

definition largest_partial_repay :: "liquidation_pair \<Rightarrow> i128 \<Rightarrow> i128 option lm" where
  "largest_partial_repay p upper =
     bindr (position_collateral p) (\<lambda>pc.
     bindr (lifts_close_factor p) (\<lambda>lifted.
     bindr (dust_floor p) (\<lambda>floor.
     if upper < 1 then Ok None
     else
     bindr (keeps_both_sides p pc lifted floor 1) (\<lambda>k.
     if \<not> k then Ok None
     else
     bindr (largest_loop (keeps_both_sides p pc lifted floor) 1 upper) (\<lambda>low.
     bindr (accepts p low) (\<lambda>a. Ok (if a then Some low else None)))))))"

subsection \<open>Fitting and judging a repay\<close>

definition planned_or_clearing :: "liquidation_pair \<Rightarrow> i128 \<Rightarrow> i128 \<Rightarrow> clearing option \<Rightarrow> i128 option lm" where
  "planned_or_clearing p repay max_offer cl =
     (case cl of
        Some clear \<Rightarrow>
          if repay \<ge> at_snapshot clear then
            let offer = min (max repay (clearing_offer clear)) max_offer in
            bindr (accepts p offer) (\<lambda>a. Ok (if a then Some offer else None))
          else
            bindr (accepts p repay) (\<lambda>a.
            if a then Ok (Some repay)
            else if clearing_offer clear \<le> max_offer then
              bindr (accepts p (clearing_offer clear)) (\<lambda>a.
              Ok (if a then Some (clearing_offer clear) else None))
            else Ok None)
      | None \<Rightarrow> bindr (accepts p repay) (\<lambda>a. Ok (if a then Some repay else None)))"

definition fit_repay :: "liquidation_pair \<Rightarrow> i128 \<Rightarrow> i128 \<Rightarrow> i128 option lm" where
  "fit_repay p repay max_offer =
     (if rules p = Sweep then Ok (Some repay)
      else
      bindr (clearing_of p) (\<lambda>cl.
      bindr (planned_or_clearing p repay max_offer cl) (\<lambda>found.
      case found of
        Some offer \<Rightarrow> Ok (Some offer)
      | None \<Rightarrow> largest_partial_repay p (min repay max_offer))))"

fun or_default :: "'a \<Rightarrow> ('e, 'a) outcome \<Rightarrow> ('d, 'a) outcome" where
  "or_default d (Ok x) = Ok x"
| "or_default d (Err e) = Ok d"
| "or_default d Panic = Panic"

definition direct_repay :: "liquidation_pair \<Rightarrow> i128 \<Rightarrow> i128 option lm" where
  "direct_repay p min_profit_margin_cents =
     bindr (lifts_close_factor p) (\<lambda>lifted.
     let max_feasible = min (position_debt p)
           (compute_close_factor_repay_cap lifted (position_debt p)
              (liquidation_close_factor_bps (borrow_pool p))) in
     bindr (position_collateral p) (\<lambda>pc.
     if max_feasible \<le> 0 \<or> pc \<le> 0 then Ok None
     else
     bindr (or_default 0 (compute_profit_margin_in_borrow_token min_profit_margin_cents
              (pair_price_decimals p) (borrow_pool p))) (\<lambda>mgn.
     bindr (ok_of (compute_repay_cap_from_collateral (\<not> lifted) (borrow_pool p) max_feasible
              (collateral_pool p) pc (obligation_debt_value p) mgn
              (obligation_collateral_value p))) (\<lambda>cap.
     case cap of
       None \<Rightarrow> Ok None
     | Some max_profitable \<Rightarrow>
         if max_profitable > 0 then fit_repay p max_profitable i128_max else Ok None))))"

definition oracle_value :: "i128 \<Rightarrow> pool_data \<Rightarrow> i128" where
  "oracle_value amount pool =
     saturating_div (saturating_mul amount (oracle_asset_price pool))
       (saturating_pow10 (token_decimals pool))"

definition margin_value_saturating :: "i128 \<Rightarrow> nat \<Rightarrow> i128" where
  "margin_value_saturating cents price_decimals =
     saturating_div (saturating_mul cents (saturating_pow10 price_decimals)) 100"

definition nets_more_than :: "liquidation_pair \<Rightarrow> i128 \<Rightarrow> i128 \<Rightarrow> i128 \<Rightarrow> bool" where
  "nets_more_than p seized repaid min_profit_margin_cents =
     (case compute_liquidation_profitability (oracle_value seized (collateral_pool p))
             (oracle_value repaid (borrow_pool p))
             (margin_value_saturating min_profit_margin_cents (pair_price_decimals p)) of
        Ok pr \<Rightarrow> is_acceptable pr
      | Err e \<Rightarrow> False
      | Panic \<Rightarrow> False)"

section \<open>Prices, exactly\<close>

lemma token_factor_Ok_iff [simp]: "token_factor pool = Ok f \<longleftrightarrow> token_decimals pool \<le> 38 \<and> f = 10 ^ token_decimals pool"
  by (auto simp: token_factor_def)

lemma token_factor_not_Panic [simp]: "token_factor pool \<noteq> Panic"
  by (simp add: token_factor_def)

lemma value_floor_Ok:
  "0 \<le> a \<Longrightarrow> 0 \<le> oracle_asset_price pool \<Longrightarrow> value_floor a pool = Ok v \<Longrightarrow>
     v = floor_div (a * oracle_asset_price pool) (10 ^ token_decimals pool)"
  by (auto simp: value_floor_def sdiv_eq_floor_div)

lemma value_ceil_Ok:
  "0 \<le> a \<Longrightarrow> 0 \<le> oracle_asset_price pool \<Longrightarrow> value_ceil a pool = Ok v \<Longrightarrow>
     v = ceil_div (a * oracle_asset_price pool) (10 ^ token_decimals pool)"
  by (auto simp: value_ceil_def sdiv_eq_ceil_div)

lemma amount_floor_Ok:
  "0 \<le> v \<Longrightarrow> 0 < oracle_asset_price pool \<Longrightarrow> amount_floor v pool = Ok a \<Longrightarrow>
     a = floor_div (v * 10 ^ token_decimals pool) (oracle_asset_price pool)"
  by (auto simp: amount_floor_def sdiv_eq_floor_div)

text \<open>A product that fits the type fits it for every smaller non-negative factor, and the quotients
  follow: the price conversions are defined below any amount they are defined for, and monotone.\<close>

lemma mul_div_down:
  assumes "0 \<le> a'" "a' \<le> a" "0 \<le> c" "0 < d" "in_i128 (a * c)" "in_i128 ((a * c) sdiv d)"
  shows "in_i128 (a' * c) \<and> in_i128 ((a' * c) sdiv d) \<and> 0 \<le> (a' * c) sdiv d \<and>
         (a' * c) sdiv d \<le> (a * c) sdiv d"
proof -
  have le: "0 \<le> a' * c" "a' * c \<le> a * c" using assms by (auto intro: mult_right_mono)
  then have q: "0 \<le> (a' * c) sdiv d" "(a' * c) sdiv d \<le> (a * c) sdiv d"
    using assms by (auto intro: sdiv_mono)
  with le assms show ?thesis by (auto intro: in_i128_nonneg_le)
qed

lemma value_floor_mono:
  assumes "value_floor a pool = Ok v" "0 \<le> a'" "a' \<le> a" "0 \<le> oracle_asset_price pool"
  shows "\<exists>v'. value_floor a' pool = Ok v' \<and> 0 \<le> v' \<and> v' \<le> v"
  using assms mul_div_down [of a' a "oracle_asset_price pool" "10 ^ token_decimals pool"]
  by (auto simp: value_floor_def)

lemma amount_floor_mono:
  assumes "amount_floor v pool = Ok a" "0 \<le> v'" "v' \<le> v" "0 < oracle_asset_price pool"
  shows "\<exists>a'. amount_floor v' pool = Ok a' \<and> 0 \<le> a' \<and> a' \<le> a"
  using assms mul_div_down [of v' v "10 ^ token_decimals pool" "oracle_asset_price pool"]
  by (auto simp: amount_floor_def)

section \<open>What a repay buys\<close>

text \<open>A pair the market prices: both oracle prices are positive and the incentive is not a discount.\<close>

definition wf_pair :: "liquidation_pair \<Rightarrow> bool" where
  "wf_pair p \<longleftrightarrow> 0 < oracle_asset_price (borrow_pool p) \<and> 0 < oracle_asset_price (collateral_pool p) \<and>
     0 \<le> incentive_bps p \<and> in_i128 (oracle_asset_price (borrow_pool p))"

lemma mul_const_div_down:
  assumes "0 \<le> a'" "a' \<le> (a::int)" "0 \<le> c" "0 < d" "in_i128 (a * c)" "in_i128 ((a * c) sdiv d)"
  obtains q where "in_i128 (a' * c)" "in_i128 ((a' * c) sdiv d)" "q = (a' * c) sdiv d" "0 \<le> q"
    "q \<le> (a * c) sdiv d"
  using mul_div_down [OF assms] by blast

lemma buys_mono:
  assumes wf: "wf_pair p" and b: "buys p r lifted = Ok x" and r: "0 \<le> r'" "r' \<le> r"
  shows "\<exists>x'. buys p r' lifted = Ok x' \<and> 0 \<le> x' \<and> x' \<le> x"
proof -
  let ?bp = "borrow_pool p" and ?cp = "collateral_pool p" and ?f = "BPS_FACTOR + incentive_bps p"
  let ?oc = "obligation_collateral_value p" and ?od = "obligation_debt_value p"
  have price: "0 < oracle_asset_price ?bp" "0 < oracle_asset_price ?cp" and f: "0 \<le> ?f"
    using wf by (simp_all add: wf_pair_def)
  from b obtain v a where v: "value_floor r ?bp = Ok v" and a: "amount_floor v ?cp = Ok a"
    and wi: "in_i128 ?f" "in_i128 (a * ?f)" "in_i128 ((a * ?f) sdiv BPS_FACTOR)"
    by (auto simp: buys_def)
  obtain v' where v': "value_floor r' ?bp = Ok v'" "0 \<le> v'" "v' \<le> v"
    using value_floor_mono [OF v r] price by auto
  obtain a' where a': "amount_floor v' ?cp = Ok a'" "0 \<le> a'" "a' \<le> a"
    using amount_floor_mono [OF a v'(2,3)] price by auto
  obtain w where w: "in_i128 (a' * ?f)" "in_i128 ((a' * ?f) sdiv BPS_FACTOR)"
      "w = (a' * ?f) sdiv BPS_FACTOR" "0 \<le> w" "w \<le> (a * ?f) sdiv BPS_FACTOR"
    using mul_const_div_down [OF a'(2,3) f BPS_FACTOR_pos(1) wi(2,3)] by blast
  show ?thesis
  proof (cases "lifted \<or> ?od \<le> 0 \<or> ?oc \<le> 0")
    case True
    then show ?thesis using b v a v' a' wi w by (auto simp: buys_def)
  next
    case False
    with b v a obtain l where
      m: "in_i128 (v * ?oc)" "in_i128 ((v * ?oc) sdiv ?od)" "in_i128 ((v * ?oc) sdiv ?od * 999)"
        "in_i128 (((v * ?oc) sdiv ?od * 999) sdiv 1000)"
      and l: "amount_floor (((v * ?oc) sdiv ?od * 999) sdiv 1000) ?cp = Ok l"
      and x: "x = min ((a * ?f) sdiv BPS_FACTOR) l"
      by (auto simp: buys_def)
    obtain q where q: "in_i128 (v' * ?oc)" "in_i128 ((v' * ?oc) sdiv ?od)" "q = (v' * ?oc) sdiv ?od"
        "0 \<le> q" "q \<le> (v * ?oc) sdiv ?od"
      using mul_const_div_down [OF v'(2,3) _ _ m(1,2)] False by auto
    obtain z where z: "in_i128 (q * 999)" "in_i128 ((q * 999) sdiv 1000)" "z = (q * 999) sdiv 1000"
        "0 \<le> z" "z \<le> ((v * ?oc) sdiv ?od * 999) sdiv 1000"
      using mul_const_div_down [OF q(4,5) _ _ m(3,4)] by auto
    obtain l' where l': "amount_floor z ?cp = Ok l'" "0 \<le> l'" "l' \<le> l"
      using amount_floor_mono [OF l z(4,5)] price by auto
    have "buys p r' lifted = Ok (min w l')"
      using False v' a' wi(1) w q z l' by (auto simp: buys_def)
    then show ?thesis using w l' x by auto
  qed
qed

section \<open>Searching a monotone operation\<close>

text \<open>The contract the first binary search relies on: an operation that, where it succeeds, succeeds
  below with a smaller result.\<close>

locale monotone_search =
  fixes wf :: "'p \<Rightarrow> bool" and bought :: "'p \<Rightarrow> i128 \<Rightarrow> i128 lm"
  assumes mono: "wf p \<Longrightarrow> bought p r = Ok x \<Longrightarrow> 0 \<le> r' \<Longrightarrow> r' \<le> r \<Longrightarrow>
    \<exists>x'. bought p r' = Ok x' \<and> 0 \<le> x' \<and> x' \<le> x"
begin

text \<open>The search returns, and returns the least argument that reaches the target.\<close>

lemma search_least:
  assumes "wf p" "1 \<le> low" "low \<le> high" "bought p high = Ok b" "target \<le> b"
    "\<forall>r. 1 \<le> r \<and> r < low \<longrightarrow> (\<exists>x < target. bought p r = Ok x)"
  shows "\<exists>r. repay_buying_loop (bought p) target low high = Ok r \<and> low \<le> r \<and> r \<le> high \<and>
    (\<exists>x \<ge> target. bought p r = Ok x) \<and> (\<forall>r'. 1 \<le> r' \<and> r' < r \<longrightarrow> (\<exists>x < target. bought p r' = Ok x))"
  using assms
proof (induction "bought p" target low high arbitrary: b rule: repay_buying_loop.induct)
  case (1 target low high)
  show ?case
  proof (cases "low < high")
    case False
    with 1 show ?thesis by (subst repay_buying_loop.simps) auto
  next
    case True
    define mid where "mid = low + (high - low) sdiv 2"
    have mid: "low \<le> mid" "mid < high" using halving(1) [OF True] by (simp_all add: mid_def)
    obtain bm where bm: "bought p mid = Ok bm" using mono [OF 1(3) 1(6), of mid] mid 1(4) by auto
    have below: "\<exists>x < target. bought p r = Ok x" if "bm < target" "1 \<le> r" "r < mid + 1" for r
      using mono [OF 1(3) bm, of r] that by force
    show ?thesis
      using 1(1) [OF True mid_def bm _ 1(3,4) mid(1) bm] 1(2) [OF True mid_def bm _ 1(3) _ _ 1(6,7)]
        1(4,8) True mid bm below
      by (subst repay_buying_loop.simps) (cases "target \<le> bm"; simp add: Let_def flip: mid_def; fastforce)
  qed
qed

end

interpretation bought: monotone_search "\<lambda>q. wf_pair (fst q)" "\<lambda>q r. buys (fst q) r (snd q)"
  by unfold_locales (rule buys_mono)

text \<open>The contract of the second search: a test that, once it has failed, does not succeed above.\<close>

locale antitone_search =
  fixes wf :: "'p \<Rightarrow> bool" and keeps :: "'p \<Rightarrow> i128 \<Rightarrow> bool lm"
  assumes anti: "wf p \<Longrightarrow> 0 \<le> r \<Longrightarrow> r \<le> r' \<Longrightarrow> keeps p r = Ok False \<Longrightarrow> keeps p r' \<noteq> Ok True"
begin

lemma search_greatest:
  assumes "largest_loop (keeps p) low high = Ok r" "low \<le> high" "keeps p low = Ok True"
    "high < upper \<longrightarrow> keeps p (high + 1) = Ok False"
  shows "low \<le> r \<and> r \<le> high \<and> keeps p r = Ok True \<and> (r < upper \<and> high \<le> upper \<longrightarrow> r = upper \<or> keeps p (r + 1) = Ok False)"
  using assms
proof (induction "keeps p" low high rule: largest_loop.induct)
  case (1 low high)
  show ?case
  proof (cases "low < high")
    case False
    with 1(3-) show ?thesis by (subst (asm) largest_loop.simps) auto
  next
    case True
    define mid where "mid = low + (high - low + 1) sdiv 2"
    have mid: "low < mid" "mid \<le> high" using halving(2) [OF True] by (simp_all add: mid_def)
    obtain k where k: "keeps p mid = Ok k" and
      rest: "(if k then largest_loop (keeps p) mid high else largest_loop (keeps p) low (mid - 1)) = Ok r"
      using 1(3) True by (subst (asm) largest_loop.simps) (auto simp: Let_def simp flip: mid_def)
    show ?thesis
    proof (cases k)
      case True
      with 1(1) [OF \<open>low < high\<close> mid_def k True] rest mid k 1(6) show ?thesis by auto
    next
      case False
      with 1(2) [OF \<open>low < high\<close> mid_def k False] rest mid k 1(5) show ?thesis by auto
    qed
  qed
qed

lemma search_greatest_top:
  assumes "wf p" "largest_loop (keeps p) 1 upper = Ok r" "1 \<le> upper" "keeps p 1 = Ok True"
  shows "1 \<le> r \<and> r \<le> upper \<and> keeps p r = Ok True \<and> (\<forall>r'. r < r' \<and> r' \<le> upper \<longrightarrow> keeps p r' \<noteq> Ok True)"
proof -
  have r: "1 \<le> r" "r \<le> upper" "keeps p r = Ok True" "r < upper \<longrightarrow> keeps p (r + 1) = Ok False"
    using search_greatest [OF assms(2-4), of upper] by auto
  then show ?thesis using anti [OF assms(1), of "r + 1"] by force
qed

end

lemma value_ceil_mono:
  assumes "value_ceil a pool = Ok v" "value_ceil a' pool = Ok v'" "0 \<le> a'" "a' \<le> a"
    "0 \<le> oracle_asset_price pool"
  shows "v' \<le> v"
  using assms value_ceil_Ok [of a pool v] value_ceil_Ok [of a' pool v']
  by (simp add: ceil_div_mono mult_right_mono)

lemma keeps_both_sides_True:
  "keeps_both_sides p pc lifted floor r = Ok True \<Longrightarrow>
     (\<exists>b v w. buys p (min r (position_debt p)) lifted = Ok b \<and> b < pc \<and> in_i128 (pc - b) \<and>
        r < position_debt p \<and> in_i128 (position_debt p - r) \<and>
        value_floor (pc - b) (collateral_pool p) = Ok v \<and> floor \<le> v \<and>
        value_ceil (position_debt p - r) (borrow_pool p) = Ok w \<and> floor \<le> w)"
  by (auto simp: keeps_both_sides_def Let_def min_def not_less split: if_splits)

lemma keeps_both_sides_anti:
  assumes wf: "wf_pair p" and r: "0 \<le> r" "r \<le> r'"
    and f: "keeps_both_sides p pc lifted floor r = Ok False"
  shows "keeps_both_sides p pc lifted floor r' \<noteq> Ok True"
proof
  assume "keeps_both_sides p pc lifted floor r' = Ok True"
  then obtain b' v' w' where b': "buys p (min r' (position_debt p)) lifted = Ok b'" "b' < pc"
    "in_i128 (pc - b')" and d': "r' < position_debt p"
    and v': "value_floor (pc - b') (collateral_pool p) = Ok v'" "floor \<le> v'"
    and w': "value_ceil (position_debt p - r') (borrow_pool p) = Ok w'" "floor \<le> w'"
    by (auto dest!: keeps_both_sides_True)
  have pos: "0 \<le> oracle_asset_price (collateral_pool p)" "0 \<le> oracle_asset_price (borrow_pool p)"
    using wf by (simp_all add: wf_pair_def)
  obtain b where b: "buys p r lifted = Ok b" "b \<le> b'"
    using buys_mono [OF wf, of r' lifted b' r] b' d' r by (auto simp: min_def)
  from f b b' d' r obtain v where v: "value_floor (pc - b) (collateral_pool p) = Ok v"
    and low: "v < floor \<or> (\<exists>w. value_ceil (position_debt p - r) (borrow_pool p) = Ok w \<and> w < floor)"
    by (auto simp: keeps_both_sides_def Let_def min_def not_le split: if_splits)
  have "v' \<le> v" using value_floor_mono [OF v, of "pc - b'"] v'(1) b b' pos by auto
  moreover have "w' \<le> w" if "value_ceil (position_debt p - r) (borrow_pool p) = Ok w" for w
    using value_ceil_mono [OF that w'(1)] d' r pos by simp
  ultimately show False using low v' w' by force
qed

interpretation kept: antitone_search "\<lambda>(p, q). wf_pair p"
  "\<lambda>(p, pc, lifted, floor) r. keeps_both_sides p pc lifted floor r"
  by unfold_locales (auto dest: keeps_both_sides_anti)

section \<open>Quotes\<close>

lemma leaves_dust_False:
  assumes "leaves_dust p cl dl = Ok False" "0 < cl" "0 < dl"
  shows "\<exists>f v w. dust_floor p = Ok f \<and> value_floor cl (collateral_pool p) = Ok v \<and> f \<le> v \<and>
    value_ceil dl (borrow_pool p) = Ok w \<and> f \<le> w"
  using assms by (auto simp: leaves_dust_def not_less split: if_splits)

lemma over_close_factor_False:
  assumes "over_close_factor p r = Ok False" "0 < position_debt p" "0 \<le> r"
  shows "r * BPS_FACTOR \<le> liquidation_close_factor_bps (borrow_pool p) * position_debt p"
  using assms by (auto simp: over_close_factor_def not_less sdiv_eq_ceil_div ceil_div_le)

lemma charged_Ok:
  "charged p pc s r = Ok r' \<Longrightarrow>
     r' \<le> r \<and> (r' = r \<or> s = pc \<and> is_small_position p = Ok True \<and> whole_position_repay p pc = Ok r')"
  by (auto simp: charged_def min_def split: if_splits)

lemma accepts_Ok_iff [simp]: "accepts p r = Ok a \<longleftrightarrow> (\<exists>s. quote p r = Ok s \<and> a = is_accepted s)"
  by (auto simp: accepts_def)

lemma is_accepted_iff: "is_accepted s \<longleftrightarrow> (\<exists>x y. s = Accepted x y)"
  by (cases s) auto

text \<open>A positive offer on priced positions.\<close>

definition live_offer :: "liquidation_pair \<Rightarrow> i128 \<Rightarrow> i128 \<Rightarrow> bool" where
  "live_offer p pc repay \<longleftrightarrow> position_collateral p = Ok pc \<and> 0 < pc \<and> 0 < repay \<and> 0 < position_debt p \<and>
     0 < oracle_asset_price (borrow_pool p) \<and> 0 < oracle_asset_price (collateral_pool p)"

lemma quote_no_dust_Accepted:
  assumes live: "live_offer p pc repay" and q: "quote_no_dust p repay = Ok (Accepted s r)"
  shows "\<exists>lifted b. lifts_close_factor p = Ok lifted \<and> buys p (min repay (position_debt p)) lifted = Ok b \<and>
    s = min pc b \<and> r \<le> min repay (position_debt p) \<and>
    (\<not> lifted \<longrightarrow> min repay (position_debt p) * BPS_FACTOR
        \<le> liquidation_close_factor_bps (borrow_pool p) * position_debt p) \<and>
    (r = min repay (position_debt p) \<or> s = pc \<and> is_small_position p = Ok True) \<and>
    leaves_dust p (pc - s) (position_debt p - r) = Ok False"
proof -
  have pc: "position_collateral p = Ok pc" "\<not> (repay \<le> 0 \<or> position_debt p \<le> 0 \<or> pc \<le> 0 \<or>
      oracle_asset_price (borrow_pool p) \<le> 0 \<or> oracle_asset_price (collateral_pool p) \<le> 0)"
    using live by (auto simp: live_offer_def)
  let ?r = "min repay (position_debt p)"
  from q obtain lifted b where
    "lifts_close_factor p = Ok lifted" "lifted \<or> over_close_factor p ?r = Ok False"
    "buys p ?r lifted = Ok b" "charged p pc (min pc b) ?r = Ok r" "s = min pc b"
    "leaves_dust p (pc - min pc b) (position_debt p - r) = Ok False"
    unfolding quote_no_dust_def Let_def pc(1) bindr.simps if_not_P [OF pc(2)]
    by (elim bindr_okE) (force split: if_splits)
  then show ?thesis
    using over_close_factor_False [of p ?r] pc(2) by (auto dest!: charged_Ok)
qed

lemma lifts_close_factor_False:
  "lifts_close_factor p = Ok False \<Longrightarrow> rules p = NoDust \<Longrightarrow> is_small_position p = Ok False"
  by (auto simp: lifts_close_factor_def split: if_splits)

text \<open>Without the lift, what a repay buys is capped by the value that keeps the obligation's ratio
  of collateral to debt.\<close>

lemma buys_unlifted_value:
  assumes wf: "wf_pair p" and r: "0 \<le> r" and b: "buys p r False = Ok b"
    and od: "0 < obligation_debt_value p" and oc: "0 < obligation_collateral_value p"
  shows "b * oracle_asset_price (collateral_pool p) * obligation_debt_value p * 10 ^ token_decimals (borrow_pool p)
    \<le> r * oracle_asset_price (borrow_pool p) * obligation_collateral_value p * 10 ^ token_decimals (collateral_pool p)"
proof -
  let ?od = "obligation_debt_value p" and ?oc = "obligation_collateral_value p"
  let ?pb = "oracle_asset_price (borrow_pool p)" and ?pc = "oracle_asset_price (collateral_pool p)"
  let ?kb = "10 ^ token_decimals (borrow_pool p)" and ?kc = "10 ^ token_decimals (collateral_pool p)"
  have pr: "0 < ?pb" "0 < ?pc" using wf by (simp_all add: wf_pair_def)
  from b od oc obtain v l where v: "value_floor r (borrow_pool p) = Ok v"
    and l: "amount_floor (((v * ?oc) sdiv ?od * 999) sdiv 1000) (collateral_pool p) = Ok l" and bl: "b \<le> l"
    by (auto simp: buys_def)
  have v_eq: "v = floor_div (r * ?pb) ?kb" using value_floor_Ok [OF r _ v] pr by simp
  have v0: "0 \<le> v" using r pr v_eq by simp
  define q where "q = floor_div (v * ?oc) ?od"
  define z where "z = floor_div (q * 999) 1000"
  have q0: "0 \<le> q" using v0 od oc by (simp add: q_def)
  have z0: "0 \<le> z" using q0 by (simp add: z_def)
  have "(v * ?oc) sdiv ?od = q" using v0 od oc by (simp add: q_def sdiv_eq_floor_div)
  moreover have "(q * 999) sdiv 1000 = z" using q0 by (simp add: z_def sdiv_eq_floor_div)
  ultimately have l_eq: "l = floor_div (z * ?kc) ?pc" using amount_floor_Ok [of z] l z0 pr by simp
  have "z * 1000 \<le> q * 999" unfolding z_def by (rule floor_div_below) simp
  then have zq: "z \<le> q" using q0 by linarith
  have "b * ?pc \<le> z * ?kc"
    using floor_div_below [OF pr(2), of "z * ?kc"] bl pr
    by (simp add: l_eq order_trans [OF mult_right_mono])
  then have "b * ?pc * (?od * ?kb) \<le> z * ?kc * (?od * ?kb)"
    using od by (intro mult_right_mono) simp_all
  also have "\<dots> \<le> q * ?kc * (?od * ?kb)" using zq od by (intro mult_right_mono) simp_all
  also have "\<dots> = q * ?od * (?kc * ?kb)" by (simp add: algebra_simps)
  also have "\<dots> \<le> v * ?oc * (?kc * ?kb)"
    unfolding q_def using floor_div_below [OF od, of "v * ?oc"] by (intro mult_right_mono) simp_all
  also have "\<dots> = v * ?kb * (?oc * ?kc)" by (simp add: algebra_simps)
  also have "\<dots> \<le> r * ?pb * (?oc * ?kc)"
    unfolding v_eq using oc by (intro mult_right_mono floor_div_below) simp_all
  finally show ?thesis by (simp add: mult.assoc)
qed

section \<open>Aborts\<close>

lemma in_i128_pred: "in_i128 x \<Longrightarrow> 0 < x \<Longrightarrow> in_i128 (x - 1)"
  by (rule in_i128_between [of 0 x]) simp_all

lemma price_ops_abort_free:
  "value_floor a pool \<noteq> Panic" "amount_floor a pool \<noteq> Panic" "value_ceil a pool \<noteq> Panic"
  by (auto simp: value_floor_def amount_floor_def value_ceil_def bindr_eq_Panic_iff raw_sub_def
      checked_sub_def dest: ten_pow_in_i128 intro: in_i128_between [of 0])

lemma buys_abort_free: "buys p r lifted \<noteq> Panic"
  by (auto simp: buys_def bindr_eq_Panic_iff price_ops_abort_free)

lemma dust_floor_abort_free: "dust_floor p \<noteq> Panic"
  by (auto simp: dust_floor_def bindr_eq_Panic_iff)

lemma position_collateral_abort_free:
  "wf_pool (collateral_pool p) \<Longrightarrow> supplied_tokens p \<noteq> Panic \<and> position_collateral p \<noteq> Panic"
  by (auto simp: position_collateral_def supplied_tokens_def bindr_eq_Panic_iff wf_pool_abort_free)

lemma position_tests_abort_free:
  assumes "wf_pool (collateral_pool p)"
  shows "is_small_position p \<noteq> Panic" "lifts_close_factor p \<noteq> Panic" "leaves_dust p c d \<noteq> Panic"
proof -
  show small: "is_small_position p \<noteq> Panic"
    using position_collateral_abort_free [OF assms]
    by (auto simp: is_small_position_def bindr_eq_Panic_iff price_ops_abort_free dust_floor_abort_free)
  then show "lifts_close_factor p \<noteq> Panic" by (simp add: lifts_close_factor_def)
  show "leaves_dust p c d \<noteq> Panic"
    by (auto simp: leaves_dust_def bindr_eq_Panic_iff price_ops_abort_free dust_floor_abort_free)
qed

lemma whole_position_repay_Ok:
  assumes "wf_pair p" "0 \<le> pc"
  shows "whole_position_repay p pc \<noteq> Panic" "whole_position_repay p pc = Ok w \<Longrightarrow> 0 \<le> w \<and> in_i128 w"
proof -
  have pr: "0 < oracle_asset_price (borrow_pool p)" "0 \<le> oracle_asset_price (collateral_pool p)"
    "0 < BPS_FACTOR + incentive_bps p" "in_i128 (oracle_asset_price (borrow_pool p))"
    using assms(1) by (simp_all add: wf_pair_def BPS_FACTOR_def)
  show "whole_position_repay p pc \<noteq> Panic"
    using pr by (auto simp: whole_position_repay_def amount_ceil_def Let_def bindr_eq_Panic_iff
        price_ops_abort_free raw_sub_def checked_sub_def dest: in_i128_pred)
  show "0 \<le> w \<and> in_i128 w" if "whole_position_repay p pc = Ok w"
    using that pr assms value_ceil_Ok [of pc "collateral_pool p"]
    by (auto simp: whole_position_repay_def amount_ceil_def Let_def)
qed

lemma charged_abort_free:
  assumes "wf_pair p" "wf_pool (collateral_pool p)" "0 \<le> pc" "0 \<le> r" "in_i128 r"
  shows "charged p pc s r \<noteq> Panic" "charged p pc s r = Ok r' \<Longrightarrow> 0 \<le> r' \<and> r' \<le> r \<and> in_i128 r'"
  using assms whole_position_repay_Ok [OF assms(1,3)] position_tests_abort_free [OF assms(2)]
  by (auto simp: charged_def bindr_eq_Panic_iff in_i128_min split: if_splits)

lemma buys_nonneg: "wf_pair p \<Longrightarrow> 0 \<le> r \<Longrightarrow> buys p r lifted = Ok b \<Longrightarrow> 0 \<le> b"
  using buys_mono [of p r lifted b r] by auto

lemma raw_sub_abort_free: "0 \<le> b \<Longrightarrow> b \<le> a \<Longrightarrow> in_i128 a \<Longrightarrow> raw_sub a b \<noteq> Panic"
  by (auto simp: raw_sub_def checked_sub_def intro: in_i128_between [of 0 a])

lemma position_collateral_range: "position_collateral p = Ok pc \<Longrightarrow> in_i128 pc"
  by (auto simp: position_collateral_def)

lemma quote_settle_abort_free:
  assumes wf: "wf_pair p" "wf_pool (collateral_pool p)" "in_i128 d" "in_i128 pc"
    and "0 < pc" "0 \<le> b" "0 \<le> r" "r \<le> d"
  shows "bindr (charged p pc (min pc b) r) (\<lambda>repaid. bindr (raw_sub pc (min pc b)) (\<lambda>cl.
      bindr (raw_sub d repaid) (\<lambda>dl. bindr (leaves_dust p cl dl) (\<lambda>dust.
      if dust then Ok LeavesDust else Ok (Accepted (min pc b) repaid))))) \<noteq> Panic"
proof -
  have r: "in_i128 r" using assms by (auto intro: in_i128_nonneg_le [of r d])
  have "charged p pc (min pc b) r \<noteq> Panic" "charged p pc (min pc b) r = Ok r' \<Longrightarrow> 0 \<le> r' \<and> r' \<le> r" for r'
    using charged_abort_free [OF wf(1,2) _ _ r, of pc] assms by auto
  moreover have "raw_sub pc (min pc b) \<noteq> Panic"
    using assms by (intro raw_sub_abort_free) auto
  moreover have "raw_sub d r' \<noteq> Panic" if "0 \<le> r'" "r' \<le> r" for r'
    using that assms by (intro raw_sub_abort_free) auto
  ultimately show ?thesis
    using position_tests_abort_free(3) [OF wf(2)] by (simp add: bindr_eq_Panic_iff) blast
qed

lemma over_close_factor_abort_free:
  "in_i128 (position_debt p) \<Longrightarrow> 0 < position_debt p \<Longrightarrow> over_close_factor p r \<noteq> Panic"
  by (auto simp: over_close_factor_def bindr_eq_Panic_iff raw_pred_abort_free)

lemma quote_no_dust_abort_free:
  assumes wf: "wf_pair p" "wf_pool (collateral_pool p)" "in_i128 (position_debt p)"
  shows "quote_no_dust p repay \<noteq> Panic"
proof (cases "position_collateral p")
  case (Ok pc)
  note pc = Ok
  let ?d = "position_debt p" and ?r = "min repay (position_debt p)"
  show ?thesis
  proof (cases "repay \<le> 0 \<or> ?d \<le> 0 \<or> pc \<le> 0 \<or> oracle_asset_price (borrow_pool p) \<le> 0 \<or>
      oracle_asset_price (collateral_pool p) \<le> 0")
    case True
    then show ?thesis by (simp add: quote_no_dust_def pc)
  next
    case False
    then have r0: "0 \<le> ?r" "?r \<le> ?d" "0 < pc" by auto
    have "bindr (buys p ?r lifted) (\<lambda>b. bindr (charged p pc (min pc b) ?r) (\<lambda>repaid.
        bindr (raw_sub pc (min pc b)) (\<lambda>cl. bindr (raw_sub ?d repaid) (\<lambda>dl.
        bindr (leaves_dust p cl dl) (\<lambda>dust.
        if dust then Ok LeavesDust else Ok (Accepted (min pc b) repaid)))))) \<noteq> Panic" for lifted
      using quote_settle_abort_free [OF wf position_collateral_range [OF pc] r0(3) _ r0(1,2)]
        buys_nonneg [OF wf(1) r0(1)]
      by (simp add: bindr_eq_Panic_iff [where m = "buys p ?r lifted"] buys_abort_free)
    moreover have "over_close_factor p ?r \<noteq> Panic"
      using over_close_factor_abort_free [OF wf(3)] False by simp
    ultimately show ?thesis
      unfolding quote_no_dust_def pc bindr.simps if_not_P [OF False] Let_def
      using position_tests_abort_free(2) [OF wf(2)]
      by (cases "lifts_close_factor p"; cases "over_close_factor p ?r") simp_all
  qed
qed (use position_collateral_abort_free [OF wf(2)] in \<open>simp_all add: quote_no_dust_def\<close>)

lemma compute_expected_seized_collateral_abort_free:
  "compute_expected_seized_collateral r bp cp dep od oc ins c k \<noteq> Panic"
proof
  have cap: "(if c then bindr m f else Ok None) = Panic \<Longrightarrow> c \<and> bindr m f = Panic" for c m f
    by (simp split: if_splits)
  assume "compute_expected_seized_collateral r bp cp dep od oc ins c k = Panic"
  then show False
    unfolding compute_expected_seized_collateral_def Let_def
    by (simp split: if_splits add: bindr_eq_Panic_iff del: bindr_eq_Ok_iff)
qed

lemma quote_abort_free:
  assumes "wf_pair p" "wf_pool (collateral_pool p)" "in_i128 (position_debt p)"
  shows "quote p r \<noteq> Panic" "accepts p r \<noteq> Panic"
  using quote_no_dust_abort_free [OF assms] compute_expected_seized_collateral_abort_free
  by (auto simp: accepts_def quote_def bindr_eq_Panic_iff split: dust_rules.splits)

lemma repay_buying_loop_abort_free:
  "(\<And>r. f r \<noteq> Panic) \<Longrightarrow> repay_buying_loop f target low high \<noteq> Panic"
proof (induction f target low high rule: repay_buying_loop.induct)
  case (1 f target low high)
  then show ?case
    by (subst repay_buying_loop.simps) (auto simp: Let_def bindr_eq_Panic_iff)
qed

lemma largest_loop_abort_free:
  "(\<And>r. 1 \<le> r \<Longrightarrow> f r \<noteq> Panic) \<Longrightarrow> 1 \<le> low \<Longrightarrow> largest_loop f low high \<noteq> Panic"
proof (induction f low high rule: largest_loop.induct)
  case (1 f low high)
  show ?case
  proof (cases "low < high")
    case True
    define mid where "mid = low + (high - low + 1) sdiv 2"
    have mid: "1 \<le> mid" using halving(2) [OF True] 1(4) by (simp add: mid_def)
    show ?thesis
      using 1(1) [OF True mid_def _ _ 1(3) mid] 1(2) [OF True mid_def _ _ 1(3,4)] 1(3) [OF mid] True
      by (subst largest_loop.simps) (simp add: bindr_eq_Panic_iff Let_def flip: mid_def)
  qed (simp add: largest_loop.simps)
qed

lemma map_ok_eq_Panic_iff [simp]: "map_ok f m = Panic \<longleftrightarrow> m = Panic"
  by (cases m) auto

lemma map_ok_eq_Ok_iff [simp]: "map_ok f m = Ok y \<longleftrightarrow> (\<exists>x. m = Ok x \<and> y = f x)"
  by (cases m) auto

lemma clearing_of_abort_free:
  assumes "wf_pool (collateral_pool p)"
  shows "clearing_of p \<noteq> Panic"
proof -
  have buying: "repay_buying p l t d \<noteq> Panic" for l t d
    by (simp add: repay_buying_def bindr_eq_Panic_iff buys_abort_free repay_buying_loop_abort_free)
  have grows: "grown a b \<noteq> Panic" for a b by (simp add: grown_def)
  show ?thesis
    unfolding clearing_of_def Let_def
    using position_tests_abort_free [OF assms] position_collateral_abort_free [OF assms] buying grows
    by (auto simp: bindr_eq_Panic_iff split: option.splits)
qed

lemma keeps_both_sides_abort_free:
  assumes "wf_pair p" "in_i128 pc" "in_i128 (position_debt p)" "1 \<le> r" "0 < position_debt p"
  shows "keeps_both_sides p pc lifted floor r \<noteq> Panic"
proof -
  let ?r = "min r (position_debt p)"
  have r: "0 \<le> ?r" using assms by simp
  have "raw_sub pc (min pc b) \<noteq> Panic" if "buys p ?r lifted = Ok b" for b
    using buys_nonneg [OF assms(1) r that] assms
    by (auto simp: raw_sub_def checked_sub_def min_def intro: in_i128_between [of 0 pc])
  moreover have "raw_sub (position_debt p) ?r \<noteq> Panic"
    using r assms by (intro raw_sub_abort_free) auto
  ultimately show ?thesis
    by (auto simp: keeps_both_sides_def Let_def bindr_eq_Panic_iff buys_abort_free price_ops_abort_free)
qed

lemma fit_repay_abort_free:
  assumes "wf_pair p" "wf_pool (collateral_pool p)" "in_i128 (position_debt p)" "0 < position_debt p"
  shows "fit_repay p repay max_offer \<noteq> Panic"
proof -
  note qf = quote_abort_free [OF assms(1-3)] and cf = clearing_of_abort_free [OF assms(2)]
  have "largest_loop (keeps_both_sides p pc l f) 1 u \<noteq> Panic" if "position_collateral p = Ok pc" for pc l f u
    using keeps_both_sides_abort_free [OF assms(1) position_collateral_range [OF that] assms(3) _ assms(4)]
    by (intro largest_loop_abort_free) simp_all
  then have "largest_partial_repay p u \<noteq> Panic" for u
    using position_collateral_abort_free [OF assms(2)] position_tests_abort_free [OF assms(2)]
      keeps_both_sides_abort_free [OF assms(1) _ assms(3) _ assms(4)] qf
    by (auto simp: largest_partial_repay_def bindr_eq_Panic_iff dust_floor_abort_free
        position_collateral_range)
  then show ?thesis
    unfolding fit_repay_def planned_or_clearing_def Let_def using qf cf
    by (auto simp: bindr_eq_Panic_iff split: option.splits if_splits)
qed

section \<open>Fitted repays\<close>

lemma largest_partial_repay_Some:
  assumes wf: "wf_pair p" and r: "largest_partial_repay p upper = Ok (Some r)"
  shows "\<exists>pc lifted f s x. position_collateral p = Ok pc \<and> lifts_close_factor p = Ok lifted \<and> dust_floor p = Ok f \<and>
    1 \<le> r \<and> r \<le> upper \<and> quote p r = Ok (Accepted s x) \<and> keeps_both_sides p pc lifted f r = Ok True \<and>
    (\<forall>r'. r < r' \<and> r' \<le> upper \<longrightarrow> keeps_both_sides p pc lifted f r' \<noteq> Ok True)"
proof -
  from r obtain pc lifted f s where
    o: "position_collateral p = Ok pc" "lifts_close_factor p = Ok lifted" "dust_floor p = Ok f"
      "1 \<le> upper" "keeps_both_sides p pc lifted f 1 = Ok True"
      "largest_loop (keeps_both_sides p pc lifted f) 1 upper = Ok r" "quote p r = Ok s" "is_accepted s"
    by (auto simp: largest_partial_repay_def split: if_splits)
  from kept.search_greatest_top [of "(p, pc, lifted, f)" upper r] wf o
  have "1 \<le> r" "r \<le> upper" "keeps_both_sides p pc lifted f r = Ok True"
    "\<forall>r'. r < r' \<and> r' \<le> upper \<longrightarrow> keeps_both_sides p pc lifted f r' \<noteq> Ok True" by auto
  moreover obtain a b where "s = Accepted a b" using o is_accepted_iff by blast
  ultimately show ?thesis using o by blast
qed

lemma largest_partial_repay_bounds:
  assumes r: "largest_partial_repay p upper = Ok (Some r)"
  shows "r \<le> upper" "\<exists>s x. quote p r = Ok (Accepted s x)"
proof -
  from r obtain pc lifted f s where
    o: "position_collateral p = Ok pc" "lifts_close_factor p = Ok lifted" "dust_floor p = Ok f"
      "1 \<le> upper" "keeps_both_sides p pc lifted f 1 = Ok True"
      "largest_loop (keeps_both_sides p pc lifted f) 1 upper = Ok r" "quote p r = Ok s" "is_accepted s"
    by (auto simp: largest_partial_repay_def split: if_splits)
  show "r \<le> upper" using kept.search_greatest [of "(p, pc, lifted, f)" 1 upper r upper] o(4-6) by simp
  show "\<exists>s x. quote p r = Ok (Accepted s x)" using o(7,8) by (cases s) auto
qed

lemma planned_or_clearing_Some:
  "planned_or_clearing p repay max_offer cl = Ok (Some offer) \<Longrightarrow>
     accepts p offer = Ok True \<and> (repay \<le> max_offer \<longrightarrow> offer \<le> max_offer)"
  by (cases cl) (auto simp: planned_or_clearing_def Let_def simp del: accepts_Ok_iff split: if_splits)

lemma fit_repay_cases:
  assumes "fit_repay p repay max_offer = Ok (Some offer)" "rules p = NoDust"
  shows "accepts p offer = Ok True \<and> (repay \<le> max_offer \<longrightarrow> offer \<le> max_offer) \<or>
    largest_partial_repay p (min repay max_offer) = Ok (Some offer)"
proof -
  from assms obtain cl found where f: "planned_or_clearing p repay max_offer cl = Ok found"
    "(case found of None \<Rightarrow> largest_partial_repay p (min repay max_offer) | Some o' \<Rightarrow> Ok (Some o')) = Ok (Some offer)"
    by (auto simp: fit_repay_def)
  then show ?thesis by (cases found) (auto dest: planned_or_clearing_Some simp del: accepts_Ok_iff)
qed

lemma fit_repay_le_max_offer:
  assumes "fit_repay p repay max_offer = Ok (Some offer)" "repay \<le> max_offer"
  shows "offer \<le> max_offer"
proof (cases "rules p")
  case Sweep
  with assms show ?thesis by (simp add: fit_repay_def)
next
  case NoDust
  with fit_repay_cases [OF assms(1)] assms(2) show ?thesis
    by (auto dest: largest_partial_repay_bounds(1))
qed

section \<open>Properties\<close>

text \<open>C12. The search for a clearing repay returns and is exact: when the collateral the whole debt
  buys is known, \<open>repay_buying\<close> finds nothing iff that falls short of the target, and otherwise the
  least positive repay whose purchase reaches it, although the probes in between could fail.\<close>

theorem repay_buying_least:
  assumes "wf_pair p" "1 \<le> debt" "buys p debt lifted = Ok b"
  shows "if b < target then repay_buying p lifted target debt = Ok None
    else \<exists>r. repay_buying p lifted target debt = Ok (Some r) \<and> 1 \<le> r \<and> r \<le> debt \<and>
      (\<exists>x \<ge> target. buys p r lifted = Ok x) \<and>
      (\<forall>r'. 1 \<le> r' \<and> r' < r \<longrightarrow> (\<exists>x < target. buys p r' lifted = Ok x))"
proof -
  have none: "\<forall>r. 1 \<le> r \<and> r < (1::int) \<longrightarrow> P r" for P by (meson not_less)
  show ?thesis
    using bought.search_least [of "(p, lifted)" 1 debt b target, OF _ _ _ _ _ none] assms
    by (auto simp: repay_buying_def not_less)
qed

text \<open>A small pair for the examples: ten units of debt against twelve of collateral, at one dollar
  each, on a market with a dust floor of one dollar.\<close>

definition small_pool :: pool_data where
  "small_pool = example_pool\<lparr>token_decimals := 0, oracle_asset_price := 100, total_supply := 100,
     total_j_tokens := 100, total_borrowed := 50, total_d_tokens := 50\<rparr>"

definition small_pair :: "bool \<Rightarrow> liquidation_pair" where
  "small_pair insolvent = \<lparr>rules = NoDust, borrow_pool = small_pool, collateral_pool = small_pool,
     deposit = \<lparr>j_tokens = 4, collateral = 8, dp_pool_address = ''P''\<rparr>, position_debt = 10,
     obligation_debt_value = 1000, obligation_collateral_value = 1200, is_insolvent = insolvent,
     pair_min_cents = 100, pair_price_decimals = 2, debt_accrual_bps = 0, supply_accrual_bps = 0,
     margin = MARGIN_INITIAL\<rparr>"

lemmas small_defs = small_pair_def small_pool_def example_pool_def MARGIN_INITIAL_def

lemmas pair_eval =
  small_defs i128_eval BPS_FACTOR_def value_floor_def value_ceil_def amount_floor_def amount_ceil_def
  token_factor_def buys_def incentive_bps_def position_collateral_def supplied_tokens_def
  j_tokens_to_tokens_floor_def amount_checked_mul_def dust_floor_def is_small_position_def
  lifts_close_factor_def quote_def quote_no_dust_def over_close_factor_def charged_def
  leaves_dust_def keeps_both_sides_def accepts_def

lemma small_pair_wf:
  "wf_pair (small_pair i)" "rules (small_pair i) = NoDust" "live_offer (small_pair i) 12 5"
  "wf_pool (collateral_pool (small_pair i))" "in_i128 (position_debt (small_pair i))"
  "0 < position_debt (small_pair i)"
  by (simp_all add: wf_pair_def wf_pool_def live_offer_def pair_eval cong: bindr_step_cong)

theorem repay_buying_least_witness:
  "buys (small_pair False) 10 True = Ok 11 \<and>
   (\<exists>r. repay_buying (small_pair False) True 5 10 = Ok (Some r) \<and> 1 \<le> r \<and> r \<le> 10)"
proof -
  have b: "buys (small_pair False) 10 True = Ok 11" by (simp add: pair_eval cong: bindr_step_cong)
  from repay_buying_least [OF small_pair_wf(1) _ b, of 5] b show ?thesis by auto
qed

text \<open>C13. An accepted quote respects every limit of a no-dust market: it seizes a part of the
  position, charges at most the offer and the debt, stays within the close factor unless the market
  lifts it, and leaves each side that is not cleared at or above the dust floor.\<close>

theorem accepted_quote_within_limits:
  assumes "wf_pair p" "rules p = NoDust" "live_offer p pc repay" "quote p repay = Ok (Accepted s r)"
  shows "0 \<le> s \<and> s \<le> pc \<and> r \<le> repay \<and> r \<le> position_debt p \<and>
    (lifts_close_factor p = Ok False \<longrightarrow>
       r * BPS_FACTOR \<le> liquidation_close_factor_bps (borrow_pool p) * position_debt p) \<and>
    (s < pc \<and> r < position_debt p \<longrightarrow>
       (\<exists>f v w. dust_floor p = Ok f \<and> value_floor (pc - s) (collateral_pool p) = Ok v \<and> f \<le> v \<and>
          value_ceil (position_debt p - r) (borrow_pool p) = Ok w \<and> f \<le> w))"
proof -
  let ?r = "min repay (position_debt p)"
  have live: "0 < pc" "0 < repay" "0 < position_debt p" using assms(3) by (simp_all add: live_offer_def)
  from quote_no_dust_Accepted [OF assms(3), of s r] assms(2,4) obtain lifted b where
    q: "lifts_close_factor p = Ok lifted" "buys p ?r lifted = Ok b" "s = min pc b" "r \<le> ?r"
      "\<not> lifted \<longrightarrow> ?r * BPS_FACTOR \<le> liquidation_close_factor_bps (borrow_pool p) * position_debt p"
      "leaves_dust p (pc - s) (position_debt p - r) = Ok False"
    by (auto simp: quote_def)
  have "0 \<le> b" using buys_nonneg [OF assms(1) _ q(2)] live by simp
  moreover have "r * BPS_FACTOR \<le> ?r * BPS_FACTOR" using q(4) by (intro mult_right_mono) simp_all
  then have "\<not> lifted \<longrightarrow> r * BPS_FACTOR \<le> liquidation_close_factor_bps (borrow_pool p) * position_debt p"
    using q(5) by (blast intro: order_trans)
  ultimately show ?thesis using q live leaves_dust_False [OF q(6)] by auto
qed

theorem accepted_quote_within_limits_witness:
  "quote (small_pair False) 5 = Ok (Accepted 5 5) \<and>
   lifts_close_factor (small_pair False) = Ok False \<and>
   5 * BPS_FACTOR \<le> liquidation_close_factor_bps (borrow_pool (small_pair False)) * position_debt (small_pair False)"
proof -
  have q: "quote (small_pair False) 5 = Ok (Accepted 5 5)" "lifts_close_factor (small_pair False) = Ok False"
    by (simp_all add: pair_eval cong: bindr_step_cong)
  from accepted_quote_within_limits [OF small_pair_wf(1-3) q(1)] q show ?thesis by simp
qed



text \<open>C15. The largest partial repay is accepted by the market and maximal: it lies between 1 and the
  upper bound, keeps both sides above the floor, and no larger repay up to the bound does.\<close>

theorem largest_partial_repay_maximal:
  assumes "wf_pair p" "largest_partial_repay p upper = Ok (Some r)"
  shows "\<exists>pc lifted f s x. position_collateral p = Ok pc \<and> lifts_close_factor p = Ok lifted \<and> dust_floor p = Ok f \<and>
    1 \<le> r \<and> r \<le> upper \<and> quote p r = Ok (Accepted s x) \<and> keeps_both_sides p pc lifted f r = Ok True \<and>
    (\<forall>r'. r < r' \<and> r' \<le> upper \<longrightarrow> keeps_both_sides p pc lifted f r' \<noteq> Ok True)"
  by (rule largest_partial_repay_Some [OF assms])

theorem largest_partial_repay_maximal_witness:
  "largest_partial_repay (small_pair True) 12 = Ok (Some 9) \<and>
   (\<exists>s x. quote (small_pair True) 9 = Ok (Accepted s x))"
proof -
  have "largest_partial_repay (small_pair True) 12 = Ok (Some 9)"
    by (simp add: largest_partial_repay_def largest_loop.simps pair_eval cong: bindr_step_cong)
  from this largest_partial_repay_maximal [OF small_pair_wf(1) this] show ?thesis by blast
qed

text \<open>C14. A fitted repay is an offer the market accepts: on a no-dust market whatever \<open>fit_repay\<close>
  returns is quoted as accepted, and stays within the largest offer when the planned repay does.\<close>

theorem fit_repay_accepted:
  assumes "rules p = NoDust" "fit_repay p repay max_offer = Ok (Some offer)"
  shows "(\<exists>s r. quote p offer = Ok (Accepted s r)) \<and> (repay \<le> max_offer \<longrightarrow> offer \<le> max_offer)"
  using fit_repay_cases [OF assms(2,1)]
  by (auto simp: is_accepted_iff dest: largest_partial_repay_bounds)

theorem fit_repay_accepted_witness:
  "fit_repay (small_pair True) 9 9 = Ok (Some 9) \<and>
   (\<exists>s x. quote (small_pair True) 9 = Ok (Accepted s x))"
proof -
  have "fit_repay (small_pair True) 9 9 = Ok (Some 9)"
    by (simp add: fit_repay_def planned_or_clearing_def clearing_of_def repay_buying_def grown_def
        fixed_mul_ceil_def pair_eval cong: bindr_step_cong)
  from this fit_repay_accepted [OF small_pair_wf(2) this] show ?thesis by blast
qed



end
