(* ===== verification/Liquidation.thy ===== *)
theory Liquidation
  imports Liquidation_Pair
begin

text \<open>
  \<^verbatim>\<open>engine/src/lending_model/liquidation.rs\<close>, the two tests the bad-debt initiator makes on a
  no-dust market: whether any pair of an obligation still has a liquidation worth making, and whether
  its seizable collateral covers its debt.
\<close>

section \<open>Operations\<close>

definition pool_of :: "market_data \<Rightarrow> string \<Rightarrow> pool_data lm" where
  "pool_of md a = ok_or (find_pool (pools_data md) a) InternalError"

text \<open>The body of the inner loop for one pair that is not skipped: \<open>Ok True\<close> is the early return.\<close>

definition pair_is_acceptable ::
  "obligation \<Rightarrow> market_data \<Rightarrow> i128 \<Rightarrow> nat \<Rightarrow> bool \<Rightarrow> pool_data \<Rightarrow> pool_data \<Rightarrow> deposit_position \<Rightarrow> bool lm"
where
  "pair_is_acceptable ob md cents now insolvent bp cp dep =
     bindr (pair_new NoDust ob md bp cp dep insolvent) (\<lambda>p0.
     let pair = accruing_until p0 now in
     bindr (direct_repay pair cents) (\<lambda>dr.
     case dr of
       None \<Rightarrow> Ok False
     | Some repay \<Rightarrow>
         bindr (quote pair repay) (\<lambda>q.
         case q of
           Accepted seized repaid \<Rightarrow>
             if \<not> seized > 0 then Ok False
             else bindr (if repaid = position_debt pair then Ok True
                         else bindr (tokens_to_d_tokens_floor bp repaid) (\<lambda>d. Ok (d > 0))) (\<lambda>burns.
                  Ok (burns \<and> nets_more_than pair seized repaid cents))
         | OverCloseFactor \<Rightarrow> Ok False
         | LeavesDust \<Rightarrow> Ok False)))"

fun acceptable_deposits ::
  "obligation \<Rightarrow> market_data \<Rightarrow> i128 \<Rightarrow> nat \<Rightarrow> bool \<Rightarrow> pool_data \<Rightarrow> deposit_position list \<Rightarrow> bool lm"
where
  "acceptable_deposits ob md cents now insolvent bp [] = Ok False"
| "acceptable_deposits ob md cents now insolvent bp (dep # ds) =
     bindr (pool_of md (dp_pool_address dep)) (\<lambda>cp.
     if pool_address cp = pool_address bp \<or> close_ltv_bps cp \<le> 0
     then acceptable_deposits ob md cents now insolvent bp ds
     else bindr (pair_is_acceptable ob md cents now insolvent bp cp dep) (\<lambda>found.
          if found then Ok True else acceptable_deposits ob md cents now insolvent bp ds))"

fun acceptable_borrows ::
  "obligation \<Rightarrow> market_data \<Rightarrow> i128 \<Rightarrow> nat \<Rightarrow> bool \<Rightarrow> borrow_position list \<Rightarrow> bool lm"
where
  "acceptable_borrows ob md cents now insolvent [] = Ok False"
| "acceptable_borrows ob md cents now insolvent (b # bs) =
     bindr (pool_of md (bp_pool_address b)) (\<lambda>bp.
     bindr (acceptable_deposits ob md cents now insolvent bp (deposits ob)) (\<lambda>found.
     if found then Ok True else acceptable_borrows ob md cents now insolvent bs))"

definition has_acceptable_liquidation :: "obligation \<Rightarrow> market_data \<Rightarrow> i128 \<Rightarrow> nat \<Rightarrow> bool lm" where
  "has_acceptable_liquidation ob md cents now =
     (if unpriced_pools_touched ob md \<noteq> [] then Ok False
      else bindr (compute_is_insolvent ob md) (\<lambda>insolvent.
           acceptable_borrows ob md cents now insolvent (borrows ob)))"

text \<open>The debt loop returns \<open>None\<close> for the early return \<open>Ok(false)\<close>.\<close>

fun covered_debt_loop :: "market_data \<Rightarrow> borrow_position list \<Rightarrow> i128 \<Rightarrow> i128 option lm" where
  "covered_debt_loop md [] debt_value = Ok (Some debt_value)"
| "covered_debt_loop md (b # bs) debt_value =
     (case find_pool (pools_data md) (bp_pool_address b) of
        None \<Rightarrow> Ok None
      | Some pool \<Rightarrow>
          or_stop (ok_of (bindr (d_tokens_to_tokens_ceil pool (d_tokens b)) (\<lambda>debt. value_ceil debt pool)))
            (\<lambda>v. case checked_add debt_value v of
                    None \<Rightarrow> Ok None
                  | Some summed \<Rightarrow> covered_debt_loop md bs summed))"

fun seizable_loop :: "market_data \<Rightarrow> deposit_position list \<Rightarrow> i128 \<Rightarrow> i128 lm" where
  "seizable_loop md [] collateral_value = Ok collateral_value"
| "seizable_loop md (dep # ds) collateral_value =
     bindr (pool_of md (dp_pool_address dep)) (\<lambda>pool.
     if close_ltv_bps pool \<le> 0 then seizable_loop md ds collateral_value
     else bindr (j_tokens_to_tokens_floor pool (j_tokens dep)) (\<lambda>t.
          bindr (amount_checked_add t (collateral dep)) (\<lambda>tokens.
          bindr (value_floor tokens pool) (\<lambda>v.
          bindr (m_ou (checked_add collateral_value v)) (\<lambda>summed.
          seizable_loop md ds summed)))))"

definition seizable_collateral_covers_debt :: "obligation \<Rightarrow> market_data \<Rightarrow> bool lm" where
  "seizable_collateral_covers_debt ob md =
     bindr (covered_debt_loop md (borrows ob) 0) (\<lambda>d.
     case d of
       None \<Rightarrow> Ok False
     | Some debt_value \<Rightarrow>
         bindr (seizable_loop md (deposits ob) 0) (\<lambda>collateral_value.
         Ok (collateral_value > 0 \<and> collateral_value \<ge> debt_value)))"

section \<open>Lemmas\<close>

lemma pool_of_Ok_iff [simp]: "pool_of md a = Ok p \<longleftrightarrow> find_pool (pools_data md) a = Some p"
  by (simp add: pool_of_def)

lemma nets_more_than_iff:
  "nets_more_than p s r c \<longleftrightarrow>
     0 < oracle_value s (collateral_pool p) \<and> 0 < oracle_value r (borrow_pool p) \<and>
     in_i128 (oracle_value s (collateral_pool p) - oracle_value r (borrow_pool p)) \<and>
     margin_value_saturating c (pair_price_decimals p) <
       oracle_value s (collateral_pool p) - oracle_value r (borrow_pool p)"
  by (auto simp: nets_more_than_def compute_liquidation_profitability_def checked_sub_def)

text \<open>A pair of positions the market would liquidate at a profit.\<close>

definition worthwhile ::
  "obligation \<Rightarrow> market_data \<Rightarrow> i128 \<Rightarrow> nat \<Rightarrow> bool \<Rightarrow> borrow_position \<Rightarrow> deposit_position \<Rightarrow> bool"
where
  "worthwhile ob md cents now insolvent b dep \<longleftrightarrow>
     (\<exists>bp cp p0 repay seized repaid.
        find_pool (pools_data md) (bp_pool_address b) = Some bp \<and>
        find_pool (pools_data md) (dp_pool_address dep) = Some cp \<and>
        pool_address cp \<noteq> pool_address bp \<and> 0 < close_ltv_bps cp \<and>
        pair_new NoDust ob md bp cp dep insolvent = Ok p0 \<and>
        direct_repay (accruing_until p0 now) cents = Ok (Some repay) \<and>
        quote (accruing_until p0 now) repay = Ok (Accepted seized repaid) \<and> 0 < seized \<and>
        nets_more_than (accruing_until p0 now) seized repaid cents)"

lemma pair_is_acceptable_True:
  assumes "pair_is_acceptable ob md cents now ins bp cp dep = Ok True"
  shows "\<exists>p0 repay seized repaid. pair_new NoDust ob md bp cp dep ins = Ok p0 \<and>
        direct_repay (accruing_until p0 now) cents = Ok (Some repay) \<and>
        quote (accruing_until p0 now) repay = Ok (Accepted seized repaid) \<and> 0 < seized \<and>
        nets_more_than (accruing_until p0 now) seized repaid cents"
proof -
  from assms obtain p0 dr where p: "pair_new NoDust ob md bp cp dep ins = Ok p0"
    "direct_repay (accruing_until p0 now) cents = Ok dr" by (auto simp: pair_is_acceptable_def Let_def)
  show ?thesis
  proof (cases dr)
    case None
    with assms p show ?thesis by (simp add: pair_is_acceptable_def)
  next
    case (Some repay)
    with assms p obtain q where "quote (accruing_until p0 now) repay = Ok q"
      by (auto simp: pair_is_acceptable_def Let_def)
    with assms p Some show ?thesis
      by (cases q) (auto simp: pair_is_acceptable_def Let_def split: if_splits)
  qed
qed

lemma acceptable_deposits_True:
  assumes "acceptable_deposits ob md cents now ins bp ds = Ok True"
    "find_pool (pools_data md) (bp_pool_address b) = Some bp"
  shows "\<exists>dep \<in> set ds. worthwhile ob md cents now ins b dep"
  using assms
proof (induction ds)
  case (Cons dep ds)
  then obtain cp where cp: "find_pool (pools_data md) (dp_pool_address dep) = Some cp" by auto
  show ?case
  proof (cases "pool_address cp = pool_address bp \<or> close_ltv_bps cp \<le> 0")
    case True
    with Cons cp show ?thesis by auto
  next
    case False
    with Cons.prems cp obtain found where f: "pair_is_acceptable ob md cents now ins bp cp dep = Ok found" by auto
    show ?thesis
    proof (cases found)
      case True
      then have "worthwhile ob md cents now ins b dep"
        using pair_is_acceptable_True f cp Cons.prems(2) False unfolding worthwhile_def by force
      then show ?thesis by simp
    next
      case False
      then show ?thesis using Cons f cp \<open>\<not> (pool_address cp = _ \<or> _)\<close> by auto
    qed
  qed
qed simp

lemma acceptable_borrows_True:
  "acceptable_borrows ob md cents now ins bs = Ok True \<Longrightarrow>
     \<exists>b \<in> set bs. \<exists>dep \<in> set (deposits ob). worthwhile ob md cents now ins b dep"
proof (induction bs)
  case (Cons b bs)
  then obtain bp found where o: "find_pool (pools_data md) (bp_pool_address b) = Some bp"
    "acceptable_deposits ob md cents now ins bp (deposits ob) = Ok found" by auto
  show ?case
  proof (cases found)
    case True
    then show ?thesis using o acceptable_deposits_True by fastforce
  next
    case False
    then show ?thesis using Cons o by auto
  qed
qed simp

text \<open>The value of one borrow and of one seizable deposit, as the market rounds them.\<close>

definition borrow_value :: "market_data \<Rightarrow> borrow_position \<Rightarrow> int \<Rightarrow> bool" where
  "borrow_value md b v \<longleftrightarrow> (\<exists>pool debt. find_pool (pools_data md) (bp_pool_address b) = Some pool \<and>
     d_tokens_to_tokens_ceil pool (d_tokens b) = Ok debt \<and> value_ceil debt pool = Ok v)"

definition seizable_value :: "market_data \<Rightarrow> deposit_position \<Rightarrow> int \<Rightarrow> bool" where
  "seizable_value md dep v \<longleftrightarrow> (\<exists>pool. find_pool (pools_data md) (dp_pool_address dep) = Some pool \<and>
     (if close_ltv_bps pool \<le> 0 then v = 0
      else \<exists>t. j_tokens_to_tokens_floor pool (j_tokens dep) = Ok t \<and>
             value_floor (t + collateral dep) pool = Ok v))"

lemma covered_debt_loop_Some:
  "covered_debt_loop md bs t = Ok (Some d) \<Longrightarrow>
     \<exists>vs. list_all2 (borrow_value md) bs vs \<and> d = t + sum_list vs"
proof (induction bs arbitrary: t)
  case (Cons b bs)
  obtain pool where pool: "find_pool (pools_data md) (bp_pool_address b) = Some pool"
    using Cons.prems by (cases "find_pool (pools_data md) (bp_pool_address b)") auto
  with Cons.prems obtain debt v where v: "d_tokens_to_tokens_ceil pool (d_tokens b) = Ok debt"
    "value_ceil debt pool = Ok v" "in_i128 (t + v)" "covered_debt_loop md bs (t + v) = Ok (Some d)"
    by (auto simp: checked_add_def split: if_splits)
  from Cons.IH [OF v(4)] obtain vs where "list_all2 (borrow_value md) bs vs" "d = t + v + sum_list vs" by auto
  moreover have "borrow_value md b v" using pool v by (auto simp: borrow_value_def)
  ultimately show ?case by (intro exI [of _ "v # vs"]) simp
qed (auto intro: exI [of _ "[]"])

lemma seizable_loop_Ok:
  "seizable_loop md ds t = Ok c \<Longrightarrow> \<exists>vs. list_all2 (seizable_value md) ds vs \<and> c = t + sum_list vs"
proof (induction ds arbitrary: t)
  case (Cons dep ds)
  obtain v where v: "seizable_value md dep v" "seizable_loop md ds (t + v) = Ok c"
    using Cons.prems by (fastforce simp: seizable_value_def amount_checked_add_def split: if_splits)
  from Cons.IH [OF v(2)] obtain vs where "list_all2 (seizable_value md) ds vs" "c = t + v + sum_list vs" by auto
  with v(1) show ?case by (intro exI [of _ "v # vs"]) simp
qed (auto intro: exI [of _ "[]"])

section \<open>Properties\<close>


definition debt_pool :: pool_data where
  "debt_pool = small_pool\<lparr>pool_address := ''A'', d_token_rate_ceil_bps := 10000, status_flags := 0\<rparr>"

definition seizable_pool :: pool_data where
  "seizable_pool = small_pool\<lparr>pool_address := ''B'', j_token_rate_floor_bps := 10000\<rparr>"

definition two_pool_market :: market_data where
  "two_pool_market = \<lparr>insolvency_ltv_bps = 9900, pools_data = [debt_pool, seizable_pool],
     oracle_price_decimals = 2, min_collateral_value_cents = 100, unavailable_pools = []\<rparr>"

definition two_pool_obligation :: obligation where
  "two_pool_obligation = \<lparr>borrows = [\<lparr>d_tokens = 100, bp_pool_address = ''A''\<rparr>],
     deposits = [\<lparr>j_tokens = 40, collateral = 78, dp_pool_address = ''B''\<rparr>], open_bad_debt_requests = 0\<rparr>"

lemmas two_pool_defs = two_pool_market_def two_pool_obligation_def debt_pool_def seizable_pool_def

definition two_pool_pair :: liquidation_pair where
  "two_pool_pair = (small_pair False)\<lparr>borrow_pool := debt_pool, collateral_pool := seizable_pool,
     deposit := \<lparr>j_tokens = 40, collateral = 78, dp_pool_address = ''B''\<rparr>, position_debt := 100,
     obligation_debt_value := 10000, obligation_collateral_value := 11800\<rparr>"

lemma two_pool_pair_new:
  "pair_new NoDust two_pool_obligation two_pool_market debt_pool seizable_pool
      \<lparr>j_tokens = 40, collateral = 78, dp_pool_address = ''B''\<rparr> False = Ok two_pool_pair"
  by (simp add: pair_new_def d_tokens_to_tokens_ceil_def compute_obligation_debt_value_def
      compute_obligation_collateral_value_def two_pool_pair_def two_pool_defs find_pool_def
      fixed_mul_floor_def fixed_mul_ceil_def pair_eval cong: bindr_step_cong)

lemma two_pool_pair_now: "accruing_until two_pool_pair 0 = two_pool_pair"
  by (simp add: accruing_until_def accrual_since_update_bps_def accrued_def SECONDS_IN_YEAR_def
      two_pool_pair_def two_pool_defs pair_eval)

lemma two_pool_quote: "quote two_pool_pair 50 = Ok (Accepted 55 50)"
  by (simp add: two_pool_pair_def two_pool_defs pair_eval cong: bindr_step_cong)

lemma two_pool_direct_repay: "direct_repay two_pool_pair 0 = Ok (Some 50)"
proof -
  have "clearing_of two_pool_pair = Ok (Some \<lparr>at_snapshot = 100, clearing_offer = 101\<rparr>)"
    by (simp add: clearing_of_def repay_buying_def grown_def fixed_mul_ceil_def two_pool_pair_def
        two_pool_defs pair_eval cong: bindr_step_cong)
  then have fit: "fit_repay two_pool_pair 50 i128_max = Ok (Some 50)"
    using two_pool_quote
    by (simp add: fit_repay_def planned_or_clearing_def accepts_def two_pool_pair_def small_pair_def)
  have "lifts_close_factor two_pool_pair = Ok False" "position_collateral two_pool_pair = Ok 118"
    by (simp_all add: two_pool_pair_def two_pool_defs pair_eval cong: bindr_step_cong)
  moreover have "compute_close_factor_repay_cap False 100 5000 = 50"
    by (simp add: compute_close_factor_repay_cap_def fixed_mul_floor_def i128_eval BPS_FACTOR_def)
  moreover have "compute_profit_margin_in_borrow_token 0 2 debt_pool = Ok 0"
    by (simp add: compute_profit_margin_in_borrow_token_def debt_pool_def small_pool_def)
  moreover have "compute_repay_cap_from_collateral True debt_pool 50 seizable_pool 118 10000 0 11800 = Ok 50"
    by (simp add: compute_repay_cap_from_collateral_def Let_def two_pool_defs small_pool_def example_pool_def
        i128_eval BPS_FACTOR_def cong: bindr_step_cong)
  moreover have "position_debt two_pool_pair = 100" "obligation_debt_value two_pool_pair = 10000"
    "obligation_collateral_value two_pool_pair = 11800" "pair_price_decimals two_pool_pair = 2"
    "borrow_pool two_pool_pair = debt_pool" "collateral_pool two_pool_pair = seizable_pool"
    "liquidation_close_factor_bps debt_pool = 5000"
    by (simp_all add: two_pool_pair_def debt_pool_def small_defs)
  ultimately show ?thesis using fit by (simp add: direct_repay_def)
qed


text \<open>A positive answer of \<open>seizable_collateral_covers_debt\<close> means what it says: every borrow is
  priced, and the deposits in pools with a positive close LTV are together worth something and at
  least the sum of the debts.\<close>

theorem seizable_collateral_covers_debt_sound:
  assumes "seizable_collateral_covers_debt ob md = Ok True"
  shows "\<exists>ds cs. list_all2 (borrow_value md) (borrows ob) ds \<and>
    list_all2 (seizable_value md) (deposits ob) cs \<and> 0 < sum_list cs \<and> sum_list ds \<le> sum_list cs"
proof -
  from assms obtain d c where "covered_debt_loop md (borrows ob) 0 = Ok (Some d)"
    "seizable_loop md (deposits ob) 0 = Ok c" "0 < c" "d \<le> c"
    by (auto simp: seizable_collateral_covers_debt_def split: option.splits)
  then show ?thesis using covered_debt_loop_Some seizable_loop_Ok by fastforce
qed

theorem seizable_collateral_covers_debt_sound_witness:
  "seizable_collateral_covers_debt two_pool_obligation two_pool_market = Ok True \<and>
   (\<exists>ds cs. list_all2 (borrow_value two_pool_market) (borrows two_pool_obligation) ds \<and> 0 < sum_list cs \<and>
     sum_list ds \<le> sum_list cs)"
proof -
  have "seizable_collateral_covers_debt two_pool_obligation two_pool_market = Ok True"
    by (simp add: seizable_collateral_covers_debt_def two_pool_defs find_pool_def pool_of_def
        d_tokens_to_tokens_ceil_def amount_checked_add_def pair_eval cong: bindr_step_cong)
  from this seizable_collateral_covers_debt_sound [OF this] show ?thesis by blast
qed

end
