(* ===== verification/World.thy ===== *)
theory World
  imports Capital Liquidation
begin

text \<open>
  The ground the strategies stand on.  A strategy runs as an asynchronous task: at every \<open>await\<close> it
  calls a port (\<^verbatim>\<open>engine/src/ports\<close>) and any other task may run before the call returns.  A port
  call is therefore a function of the whole shared world that returns an answer and a world, with no
  promise on how the capital ledger or the clocks have moved; between two calls a task runs alone.

  The traits \<open>LedgerReader\<close>, \<open>OperationBuilder\<close>, \<open>BatchSimulator\<close> and \<open>EventCodec\<close> are records of
  operations, as the strategies hold them.  A task that aborts the process has no result.
\<close>

section \<open>The shared world\<close>

type_synonym rpc_error = string

record 'w world =
  capital :: liquidator_capital
  instant :: nat
  unix_seconds :: nat
  unix_nanos :: "64 word option"
  process_id :: "64 word"
  seed_counter :: "64 word"
  outside :: 'w

type_synonym ('w, 'a) call = "'w world \<Rightarrow> 'a \<times> 'w world"
type_synonym ('w, 'a) proc = "'w world \<Rightarrow> ('a \<times> 'w world) option"

section \<open>Ports\<close>

datatype batch_simulation = BatchOk | BatchFailed (contract_code: "nat option")

record 'w ledger_reader =
  read_token_balance :: "string \<Rightarrow> string \<Rightarrow> ('w, rpc_error + i128) call"
  read_market_data :: "string \<Rightarrow> ('w, rpc_error + market_data) call"
  read_pool_data :: "string \<Rightarrow> string \<Rightarrow> ('w, rpc_error + pool_data) call"
  read_user_obligation :: "string \<Rightarrow> obligation_key \<Rightarrow> ('w, rpc_error + obligation) call"
  read_all_obligations_keys :: "string \<Rightarrow> ('w, rpc_error + obligation_key list) call"
  read_account_token_balance :: "string \<Rightarrow> string \<Rightarrow> ('w, rpc_error + i128) call"
  get_amount_out :: "i128 \<Rightarrow> string \<Rightarrow> string \<Rightarrow> string \<Rightarrow> ('w, rpc_error + i128) call"
  get_amount_in :: "i128 \<Rightarrow> string \<Rightarrow> string \<Rightarrow> string \<Rightarrow> ('w, rpc_error + i128) call"
  get_is_obligation_liquidatable ::
    "string \<Rightarrow> string \<Rightarrow> obligation_key \<Rightarrow> string \<Rightarrow> string \<Rightarrow> ('w, rpc_error + bool) call"

record ('w, 'r, 'op) gateway =
  liquidate_request :: "obligation_key \<Rightarrow> string \<Rightarrow> string \<Rightarrow> i128 \<Rightarrow> i128 \<Rightarrow> rpc_error + 'r"
  flash_borrow_request :: "string \<Rightarrow> i128 \<Rightarrow> rpc_error + 'r"
  withdraw_request :: "string \<Rightarrow> i128 \<Rightarrow> rpc_error + 'r"
  swap_exact_tokens_request :: "string \<Rightarrow> i128 \<Rightarrow> i128 \<Rightarrow> string list \<Rightarrow> rpc_error + 'r"
  swap_for_exact_tokens_request :: "string \<Rightarrow> i128 \<Rightarrow> i128 \<Rightarrow> string list \<Rightarrow> rpc_error + 'r"
  batch_op :: "string \<Rightarrow> obligation_key \<Rightarrow> 'r list \<Rightarrow> rpc_error + 'op"
  withdraw_op :: "string \<Rightarrow> obligation_key \<Rightarrow> string \<Rightarrow> i128 \<Rightarrow> rpc_error + 'op"
  cover_bad_debt_op :: "string \<Rightarrow> obligation_key \<Rightarrow> rpc_error + 'op"
  simulate_batch :: "string \<Rightarrow> obligation_key \<Rightarrow> 'r list \<Rightarrow> ('w, rpc_error + batch_simulation) call"

section \<open>Events and actions\<close>

datatype operation_event =
    Repay | Borrow | Deposit | Withdraw | Liquidate | AddCollateral | RemoveCollateral
  | IssueCoverBadDebt | ClaimCoverBadDebtResults

definition operation_event_try_from :: "string \<Rightarrow> string + operation_event" where
  "operation_event_try_from s =
     (if s = ''repay_event'' then Inr Repay
      else if s = ''borrow_event'' then Inr Borrow
      else if s = ''deposit_event'' then Inr Deposit
      else if s = ''withdraw_event'' then Inr Withdraw
      else if s = ''liquidate_event'' then Inr Liquidate
      else if s = ''add_collateral_event'' then Inr AddCollateral
      else if s = ''remove_collateral_event'' then Inr RemoveCollateral
      else if s = ''issue_cover_bad_debt'' then Inr IssueCoverBadDebt
      else if s = ''claim_cover_bad_debt_results'' then Inr ClaimCoverBadDebtResults
      else Inl s)"

text \<open>The fields of an RPC event the keeper reads.\<close>

record soroban_event =
  contract_id :: string
  ev_id :: string
  ev_ledger :: nat
  ev_value :: string
  ev_topics :: "string list"

datatype keeper_event = SorobanEvents soroban_event | NewLedger (seq_num: nat)

record event_codec =
  decode_operation :: "soroban_event \<Rightarrow> rpc_error + operation_event"
  decode_topic :: "soroban_event \<Rightarrow> nat \<Rightarrow> string"
  parse_obligation_key_from_topic :: "soroban_event \<Rightarrow> nat \<Rightarrow> rpc_error + obligation_key"
  parse_obligation_from_event_value ::
    "string \<Rightarrow> string \<Rightarrow> obligation_key \<Rightarrow> rpc_error + obligation option"
  parse_liquidation_result_from_liquidation_event_value ::
    "string \<Rightarrow> rpc_error + liquidation_result option"

record 'w store =
  repo_put :: "string \<Rightarrow> obligation_key \<Rightarrow> obligation \<Rightarrow> ('w, rpc_error + unit) call"
  repo_delete :: "string \<Rightarrow> obligation_key \<Rightarrow> ('w, rpc_error + unit) call"
  repo_load_all :: "string \<Rightarrow> ('w, rpc_error + (obligation_key, obligation) hash_map) call"
  cursor_set :: "string \<Rightarrow> nat \<Rightarrow> ('w, rpc_error + unit) call"

record settle_hook =
  op_id :: "64 word"
  liquidation_outcome :: "(string \<times> i128) option"

record 'op submit_stellar_tx =
  tx_op :: 'op
  signing_key :: string
  max_submission_retries :: nat
  on_settle :: "settle_hook option"

datatype 'op action = SubmitTx "'op submit_stellar_tx"

section \<open>Tasks\<close>

definition pret :: "'a \<Rightarrow> ('w, 'a) proc" where
  "pret x = (\<lambda>w. Some (x, w))"

definition pbind :: "('w, 'a) proc \<Rightarrow> ('a \<Rightarrow> ('w, 'b) proc) \<Rightarrow> ('w, 'b) proc" where
  "pbind m f = (\<lambda>w. case m w of None \<Rightarrow> None | Some (x, w') \<Rightarrow> f x w')"

definition pcall :: "('w, 'a) call \<Rightarrow> ('w, 'a) proc" where
  "pcall c = (\<lambda>w. Some (c w))"

text \<open>\<open>pstop\<close> is \<open>?\<close> on an option, or \<open>let Some(x) = .. else { return None }\<close>, inside a task that
  returns an option; \<open>ppure\<close> runs a pure step of it.\<close>

definition pstop :: "('w, 'a option) proc \<Rightarrow> ('a \<Rightarrow> ('w, 'b option) proc) \<Rightarrow> ('w, 'b option) proc" where
  "pstop m f = pbind m (\<lambda>v. case v of None \<Rightarrow> pret None | Some x \<Rightarrow> f x)"

fun ppure :: "(unit, 'a) outcome \<Rightarrow> ('w, 'a) proc" where
  "ppure (Ok x) = pret x"
| "ppure (Err e) = (\<lambda>w. None)"
| "ppure Panic = (\<lambda>w. None)"

lemma pret_eq_Some_iff [simp]: "pret x w = Some (y, w') \<longleftrightarrow> y = x \<and> w' = w"
  by (auto simp: pret_def)

lemma pbind_eq_Some_iff [simp]:
  "pbind m f w = Some (y, w'') \<longleftrightarrow> (\<exists>x w'. m w = Some (x, w') \<and> f x w' = Some (y, w''))"
  by (auto simp: pbind_def split: option.splits)

lemma pcall_eq_Some_iff [simp]: "pcall c w = Some (y, w') \<longleftrightarrow> c w = (y, w')"
  by (auto simp: pcall_def)

lemma pstop_eq_Some_iff [simp]:
  "pstop m f w = Some (Some y, w'') \<longleftrightarrow> (\<exists>x w'. m w = Some (Some x, w') \<and> f x w' = Some (Some y, w''))"
  by (auto simp: pstop_def split: option.splits)

lemma ppure_eq_Some_iff [simp]: "ppure m w = Some (y, w') \<longleftrightarrow> m = Ok y \<and> w' = w"
  by (cases m) auto

lemma pbind_pret [simp]: "pbind (pret x) f = f x"
  by (simp add: pbind_def pret_def)

lemma pstop_pret [simp]: "pstop (pret (Some x)) f = f x" "pstop (pret None) f = pret None"
  by (simp_all add: pstop_def)

lemma pbind_pcall: "pbind (pcall c) f w = (case c w of (x, w') \<Rightarrow> f x w')"
  by (simp add: pbind_def pcall_def)

lemma pbind_okE:
  "pbind m f w = Some r \<Longrightarrow> (\<And>x w'. m w = Some (x, w') \<Longrightarrow> f x w' = Some r \<Longrightarrow> R) \<Longrightarrow> R"
  by (auto simp: pbind_def split: option.splits)

lemma pstop_okE:
  "pstop m f w = Some (Some y, w'') \<Longrightarrow>
     (\<And>x w'. m w = Some (Some x, w') \<Longrightarrow> f x w' = Some (Some y, w'') \<Longrightarrow> R) \<Longrightarrow> R"
  by auto

text \<open>Case analysis of a task that branches on a value it has.\<close>

lemma opt_case_appE:
  "(case v of None \<Rightarrow> a | Some x \<Rightarrow> f x) w = r \<Longrightarrow> (v = None \<Longrightarrow> a w = r \<Longrightarrow> R) \<Longrightarrow>
     (\<And>x. v = Some x \<Longrightarrow> f x w = r \<Longrightarrow> R) \<Longrightarrow> R"
  by (cases v) auto

lemma sum_case_appE:
  "(case v of Inl e \<Rightarrow> a e | Inr x \<Rightarrow> f x) w = r \<Longrightarrow> (\<And>e. v = Inl e \<Longrightarrow> a e w = r \<Longrightarrow> R) \<Longrightarrow>
     (\<And>x. v = Inr x \<Longrightarrow> f x w = r \<Longrightarrow> R) \<Longrightarrow> R"
  by (cases v) auto

lemma pair_case_appE:
  "(case z of (a, b) \<Rightarrow> f a b) w = r \<Longrightarrow> (\<And>a b. z = (a, b) \<Longrightarrow> f a b w = r \<Longrightarrow> R) \<Longrightarrow> R"
  by (cases z) auto

lemma batch_case_appE:
  "(case v of BatchOk \<Rightarrow> a | BatchFailed c \<Rightarrow> f c) w = r \<Longrightarrow> (v = BatchOk \<Longrightarrow> a w = r \<Longrightarrow> R) \<Longrightarrow>
     (\<And>c. v = BatchFailed c \<Longrightarrow> f c w = r \<Longrightarrow> R) \<Longrightarrow> R"
  by (cases v) auto

lemma outcome_case_appE:
  "(case v of Ok x \<Rightarrow> f x | Err e \<Rightarrow> g e | Panic \<Rightarrow> h) w = r \<Longrightarrow> (\<And>x. v = Ok x \<Longrightarrow> f x w = r \<Longrightarrow> R) \<Longrightarrow>
     (\<And>e. v = Err e \<Longrightarrow> g e w = r \<Longrightarrow> R) \<Longrightarrow> (v = Panic \<Longrightarrow> h w = r \<Longrightarrow> R) \<Longrightarrow> R"
  by (cases v) auto

lemma if_appE:
  "(if c then a else b) w = r \<Longrightarrow> (c \<Longrightarrow> a w = r \<Longrightarrow> R) \<Longrightarrow> (\<not> c \<Longrightarrow> b w = r \<Longrightarrow> R) \<Longrightarrow> R"
  by (simp split: if_splits)

lemmas task_elims =
  pbind_okE opt_case_appE sum_case_appE pair_case_appE batch_case_appE outcome_case_appE if_appE

section \<open>Balances\<close>

text \<open>\<open>LiquidatorCapital::try_get_balance\<close>: the lock is not held across the read, so the ledger may
  have changed when the answer is cached.\<close>

definition try_get_balance :: "'w ledger_reader \<Rightarrow> string \<Rightarrow> ('w, rpc_error + i128) call" where
  "try_get_balance L token w =
     (case get_freshly_cached_balance (instant w) token (capital w) of
        Some b \<Rightarrow> (Inr b, w)
      | None \<Rightarrow>
          (case read_token_balance L token (cap_pkey (capital w)) w of
             (Inl e, w') \<Rightarrow> (Inl e, w')
           | (Inr amount, w') \<Rightarrow>
               (Inr amount, w'\<lparr>capital := cache_balance (instant w') token amount (capital w')\<rparr>)))"

text \<open>\<open>LiquidatorCapital::reserve\<close> and \<open>release\<close> on the shared ledger, with the identifier drawn from
  the world.\<close>

definition draw_id :: "('w, 64 word) call" where
  "draw_id w =
     (let (rid, counter) = random_id (unix_nanos w) (process_id w) (seed_counter w)
      in (rid, w\<lparr>seed_counter := counter\<rparr>))"

text \<open>The identifier is drawn only when the reservation is entered.\<close>

definition reserve_in :: "i128 \<Rightarrow> i128 \<Rightarrow> string \<Rightarrow> ('w, (keeper_error, 64 word) outcome) call" where
  "reserve_in amount available token w =
     (let (rid, w1) = draw_id w;
          (r, cap) = reserve (instant w) (instant w) rid amount available token (capital w)
      in (r, (case r of Ok i \<Rightarrow> w1 | Err e \<Rightarrow> w | Panic \<Rightarrow> w)\<lparr>capital := cap\<rparr>))"

definition release_in :: "64 word \<Rightarrow> ('w, unit) call" where
  "release_in rid w = ((), w\<lparr>capital := release rid (capital w)\<rparr>)"

text \<open>Whatever balance a task is told stands in the cache afterwards.\<close>

lemma try_get_balance_cached:
  assumes "try_get_balance L token w = (Inr b, w')"
  shows "\<exists>c. hm_get (balances (inner (capital w'))) token = Some c \<and> cb_amount c = b"
  using assms
  by (auto simp: try_get_balance_def get_freshly_cached_balance_def cache_balance_def
      split: option.splits prod.splits sum.splits if_splits)

section \<open>The ledger of reservations\<close>

abbreviation ledger_of :: "'w world \<Rightarrow> 64 word \<Rightarrow> reservation option" where
  "ledger_of w \<equiv> hm_get (reservations (inner (capital w)))"

lemma draw_id_ledger [simp]: "draw_id w = (r, w') \<Longrightarrow> capital w' = capital w"
  by (auto simp: draw_id_def Let_def split: prod.splits)

lemma reserve_Ok:
  assumes "reserve now now' rid amount available token cap = (Ok r, cap')"
  shows "r = rid \<and> 0 < amount \<and> hm_get (reservations (inner cap')) rid =
    Some \<lparr>res_amount = amount, created_at = now', res_token = token\<rparr>"
  using assms by (auto simp: reserve_def Let_def split: if_splits outcome.splits)

lemma reserve_in_Ok:
  assumes "reserve_in amount available token w = (Ok r, w')"
  shows "\<exists>e. hm_get (reservations (inner (capital w'))) r = Some e \<and> res_amount e = amount \<and> res_token e = token"
  using assms by (auto simp: reserve_in_def Let_def split: prod.splits dest!: reserve_Ok)

lemma reserve_in_Err:
  assumes "reserve_in amount available token w = (Err e, w')" "hm_wf (reservations (inner (capital w)))"
  shows "ledger_of w' \<subseteq>\<^sub>m ledger_of w"
  using assms hm_retain_le [OF assms(2)]
  by (auto simp: reserve_in_def reserve_def Let_def unlock_expired_def split: prod.splits if_splits outcome.splits)

lemma reserve_in_Ok_released:
  assumes "reserve_in amount available token w = (Ok r, w')" "hm_wf (reservations (inner (capital w)))"
  shows "(ledger_of w')(r := None) \<subseteq>\<^sub>m ledger_of w"
proof -
  have "((hm_get (hm_retain P m))(r \<mapsto> v))(r := None) \<subseteq>\<^sub>m hm_get m" if "hm_wf m" for P m v
    using hm_retain_le [OF that, of P] by (auto simp: map_le_def)
  then show ?thesis
    using assms by (auto simp: reserve_in_def reserve_def Let_def unlock_expired_def split: prod.splits if_splits outcome.splits)
qed

end
