(* ===== verification/Example_Ports.thy ===== *)
theory Example_Ports
  imports World
begin

text \<open>
  Concrete ports and a concrete world for the worked examples: a ledger, a gateway, an event codec and
  a store that answer at once and change nothing.  The keeper of the examples is \<open>''K''\<close>, the borrower
  \<open>''U''\<close>, the market \<open>''M''\<close>.
\<close>

text \<open>A ledger that answers every question without changing the world.\<close>

definition example_ledger :: "unit ledger_reader" where
  "example_ledger = \<lparr>read_token_balance = (\<lambda>t a w. (Inr 1000, w)),
     read_market_data = (\<lambda>m w. (Inr two_pool_market, w)),
     read_pool_data = (\<lambda>m p w. (Inr debt_pool, w)),
     read_user_obligation = (\<lambda>m k w. (Inr two_pool_obligation, w)),
     read_all_obligations_keys = (\<lambda>m w. (Inr [obligation_key_new ''U''], w)),
     read_account_token_balance = (\<lambda>t a w. (Inr 1000, w)),
     get_amount_out = (\<lambda>a x y p w. (Inr (if p = ''S1'' then 40 else 45), w)),
     get_amount_in = (\<lambda>a x y p w. (Inr (if p = ''S1'' then 40 else 45), w)),
     get_is_obligation_liquidatable = (\<lambda>m a k b c w. (Inr True, w))\<rparr>"

definition example_world :: "unit world" where
  "example_world = \<lparr>capital = capital_new ''K'' example_capital_config, instant = 100, unix_seconds = 0,
     unix_nanos = Some 5, process_id = 1, seed_counter = 0, outside = ()\<rparr>"

definition example_gateway :: "(unit, string, string list) gateway" where
  "example_gateway = \<lparr>liquidate_request = (\<lambda>k b c r e. Inr ''liquidate''),
     flash_borrow_request = (\<lambda>p a. Inr ''flash_borrow''), withdraw_request = (\<lambda>p a. Inr ''withdraw''),
     swap_exact_tokens_request = (\<lambda>p a m path. Inr ''swap''),
     swap_for_exact_tokens_request = (\<lambda>p a m path. Inr ''swap''), batch_op = (\<lambda>m k rs. Inr rs),
     withdraw_op = (\<lambda>m k p a. Inr [''withdraw'']), cover_bad_debt_op = (\<lambda>m k. Inr [''cover'']),
     simulate_batch = (\<lambda>m k rs w. (Inr BatchOk, w))\<rparr>"

definition example_codec :: event_codec where
  "example_codec = \<lparr>decode_operation = (\<lambda>e. case ev_topics e of [] \<Rightarrow> Inl ''no topic'' | t # ts \<Rightarrow>
       operation_event_try_from t),
     decode_topic = (\<lambda>e n. if n < length (ev_topics e) then ev_topics e ! n else ''''),
     parse_obligation_key_from_topic = (\<lambda>e n. if n < length (ev_topics e)
       then Inr (obligation_key_new (ev_topics e ! n)) else Inl ''no topic''),
     parse_obligation_from_event_value = (\<lambda>v f k. if v = '''' then Inr None else Inr (Some two_pool_obligation)),
     parse_liquidation_result_from_liquidation_event_value = (\<lambda>v. Inr None)\<rparr>"

definition example_store :: "unit store" where
  "example_store = \<lparr>repo_put = (\<lambda>m k ob w. (Inr (), w)), repo_delete = (\<lambda>m k w. (Inr (), w)),
     repo_load_all = (\<lambda>m w. (Inr [(obligation_key_new ''U'', two_pool_obligation)], w)),
     cursor_set = (\<lambda>i n w. (Inr (), w))\<rparr>"

end
