(* ===== verification/Liquidator_Plan.thy ===== *)
theory Liquidator_Plan
  imports Example_Ports
begin

text \<open>
  \<^verbatim>\<open>keeper/src/strategy/liquidator.rs\<close>, planning: the configuration, the three kinds of plans
  (direct, flash, pre-swap) and the choice among them for one (borrow, collateral) pair.  Logging and
  metrics are left out.  A pure step that may stop with \<open>None\<close> has the type
  \<open>(unit, 'a option) outcome\<close>, whose error is never used.
\<close>

section \<open>Data\<close>

record liquidator_config =
  max_retries :: nat
  xlm_address :: string
  markets :: "string list"
  xlm_safety_margin :: i128
  assets_to_hold :: "string list"
  swap_providers :: "string list"
  refresh_interval_blocks :: nat
  min_profit_margin_cents :: i128
  max_market_data_age :: nat
  max_allowed_swap_slippage_bps :: i128
  cfg_dust_rules :: dust_rules

datatype liquidation_type =
    Direct
  | PreSwap (source_asset: string) (source_amount_in: i128) (min_amount_out: i128) (swap_provider: string)
  | Flash (flash_repay_amount: i128) (flash_swap_provider: string) (immediate_withdraw_amount: i128)

record liquidation_plan =
  repay_amount :: i128
  net_profit_value :: i128
  borrower_key :: obligation_key
  borrow_pool_address :: string
  collateral_pool_address :: string
  expected_seized_collateral :: i128
  plan_type :: liquidation_type

text \<open>The values every step of planning one pair is given.\<close>

record pair_input =
  in_insolvent :: bool
  in_d_tokens :: i128
  in_borrow_pool :: pool_data
  in_market_data :: market_data
  in_collateral_pool :: pool_data
  in_obligation :: obligation
  in_deposit :: deposit_position
  in_key :: obligation_key

section \<open>Pure steps\<close>

text \<open>\<open>amount.saturating_mul(price).saturating_div(10.pow(decimals))\<close>.\<close>

definition priced :: "i128 \<Rightarrow> pool_data \<Rightarrow> ('e, i128) outcome" where
  "priced amount pool =
     bindr (raw_pow10 (token_decimals pool)) (\<lambda>f.
     Ok (saturating_div (saturating_mul amount (oracle_asset_price pool)) f))"

definition strategy_pair :: "liquidator_config \<Rightarrow> pair_input \<Rightarrow> (unit, liquidation_pair option) outcome" where
  "strategy_pair cfg i =
     ok_of (pair_new (cfg_dust_rules cfg) (in_obligation i) (in_market_data i) (in_borrow_pool i)
       (in_collateral_pool i) (in_deposit i) (in_insolvent i))"

definition strategy_fit_repay :: "liquidation_pair \<Rightarrow> i128 \<Rightarrow> i128 \<Rightarrow> (unit, i128 option) outcome" where
  "strategy_fit_repay pair repay max_offer =
     or_stop (ok_of (fit_repay pair repay max_offer)) (\<lambda>fitted. Ok fitted)"

definition compute_seized :: "liquidator_config \<Rightarrow> pair_input \<Rightarrow> i128 \<Rightarrow> (unit, (i128 \<times> i128) option) outcome"
where
  "compute_seized cfg i repay =
     or_stop (strategy_pair cfg i) (\<lambda>pair.
     or_stop (ok_of (quote pair repay)) (\<lambda>q.
     case q of
       Accepted seized repaid \<Rightarrow> if \<not> seized > 0 then Ok None else Ok (Some (seized, repaid))
     | OverCloseFactor \<Rightarrow> Ok None
     | LeavesDust \<Rightarrow> Ok None))"

definition make_plan :: "pair_input \<Rightarrow> i128 \<Rightarrow> i128 \<Rightarrow> i128 \<Rightarrow> liquidation_type \<Rightarrow> liquidation_plan" where
  "make_plan i repay net seized ty =
     \<lparr>repay_amount = repay, net_profit_value = net, borrower_key = in_key i,
      borrow_pool_address = pool_address (in_borrow_pool i),
      collateral_pool_address = pool_address (in_collateral_pool i),
      expected_seized_collateral = seized, plan_type = ty\<rparr>"

text \<open>The common end of the three plans: stop unless the profitability is computed and acceptable.\<close>

definition accept_or_stop ::
  "i128 \<Rightarrow> i128 \<Rightarrow> i128 \<Rightarrow> (liquidation_profitability \<Rightarrow> 'a) \<Rightarrow> (unit, 'a option) outcome" where
  "accept_or_stop gain cost margin_value k =
     or_stop (ok_of (compute_liquidation_profitability gain cost margin_value)) (\<lambda>pr.
     if \<not> is_acceptable pr then Ok None else Ok (Some (k pr)))"

definition try_direct_plan ::
  "liquidator_config \<Rightarrow> pair_input \<Rightarrow> i128 \<Rightarrow> i128 \<Rightarrow> (unit, liquidation_plan option) outcome" where
  "try_direct_plan cfg i repay margin_value =
     or_stop (compute_seized cfg i repay) (\<lambda>(seized, repaid).
     bindr (priced repaid (in_borrow_pool i)) (\<lambda>repay_value.
     bindr (priced seized (in_collateral_pool i)) (\<lambda>received_value.
     accept_or_stop received_value repay_value margin_value (\<lambda>pr.
       make_plan i repay (net_value pr) seized Direct))))"

section \<open>Swap quotes\<close>

fun best_quote_loop ::
  "'w ledger_reader \<Rightarrow> i128 \<Rightarrow> string \<Rightarrow> string \<Rightarrow> string list \<Rightarrow> (string \<times> i128) option \<Rightarrow>
     ('w, (string \<times> i128) option) call" where
  "best_quote_loop L amount_in asset_in asset_out [] best w = (best, w)"
| "best_quote_loop L amount_in asset_in asset_out (provider # ps) best w =
     (case get_amount_out L amount_in asset_in asset_out provider w of
        (Inr out, w') \<Rightarrow>
          best_quote_loop L amount_in asset_in asset_out ps
            (if out > 0 \<and> (case best of None \<Rightarrow> True | Some (_, prev) \<Rightarrow> out > prev)
             then Some (provider, out) else best) w'
      | (Inl e, w') \<Rightarrow> best_quote_loop L amount_in asset_in asset_out ps best w')"

definition best_swap_quote ::
  "liquidator_config \<Rightarrow> 'w ledger_reader \<Rightarrow> i128 \<Rightarrow> string \<Rightarrow> string \<Rightarrow> ('w, (string \<times> i128) option) call"
where
  "best_swap_quote cfg L amount_in asset_in asset_out =
     best_quote_loop L amount_in asset_in asset_out (swap_providers cfg) None"

fun best_base_loop ::
  "'w ledger_reader \<Rightarrow> i128 \<Rightarrow> string \<Rightarrow> string \<Rightarrow> string list \<Rightarrow> (string \<times> i128) option \<Rightarrow>
     ('w, (string \<times> i128) option) call" where
  "best_base_loop L amount_out asset_in asset_out [] best w = (best, w)"
| "best_base_loop L amount_out asset_in asset_out (provider # ps) best w =
     (case get_amount_in L amount_out asset_in asset_out provider w of
        (Inr amount_in, w') \<Rightarrow>
          best_base_loop L amount_out asset_in asset_out ps
            (if amount_in > 0 \<and> (case best of None \<Rightarrow> True | Some (_, prev) \<Rightarrow> amount_in < prev)
             then Some (provider, amount_in) else best) w'
      | (Inl e, w') \<Rightarrow> best_base_loop L amount_out asset_in asset_out ps best w')"

definition best_swap_base ::
  "liquidator_config \<Rightarrow> 'w ledger_reader \<Rightarrow> i128 \<Rightarrow> string \<Rightarrow> string \<Rightarrow> ('w, (string \<times> i128) option) call"
where
  "best_swap_base cfg L amount_out asset_in asset_out =
     best_base_loop L amount_out asset_in asset_out (swap_providers cfg) None"

section \<open>The flash plan\<close>

text \<open>How a seizure splits into plain collateral and a withdrawal from the supplied tokens.\<close>

definition flash_split :: "pair_input \<Rightarrow> i128 \<Rightarrow> (unit, (i128 \<times> i128) option) outcome" where
  "flash_split i seized =
     (let all_plain = collateral (in_deposit i) in
      if seized \<le> all_plain then Ok (Some (seized, 0))
      else or_stop (ok_of (j_tokens_to_tokens_floor (in_collateral_pool i) (j_tokens (in_deposit i))))
             (\<lambda>all_deposit.
             bindr (raw_sub seized all_plain) (\<lambda>left.
             Ok (Some (all_plain, min all_deposit left)))))"

definition flash_amounts ::
  "liquidator_config \<Rightarrow> pair_input \<Rightarrow> i128 \<Rightarrow> (unit, (i128 \<times> i128 \<times> i128 \<times> i128 \<times> i128) option) outcome"
where
  "flash_amounts cfg i repay =
     or_stop (compute_seized cfg i repay) (\<lambda>(seized, repaid).
     or_stop (flash_split i seized) (\<lambda>(plain, withdraw).
     case checked_add plain withdraw of
       None \<Rightarrow> Ok None
     | Some de_facto \<Rightarrow>
         or_stop (ok_of (compute_flash_fee repay (flash_loan_fee_bps (in_borrow_pool i)))) (\<lambda>fee.
         Ok (Some (seized, repaid, withdraw, de_facto, saturating_add repay fee)))))"

definition minus_slippage :: "liquidator_config \<Rightarrow> i128 \<Rightarrow> ('e, i128) outcome" where
  "minus_slippage cfg amount =
     bindr (raw_sub BPS_FACTOR (max_allowed_swap_slippage_bps cfg)) (\<lambda>f.
     Ok (saturating_div (saturating_mul amount f) BPS_FACTOR))"

definition plus_slippage :: "liquidator_config \<Rightarrow> i128 \<Rightarrow> ('e, i128) outcome" where
  "plus_slippage cfg amount =
     bindr (raw_add BPS_FACTOR (max_allowed_swap_slippage_bps cfg)) (\<lambda>f.
     raw_div (saturating_mul amount f) BPS_FACTOR)"

text \<open>What remains once the best quote is known.\<close>

definition flash_judge ::
  "liquidator_config \<Rightarrow> pair_input \<Rightarrow> i128 \<Rightarrow> i128 \<Rightarrow> i128 \<times> i128 \<times> i128 \<times> i128 \<times> i128 \<Rightarrow>
     string \<times> i128 \<Rightarrow> (unit, liquidation_plan option) outcome" where
  "flash_judge cfg i repay margin_value am best =
     (case am of (seized, repaid, withdraw, de_facto, flash_repay) \<Rightarrow>
      case best of (provider, amount_out) \<Rightarrow>
      bindr (minus_slippage cfg amount_out) (\<lambda>out.
      if out < flash_repay then Ok None
      else
      bindr (priced (saturating_sub flash_repay (saturating_sub repay repaid)) (in_borrow_pool i)) (\<lambda>cost.
      bindr (priced de_facto (in_collateral_pool i)) (\<lambda>gain.
      accept_or_stop gain cost margin_value (\<lambda>pr.
        make_plan i repay (net_value pr) seized (Flash flash_repay provider withdraw))))))"

definition try_flash_plan ::
  "liquidator_config \<Rightarrow> 'w ledger_reader \<Rightarrow> pair_input \<Rightarrow> i128 \<Rightarrow> i128 \<Rightarrow> ('w, liquidation_plan option) proc"
where
  "try_flash_plan cfg L i repay margin_value =
     pstop (ppure (flash_amounts cfg i repay)) (\<lambda>am.
     case am of (seized, repaid, withdraw, de_facto, flash_repay) \<Rightarrow>
     pstop (pcall (best_swap_quote cfg L de_facto (token_address (in_collateral_pool i))
                     (token_address (in_borrow_pool i)))) (\<lambda>best.
     ppure (flash_judge cfg i repay margin_value am best)))"

section \<open>The pre-swap plan\<close>

definition usable_balance :: "liquidator_config \<Rightarrow> string \<Rightarrow> i128 \<Rightarrow> i128" where
  "usable_balance cfg token raw =
     (if token = xlm_address cfg then saturating_sub raw (xlm_safety_margin cfg) else raw)"

text \<open>The swap a source asset can afford: provider, amount in and amount out.  \<open>None\<close> continues with
  the next asset.\<close>

definition preswap_sizing ::
  "liquidator_config \<Rightarrow> 'w ledger_reader \<Rightarrow> pair_input \<Rightarrow> i128 \<Rightarrow> string \<Rightarrow>
     ('w, (string \<times> i128 \<times> i128) option) proc" where
  "preswap_sizing cfg L i max_repay asset =
     pbind (pcall (try_get_balance L asset)) (\<lambda>rb.
     case rb of
       Inl e \<Rightarrow> pret None
     | Inr raw \<Rightarrow>
         let swappable = usable_balance cfg asset raw;
             borrow_token = token_address (in_borrow_pool i) in
         if \<not> swappable > 0 then pret None
         else
         pstop (pcall (best_swap_base cfg L max_repay asset borrow_token)) (\<lambda>(provider, max_in).
         pbind (ppure (plus_slippage cfg max_in)) (\<lambda>max_in_plus.
         if max_in_plus \<le> swappable then pret (Some (provider, max_in_plus, max_repay))
         else
         pstop (pcall (best_swap_quote cfg L swappable asset borrow_token)) (\<lambda>(provider', min_out).
         pbind (ppure (bindr (raw_sub BPS_FACTOR (max_allowed_swap_slippage_bps cfg)) (\<lambda>f.
                  raw_div (saturating_mul min_out f) BPS_FACTOR))) (\<lambda>out.
         pret (Some (provider', swappable, out)))))))"

text \<open>What an asset's swap gives: \<open>Inl ()\<close> is the early return of the whole function, \<open>Inr None\<close>
  continues with the next asset, \<open>Inr (Some plan)\<close> is an acceptable plan.\<close>

definition preswap_judge ::
  "liquidator_config \<Rightarrow> pair_input \<Rightarrow> liquidation_pair \<Rightarrow> i128 \<Rightarrow> string \<Rightarrow> string \<times> i128 \<times> i128 \<Rightarrow>
     (unit, unit + liquidation_plan option) outcome" where
  "preswap_judge cfg i pair margin_value asset sized =
     (case sized of (provider, amount_in, amount_out) \<Rightarrow>
      bindr (strategy_fit_repay pair amount_out amount_out) (\<lambda>fitted.
      case fitted of
        None \<Rightarrow> Ok (Inr None)
      | Some repay \<Rightarrow>
          bindr (compute_seized cfg i repay) (\<lambda>sz.
          case sz of
            None \<Rightarrow> Ok (Inl ())
          | Some (seized, repaid) \<Rightarrow>
              (case List.find (\<lambda>p. token_address p = asset) (pools_data (in_market_data i)) of
                 None \<Rightarrow> Ok (Inr None)
               | Some source_pool \<Rightarrow>
                   bindr (priced (saturating_sub repay repaid) (in_borrow_pool i)) (\<lambda>refund.
                   bindr (priced amount_in source_pool) (\<lambda>spent.
                   bindr (priced seized (in_collateral_pool i)) (\<lambda>gain.
                   bindr (ok_of (compute_liquidation_profitability gain (saturating_sub spent refund)
                             margin_value)) (\<lambda>p.
                   case p of
                     None \<Rightarrow> Ok (Inl ())
                   | Some pr \<Rightarrow>
                       if \<not> is_acceptable pr then Ok (Inr None)
                       else Ok (Inr (Some (make_plan i repay (net_value pr) seized
                              (PreSwap asset amount_in amount_out provider)))))))))))) "

fun preswap_loop ::
  "liquidator_config \<Rightarrow> 'w ledger_reader \<Rightarrow> pair_input \<Rightarrow> liquidation_pair \<Rightarrow> i128 \<Rightarrow> i128 \<Rightarrow>
     string list \<Rightarrow> liquidation_plan option \<Rightarrow> ('w, liquidation_plan option) proc" where
  "preswap_loop cfg L i pair max_repay margin_value [] best = pret best"
| "preswap_loop cfg L i pair max_repay margin_value (asset # assets) best =
     (if asset = token_address (in_borrow_pool i)
      then preswap_loop cfg L i pair max_repay margin_value assets best
      else
      pbind (preswap_sizing cfg L i max_repay asset) (\<lambda>sized.
      case sized of
        None \<Rightarrow> preswap_loop cfg L i pair max_repay margin_value assets best
      | Some s \<Rightarrow>
          pbind (ppure (preswap_judge cfg i pair margin_value asset s)) (\<lambda>v.
          case v of
            Inl u \<Rightarrow> pret None
          | Inr None \<Rightarrow> preswap_loop cfg L i pair max_repay margin_value assets best
          | Inr (Some plan) \<Rightarrow>
              preswap_loop cfg L i pair max_repay margin_value assets
                (if (case best of None \<Rightarrow> True | Some bp \<Rightarrow> repay_amount bp < repay_amount plan)
                 then Some plan else best))))"

definition try_preswap_plan ::
  "liquidator_config \<Rightarrow> 'w ledger_reader \<Rightarrow> pair_input \<Rightarrow> liquidation_pair \<Rightarrow> i128 \<Rightarrow> i128 \<Rightarrow>
     ('w, liquidation_plan option) proc" where
  "try_preswap_plan cfg L i pair max_repay margin_value =
     preswap_loop cfg L i pair max_repay margin_value (assets_to_hold cfg) None"

section \<open>The plan of a pair\<close>

record prepared =
  pr_pair :: liquidation_pair
  pr_lifted :: bool
  pr_max_feasible :: i128
  pr_margin_borrow :: i128
  pr_max_profitable :: i128

text \<open>Everything before the first \<open>await\<close>; \<open>now\<close> is \<open>unix_now()\<close>.\<close>

definition prepare_pair ::
  "liquidator_config \<Rightarrow> pair_input \<Rightarrow> clearing_margin \<Rightarrow> nat \<Rightarrow> (unit, prepared option) outcome" where
  "prepare_pair cfg i cm now =
     (let bp = in_borrow_pool i; cp = in_collateral_pool i; md = in_market_data i; dep = in_deposit i in
      or_stop (ok_of (d_tokens_to_tokens_ceil bp (in_d_tokens i))) (\<lambda>debt.
      if debt \<le> 0 then Ok None
      else
      or_stop (ok_of (j_tokens_to_tokens_floor cp (j_tokens dep))) (\<lambda>supplied.
      bindr (raw_add supplied (collateral dep)) (\<lambda>collateral_sum.
      bindr (priced collateral_sum cp) (\<lambda>collateral_value.
      bindr (raw_pow10 (oracle_price_decimals md)) (\<lambda>pf.
      let threshold = saturating_div (saturating_mul (min_collateral_value_cents md) pf) 100 in
      if \<not> collateral_sum > 0 \<or> (cfg_dust_rules cfg = Sweep \<and> collateral_value < threshold) then Ok None
      else
      bindr (or_default 0 (compute_profit_margin_in_borrow_token (min_profit_margin_cents cfg)
               (oracle_price_decimals md) bp)) (\<lambda>margin_borrow.
      or_stop (strategy_pair cfg i) (\<lambda>p0.
      let pair = with_margin (accruing_until p0 now) cm in
      or_stop (ok_of (lifts_close_factor pair)) (\<lambda>lifted.
      let cap = compute_close_factor_repay_cap lifted debt (liquidation_close_factor_bps bp);
          max_feasible = min debt cap in
      if \<not> max_feasible > 0 then Ok None
      else
      or_stop (ok_of (compute_repay_cap_from_collateral (\<not> lifted) bp max_feasible cp collateral_sum
                 (obligation_debt_value pair) margin_borrow (obligation_collateral_value pair)))
        (\<lambda>max_profitable.
      if max_profitable \<le> 0 then Ok None
      else Ok (Some \<lparr>pr_pair = pair, pr_lifted = lifted, pr_max_feasible = max_feasible,
                     pr_margin_borrow = margin_borrow, pr_max_profitable = max_profitable\<rparr>)))))))))))"

text \<open>The flash repay before it is fitted; \<open>None\<close> is the early return of the whole function.\<close>

definition flash_repay_cap :: "pair_input \<Rightarrow> prepared \<Rightarrow> (unit, i128 option) outcome" where
  "flash_repay_cap i pr =
     (let bp = in_borrow_pool i; cp = in_collateral_pool i; dep = in_deposit i; pair = pr_pair pr in
      if \<not> is_flash_loan_enabled bp then Ok (Some 0)
      else
      or_stop (ok_of (j_tokens_to_tokens_floor cp (j_tokens dep))) (\<lambda>all_deposit.
      or_stop (ok_of (available_for_borrow cp)) (\<lambda>withdrawable.
      bindr (raw_add (collateral dep) (min all_deposit withdrawable)) (\<lambda>instantly_available.
      or_stop (ok_of (compute_repay_cap_from_collateral (\<not> pr_lifted pr) bp (pr_max_feasible pr) cp
                 instantly_available (obligation_debt_value pair) (pr_margin_borrow pr)
                 (obligation_collateral_value pair))) (\<lambda>updated.
      if updated \<le> 0 then Ok None
      else Ok (Some (min updated (total_available_adjusted bp))))))))"

definition direct_candidate ::
  "liquidator_config \<Rightarrow> pair_input \<Rightarrow> prepared \<Rightarrow> i128 \<Rightarrow> i128 \<Rightarrow> (unit, liquidation_plan option) outcome"
where
  "direct_candidate cfg i pr usable margin_value =
     (let repay = min (pr_max_profitable pr) usable in
      if \<not> repay > 0 then Ok None
      else or_stop (strategy_fit_repay (pr_pair pr) repay usable) (\<lambda>fitted.
           try_direct_plan cfg i fitted margin_value))"

definition flash_candidate ::
  "liquidator_config \<Rightarrow> 'w ledger_reader \<Rightarrow> pair_input \<Rightarrow> prepared \<Rightarrow> i128 \<Rightarrow> i128 \<Rightarrow>
     ('w, liquidation_plan option) proc" where
  "flash_candidate cfg L i pr flash_repay margin_value =
     (if \<not> flash_repay > 0 then pret None
      else pstop (ppure (strategy_fit_repay (pr_pair pr) flash_repay
                           (total_available_adjusted (in_borrow_pool i)))) (\<lambda>fitted.
           try_flash_plan cfg L i fitted margin_value))"

definition preswap_candidate ::
  "liquidator_config \<Rightarrow> 'w ledger_reader \<Rightarrow> pair_input \<Rightarrow> prepared \<Rightarrow> i128 \<Rightarrow>
     ('w, liquidation_plan option) proc" where
  "preswap_candidate cfg L i pr margin_value =
     pstop (ppure (strategy_fit_repay (pr_pair pr) (pr_max_profitable pr) i128_max)) (\<lambda>fitted.
     try_preswap_plan cfg L i (pr_pair pr) fitted margin_value)"

text \<open>\<open>Iterator::max_by_key\<close> returns the last of several maxima.\<close>

fun max_by_repay :: "liquidation_plan list \<Rightarrow> liquidation_plan option" where
  "max_by_repay [] = None"
| "max_by_repay (p # ps) =
     (case max_by_repay ps of
        None \<Rightarrow> Some p
      | Some q \<Rightarrow> if repay_amount q \<ge> repay_amount p then Some q else Some p)"

definition opt_list :: "'a option \<Rightarrow> 'a list" where
  "opt_list v = (case v of None \<Rightarrow> [] | Some x \<Rightarrow> [x])"

definition build_liquidation_plan ::
  "liquidator_config \<Rightarrow> 'w ledger_reader \<Rightarrow> pair_input \<Rightarrow> clearing_margin \<Rightarrow>
     ('w, liquidation_plan option) proc" where
  "build_liquidation_plan cfg L i cm = (\<lambda>w.
     pstop (ppure (prepare_pair cfg i cm (unix_seconds w))) (\<lambda>pr.
     pbind (pcall (try_get_balance L (token_address (in_borrow_pool i)))) (\<lambda>rb.
     let raw = (case rb of Inl e \<Rightarrow> 0 | Inr b \<Rightarrow> b);
         usable = usable_balance cfg (token_address (in_borrow_pool i)) raw in
     pbind (ppure (raw_pow10 (oracle_price_decimals (in_market_data i)))) (\<lambda>pf.
     let margin_value = saturating_div (saturating_mul (min_profit_margin_cents cfg) pf) 100 in
     pbind (ppure (direct_candidate cfg i pr usable margin_value)) (\<lambda>direct.
     pstop (ppure (flash_repay_cap i pr)) (\<lambda>flash_repay.
     pbind (flash_candidate cfg L i pr flash_repay margin_value) (\<lambda>flash.
     pbind (preswap_candidate cfg L i pr margin_value) (\<lambda>preswap.
     pret (max_by_repay (opt_list direct @ opt_list flash @ opt_list preswap))))))))) w)"

section \<open>Lemmas\<close>

lemma or_stop_eq_None_iff [simp]:
  "or_stop m f = Ok None \<longleftrightarrow> m = Ok None \<or> (\<exists>x. m = Ok (Some x) \<and> f x = Ok None)"
  by (auto simp: or_stop_def split: option.splits)

lemma accept_or_stop_Some:
  "accept_or_stop g c m k = Ok (Some p) \<longleftrightarrow> 0 < g \<and> 0 < c \<and> in_i128 (g - c) \<and> m < g - c \<and>
     p = k \<lparr>net_value = g - c, gain_value = g, is_acceptable = True\<rparr>"
  by (auto simp: accept_or_stop_def compute_liquidation_profitability_Ok_iff)

lemma compute_seized_Some:
  "compute_seized cfg i r = Ok (Some (s, x)) \<longleftrightarrow>
     (\<exists>pair. pair_new (cfg_dust_rules cfg) (in_obligation i) (in_market_data i) (in_borrow_pool i)
        (in_collateral_pool i) (in_deposit i) (in_insolvent i) = Ok pair \<and>
        quote pair r = Ok (Accepted s x) \<and> 0 < s)"
proof -
  have "(case q of Accepted seized repaid \<Rightarrow> if \<not> seized > 0 then Ok None else Ok (Some (seized, repaid))
      | OverCloseFactor \<Rightarrow> Ok None | LeavesDust \<Rightarrow> Ok None) = (Ok (Some (s, x)) :: (unit, (i128 \<times> i128) option) outcome)
    \<longleftrightarrow> q = Accepted s x \<and> 0 < s" for q
    by (cases q) auto
  then show ?thesis by (auto simp: compute_seized_def strategy_pair_def)
qed

lemma strategy_fit_repay_Some [simp]:
  "strategy_fit_repay pair r m = Ok (Some f) \<longleftrightarrow> fit_repay pair r m = Ok (Some f)"
  by (auto simp: strategy_fit_repay_def)

lemma max_by_repay_None: "max_by_repay ps = None \<longleftrightarrow> ps = []"
  by (cases ps) (auto split: option.splits)

lemma max_by_repay_Some:
  "max_by_repay ps = Some p \<Longrightarrow> p \<in> set ps \<and> (\<forall>q \<in> set ps. repay_amount q \<le> repay_amount p)"
proof (induction ps arbitrary: p)
  case (Cons a ps)
  then show ?case
    by (cases "max_by_repay ps") (auto simp: max_by_repay_None split: if_splits)
qed simp

lemma set_opt_list [simp]: "set (opt_list v) = set_option v"
  by (cases v) (simp_all add: opt_list_def)

section \<open>The best quote\<close>

text \<open>The positive answers of the providers, in the order they are asked.\<close>

fun asked :: "(string \<Rightarrow> ('w, rpc_error + i128) call) \<Rightarrow> string list \<Rightarrow> ('w, (string \<times> i128) list) call" where
  "asked ask [] w = ([], w)"
| "asked ask (p # ps) w =
     (case ask p w of
        (Inr v, w') \<Rightarrow> (case asked ask ps w' of (qs, w'') \<Rightarrow> (if v > 0 then (p, v) # qs else qs, w''))
      | (Inl e, w') \<Rightarrow> asked ask ps w')"

text \<open>Choosing among quotes by a strict order: what both loops do with the answers.\<close>

fun pick :: "(i128 \<Rightarrow> i128 \<Rightarrow> bool) \<Rightarrow> (string \<times> i128) list \<Rightarrow> (string \<times> i128) option \<Rightarrow> (string \<times> i128) option"
where
  "pick better [] best = best"
| "pick better (q # qs) best =
     pick better qs (if (case best of None \<Rightarrow> True | Some b \<Rightarrow> better (snd q) (snd b)) then Some q else best)"

locale provider_choice =
  fixes better :: "i128 \<Rightarrow> i128 \<Rightarrow> bool"
  assumes irrefl: "\<not> better x x"
    and trans: "better x y \<Longrightarrow> better y z \<Longrightarrow> better x z"
begin

lemma pick_from:
  "\<exists>c. pick better qs (Some b) = Some c \<and> (c = b \<or> c \<in> set qs \<and> better (snd c) (snd b)) \<and>
    (\<forall>q \<in> set qs. \<not> better (snd q) (snd c))"
proof (induction qs arbitrary: b)
  case (Cons q qs)
  show ?case
  proof (cases "better (snd q) (snd b)")
    case True
    obtain c where c: "pick better qs (Some q) = Some c" "c = q \<or> c \<in> set qs \<and> better (snd c) (snd q)"
      "\<forall>q \<in> set qs. \<not> better (snd q) (snd c)" using Cons [of q] by blast
    then have "better (snd c) (snd b)" "\<not> better (snd q) (snd c)" using True trans irrefl by blast+
    with c True show ?thesis by auto
  next
    case False
    obtain c where c: "pick better qs (Some b) = Some c" "c = b \<or> c \<in> set qs \<and> better (snd c) (snd b)"
      "\<forall>q \<in> set qs. \<not> better (snd q) (snd c)" using Cons [of b] by blast
    then have "\<not> better (snd q) (snd c)" using False trans by blast
    with c False show ?thesis by auto
  qed
qed simp

lemma pick_best:
  "pick better qs None = None \<longleftrightarrow> qs = []"
  "pick better qs None = Some c \<Longrightarrow> c \<in> set qs \<and> (\<forall>q \<in> set qs. \<not> better (snd q) (snd c))"
proof -
  show "pick better qs None = None \<longleftrightarrow> qs = []"
    using pick_from [of "tl qs" "hd qs"] by (cases qs) auto
  show "c \<in> set qs \<and> (\<forall>q \<in> set qs. \<not> better (snd q) (snd c))" if "pick better qs None = Some c"
  proof (cases qs)
    case (Cons q rest)
    then have "c = q \<or> c \<in> set rest \<and> better (snd c) (snd q)" "\<forall>q \<in> set rest. \<not> better (snd q) (snd c)"
      using that pick_from [of rest q] by auto
    moreover from this(1) have "\<not> better (snd q) (snd c)" using irrefl trans by blast
    ultimately show ?thesis using Cons by auto
  qed (use that in simp)
qed

end

interpretation most: provider_choice "\<lambda>x y. y < x"
  by unfold_locales auto

interpretation least: provider_choice "\<lambda>x y. x < y"
  by unfold_locales auto

lemma best_quote_loop_pick:
  "best_quote_loop L a x y ps best w =
     (case asked (get_amount_out L a x y) ps w of (qs, w') \<Rightarrow> (pick (\<lambda>x y. y < x) qs best, w'))"
  by (induction L a x y ps best w rule: best_quote_loop.induct)
     (auto split: prod.splits sum.splits option.splits)

lemma best_base_loop_pick:
  "best_base_loop L a x y ps best w =
     (case asked (get_amount_in L a x y) ps w of (qs, w') \<Rightarrow> (pick (\<lambda>x y. x < y) qs best, w'))"
  by (induction L a x y ps best w rule: best_base_loop.induct)
     (auto split: prod.splits sum.splits option.splits)

lemma asked_positive: "asked ask ps w = (qs, w') \<Longrightarrow> (p, v) \<in> set qs \<Longrightarrow> p \<in> set ps \<and> 0 < v"
  by (induction ask ps w arbitrary: qs w' rule: asked.induct)
     (fastforce split: prod.splits sum.splits if_splits)+

lemma best_swap_quote_Some:
  assumes "best_swap_quote cfg L a x y w = (Some (p, out), w')"
  shows "p \<in> set (swap_providers cfg) \<and> 0 < out"
proof -
  obtain qs where qs: "asked (get_amount_out L a x y) (swap_providers cfg) w = (qs, w')"
    "pick (\<lambda>x y. y < x) qs None = Some (p, out)"
    using assms by (auto simp: best_swap_quote_def best_quote_loop_pick split: prod.splits)
  then show ?thesis using most.pick_best(2) asked_positive by blast
qed

section \<open>Sound plans\<close>

text \<open>What every plan promises: it names the pair it was built for, the market would accept its repay
  and hand out the expected collateral, and its net value exceeds the margin.\<close>

definition plan_sound :: "liquidator_config \<Rightarrow> pair_input \<Rightarrow> i128 \<Rightarrow> liquidation_plan \<Rightarrow> bool" where
  "plan_sound cfg i margin_value plan \<longleftrightarrow>
     borrower_key plan = in_key i \<and>
     borrow_pool_address plan = pool_address (in_borrow_pool i) \<and>
     collateral_pool_address plan = pool_address (in_collateral_pool i) \<and>
     0 < expected_seized_collateral plan \<and> margin_value < net_profit_value plan \<and>
     (\<exists>pair repaid. strategy_pair cfg i = Ok (Some pair) \<and>
        quote pair (repay_amount plan) = Ok (Accepted (expected_seized_collateral plan) repaid))"

text \<open>What funds a plan, by its type: the wallet's balance of the borrow token, the swap of the seized
  collateral, or the swap of another held asset.\<close>

fun plan_funded :: "liquidator_config \<Rightarrow> 'w ledger_reader \<Rightarrow> pair_input \<Rightarrow> i128 \<Rightarrow> i128 \<Rightarrow> liquidation_type \<Rightarrow> bool"
where
  "plan_funded cfg L i usable repay Direct \<longleftrightarrow> repay \<le> usable"
| "plan_funded cfg L i usable repay (Flash flash_repay provider withdraw) \<longleftrightarrow>
     repay \<le> total_available_adjusted (in_borrow_pool i) \<and> provider \<in> set (swap_providers cfg) \<and>
     (\<exists>fee. compute_flash_fee repay (flash_loan_fee_bps (in_borrow_pool i)) = Ok fee \<and>
        flash_repay = saturating_add repay fee) \<and>
     (\<exists>quoted out. minus_slippage cfg quoted = (Ok out :: (unit, i128) outcome) \<and> flash_repay \<le> out)"
| "plan_funded cfg L i usable repay (PreSwap asset amount_in amount_out provider) \<longleftrightarrow>
     repay \<le> amount_out \<and> asset \<in> set (assets_to_hold cfg) \<and> asset \<noteq> token_address (in_borrow_pool i) \<and>
     (\<exists>raw w1 w2. try_get_balance L asset w1 = (Inr raw, w2) \<and> amount_in \<le> usable_balance cfg asset raw)"

lemma make_plan_sel [simp]:
  "repay_amount (make_plan i r n s t) = r" "net_profit_value (make_plan i r n s t) = n"
  "borrower_key (make_plan i r n s t) = in_key i" "expected_seized_collateral (make_plan i r n s t) = s"
  "borrow_pool_address (make_plan i r n s t) = pool_address (in_borrow_pool i)"
  "collateral_pool_address (make_plan i r n s t) = pool_address (in_collateral_pool i)"
  "plan_type (make_plan i r n s t) = t"
  by (simp_all add: make_plan_def)

lemma plan_sound_make_plan:
  "compute_seized cfg i r = Ok (Some (s, x)) \<Longrightarrow> m < n \<Longrightarrow> plan_sound cfg i m (make_plan i r n s t)"
  by (auto simp: plan_sound_def compute_seized_Some strategy_pair_def)

lemma try_direct_plan_sound:
  assumes "try_direct_plan cfg i r m = Ok (Some plan)"
  shows "plan_sound cfg i m plan \<and> repay_amount plan = r \<and> plan_type plan = Direct"
  using assms by (auto simp: try_direct_plan_def accept_or_stop_Some intro: plan_sound_make_plan)

lemma direct_candidate_sound:
  assumes "direct_candidate cfg i pr usable m = Ok (Some plan)"
  shows "plan_sound cfg i m plan \<and> plan_funded cfg L i usable (repay_amount plan) (plan_type plan)"
proof -
  from assms obtain f where "fit_repay (pr_pair pr) (min (pr_max_profitable pr) usable) usable = Ok (Some f)"
    "try_direct_plan cfg i f m = Ok (Some plan)"
    by (auto simp: direct_candidate_def Let_def split: if_splits)
  then show ?thesis using fit_repay_le_max_offer [of "pr_pair pr" _ usable f] try_direct_plan_sound by fastforce
qed

lemma flash_amounts_Some:
  assumes "flash_amounts cfg i r = Ok (Some (s, x, wd, df, fr))"
  shows "compute_seized cfg i r = Ok (Some (s, x)) \<and>
    (\<exists>fee. compute_flash_fee r (flash_loan_fee_bps (in_borrow_pool i)) = Ok fee \<and> fr = saturating_add r fee)"
  using assms by (auto simp: flash_amounts_def split: option.splits)

lemma flash_judge_Some:
  assumes "flash_judge cfg i r m (s, x, wd, df, fr) (p, q) = Ok (Some plan)"
  shows "\<exists>n out. m < n \<and> minus_slippage cfg q = (Ok out :: (unit, i128) outcome) \<and> fr \<le> out \<and>
    plan = make_plan i r n s (Flash fr p wd)"
proof -
  from assms obtain out cost gain where o: "minus_slippage cfg q = (Ok out :: (unit, i128) outcome)" "fr \<le> out"
    "accept_or_stop gain cost m (\<lambda>pr. make_plan i r (net_value pr) s (Flash fr p wd)) = Ok (Some plan)"
    by (auto simp: flash_judge_def not_less split: if_splits)
  then show ?thesis by (auto simp: accept_or_stop_Some)
qed

lemma flash_candidate_sound:
  assumes "flash_candidate cfg L i pr flash m w = Some (Some plan, w')"
    "flash \<le> total_available_adjusted (in_borrow_pool i)"
  shows "plan_sound cfg i m plan \<and> plan_funded cfg L i usable (repay_amount plan) (plan_type plan)"
proof -
  from assms(1) obtain r s x wd df fr p q where
    fit: "fit_repay (pr_pair pr) flash (total_available_adjusted (in_borrow_pool i)) = Ok (Some r)"
    and am: "flash_amounts cfg i r = Ok (Some (s, x, wd, df, fr))"
    and best: "best_swap_quote cfg L df (token_address (in_collateral_pool i))
        (token_address (in_borrow_pool i)) w = (Some (p, q), w')"
    and judge: "flash_judge cfg i r m (s, x, wd, df, fr) (p, q) = Ok (Some plan)"
    by (auto simp: flash_candidate_def try_flash_plan_def split: if_splits)
  from flash_judge_Some [OF judge] obtain n out where n: "m < n"
      "minus_slippage cfg q = (Ok out :: (unit, i128) outcome)" "fr \<le> out"
      "plan = make_plan i r n s (Flash fr p wd)" by blast
  show ?thesis
    using n flash_amounts_Some [OF am] fit_repay_le_max_offer [OF fit assms(2)] best_swap_quote_Some [OF best]
    by (auto intro: plan_sound_make_plan)
qed

lemma preswap_sizing_Some:
  assumes "preswap_sizing cfg L i mr a w = Some (Some (p, ain, aout), w')"
  shows "\<exists>raw w1 w2. try_get_balance L a w1 = (Inr raw, w2) \<and> ain \<le> usable_balance cfg a raw"
proof -
  from assms obtain rb w1 where rb: "try_get_balance L a w = (rb, w1)"
    by (auto simp: preswap_sizing_def)
  show ?thesis
  proof (cases rb)
    case (Inl e)
    with assms rb show ?thesis by (simp add: preswap_sizing_def)
  next
    case (Inr raw)
    with assms rb have "ain \<le> usable_balance cfg a raw"
      by (auto simp: preswap_sizing_def Let_def split: if_splits)
    with rb Inr show ?thesis by blast
  qed
qed

lemma preswap_judge_Some:
  assumes "preswap_judge cfg i pair m a (p, ain, aout) = Ok (Inr (Some plan))"
  shows "plan_sound cfg i m plan \<and> plan_type plan = PreSwap a ain aout p \<and> repay_amount plan \<le> aout"
proof -
  from assms obtain r s x n where fit: "fit_repay pair aout aout = Ok (Some r)"
    and sz: "compute_seized cfg i r = Ok (Some (s, x))" and n: "m < n"
    and plan: "plan = make_plan i r n s (PreSwap a ain aout p)"
    unfolding preswap_judge_def prod.case
    by (elim bindr_okE opt_caseE pair_caseE if_okE)
       (auto simp: compute_liquidation_profitability_Ok_iff)
  from plan_sound_make_plan [OF sz n] fit_repay_le_max_offer [OF fit] plan show ?thesis by simp
qed

lemma preswap_loop_sound:
  assumes "preswap_loop cfg L i pair mr m assets best w = Some (Some plan, w')"
    "set assets \<subseteq> set (assets_to_hold cfg)"
    "\<And>bp. best = Some bp \<Longrightarrow> plan_sound cfg i m bp \<and> plan_funded cfg L i u (repay_amount bp) (plan_type bp)"
  shows "plan_sound cfg i m plan \<and> plan_funded cfg L i u (repay_amount plan) (plan_type plan)"
  using assms
proof (induction assets arbitrary: best w)
  case (Cons a assets)
  have rest: "set assets \<subseteq> set (assets_to_hold cfg)" using Cons.prems(2) by simp
  show ?case
  proof (cases "a = token_address (in_borrow_pool i)")
    case True
    then show ?thesis using Cons.IH [OF _ rest Cons.prems(3)] Cons.prems(1) by simp
  next
    case False
    with Cons.prems(1) obtain sized w1 where sized: "preswap_sizing cfg L i mr a w = Some (sized, w1)" by auto
    show ?thesis
    proof (cases sized)
      case None
      then show ?thesis using Cons.IH [OF _ rest Cons.prems(3)] Cons.prems(1) False sized by simp
    next
      case (Some z)
      obtain p ain aout where z: "z = (p, ain, aout)" by (cases z)
      from Cons.prems(1) False sized Some obtain v where
        v: "preswap_judge cfg i pair m a z = Ok v" by auto
      show ?thesis
      proof (cases v)
        case (Inl u')
        then show ?thesis using Cons.prems(1) False sized Some v by simp
      next
        case (Inr vp)
        show ?thesis
        proof (cases vp)
          case None
          then show ?thesis using Cons.IH [OF _ rest Cons.prems(3)] Cons.prems(1) False sized Some v Inr by simp
        next
          case (Some pl)
          with v Inr z have "preswap_judge cfg i pair m a (p, ain, aout) = Ok (Inr (Some pl))" by simp
          from preswap_judge_Some [OF this] preswap_sizing_Some [of cfg L i mr a w p ain aout w1]
            sized \<open>sized = Some z\<close> z False Cons.prems(2)
          have "plan_sound cfg i m pl \<and> plan_funded cfg L i u (repay_amount pl) (plan_type pl)" by simp
          then show ?thesis
            using Cons.IH [OF _ rest, of "if (case best of None \<Rightarrow> True | Some bp \<Rightarrow> repay_amount bp < repay_amount pl)
                then Some pl else best" w1] Cons.prems(1,3) False sized \<open>sized = Some z\<close> v Inr Some
            by (simp split: if_splits)
        qed
      qed
    qed
  qed
qed simp

lemma preswap_candidate_sound:
  assumes "preswap_candidate cfg L i pr m w = Some (Some plan, w')"
  shows "plan_sound cfg i m plan \<and> plan_funded cfg L i u (repay_amount plan) (plan_type plan)"
  using assms preswap_loop_sound [where best = None]
  by (fastforce simp: preswap_candidate_def try_preswap_plan_def)

lemma flash_repay_cap_Some:
  "flash_repay_cap i pr = Ok (Some f) \<Longrightarrow> f = 0 \<or> f \<le> total_available_adjusted (in_borrow_pool i)"
  by (auto simp: flash_repay_cap_def Let_def split: if_splits)

lemma flash_candidate_zero [simp]: "flash_candidate cfg L i pr 0 m w = Some (x, w') \<longleftrightarrow> x = None \<and> w' = w"
  by (simp add: flash_candidate_def)

lemma most_list_all:
  "pick (\<lambda>x y. y < x) qs None = Some q \<Longrightarrow> q \<in> set qs \<and> list_all (\<lambda>r. snd r \<le> snd q) qs"
  using most.pick_best(2) [of qs q] by (auto simp: list_all_iff not_less)

lemma least_list_all:
  "pick (<) qs None = Some q \<Longrightarrow> q \<in> set qs \<and> list_all (\<lambda>r. snd q \<le> snd r) qs"
  using least.pick_best(2) [of qs q] by (auto simp: list_all_iff not_less)

text \<open>The margin in oracle value, and the balance a task is told, with 0 for a failed query.\<close>

definition plan_margin :: "liquidator_config \<Rightarrow> pair_input \<Rightarrow> i128" where
  "plan_margin cfg i =
     saturating_div (saturating_mul (min_profit_margin_cents cfg) (10 ^ oracle_price_decimals (in_market_data i))) 100"

definition told_balance :: "'w ledger_reader \<Rightarrow> string \<Rightarrow> 'w world \<Rightarrow> i128" where
  "told_balance L token w = (case fst (try_get_balance L token w) of Inl e \<Rightarrow> 0 | Inr b \<Rightarrow> b)"

lemma build_liquidation_plan_Some:
  assumes "build_liquidation_plan cfg L i cm w = Some (Some plan, w')"
  shows "plan_sound cfg i (plan_margin cfg i) plan \<and>
    plan_funded cfg L i (usable_balance cfg (token_address (in_borrow_pool i))
      (told_balance L (token_address (in_borrow_pool i)) w)) (repay_amount plan) (plan_type plan)"
proof -
  let ?tok = "token_address (in_borrow_pool i)"
  let ?u = "usable_balance cfg ?tok (told_balance L ?tok w)" and ?m = "plan_margin cfg i"
  obtain rb w1 where rb: "try_get_balance L ?tok w = (rb, w1)" by fastforce
  then have told: "told_balance L ?tok w = (case rb of Inl e \<Rightarrow> 0 | Inr b \<Rightarrow> b)" by (simp add: told_balance_def)
  from assms obtain pr direct fr flash preswap w2 w3 where
    d: "direct_candidate cfg i pr ?u ?m = Ok direct" and
    fr: "flash_repay_cap i pr = Ok (Some fr)" and
    f: "flash_candidate cfg L i pr fr ?m w2 = Some (flash, w3)" and
    p: "preswap_candidate cfg L i pr ?m w3 = Some (preswap, w')" and
    best: "max_by_repay (opt_list direct @ opt_list flash @ opt_list preswap) = Some plan"
    by (auto simp: build_liquidation_plan_def rb told plan_margin_def Let_def)
  from max_by_repay_Some [OF best] consider "direct = Some plan" | "flash = Some plan" | "preswap = Some plan"
    by auto
  then show ?thesis
  proof cases
    case 1
    then show ?thesis using direct_candidate_sound d by blast
  next
    case 2
    then have "fr \<le> total_available_adjusted (in_borrow_pool i)"
      using flash_repay_cap_Some [OF fr] f by auto
    then show ?thesis using 2 flash_candidate_sound f by blast
  next
    case 3
    then show ?thesis using preswap_candidate_sound p by blast
  qed
qed

section \<open>An example\<close>

definition example_config :: liquidator_config where
  "example_config = \<lparr>max_retries = 3, xlm_address = ''XLM'', markets = [''M''], xlm_safety_margin = 10,
     assets_to_hold = [], swap_providers = [''S1'', ''S2''], refresh_interval_blocks = 1,
     min_profit_margin_cents = 0, max_market_data_age = 60, max_allowed_swap_slippage_bps = 100,
     cfg_dust_rules = NoDust\<rparr>"

definition example_input :: pair_input where
  "example_input = \<lparr>in_insolvent = False, in_d_tokens = 100, in_borrow_pool = debt_pool,
     in_market_data = two_pool_market, in_collateral_pool = seizable_pool,
     in_obligation = two_pool_obligation,
     in_deposit = \<lparr>j_tokens = 40, collateral = 78, dp_pool_address = ''B''\<rparr>,
     in_key = obligation_key_new ''U''\<rparr>"

lemma example_pair: "strategy_pair example_config example_input = Ok (Some two_pool_pair)"
  using two_pool_pair_new by (simp add: strategy_pair_def example_config_def example_input_def)

lemma two_pool_pair_margin: "with_margin two_pool_pair MARGIN_INITIAL = two_pool_pair"
  by (simp add: with_margin_def two_pool_pair_def small_pair_def)

lemma two_pool_fit: "50 \<le> m \<Longrightarrow> fit_repay two_pool_pair 50 m = Ok (Some 50)"
proof -
  have "clearing_of two_pool_pair = Ok (Some \<lparr>at_snapshot = 100, clearing_offer = 101\<rparr>)"
    by (simp add: clearing_of_def repay_buying_def grown_def fixed_mul_ceil_def two_pool_pair_def
        two_pool_defs pair_eval cong: bindr_step_cong)
  then show ?thesis
    using two_pool_quote
    by (simp add: fit_repay_def planned_or_clearing_def accepts_def two_pool_pair_def small_pair_def)
qed

lemma example_prepared:
  "prepare_pair example_config example_input MARGIN_INITIAL 0 =
     Ok (Some \<lparr>pr_pair = two_pool_pair, pr_lifted = False, pr_max_feasible = 50, pr_margin_borrow = 0,
       pr_max_profitable = 50\<rparr>)"
proof -
  have "lifts_close_factor two_pool_pair = Ok False"
    by (simp add: two_pool_pair_def two_pool_defs pair_eval cong: bindr_step_cong)
  moreover have "compute_repay_cap_from_collateral True debt_pool 50 seizable_pool 118 10000 0 11800 = Ok 50"
    by (simp add: compute_repay_cap_from_collateral_def Let_def two_pool_defs small_pool_def example_pool_def
        i128_eval BPS_FACTOR_def cong: bindr_step_cong)
  moreover have "compute_profit_margin_in_borrow_token 0 2 debt_pool = Ok 0"
    by (simp add: compute_profit_margin_in_borrow_token_def debt_pool_def small_pool_def)
  moreover have "compute_close_factor_repay_cap False 100 5000 = 50"
    by (simp add: compute_close_factor_repay_cap_def fixed_mul_floor_def i128_eval BPS_FACTOR_def)
  moreover have "d_tokens_to_tokens_ceil debt_pool 100 = Ok 100" "j_tokens_to_tokens_floor seizable_pool 40 = Ok 40"
    "(priced 118 seizable_pool :: (unit, i128) outcome) = Ok 11800" "liquidation_close_factor_bps debt_pool = 5000"
    by (simp_all add: d_tokens_to_tokens_ceil_def priced_def two_pool_defs pair_eval cong: bindr_step_cong)
  moreover have "obligation_debt_value two_pool_pair = 10000" "obligation_collateral_value two_pool_pair = 11800"
    by (simp_all add: two_pool_pair_def)
  ultimately show ?thesis
    using example_pair two_pool_pair_now two_pool_pair_margin
    unfolding prepare_pair_def Let_def
    by (simp add: example_input_def example_config_def two_pool_market_def raw_add_def raw_pow10_def
        checked_add_def checked_pow10_def in_i128_def i128_max_def i128_min_def or_abort_def)
qed

definition example_plan :: liquidation_plan where
  "example_plan = make_plan example_input 50 500 55 Direct"

lemma example_direct:
  "50 \<le> u \<Longrightarrow> direct_candidate example_config example_input
     \<lparr>pr_pair = two_pool_pair, pr_lifted = False, pr_max_feasible = 50, pr_margin_borrow = 0,
       pr_max_profitable = 50\<rparr> u 0 = Ok (Some example_plan)"
proof -
  assume u: "50 \<le> u"
  have "compute_seized example_config example_input 50 = Ok (Some (55, 50))"
    using example_pair two_pool_quote by (simp add: compute_seized_def)
  moreover have "priced 50 debt_pool = (Ok 5000 :: (unit, i128) outcome)"
    "priced 55 seizable_pool = (Ok 5500 :: (unit, i128) outcome)"
    by (simp_all add: priced_def two_pool_defs pair_eval)
  moreover have "accept_or_stop 5500 5000 0 k = Ok (Some (k \<lparr>net_value = 500, gain_value = 5500, is_acceptable = True\<rparr>))"
    for k :: "liquidation_profitability \<Rightarrow> liquidation_plan"
    by (simp add: accept_or_stop_Some in_i128_def i128_max_def i128_min_def)
  ultimately have "try_direct_plan example_config example_input 50 0 = Ok (Some example_plan)"
    by (simp add: try_direct_plan_def example_plan_def example_input_def)
  then show ?thesis
    using two_pool_fit [OF u] u
    by (simp add: direct_candidate_def strategy_fit_repay_def min_def del: strategy_fit_repay_Some)
qed

lemma example_build:
  "build_liquidation_plan example_config example_ledger example_input MARGIN_INITIAL example_world =
     Some (Some example_plan, snd (try_get_balance example_ledger ''P'' example_world))"
proof -
  have t: "token_address debt_pool = ''P''" "is_flash_loan_enabled debt_pool = False"
    "in_borrow_pool example_input = debt_pool" "in_market_data example_input = two_pool_market"
    "oracle_price_decimals two_pool_market = 2" "unix_seconds example_world = 0"
    by (simp_all add: two_pool_defs small_pool_def example_pool_def is_flash_loan_enabled_def
        POOL_STATUS_FLASH_LOAN_ENABLED_def example_input_def example_world_def)
  define w1 where "w1 = snd (try_get_balance example_ledger ''P'' example_world)"
  have b: "try_get_balance example_ledger ''P'' example_world = (Inr 1000, w1)"
    by (simp add: w1_def try_get_balance_def example_ledger_def example_world_def capital_new_def
        get_freshly_cached_balance_def hm_get_def)
  have u: "usable_balance example_config ''P'' 1000 = 1000"
    by (simp add: usable_balance_def example_config_def)
  have m: "saturating_div (saturating_mul (min_profit_margin_cents example_config) 100) 100 = 0"
    "raw_pow10 2 = (Ok 100 :: (unit, i128) outcome)"
    by (simp_all add: example_config_def i128_eval)
  have p: "preswap_candidate example_config example_ledger example_input
      \<lparr>pr_pair = two_pool_pair, pr_lifted = False, pr_max_feasible = 50, pr_margin_borrow = 0,
       pr_max_profitable = 50\<rparr> 0 w = Some (None, w)" for w
    using two_pool_fit [of i128_max]
    by (simp add: preswap_candidate_def strategy_fit_repay_def try_preswap_plan_def example_config_def
        i128_max_def pret_def pstop_def pbind_def del: strategy_fit_repay_Some)
  show ?thesis
    unfolding build_liquidation_plan_def t w1_def [symmetric]
    using example_prepared example_direct [of 1000]
    by (simp add: b u m p pcall_def pbind_def pstop_def pret_def flash_repay_cap_def t flash_candidate_def
        opt_list_def Let_def)
qed

section \<open>Properties\<close>



text \<open>The swap provider is the best one: among the positive answers of the providers, asked in the
  configured order, \<open>best_swap_quote\<close> returns one with the largest output and \<open>best_swap_base\<close> one
  with the smallest input, and each returns nothing only when there is no positive answer.\<close>

theorem best_provider_chosen:
  "(case asked (get_amount_out L a x y) (swap_providers cfg) w of (qs, w') \<Rightarrow>
      \<exists>b. best_swap_quote cfg L a x y w = (b, w') \<and> (b = None \<longleftrightarrow> qs = []) \<and>
        (case b of None \<Rightarrow> True
         | Some q \<Rightarrow> q \<in> set qs \<and> list_all (\<lambda>r. snd r \<le> snd q) qs)) \<and>
   (case asked (get_amount_in L a x y) (swap_providers cfg) w of (qs, w') \<Rightarrow>
      \<exists>b. best_swap_base cfg L a x y w = (b, w') \<and> (b = None \<longleftrightarrow> qs = []) \<and>
        (case b of None \<Rightarrow> True
         | Some q \<Rightarrow> q \<in> set qs \<and> list_all (\<lambda>r. snd q \<le> snd r) qs))"
  by (auto simp: best_swap_quote_def best_swap_base_def best_quote_loop_pick best_base_loop_pick
      most.pick_best(1) least.pick_best(1) split: prod.splits option.splits dest: most_list_all least_list_all)

section \<open>A refused flash loan\<close>

text \<open>The pair of the example with all of the deposit supplied, a collateral pool at its utilization
  limit and a borrow pool that lends: nothing can be withdrawn at once, so a flash loan is not
  feasible.\<close>

definition locked_pool :: pool_data where
  "locked_pool = seizable_pool\<lparr>utilization_ratio_limit_bps := 0\<rparr>"

definition lending_pool :: pool_data where
  "lending_pool = debt_pool\<lparr>status_flags := 8\<rparr>"

lemma locked_flash_cap:
  assumes "in_collateral_pool i = locked_pool" "in_borrow_pool i = lending_pool" "collateral (in_deposit i) = 0"
    "0 \<le> j_tokens (in_deposit i)" "j_tokens (in_deposit i) \<le> 1000"
  shows "flash_repay_cap i pr = Ok None"
proof -
  let ?j = "j_tokens (in_deposit i)"
  have "is_flash_loan_enabled lending_pool"
    by (simp add: is_flash_loan_enabled_def lending_pool_def POOL_STATUS_FLASH_LOAN_ENABLED_def)
  moreover have "j_tokens_to_tokens_floor locked_pool ?j = Ok ?j"
    using assms(4,5) by (simp add: j_tokens_to_tokens_floor_def locked_pool_def seizable_pool_def small_pool_def
        amount_checked_mul_def checked_mul_def raw_div_def checked_div_def or_abort_def in_i128_def
        i128_max_def i128_min_def sdiv_nonneg_eq_div)
  moreover have "available_for_borrow locked_pool = Ok 0"
    by (simp add: available_for_borrow_def utilization_ratio_bps_def amount_bps_fixed_div_floor_def
        bps_fixed_div_floor_def opt_out_def locked_pool_def seizable_pool_def small_pool_def i128_eval BPS_FACTOR_def)
  ultimately show ?thesis
    using assms by (simp add: flash_repay_cap_def Let_def compute_repay_cap_from_collateral_def raw_add_def
        checked_add_def or_abort_def min_def)
qed

text \<open>A flash loan that is not feasible drops the direct plan that was already built: the early returns
  of the flash branch leave the whole function.\<close>

lemma infeasible_flash_drops_direct:
  assumes "prepare_pair cfg i cm (unix_seconds w) = Ok (Some pr)"
    and "try_get_balance L (token_address (in_borrow_pool i)) w = (Inr raw, w1)"
    and "oracle_price_decimals (in_market_data i) \<le> 38"
    and "direct_candidate cfg i pr (usable_balance cfg (token_address (in_borrow_pool i)) raw)
           (plan_margin cfg i) = Ok (Some plan)"
    and "flash_repay_cap i pr = Ok None"
  shows "build_liquidation_plan cfg L i cm w = Some (None, w1)"
  using assms
  by (simp add: build_liquidation_plan_def plan_margin_def pcall_def pbind_def pstop_def pret_def Let_def
      raw_pow10_def checked_pow10_def or_abort_def)

end
