(* ===== verification/Errors.thy ===== *)
theory Errors
  imports Keeper_Prelude
begin

text \<open>
  \<^verbatim>\<open>keeper/src/stellar/errors.rs\<close>: classifying a rendered RPC failure.  An error is the string
  \<open>format!("{err:#}")\<close>; a string is a list of bytes, on which lower-casing changes the ASCII letters
  only (the phrases searched for are ASCII).
\<close>

section \<open>Strings\<close>

definition to_lower_char :: "char \<Rightarrow> char" where
  "to_lower_char c = (let n = of_char c :: nat in if 65 \<le> n \<and> n \<le> 90 then char_of (n + 32) else c)"

definition to_lowercase :: "string \<Rightarrow> string" where
  "to_lowercase s = map to_lower_char s"

fun strip_prefix :: "string \<Rightarrow> string \<Rightarrow> string option" where
  "strip_prefix [] s = Some s"
| "strip_prefix (p # ps) [] = None"
| "strip_prefix (p # ps) (c # cs) = (if p = c then strip_prefix ps cs else None)"

text \<open>What follows the first occurrence of \<open>p\<close> in \<open>s\<close>.\<close>

fun after_first :: "string \<Rightarrow> string \<Rightarrow> string option" where
  "after_first p s =
     (case strip_prefix p s of
        Some r \<Rightarrow> Some r
      | None \<Rightarrow> (case s of [] \<Rightarrow> None | c # cs \<Rightarrow> after_first p cs))"

declare after_first.simps [simp del]

definition contains :: "string \<Rightarrow> string \<Rightarrow> bool" where
  "contains s p \<longleftrightarrow> after_first p s \<noteq> None"

definition is_ascii_digit :: "char \<Rightarrow> bool" where
  "is_ascii_digit c \<longleftrightarrow> 48 \<le> (of_char c :: nat) \<and> (of_char c :: nat) \<le> 57"

definition digits_value :: "string \<Rightarrow> nat" where
  "digits_value ds = foldl (\<lambda>n c. 10 * n + (of_char c - 48)) 0 ds"

text \<open>\<open>str::parse::<u32>\<close> on a string of digits.\<close>

definition parse_u32 :: "string \<Rightarrow> nat option" where
  "parse_u32 ds = (if ds = [] \<or> digits_value ds \<ge> 2 ^ 32 then None else Some (digits_value ds))"

section \<open>Classification\<close>

datatype soroban_rpc_error =
    Contract (code: nat)
  | BadSequence
  | NoSimulationResults
  | TerminalCursor
  | TxFailedOnChain
  | SubmissionTimeout
  | UnexpectedStatus
  | OtherError

definition EXPECTED_LIQUIDATION_FAILURE_NAMES :: "string list" where
  "EXPECTED_LIQUIDATION_FAILURE_NAMES =
     [''ObligationIsHealthy'', ''ObligationDoesNotExist'', ''InvalidLiquidationInputs'',
      ''BorrowPoolDoesNotExist'', ''CollateralPoolDoesNotExist'',
      ''LiquidationExcessiveDemandedCollateral'', ''LiquidationLeavesDust'']"

definition LIQUIDATION_LEAVES_DUST_CODE :: nat where
  "LIQUIDATION_LEAVES_DUST_CODE = 606"

definition KNOWN_LIQUIDATION_FAILURE_CODES :: "nat list" where
  "KNOWN_LIQUIDATION_FAILURE_CODES = [105, 106, 200, 600, 601, 605, LIQUIDATION_LEAVES_DUST_CODE]"

definition MARKER :: string where
  "MARKER = ''Error(Contract, #''"

definition extract_contract_code :: "string \<Rightarrow> nat option" where
  "extract_contract_code s =
     (case after_first MARKER s of
        None \<Rightarrow> None
      | Some rest \<Rightarrow> parse_u32 (takeWhile is_ascii_digit rest))"

definition classify_str :: "string \<Rightarrow> soroban_rpc_error" where
  "classify_str msg =
     (let lower = to_lowercase msg in
      if contains lower ''simulation returned no results'' then NoSimulationResults
      else case extract_contract_code msg of
        Some c \<Rightarrow> Contract c
      | None \<Rightarrow>
          if contains lower ''tx_bad_seq'' \<or> contains lower ''bad_seq'' \<or> contains lower ''bad seq''
          then BadSequence
          else if contains lower ''cursor not found'' \<or> contains lower ''invalid cursor'' \<or>
                  contains lower ''invalid argument'' \<or>
                  (contains lower ''ledger'' \<and> contains lower ''too old'')
          then TerminalCursor
          else if contains lower ''transaction submission timeout'' then SubmissionTimeout
          else if contains lower ''expected transaction status'' then UnexpectedStatus
          else if contains lower ''transaction failed'' \<or> contains lower ''transaction submission failed''
          then TxFailedOnChain
          else OtherError)"

definition is_expected_liquidation_failure :: "string \<Rightarrow> bool" where
  "is_expected_liquidation_failure err \<longleftrightarrow>
     (case classify_str err of
        Contract c \<Rightarrow> List.member KNOWN_LIQUIDATION_FAILURE_CODES c
      | _ \<Rightarrow> False) \<or>
     list_ex (contains err) EXPECTED_LIQUIDATION_FAILURE_NAMES"

definition contract_error_code :: "string \<Rightarrow> nat option" where
  "contract_error_code err = extract_contract_code err"

definition OBLIGATION_DOES_NOT_EXIST_CODE :: nat where
  "OBLIGATION_DOES_NOT_EXIST_CODE = 200"

definition is_obligation_does_not_exist :: "string \<Rightarrow> bool" where
  "is_obligation_does_not_exist err =
     (case classify_str err of
        Contract c \<Rightarrow> c = OBLIGATION_DOES_NOT_EXIST_CODE
      | _ \<Rightarrow> contains err ''ObligationDoesNotExist'')"

definition is_bad_seq_error :: "string \<Rightarrow> bool" where
  "is_bad_seq_error err \<longleftrightarrow> classify_str err = BadSequence"

definition is_no_simulation_results_error :: "string \<Rightarrow> bool" where
  "is_no_simulation_results_error err \<longleftrightarrow> classify_str err = NoSimulationResults"

definition is_terminal_cursor_error :: "string \<Rightarrow> bool" where
  "is_terminal_cursor_error err \<longleftrightarrow> classify_str err = TerminalCursor"

section \<open>Rendering a code\<close>

text \<open>The decimal rendering of a code, as the host writes it.\<close>

fun show_nat :: "nat \<Rightarrow> string" where
  "show_nat n = (if n < 10 then [char_of (48 + n)] else show_nat (n div 10) @ [char_of (48 + n mod 10)])"

declare show_nat.simps [simp del]

lemma digits_value_snoc [simp]: "digits_value (ds @ [c]) = 10 * digits_value ds + (of_char c - 48)"
  by (simp add: digits_value_def)

lemma of_char_digit [simp]: "k < 10 \<Longrightarrow> (of_char (char_of (48 + k :: nat) :: char) :: nat) = 48 + k"
  by simp

lemma show_nat_value: "digits_value (show_nat n) = n"
proof (induction n rule: show_nat.induct)
  case (1 n)
  show ?case
  proof (cases "n < 10")
    case True
    then show ?thesis by (simp add: show_nat.simps [of n] digits_value_def)
  next
    case False
    with 1 show ?thesis by (subst show_nat.simps) (simp del: of_char_of)
  qed
qed

lemma show_nat_digits: "list_all is_ascii_digit (show_nat n) \<and> show_nat n \<noteq> []"
proof (induction n rule: show_nat.induct)
  case (1 n)
  have d: "is_ascii_digit (char_of (48 + k :: nat))" if "k < 10" for k
    using that by (simp add: is_ascii_digit_def del: of_char_of)
  show ?case
    using 1 d by (subst (1 2) show_nat.simps) auto
qed

lemma strip_prefix_append [simp]: "strip_prefix p (p @ s) = Some s"
  by (induction p) auto

lemma strip_prefix_SomeD: "strip_prefix p s = Some r \<Longrightarrow> s = p @ r"
  by (induction p s rule: strip_prefix.induct) (auto split: if_splits)

lemma after_first_at:
  assumes "\<And>k. k < length pre \<Longrightarrow> strip_prefix p (drop k (pre @ p @ post)) = None"
  shows "after_first p (pre @ p @ post) = Some post"
  using assms
proof (induction pre)
  case Nil
  then show ?case by (subst after_first.simps) simp
next
  case (Cons c pre)
  have "strip_prefix p ((c # pre) @ p @ post) = None" using Cons.prems [of 0] by simp
  moreover have "after_first p (pre @ p @ post) = Some post"
    using Cons.prems [of "Suc k" for k] by (intro Cons.IH) simp
  ultimately show ?case by (subst after_first.simps) simp
qed

lemma after_first_None: "after_first p s = None \<Longrightarrow> strip_prefix p (drop k s) = None"
proof (induction s arbitrary: k)
  case Nil
  then show ?case by (simp add: after_first.simps [of p "[]"] split: option.splits)
next
  case (Cons c cs)
  have "strip_prefix p (c # cs) = None" "after_first p cs = None"
    using Cons.prems by (subst (asm) after_first.simps, simp split: option.splits)+
  with Cons.IH show ?case by (cases k) simp_all
qed

text \<open>An occurrence that starts inside \<open>pre\<close> ends before the last byte of the marker that follows.\<close>

lemma no_earlier_occurrence:
  assumes no: "\<not> contains (pre @ butlast p) p" and p: "p \<noteq> []" and k: "k < length pre"
  shows "strip_prefix p (drop k (pre @ p @ post)) = None"
proof (rule ccontr)
  assume "strip_prefix p (drop k (pre @ p @ post)) \<noteq> None"
  then obtain r where r: "drop k (pre @ p @ post) = p @ r" using strip_prefix_SomeD by fastforce
  have len: "length pre - k + (length p - 1) \<ge> length p" using k p by (cases p) auto
  have "drop k (pre @ butlast p) = take (length pre - k + (length p - 1)) (drop k (pre @ p @ post))"
    using k p by (simp add: butlast_conv_take)
  also have "\<dots> = p @ take (length pre - k + (length p - 1) - length p) r" using r len by simp
  finally have "strip_prefix p (drop k (pre @ butlast p)) \<noteq> None" by simp
  moreover have "after_first p (pre @ butlast p) = None" using no by (simp add: contains_def)
  ultimately show False using after_first_None [of p "pre @ butlast p" k] by simp
qed

lemma takeWhile_digits:
  "\<not> is_ascii_digit (hd post) \<or> post = [] \<Longrightarrow> takeWhile is_ascii_digit (show_nat n @ post) = show_nat n"
  using show_nat_digits [of n]
  by (cases post) (auto simp: takeWhile_append1 list_all_iff takeWhile_append)

text \<open>A byte that the searched phrase does not contain splits the search.\<close>

lemma strip_prefix_sep:
  "c \<notin> set p \<Longrightarrow> strip_prefix p (pre @ c # post) = map_option (\<lambda>r. r @ c # post) (strip_prefix p pre)"
  by (induction p pre rule: strip_prefix.induct) (auto split: list.splits)

lemma after_first_sep:
  assumes "c \<notin> set p" "p \<noteq> []"
  shows "after_first p (pre @ c # post) =
    (case after_first p pre of Some r \<Rightarrow> Some (r @ c # post) | None \<Rightarrow> after_first p post)"
proof (induction pre)
  case Nil
  have "strip_prefix p (c # post) = None" "strip_prefix p [] = None"
    using assms strip_prefix_sep [of c p "[]" post] by (cases p; simp)+
  then show ?case by (simp add: after_first.simps [of p "c # post"] after_first.simps [of p "[]"])
next
  case (Cons x pre)
  show ?case
    using Cons strip_prefix_sep [OF assms(1), of "x # pre" post]
    by (simp add: after_first.simps [of p "x # pre @ c # post"] after_first.simps [of p "x # pre"]
        split: option.splits)
qed

lemma contains_sep:
  "c \<notin> set p \<Longrightarrow> p \<noteq> [] \<Longrightarrow> contains (pre @ c # post) p \<longleftrightarrow> contains pre p \<or> contains post p"
  by (simp add: contains_def after_first_sep split: option.splits)

lemma to_lowercase_append [simp]: "to_lowercase (a @ b) = to_lowercase a @ to_lowercase b"
  by (simp add: to_lowercase_def)

text \<open>The code of an error is the code of its cause when no context before a colon carries a marker.\<close>

lemma extract_contract_code_context:
  "\<not> contains ctx MARKER \<Longrightarrow> extract_contract_code (ctx @ CHR '':'' # e) = extract_contract_code e"
proof -
  assume "\<not> contains ctx MARKER"
  moreover have "CHR '':'' \<notin> set MARKER" "MARKER \<noteq> []" by (simp_all add: MARKER_def)
  ultimately show ?thesis by (simp add: extract_contract_code_def after_first_sep contains_def)
qed

section \<open>Properties\<close>

text \<open>A contract's error code survives rendering and classification: a message that carries
  \<open>Error(Contract, #N)\<close> once, with \<open>N\<close> a 32-bit number, yields exactly \<open>N\<close>; it is classified as that
  contract error, and as a missing obligation iff \<open>N\<close> is 200, except that a message about an empty
  simulation is classified as such whatever its code.\<close>

theorem contract_code_round_trip:
  assumes code: "n < 2 ^ 32" and first: "\<not> contains (pre @ butlast MARKER) MARKER"
    and msg: "msg = pre @ MARKER @ show_nat n @ CHR '')'' # post"
  shows "contract_error_code msg = Some n \<and>
    (if contains (to_lowercase msg) ''simulation returned no results''
     then classify_str msg = NoSimulationResults
     else classify_str msg = Contract n \<and> (is_obligation_does_not_exist msg \<longleftrightarrow> n = 200))"
proof -
  have "after_first MARKER msg = Some (show_nat n @ CHR '')'' # post)"
    unfolding msg by (rule after_first_at) (rule no_earlier_occurrence [OF first], auto simp: MARKER_def)
  moreover have "takeWhile is_ascii_digit (show_nat n @ CHR '')'' # post) = show_nat n"
    by (rule takeWhile_digits) (simp add: is_ascii_digit_def)
  ultimately have "extract_contract_code msg = Some n"
    using code show_nat_digits [of n] by (simp add: extract_contract_code_def parse_u32_def show_nat_value)
  then show ?thesis
    by (simp add: contract_error_code_def classify_str_def Let_def is_obligation_does_not_exist_def
        OBLIGATION_DOES_NOT_EXIST_CODE_def)
qed

theorem contract_code_round_trip_witness:
  "contract_error_code ''HostError: Error(Contract, #200)'' = Some 200 \<and>
   is_obligation_does_not_exist ''HostError: Error(Contract, #200)''"
proof -
  let ?pre = "''HostError: ''"
  have first: "\<not> contains (?pre @ butlast MARKER) MARKER" by code_simp
  have msg: "''HostError: Error(Contract, #200)'' = ?pre @ MARKER @ show_nat 200 @ CHR '')'' # []" by code_simp
  have "\<not> contains (to_lowercase ''HostError: Error(Contract, #200)'') ''simulation returned no results''"
    by code_simp
  with contract_code_round_trip [OF _ first msg] show ?thesis by simp
qed

end
