(* ===== verification/Liquidator.thy ===== *)
theory Liquidator
  imports Liquidator_Plan Errors "HOL-Library.Sublist"
begin

text \<open>
  \<^verbatim>\<open>keeper/src/strategy/liquidator.rs\<close>, the strategy: its caches of market snapshots and obligations,
  the handlers of chain events and new ledgers, the scan of a market, and the dispatch of a plan as a
  batch transaction with its capital reserved.  Storage and event decoding are ports; logging and
  metrics are left out.
\<close>

section \<open>Data\<close>

datatype undispatched = UndispatchedDust | UndispatchedOther

record market_snapshot =
  snap_data :: market_data
  refreshed_at :: nat

record liquidator =
  lq_pkey :: string
  lq_skey :: string
  last_refresh_ledger :: nat
  lq_config :: liquidator_config
  lq_market_data :: "(string, market_snapshot) hash_map"
  lq_obligations :: "(string, (obligation_key, obligation) hash_map) hash_map"

definition liquidator_new :: "string \<Rightarrow> string \<Rightarrow> liquidator_config \<Rightarrow> liquidator" where
  "liquidator_new pkey skey cfg =
     \<lparr>lq_pkey = pkey, lq_skey = skey, last_refresh_ledger = 0, lq_config = cfg, lq_market_data = [],
      lq_obligations = []\<rparr>"

definition snapshot_new :: "nat \<Rightarrow> market_data \<Rightarrow> market_snapshot" where
  "snapshot_new now md = \<lparr>snap_data = md, refreshed_at = now\<rparr>"

definition snapshot_age :: "market_snapshot \<Rightarrow> nat \<Rightarrow> nat" where
  "snapshot_age s now = now - refreshed_at s"

section \<open>Batches\<close>

definition build_batch_requests :: "('w, 'r, 'op) gateway \<Rightarrow> liquidation_plan \<Rightarrow> 'r list option" where
  "build_batch_requests G plan =
     (let liquidate = liquidate_request G (borrower_key plan) (borrow_pool_address plan)
            (collateral_pool_address plan) (repay_amount plan) (expected_seized_collateral plan) in
      case plan_type plan of
        Flash flash_repay provider withdraw \<Rightarrow>
          (case flash_borrow_request G (borrow_pool_address plan) (repay_amount plan) of
             Inl e \<Rightarrow> None
           | Inr flash_req \<Rightarrow>
               (case liquidate of
                  Inl e \<Rightarrow> None
                | Inr liquidate_req \<Rightarrow>
                    (case (if withdraw > 0
                           then (case withdraw_request G (collateral_pool_address plan) withdraw of
                                   Inl e \<Rightarrow> None | Inr r \<Rightarrow> Some [r])
                           else Some []) of
                       None \<Rightarrow> None
                     | Some withdraw_reqs \<Rightarrow>
                         (case swap_exact_tokens_request G provider (expected_seized_collateral plan)
                                 flash_repay [collateral_pool_address plan, borrow_pool_address plan] of
                            Inl e \<Rightarrow> None
                          | Inr swap_req \<Rightarrow>
                              Some ([flash_req, liquidate_req] @ withdraw_reqs @ [swap_req])))))
      | PreSwap asset amount_in amount_out provider \<Rightarrow>
          (case swap_exact_tokens_request G provider amount_in amount_out
                  [asset, borrow_pool_address plan] of
             Inl e \<Rightarrow> None
           | Inr swap_req \<Rightarrow>
               (case liquidate of Inl e \<Rightarrow> None | Inr liquidate_req \<Rightarrow> Some [swap_req, liquidate_req]))
      | Direct \<Rightarrow> (case liquidate of Inl e \<Rightarrow> None | Inr liquidate_req \<Rightarrow> Some [liquidate_req]))"

section \<open>Dispatch\<close>

definition reserve_target :: "liquidation_plan \<Rightarrow> string \<times> i128" where
  "reserve_target plan =
     (case plan_type plan of
        Direct \<Rightarrow> (borrow_pool_address plan, repay_amount plan)
      | PreSwap asset amount_in amount_out provider \<Rightarrow> (asset, amount_in)
      | Flash flash_repay provider withdraw \<Rightarrow> (borrow_pool_address plan, 0))"

text \<open>\<open>None\<close>: the plan is not dispatched.\<close>

definition take_reservation ::
  "liquidator_config \<Rightarrow> 'w ledger_reader \<Rightarrow> string \<Rightarrow> i128 \<Rightarrow> ('w, 64 word option) proc" where
  "take_reservation cfg L token amount =
     (if amount > 0 then
        pbind (pcall (try_get_balance L token)) (\<lambda>rb.
        case rb of
          Inl e \<Rightarrow> pret None
        | Inr raw \<Rightarrow>
            pbind (pcall (reserve_in amount (usable_balance cfg token raw) token)) (\<lambda>r.
            case r of
              Ok rid \<Rightarrow> pret (Some rid)
            | Err e \<Rightarrow> pret None
            | Panic \<Rightarrow> (\<lambda>w. None)))
      else pbind (pcall draw_id) (\<lambda>rid. pret (Some rid)))"

definition execute_liquidation_plan ::
  "liquidator \<Rightarrow> 'w ledger_reader \<Rightarrow> ('w, 'r, 'op) gateway \<Rightarrow> string \<Rightarrow> liquidation_plan \<Rightarrow>
     obligation_key \<Rightarrow> ('w, undispatched + 'op action) proc" where
  "execute_liquidation_plan s L G market plan key =
     (case build_batch_requests G plan of
        None \<Rightarrow> pret (Inl UndispatchedOther)
      | Some requests \<Rightarrow>
          pbind (pcall (simulate_batch G market key requests)) (\<lambda>sim.
          case sim of
            Inl e \<Rightarrow> pret (Inl UndispatchedOther)
          | Inr (BatchFailed c) \<Rightarrow>
              pret (Inl (if c = Some LIQUIDATION_LEAVES_DUST_CODE then UndispatchedDust
                         else UndispatchedOther))
          | Inr BatchOk \<Rightarrow>
              (case reserve_target plan of (token, amount) \<Rightarrow>
               pbind (take_reservation (lq_config s) L token amount) (\<lambda>got.
               case got of
                 None \<Rightarrow> pret (Inl UndispatchedOther)
               | Some rid \<Rightarrow>
                   (case batch_op G market key requests of
                      Inr op \<Rightarrow>
                        pret (Inr (SubmitTx \<lparr>tx_op = op, signing_key = lq_skey s,
                          max_submission_retries = max_retries (lq_config s),
                          on_settle = Some \<lparr>op_id = rid,
                            liquidation_outcome = Some (market, net_profit_value plan)\<rparr>\<rparr>))
                    | Inl e \<Rightarrow>
                        pbind (pcall (release_in rid)) (\<lambda>u. pret (Inl UndispatchedOther)))))))"

section \<open>The scan\<close>

definition better_plan :: "liquidation_plan option \<Rightarrow> liquidation_plan \<Rightarrow> bool" where
  "better_plan best plan =
     (case best of None \<Rightarrow> True | Some b \<Rightarrow> net_profit_value plan > net_profit_value b)"

fun scan_deposits ::
  "liquidator_config \<Rightarrow> 'w ledger_reader \<Rightarrow> bool \<Rightarrow> market_data \<Rightarrow> obligation \<Rightarrow> obligation_key \<Rightarrow>
     borrow_position \<Rightarrow> pool_data \<Rightarrow> deposit_position list \<Rightarrow> liquidation_plan option \<Rightarrow>
     ('w, liquidation_plan option) proc" where
  "scan_deposits cfg L ins md ob key b bp [] best = pret best"
| "scan_deposits cfg L ins md ob key b bp (dep # ds) best =
     (if dp_pool_address dep = bp_pool_address b \<or> (\<not> j_tokens dep > 0 \<and> \<not> collateral dep > 0)
      then scan_deposits cfg L ins md ob key b bp ds best
      else case find_pool (pools_data md) (dp_pool_address dep) of
        None \<Rightarrow> scan_deposits cfg L ins md ob key b bp ds best
      | Some cp \<Rightarrow>
          pbind (build_liquidation_plan cfg L
                   \<lparr>in_insolvent = ins, in_d_tokens = d_tokens b, in_borrow_pool = bp,
                    in_market_data = md, in_collateral_pool = cp, in_obligation = ob,
                    in_deposit = dep, in_key = key\<rparr> MARGIN_INITIAL) (\<lambda>p.
          scan_deposits cfg L ins md ob key b bp ds
            (case p of None \<Rightarrow> best | Some plan \<Rightarrow> if better_plan best plan then Some plan else best)))"

fun scan_borrows ::
  "liquidator_config \<Rightarrow> 'w ledger_reader \<Rightarrow> bool \<Rightarrow> market_data \<Rightarrow> obligation \<Rightarrow> obligation_key \<Rightarrow>
     borrow_position list \<Rightarrow> liquidation_plan option \<Rightarrow> ('w, liquidation_plan option) proc" where
  "scan_borrows cfg L ins md ob key [] best = pret best"
| "scan_borrows cfg L ins md ob key (b # bs) best =
     (case find_pool (pools_data md) (bp_pool_address b) of
        None \<Rightarrow> scan_borrows cfg L ins md ob key bs best
      | Some bp \<Rightarrow>
          pbind (scan_deposits cfg L ins md ob key b bp (deposits ob) best) (\<lambda>best'.
          scan_borrows cfg L ins md ob key bs best'))"

definition replan_pair ::
  "liquidator_config \<Rightarrow> 'w ledger_reader \<Rightarrow> bool \<Rightarrow> market_data \<Rightarrow> obligation \<Rightarrow> obligation_key \<Rightarrow>
     string \<Rightarrow> string \<Rightarrow> ('w, liquidation_plan option) proc" where
  "replan_pair cfg L ins md ob key bpa cpa =
     (case List.find (\<lambda>b. bp_pool_address b = bpa) (borrows ob) of
        None \<Rightarrow> pret None
      | Some b \<Rightarrow>
          (case List.find (\<lambda>d. dp_pool_address d = cpa) (deposits ob) of
             None \<Rightarrow> pret None
           | Some dep \<Rightarrow>
               (case find_pool (pools_data md) bpa of
                  None \<Rightarrow> pret None
                | Some bp \<Rightarrow>
                    (case find_pool (pools_data md) cpa of
                       None \<Rightarrow> pret None
                     | Some cp \<Rightarrow>
                         build_liquidation_plan cfg L
                           \<lparr>in_insolvent = ins, in_d_tokens = d_tokens b, in_borrow_pool = bp,
                            in_market_data = md, in_collateral_pool = cp, in_obligation = ob,
                            in_deposit = dep, in_key = key\<rparr> MARGIN_RETRY))))"

definition ok_action :: "undispatched + 'op action \<Rightarrow> 'op action option" where
  "ok_action r = (case r of Inl e \<Rightarrow> None | Inr a \<Rightarrow> Some a)"

definition try_liquidate ::
  "liquidator \<Rightarrow> 'w ledger_reader \<Rightarrow> ('w, 'r, 'op) gateway \<Rightarrow> string \<Rightarrow> bool \<Rightarrow> market_data \<Rightarrow>
     obligation \<Rightarrow> obligation_key \<Rightarrow> ('w, 'op action option) proc" where
  "try_liquidate s L G market ins md ob key =
     (let cfg = lq_config s; own = obligation_key_new (lq_pkey s) in
      pstop (scan_borrows cfg L ins md ob key (borrows ob) None) (\<lambda>plan.
      pbind (execute_liquidation_plan s L G market plan own) (\<lambda>r.
      case r of
        Inr a \<Rightarrow> pret (Some a)
      | Inl UndispatchedDust \<Rightarrow>
          if cfg_dust_rules cfg = NoDust then
            pstop (replan_pair cfg L ins md ob key (borrow_pool_address plan)
                     (collateral_pool_address plan)) (\<lambda>plan'.
            pbind (execute_liquidation_plan s L G market plan' own) (\<lambda>r'. pret (ok_action r')))
          else pret None
      | Inl UndispatchedOther \<Rightarrow> pret None)))"

text \<open>One obligation of the scan; \<open>None\<close> continues with the next one.\<close>

definition judge_obligation ::
  "liquidator \<Rightarrow> 'w ledger_reader \<Rightarrow> ('w, 'r, 'op) gateway \<Rightarrow> string \<Rightarrow> market_data \<Rightarrow>
     obligation_key \<times> obligation \<Rightarrow> ('w, 'op action option) proc" where
  "judge_obligation s L G market md entry =
     (case entry of (key, ob) \<Rightarrow>
      if user key = lq_pkey s then pret None
      else if unpriced_pools_touched ob md \<noteq> [] then pret None
      else
      pbind (ppure (ok_of (compute_is_liquidatable ob md (cfg_dust_rules (lq_config s))))) (\<lambda>liq.
      if liq \<noteq> Some True then pret None
      else
      pstop (ppure (ok_of (compute_is_insolvent ob md))) (\<lambda>ins.
      try_liquidate s L G market ins md ob key)))"

fun scan_obligations ::
  "liquidator \<Rightarrow> 'w ledger_reader \<Rightarrow> ('w, 'r, 'op) gateway \<Rightarrow> string \<Rightarrow> market_data \<Rightarrow>
     (obligation_key \<times> obligation) list \<Rightarrow> ('w, 'op action list) proc" where
  "scan_obligations s L G market md [] = pret []"
| "scan_obligations s L G market md (e # es) =
     pbind (judge_obligation s L G market md e) (\<lambda>a.
     pbind (scan_obligations s L G market md es) (\<lambda>as.
     pret (opt_list a @ as)))"

definition evaluate_market ::
  "liquidator \<Rightarrow> 'w ledger_reader \<Rightarrow> ('w, 'r, 'op) gateway \<Rightarrow> string \<Rightarrow> ('w, 'op action list) proc" where
  "evaluate_market s L G market = (\<lambda>w.
     (case hm_get (lq_market_data s) market of
        None \<Rightarrow> pret []
      | Some snapshot \<Rightarrow>
          if snapshot_age snapshot (instant w) > max_market_data_age (lq_config s) then pret []
          else (case hm_get (lq_obligations s) market of
                  None \<Rightarrow> pret []
                | Some obs \<Rightarrow>
                    if obs = [] then pret []
                    else scan_obligations s L G market (snap_data snapshot) obs)) w)"

section \<open>Caches\<close>

definition install_snapshot :: "nat \<Rightarrow> string \<Rightarrow> market_data \<Rightarrow> liquidator \<Rightarrow> bool \<times> liquidator" where
  "install_snapshot now market md s =
     (if prices_nothing md then (False, s)
      else (True, s\<lparr>lq_market_data := hm_insert market (snapshot_new now md) (lq_market_data s)\<rparr>))"

fun refresh_market_data :: "'w ledger_reader \<Rightarrow> string list \<Rightarrow> liquidator \<Rightarrow> ('w, liquidator) call" where
  "refresh_market_data L [] s w = (s, w)"
| "refresh_market_data L (market # ms) s w =
     (case read_market_data L market w of
        (Inr md, w') \<Rightarrow> refresh_market_data L ms (snd (install_snapshot (instant w') market md s)) w'
      | (Inl e, w') \<Rightarrow> refresh_market_data L ms s w')"

text \<open>\<open>entry(market).or_default().insert(key, obligation)\<close>; a failed write to the repository is only
  logged.\<close>

definition upsert_obligation ::
  "'w store \<Rightarrow> string \<Rightarrow> obligation_key \<Rightarrow> obligation \<Rightarrow> liquidator \<Rightarrow> ('w, liquidator) call" where
  "upsert_obligation R market key ob s w =
     (case repo_put R market key ob w of (_, w') \<Rightarrow>
      let m = (case hm_get (lq_obligations s) market of None \<Rightarrow> [] | Some m \<Rightarrow> m)
      in (s\<lparr>lq_obligations := hm_insert market (hm_insert key ob m) (lq_obligations s)\<rparr>, w'))"

definition delete_obligation ::
  "'w store \<Rightarrow> string \<Rightarrow> obligation_key \<Rightarrow> liquidator \<Rightarrow> ('w, liquidator) call" where
  "delete_obligation R market key s w =
     (case repo_delete R market key w of (_, w') \<Rightarrow>
      (case hm_get (lq_obligations s) market of
         None \<Rightarrow> (s, w')
       | Some m \<Rightarrow> (s\<lparr>lq_obligations := hm_insert market (hm_remove key m) (lq_obligations s)\<rparr>, w')))"

definition apply_obligation_snapshot ::
  "event_codec \<Rightarrow> 'w store \<Rightarrow> string \<Rightarrow> string \<Rightarrow> obligation_key \<Rightarrow> string \<Rightarrow> liquidator \<Rightarrow>
     ('w, liquidator) call" where
  "apply_obligation_snapshot C R market field key val s =
     (case parse_obligation_from_event_value C val field key of
        Inr (Some ob) \<Rightarrow> upsert_obligation R market key ob s
      | Inr None \<Rightarrow> delete_obligation R market key s
      | Inl e \<Rightarrow> (\<lambda>w. (s, w)))"

definition reread_obligation ::
  "'w ledger_reader \<Rightarrow> 'w store \<Rightarrow> string \<Rightarrow> obligation_key \<Rightarrow> liquidator \<Rightarrow> ('w, liquidator) call" where
  "reread_obligation L R market key s w =
     (case read_user_obligation L market key w of
        (Inr ob, w') \<Rightarrow> upsert_obligation R market key ob s w'
      | (Inl e, w') \<Rightarrow>
          if is_obligation_does_not_exist e then delete_obligation R market key s w' else (s, w'))"

section \<open>Handlers\<close>

text \<open>The match on the operation; \<open>None\<close> is the early return that skips the cursor.\<close>

definition apply_operation ::
  "'w ledger_reader \<Rightarrow> event_codec \<Rightarrow> 'w store \<Rightarrow> soroban_event \<Rightarrow> operation_event \<Rightarrow> liquidator \<Rightarrow>
     ('w, liquidator option) call" where
  "apply_operation L C R ev op s w =
     (let market = contract_id ev; val = ev_value ev in
      case op of
        Liquidate \<Rightarrow>
          (case parse_obligation_key_from_topic C ev 2 of
             Inl e \<Rightarrow> (None, w)
           | Inr borrower \<Rightarrow>
               (case apply_obligation_snapshot C R market ''borrower_obligation'' borrower val s w of
                  (s1, w1) \<Rightarrow>
                    (case apply_obligation_snapshot C R market ''liquidator_obligation''
                            \<lparr>user = decode_topic C ev 1, seed = None\<rparr> val s1 w1 of
                       (s2, w2) \<Rightarrow> (Some s2, w2))))
      | IssueCoverBadDebt \<Rightarrow>
          (case parse_obligation_key_from_topic C ev 1 of
             Inl e \<Rightarrow> (None, w)
           | Inr key \<Rightarrow> (case reread_obligation L R market key s w of (s1, w1) \<Rightarrow> (Some s1, w1)))
      | ClaimCoverBadDebtResults \<Rightarrow>
          (case parse_obligation_key_from_topic C ev 1 of
             Inl e \<Rightarrow> (None, w)
           | Inr key \<Rightarrow>
               (case apply_obligation_snapshot C R market ''obligation'' key val s w of
                  (s1, w1) \<Rightarrow> (Some s1, w1)))
      | _ \<Rightarrow>
          (case parse_obligation_key_from_topic C ev 2 of
             Inl e \<Rightarrow> (None, w)
           | Inr key \<Rightarrow>
               (case apply_obligation_snapshot C R market ''obligation'' key val s w of
                  (s1, w1) \<Rightarrow> (Some s1, w1))))"

definition handle_soroban_event ::
  "'w ledger_reader \<Rightarrow> event_codec \<Rightarrow> 'w store \<Rightarrow> soroban_event \<Rightarrow> liquidator \<Rightarrow> ('w, liquidator) call"
where
  "handle_soroban_event L C R ev s w =
     (if contract_id ev \<notin> set (markets (lq_config s)) then (s, w)
      else case decode_operation C ev of
        Inl e \<Rightarrow> (s, w)
      | Inr op \<Rightarrow>
          (case apply_operation L C R ev op s w of
             (None, w') \<Rightarrow> (s, w')
           | (Some s', w') \<Rightarrow> (case cursor_set R (ev_id ev) (ev_ledger ev) w' of (_, w'') \<Rightarrow> (s', w''))))"

fun evaluate_markets ::
  "liquidator \<Rightarrow> 'w ledger_reader \<Rightarrow> ('w, 'r, 'op) gateway \<Rightarrow> string list \<Rightarrow> ('w, 'op action list) proc" where
  "evaluate_markets s L G [] = pret []"
| "evaluate_markets s L G (m # ms) =
     pbind (evaluate_market s L G m) (\<lambda>as.
     pbind (evaluate_markets s L G ms) (\<lambda>bs. pret (as @ bs)))"

definition handle_new_ledger ::
  "'w ledger_reader \<Rightarrow> ('w, 'r, 'op) gateway \<Rightarrow> nat \<Rightarrow> liquidator \<Rightarrow>
     ('w, 'op action list \<times> liquidator) proc" where
  "handle_new_ledger L G ledger s =
     (if ledger - last_refresh_ledger s < refresh_interval_blocks (lq_config s) then pret ([], s)
      else
        let s1 = s\<lparr>last_refresh_ledger := ledger\<rparr> in
        pbind (pcall (refresh_market_data L (markets (lq_config s1)) s1)) (\<lambda>s2.
        pbind (evaluate_markets s2 L G (markets (lq_config s2))) (\<lambda>as. pret (as, s2))))"

definition process_event ::
  "'w ledger_reader \<Rightarrow> ('w, 'r, 'op) gateway \<Rightarrow> event_codec \<Rightarrow> 'w store \<Rightarrow> keeper_event \<Rightarrow> liquidator \<Rightarrow>
     ('w, 'op action list \<times> liquidator) proc" where
  "process_event L G C R ev s =
     (case ev of
        SorobanEvents e \<Rightarrow> pbind (pcall (handle_soroban_event L C R e s)) (\<lambda>s'. pret ([], s'))
      | NewLedger n \<Rightarrow> handle_new_ledger L G n s)"

fun sync_markets :: "'w ledger_reader \<Rightarrow> 'w store \<Rightarrow> string list \<Rightarrow> liquidator \<Rightarrow> ('w, liquidator) call" where
  "sync_markets L R [] s w = (s, w)"
| "sync_markets L R (market # ms) s w =
     (case read_market_data L market w of (r, w1) \<Rightarrow>
      let s1 = (case r of Inr md \<Rightarrow> snd (install_snapshot (instant w1) market md s) | Inl e \<Rightarrow> s) in
      case repo_load_all R market w1 of (r2, w2) \<Rightarrow>
      let cached = (case r2 of Inr m \<Rightarrow> m | Inl e \<Rightarrow> []) in
      sync_markets L R ms (s1\<lparr>lq_obligations := hm_insert market cached (lq_obligations s1)\<rparr>) w2)"

definition sync_state :: "'w ledger_reader \<Rightarrow> 'w store \<Rightarrow> liquidator \<Rightarrow> ('w, liquidator) call" where
  "sync_state L R s = sync_markets L R (markets (lq_config s)) s"

section \<open>Where actions come from\<close>

text \<open>A plan built for some pair of an obligation.\<close>

definition planned ::
  "liquidator_config \<Rightarrow> 'w ledger_reader \<Rightarrow> market_data \<Rightarrow> obligation_key \<Rightarrow> obligation \<Rightarrow>
     liquidation_plan \<Rightarrow> bool" where
  "planned cfg L md key ob plan \<longleftrightarrow>
     (\<exists>i cm w1 w2. in_market_data i = md \<and> in_key i = key \<and> in_obligation i = ob \<and>
        build_liquidation_plan cfg L i cm w1 = Some (Some plan, w2))"

lemma planned_sound:
  "planned cfg L md key ob plan \<Longrightarrow>
     \<exists>i. in_market_data i = md \<and> in_key i = key \<and> in_obligation i = ob \<and>
       plan_sound cfg i (plan_margin cfg i) plan"
  using build_liquidation_plan_Some unfolding planned_def by blast

lemma built_planned:
  "build_liquidation_plan cfg L \<lparr>in_insolvent = ins, in_d_tokens = d, in_borrow_pool = bp,
     in_market_data = md, in_collateral_pool = cp, in_obligation = ob, in_deposit = dep, in_key = key\<rparr> cm w
     = Some (Some plan, w') \<Longrightarrow> planned cfg L md key ob plan"
  unfolding planned_def
  by (intro exI [of _ "\<lparr>in_insolvent = ins, in_d_tokens = d, in_borrow_pool = bp,
     in_market_data = md, in_collateral_pool = cp, in_obligation = ob, in_deposit = dep, in_key = key\<rparr>"] exI) simp

lemma scan_deposits_planned:
  assumes "scan_deposits cfg L ins md ob key b bp ds best w = Some (Some plan, w')"
    "\<And>p. best = Some p \<Longrightarrow> planned cfg L md key ob p"
  shows "planned cfg L md key ob plan"
  using assms
proof (induction ds arbitrary: best w)
  case (Cons dep ds)
  show ?case
  proof (cases "dp_pool_address dep = bp_pool_address b \<or> (\<not> j_tokens dep > 0 \<and> \<not> collateral dep > 0)")
    case True
    then show ?thesis using Cons.IH [OF _ Cons.prems(2)] Cons.prems(1) by simp
  next
    case False
    note guard = False
    show ?thesis
    proof (cases "find_pool (pools_data md) (dp_pool_address dep)")
      case None
      with guard Cons.prems(1) have "scan_deposits cfg L ins md ob key b bp ds best w = Some (Some plan, w')"
        by auto
      then show ?thesis by (rule Cons.IH) (rule Cons.prems(2))
    next
      case (Some cp)
      from guard Some Cons.prems(1) obtain p w1 where
        b: "build_liquidation_plan cfg L \<lparr>in_insolvent = ins, in_d_tokens = d_tokens b, in_borrow_pool = bp,
          in_market_data = md, in_collateral_pool = cp, in_obligation = ob, in_deposit = dep, in_key = key\<rparr>
          MARGIN_INITIAL w = Some (p, w1)" and
        rest: "scan_deposits cfg L ins md ob key b bp ds
          (case p of None \<Rightarrow> best | Some q \<Rightarrow> if better_plan best q then Some q else best) w1 = Some (Some plan, w')"
        by auto
      have "planned cfg L md key ob q" if "p = Some q" for q
        using b that built_planned by blast
      then show ?thesis
        by (intro Cons.IH [OF rest]) (auto split: option.splits if_splits intro: Cons.prems(2))
    qed
  qed
qed auto

lemma scan_borrows_planned:
  assumes "scan_borrows cfg L ins md ob key bs best w = Some (Some plan, w')"
    "\<And>p. best = Some p \<Longrightarrow> planned cfg L md key ob p"
  shows "planned cfg L md key ob plan"
  using assms
proof (induction bs arbitrary: best w)
  case (Cons b bs)
  show ?case
  proof (cases "find_pool (pools_data md) (bp_pool_address b)")
    case None
    with Cons.prems(1) have "scan_borrows cfg L ins md ob key bs best w = Some (Some plan, w')" by simp
    then show ?thesis by (rule Cons.IH) (rule Cons.prems(2))
  next
    case (Some bp)
    with Cons.prems(1) obtain best' w1 where
      d: "scan_deposits cfg L ins md ob key b bp (deposits ob) best w = Some (best', w1)" and
      rest: "scan_borrows cfg L ins md ob key bs best' w1 = Some (Some plan, w')" by auto
    show ?thesis
      by (rule Cons.IH [OF rest]) (use d scan_deposits_planned Cons.prems(2) in blast)
  qed
qed auto

lemma replan_planned:
  assumes "replan_pair cfg L ins md ob key bpa cpa w = Some (Some plan, w')"
  shows "planned cfg L md key ob plan"
  using assms unfolding replan_pair_def by (elim opt_case_appE) (auto intro: built_planned)

text \<open>An action that carries out a plan: it submits the batch of the plan's requests for the keeper's own
  obligation, signed with the keeper's key, and reports the plan's expected value to the settle hook.\<close>

definition carries_out ::
  "liquidator \<Rightarrow> ('w, 'r, 'op) gateway \<Rightarrow> string \<Rightarrow> liquidation_plan \<Rightarrow> 'op action \<Rightarrow> bool" where
  "carries_out s G market plan a \<longleftrightarrow>
     (\<exists>requests op rid. build_batch_requests G plan = Some requests \<and>
        batch_op G market (obligation_key_new (lq_pkey s)) requests = Inr op \<and>
        a = SubmitTx \<lparr>tx_op = op, signing_key = lq_skey s,
        max_submission_retries = max_retries (lq_config s),
        on_settle = Some \<lparr>op_id = rid, liquidation_outcome = Some (market, net_profit_value plan)\<rparr>\<rparr>)"

lemma execute_carries_out:
  "execute_liquidation_plan s L G market plan (obligation_key_new (lq_pkey s)) w = Some (Inr a, w') \<Longrightarrow>
     carries_out s G market plan a"
  unfolding execute_liquidation_plan_def
  by (elim task_elims) (auto simp: carries_out_def)

lemma try_liquidate_action:
  assumes "try_liquidate s L G market ins md ob key w = Some (Some a, w')"
  shows "\<exists>plan. planned (lq_config s) L md key ob plan \<and> carries_out s G market plan a"
proof -
  let ?own = "obligation_key_new (lq_pkey s)" and ?cfg = "lq_config s"
  from assms obtain plan w1 r w2 where
    p: "scan_borrows ?cfg L ins md ob key (borrows ob) None w = Some (Some plan, w1)" and
    r: "execute_liquidation_plan s L G market plan ?own w1 = Some (r, w2)"
    by (auto simp: try_liquidate_def Let_def)
  have planned: "planned ?cfg L md key ob plan" by (rule scan_borrows_planned [OF p]) simp
  show ?thesis
  proof (cases r)
    case (Inr a')
    then have "a = a'" using assms p r by (auto simp: try_liquidate_def Let_def)
    with Inr r planned show ?thesis using execute_carries_out by blast
  next
    case (Inl e)
    then obtain plan' w3 r' where
      re: "replan_pair ?cfg L ins md ob key (borrow_pool_address plan) (collateral_pool_address plan) w2 = Some (Some plan', w3)" and
      ex: "execute_liquidation_plan s L G market plan' ?own w3 = Some (r', w')" and ok: "ok_action r' = Some a"
      using assms p r by (cases e) (auto simp: try_liquidate_def Let_def split: if_splits)
    from ok have "r' = Inr a" by (cases r') (simp_all add: ok_action_def)
    with ex have "carries_out s G market plan' a" using execute_carries_out by simp
    then show ?thesis using replan_planned [OF re] by blast
  qed
qed

text \<open>The obligations the scan may act on.\<close>

definition eligible :: "liquidator \<Rightarrow> market_data \<Rightarrow> obligation_key \<times> obligation \<Rightarrow> bool" where
  "eligible s md e \<longleftrightarrow> user (fst e) \<noteq> lq_pkey s \<and> unpriced_pools_touched (snd e) md = [] \<and>
     compute_is_liquidatable (snd e) md (cfg_dust_rules (lq_config s)) = Ok True \<and>
     (\<exists>ins. compute_is_insolvent (snd e) md = Ok ins)"

definition warranted ::
  "liquidator \<Rightarrow> ('w, 'r, 'op) gateway \<Rightarrow> string \<Rightarrow> market_data \<Rightarrow> obligation_key \<times> obligation \<Rightarrow>
     'op action \<Rightarrow> bool" where
  "warranted s G market md e a \<longleftrightarrow> eligible s md e \<and>
     (\<exists>i plan. in_market_data i = md \<and> in_key i = fst e \<and> in_obligation i = snd e \<and>
        plan_sound (lq_config s) i (plan_margin (lq_config s) i) plan \<and> carries_out s G market plan a)"

lemma judge_obligation_action:
  assumes "judge_obligation s L G market md e w = Some (Some a, w')"
  shows "warranted s G market md e a"
proof -
  obtain key ob where e: "e = (key, ob)" by (cases e)
  from assms obtain liq ins w1 where
    "user key \<noteq> lq_pkey s" "unpriced_pools_touched ob md = []"
    "ok_of (compute_is_liquidatable ob md (cfg_dust_rules (lq_config s))) = (Ok liq :: (unit, bool option) outcome)"
    "liq = Some True" "compute_is_insolvent ob md = Ok ins"
    "try_liquidate s L G market ins md ob key w1 = Some (Some a, w')"
    by (auto simp: judge_obligation_def e split: if_splits)
  moreover from this(6) obtain plan where "planned (lq_config s) L md key ob plan" "carries_out s G market plan a"
    using try_liquidate_action by blast
  ultimately show ?thesis using planned_sound by (fastforce simp: warranted_def eligible_def e)
qed

lemma scan_obligations_actions:
  "scan_obligations s L G market md es w = Some (as, w') \<Longrightarrow>
     \<exists>fs. length fs = length as \<and> list_all2 (warranted s G market md) fs as \<and> subseq fs es"
proof (induction es arbitrary: as w)
  case Nil
  then show ?case by simp
next
  case (Cons e es)
  from Cons.prems obtain a w1 bs where a: "judge_obligation s L G market md e w = Some (a, w1)"
    and bs: "scan_obligations s L G market md es w1 = Some (bs, w')" and as: "as = opt_list a @ bs" by auto
  from Cons.IH [OF bs] obtain fs where fs: "length fs = length bs" "list_all2 (warranted s G market md) fs bs"
    "subseq fs es" by blast
  show ?case
  proof (cases a)
    case None
    then show ?thesis using fs as by (auto simp: opt_list_def)
  next
    case (Some x)
    then have "warranted s G market md e x" using judge_obligation_action a by blast
    then show ?thesis using fs as Some by (intro exI [of _ "e # fs"]) (simp add: opt_list_def)
  qed
qed

section \<open>Reservations of a dispatch\<close>

lemma take_reservation_Some:
  assumes "take_reservation cfg L token amount w = Some (Some rid, w')" "0 < amount"
  shows "\<exists>e. hm_get (reservations (inner (capital w'))) rid = Some e \<and> res_amount e = amount \<and> res_token e = token"
  using assms unfolding take_reservation_def
  by (elim task_elims) (auto dest: reserve_in_Ok)

text \<open>Ports that leave the capital ledger alone: no other task runs while they answer.\<close>

definition quiet_ports :: "'w ledger_reader \<Rightarrow> ('w, 'r, 'op) gateway \<Rightarrow> bool" where
  "quiet_ports L G \<longleftrightarrow>
     (\<forall>t a w. capital (snd (read_token_balance L t a w)) = capital w) \<and>
     (\<forall>m k rs w. capital (snd (simulate_batch G m k rs w)) = capital w)"

lemma try_get_balance_quiet:
  assumes "quiet_ports L G" "try_get_balance L token w = (r, w')"
  shows "reservations (inner (capital w')) = reservations (inner (capital w))"
proof -
  have "capital w1 = capital w" if "read_token_balance L t a w = (x, w1)" for t a x w1
    using assms(1) that unfolding quiet_ports_def by (metis snd_conv)
  with assms(2) show ?thesis
    by (auto simp: try_get_balance_def cache_balance_def split: option.splits prod.splits sum.splits)
qed

lemma take_reservation_quiet:
  assumes q: "quiet_ports L G" and t: "take_reservation cfg L token amount w = Some (got, w')"
    and wf: "hm_wf (reservations (inner (capital w)))"
  shows "got = None \<Longrightarrow> ledger_of w' \<subseteq>\<^sub>m ledger_of w"
    "got = Some rid \<Longrightarrow> (ledger_of w')(rid := None) \<subseteq>\<^sub>m ledger_of w"
proof -
  have bal: "ledger_of w1 = ledger_of w" "hm_wf (reservations (inner (capital w1)))"
    if "try_get_balance L token w = (rb, w1)" for rb w1
    using try_get_balance_quiet [OF q that] wf by simp_all
  show "ledger_of w' \<subseteq>\<^sub>m ledger_of w" if "got = None"
    using t that bal unfolding take_reservation_def
    by (elim task_elims) (auto dest: reserve_in_Err)
  show "(ledger_of w')(rid := None) \<subseteq>\<^sub>m ledger_of w" if "got = Some rid"
    using t that bal unfolding take_reservation_def
    by (elim task_elims) (auto dest!: reserve_in_Ok_released simp: upd_None_map_le)
qed

lemma execute_Inl_quiet:
  assumes q: "quiet_ports L G" and ex: "execute_liquidation_plan s L G market plan key w = Some (Inl e, w')"
    and wf: "hm_wf (reservations (inner (capital w)))"
  shows "ledger_of w' \<subseteq>\<^sub>m ledger_of w"
proof -
  have sim: "capital w1 = capital w" if "simulate_batch G market key rs w = (x, w1)" for rs x w1
    using q that unfolding quiet_ports_def by (metis snd_conv)
  show ?thesis
    using ex unfolding execute_liquidation_plan_def
    by (elim task_elims)
       (auto simp: release_in_def release_def sim wf dest: take_reservation_quiet [OF q])
qed

section \<open>The caches\<close>

definition cached :: "liquidator \<Rightarrow> string \<Rightarrow> obligation_key \<Rightarrow> obligation option" where
  "cached s market key = (case hm_get (lq_obligations s) market of None \<Rightarrow> None | Some m \<Rightarrow> hm_get m key)"

lemma cached_upsert:
  assumes "upsert_obligation R market key ob s w = (s', w')"
  shows "cached s' = (\<lambda>m k. if m = market \<and> k = key then Some ob else cached s m k)"
proof (intro ext)
  fix m k
  show "cached s' m k = (if m = market \<and> k = key then Some ob else cached s m k)"
    using assms
    by (cases "m = market")
       (auto simp: upsert_obligation_def Let_def cached_def hm_get_def [of "[]"] split: prod.splits option.splits)
qed

lemma cached_delete:
  assumes "delete_obligation R market key s w = (s', w')"
  shows "cached s' = (\<lambda>m k. if m = market \<and> k = key then None else cached s m k)"
proof (intro ext)
  fix m k
  show "cached s' m k = (if m = market \<and> k = key then None else cached s m k)"
    using assms
    by (cases "m = market") (auto simp: delete_obligation_def cached_def split: prod.splits option.splits)
qed

lemma cached_apply:
  assumes "apply_obligation_snapshot C R market field key val s w = (s', w')"
    "parse_obligation_from_event_value C val field key = Inr v"
  shows "cached s' = (\<lambda>m k. if m = market \<and> k = key then v else cached s m k)"
  using assms cached_upsert cached_delete
  by (cases v) (fastforce simp: apply_obligation_snapshot_def)+

lemma cached_apply_error:
  assumes "apply_obligation_snapshot C R market field key val s w = (s', w')"
    "parse_obligation_from_event_value C val field key = Inl e"
  shows "s' = s"
  using assms by (simp add: apply_obligation_snapshot_def)

text \<open>The invariant of the strategy's state: maps without repeated keys, entries for configured markets
  only, and no snapshot that prices nothing.\<close>

definition liquidator_inv :: "liquidator \<Rightarrow> bool" where
  "liquidator_inv s \<longleftrightarrow>
     hm_wf (lq_market_data s) \<and> hm_wf (lq_obligations s) \<and>
     (\<forall>m snap. hm_get (lq_market_data s) m = Some snap \<longrightarrow>
        m \<in> set (markets (lq_config s)) \<and> \<not> prices_nothing (snap_data snap)) \<and>
     (\<forall>m obs. hm_get (lq_obligations s) m = Some obs \<longrightarrow> m \<in> set (markets (lq_config s)) \<and> hm_wf obs)"

text \<open>Events change neither the keys nor the configuration.\<close>

abbreviation same_keeper :: "liquidator \<Rightarrow> liquidator \<Rightarrow> bool" where
  "same_keeper s' s \<equiv> lq_config s' = lq_config s \<and> lq_pkey s' = lq_pkey s \<and> lq_skey s' = lq_skey s"

lemma liquidator_inv_new: "liquidator_inv (liquidator_new pkey skey cfg)"
  by (simp add: liquidator_inv_def liquidator_new_def hm_get_def)

lemma install_snapshot_inv:
  assumes "liquidator_inv s" "market \<in> set (markets (lq_config s))"
  shows "liquidator_inv (snd (install_snapshot now market md s)) \<and>
    same_keeper (snd (install_snapshot now market md s)) s"
  using assms by (auto simp: liquidator_inv_def install_snapshot_def snapshot_new_def)

lemma refresh_inv:
  "refresh_market_data L ms s w = (s', w') \<Longrightarrow> liquidator_inv s \<Longrightarrow> set ms \<subseteq> set (markets (lq_config s)) \<Longrightarrow>
     liquidator_inv s' \<and> same_keeper s' s"
proof (induction ms arbitrary: s w)
  case (Cons m ms)
  obtain r w1 where r: "read_market_data L m w = (r, w1)" by fastforce
  show ?case
  proof (cases r)
    case (Inl e)
    then show ?thesis using Cons r by auto
  next
    case (Inr md)
    then show ?thesis using Cons r install_snapshot_inv [of s m "instant w1" md] by auto
  qed
qed simp

lemma upsert_inv:
  assumes "upsert_obligation R market key ob s w = (s', w')" "liquidator_inv s" "market \<in> set (markets (lq_config s))"
  shows "liquidator_inv s' \<and> same_keeper s' s"
  using assms by (auto simp: upsert_obligation_def liquidator_inv_def Let_def split: prod.splits option.splits if_split_asm)

lemma delete_inv:
  assumes "delete_obligation R market key s w = (s', w')" "liquidator_inv s"
  shows "liquidator_inv s' \<and> same_keeper s' s"
  using assms by (auto simp: delete_obligation_def liquidator_inv_def split: prod.splits option.splits if_split_asm)

lemma apply_snapshot_inv:
  assumes "apply_obligation_snapshot C R market field key val s w = (s', w')" "liquidator_inv s"
    "market \<in> set (markets (lq_config s))"
  shows "liquidator_inv s' \<and> same_keeper s' s"
  using assms by (auto simp: apply_obligation_snapshot_def split: sum.splits option.splits dest: upsert_inv delete_inv)

lemma reread_inv:
  assumes "reread_obligation L R market key s w = (s', w')" "liquidator_inv s"
    "market \<in> set (markets (lq_config s))"
  shows "liquidator_inv s' \<and> same_keeper s' s"
  using assms by (auto simp: reread_obligation_def split: prod.splits sum.splits if_splits dest: upsert_inv delete_inv)

lemma apply_operation_inv:
  assumes "apply_operation L C R ev op s w = (Some s', w')" "liquidator_inv s"
    "contract_id ev \<in> set (markets (lq_config s))"
  shows "liquidator_inv s' \<and> same_keeper s' s"
  using assms
  by (cases op) (auto simp: apply_operation_def Let_def split: sum.splits prod.splits
      dest!: apply_snapshot_inv reread_inv)

lemma handle_soroban_event_inv:
  assumes "handle_soroban_event L C R ev s w = (s', w')" "liquidator_inv s"
  shows "liquidator_inv s' \<and> same_keeper s' s"
  using assms
  by (auto simp: handle_soroban_event_def split: if_splits sum.splits prod.splits option.splits
      dest: apply_operation_inv)

lemma handle_new_ledger_inv:
  assumes "handle_new_ledger L G n s w = Some ((as, s'), w')" "liquidator_inv s"
  shows "liquidator_inv s' \<and> same_keeper s' s"
proof -
  have "liquidator_inv (s\<lparr>last_refresh_ledger := n\<rparr>)" using assms(2) by (simp add: liquidator_inv_def)
  then show ?thesis
    using assms by (auto simp: handle_new_ledger_def Let_def split: if_splits dest: refresh_inv)
qed

lemma process_event_inv:
  assumes "process_event L G C R ev s w = Some ((as, s'), w')" "liquidator_inv s"
  shows "liquidator_inv s' \<and> same_keeper s' s"
  using assms
  by (cases ev) (auto simp: process_event_def dest: handle_soroban_event_inv handle_new_ledger_inv)

text \<open>The repository hands out maps, which have no repeated key.\<close>

definition store_ok :: "'w store \<Rightarrow> bool" where
  "store_ok R \<longleftrightarrow> (\<forall>m w obs. fst (repo_load_all R m w) = Inr obs \<longrightarrow> hm_wf obs)"

lemma sync_markets_inv:
  "sync_markets L R ms s w = (s', w') \<Longrightarrow> store_ok R \<Longrightarrow> liquidator_inv s \<Longrightarrow>
     set ms \<subseteq> set (markets (lq_config s)) \<Longrightarrow> liquidator_inv s' \<and> same_keeper s' s"
proof (induction ms arbitrary: s w)
  case (Cons m ms)
  obtain r w1 where r: "read_market_data L m w = (r, w1)" by fastforce
  obtain r2 w2 where r2: "repo_load_all R m w1 = (r2, w2)" by fastforce
  define s1 where "s1 = (case r of Inr md \<Rightarrow> snd (install_snapshot (instant w1) m md s) | Inl e \<Rightarrow> s)"
  define obs where "obs = (case r2 of Inr m \<Rightarrow> m | Inl e \<Rightarrow> [])"
  have "hm_wf obs" using Cons.prems(2) r2 by (auto simp: obs_def store_ok_def split: sum.splits) (metis fst_conv)
  moreover have "liquidator_inv s1 \<and> same_keeper s1 s"
    using install_snapshot_inv [of s m] Cons.prems(3,4) by (auto simp: s1_def split: sum.splits)
  ultimately have "liquidator_inv (s1\<lparr>lq_obligations := hm_insert m obs (lq_obligations s1)\<rparr>)"
    using Cons.prems(4) by (auto simp: liquidator_inv_def split: if_split_asm)
  then show ?case
    using Cons.IH [of "s1\<lparr>lq_obligations := hm_insert m obs (lq_obligations s1)\<rparr>" w2] Cons.prems r r2
      \<open>liquidator_inv s1 \<and> same_keeper s1 s\<close>
    by (simp add: s1_def obs_def Let_def)
qed simp

text \<open>The states of a running strategy: built, synchronised, then one event after another, in whatever
  worlds the events arrive.\<close>

inductive running ::
  "'w ledger_reader \<Rightarrow> ('w, 'r, 'op) gateway \<Rightarrow> event_codec \<Rightarrow> 'w store \<Rightarrow> string \<Rightarrow> string \<Rightarrow>
     liquidator_config \<Rightarrow> liquidator \<Rightarrow> bool"
  for L G C R pkey skey cfg where
  started: "sync_state L R (liquidator_new pkey skey cfg) w = (s, w') \<Longrightarrow> running L G C R pkey skey cfg s"
| stepped: "running L G C R pkey skey cfg s \<Longrightarrow> process_event L G C R ev s w = Some ((as, s'), w') \<Longrightarrow>
     running L G C R pkey skey cfg s'"

lemma running_inv:
  assumes "running L G C R pkey skey cfg s" "store_ok R"
  shows "liquidator_inv s \<and> lq_config s = cfg"
  using assms
proof induction
  case (started w s w')
  then show ?case
    using sync_markets_inv [of L R "markets cfg" "liquidator_new pkey skey cfg" w s w']
    by (simp add: sync_state_def liquidator_inv_new) (simp add: liquidator_new_def)
next
  case (stepped s ev w as s' w')
  then show ?case using process_event_inv [of L G C R ev s w as s' w'] by simp
qed

end
