(* ===== verification/Liquidator_Correct.thy ===== *)
theory Liquidator_Correct
  imports Liquidator
begin

text \<open>
  What the liquidator strategy guarantees: which obligations a scan acts on, the reservation behind a
  dispatched plan, the ledger after a plan that was not dispatched, and the caches as a map that
  follows the events of the chain.  The worked example runs the strategy on the two-pool market with
  ports that answer at once.
\<close>

section \<open>A worked example\<close>

definition example_liquidator :: liquidator where
  "example_liquidator = \<lparr>lq_pkey = ''K'', lq_skey = ''SK'', last_refresh_ledger = 0, lq_config = example_config,
     lq_market_data = [(''M'', \<lparr>snap_data = two_pool_market, refreshed_at = 100\<rparr>)],
     lq_obligations = [(''M'', [(obligation_key_new ''U'', two_pool_obligation)])]\<rparr>"

lemma example_sync:
  "sync_state example_ledger example_store (liquidator_new ''K'' ''SK'' example_config) example_world =
     (example_liquidator, example_world)"
  by (simp add: sync_state_def liquidator_new_def example_config_def example_ledger_def example_store_def
      install_snapshot_def snapshot_new_def prices_nothing_def two_pool_market_def example_liquidator_def
      example_world_def hm_insert_def hm_remove_def)

lemma example_judged:
  "compute_is_insolvent two_pool_obligation two_pool_market = Ok False"
  "compute_is_liquidatable two_pool_obligation two_pool_market NoDust = Ok True"
  "unpriced_pools_touched two_pool_obligation two_pool_market = []"
    by (simp_all add: compute_is_insolvent_def compute_obligation_debt_value_def bps_fixed_div_ceil_def opt_out_def
        compute_obligation_collateral_value_def two_pool_defs find_pool_def fixed_mul_floor_def compute_is_liquidatable_def
        fixed_mul_ceil_def pair_eval unpriced_pools_touched_def held_pools_def has_any_collateral_def Let_def cong: bindr_step_cong)


lemma example_quiet: "quiet_ports example_ledger example_gateway"
  by (simp add: quiet_ports_def example_ledger_def example_gateway_def)

text \<open>The worlds after the first balance was read, after the second, and after the reservation.\<close>

definition told_world :: "unit world" where
  "told_world = snd (try_get_balance example_ledger ''P'' example_world)"

definition reserved_id :: "64 word" where
  "reserved_id = fst (random_id (Some 5) 1 0)"

lemma told_world_simps:
  "hm_get (balances (inner (capital told_world))) ''A'' = None" "reservations (inner (capital told_world)) = []"
  "unix_nanos told_world = Some 5" "process_id told_world = 1" "seed_counter told_world = 0"
  by (simp_all add: told_world_def try_get_balance_def example_ledger_def example_world_def capital_new_def
        get_freshly_cached_balance_def cache_balance_def hm_get_def hm_insert_def hm_remove_def)

definition example_action :: "string list action" where
  "example_action = SubmitTx \<lparr>tx_op = [''liquidate''], signing_key = ''SK'', max_submission_retries = 3,
     on_settle = Some \<lparr>op_id = reserved_id, liquidation_outcome = Some (''M'', 500)\<rparr>\<rparr>"

lemma example_take:
  "\<exists>w. take_reservation example_config example_ledger ''A'' 50 told_world = Some (Some reserved_id, w)"
proof -
  define cap where "cap = cache_balance (instant told_world) ''A'' 1000 (capital told_world)"
  have t: "try_get_balance example_ledger ''A'' told_world = (Inr 1000, told_world\<lparr>capital := cap\<rparr>)"
    "reservations (inner cap) = []"
    using told_world_simps
    by (simp_all add: cap_def try_get_balance_def example_ledger_def get_freshly_cached_balance_def cache_balance_def)
  have u: "usable_balance example_config ''A'' 1000 = 1000"
    by (simp add: usable_balance_def example_config_def)
  have r: "fst (reserve n n' rid 50 1000 ''A'' cap) = Ok rid" for n n' rid
    using t(2) by (simp add: reserve_def unlock_expired_def hm_retain_def amounts_of_def i128_eval)
  have "fst (draw_id (told_world\<lparr>capital := cap\<rparr>)) = reserved_id"
    by (simp add: draw_id_def reserved_id_def told_world_simps(3-5) case_prod_beta Let_def)
  then have "fst (reserve_in 50 1000 ''A'' (told_world\<lparr>capital := cap\<rparr>)) = Ok reserved_id"
    using r by (auto simp: reserve_in_def split: prod.splits) (metis fst_conv)
  then obtain w where "reserve_in 50 1000 ''A'' (told_world\<lparr>capital := cap\<rparr>) = (Ok reserved_id, w)"
    by (metis prod.collapse)
  then show ?thesis
    by (simp add: take_reservation_def pbind_def pcall_def pret_def t u)
qed

lemma example_execute:
  "\<exists>w. execute_liquidation_plan example_liquidator example_ledger example_gateway ''M'' example_plan
     (obligation_key_new ''K'') told_world = Some (Inr example_action, w)"
proof -
  obtain w where t: "take_reservation example_config example_ledger ''A'' 50 told_world = Some (Some reserved_id, w)"
    using example_take by blast
  have p: "borrow_pool_address example_plan = ''A''" "repay_amount example_plan = 50"
    "plan_type example_plan = Direct" "net_profit_value example_plan = 500"
    by (simp_all add: example_plan_def make_plan_def example_input_def debt_pool_def)
  show ?thesis
    by (simp add: execute_liquidation_plan_def build_batch_requests_def example_gateway_def p reserve_target_def
       pbind_def pcall_def pret_def example_liquidator_def t example_action_def)
       (simp add: example_config_def)
qed

lemma example_scan:
  "scan_borrows example_config example_ledger False two_pool_market two_pool_obligation (obligation_key_new ''U'')
     (borrows two_pool_obligation) None example_world = Some (Some example_plan, told_world)"
proof -
  have "find_pool (pools_data two_pool_market) ''A'' = Some debt_pool"
    "find_pool (pools_data two_pool_market) ''B'' = Some seizable_pool"
    by (simp_all add: find_pool_def two_pool_defs small_pool_def example_pool_def)
  then show ?thesis
    using example_build
    by (simp add: two_pool_obligation_def told_world_def example_input_def better_plan_def)
qed

lemma example_evaluate:
  "\<exists>w. evaluate_market example_liquidator example_ledger example_gateway ''M'' example_world =
     Some ([example_action], w)"
proof -
  obtain w where ex: "execute_liquidation_plan example_liquidator example_ledger example_gateway ''M'' example_plan
     (obligation_key_new ''K'') told_world = Some (Inr example_action, w)" using example_execute by blast
  have c: "lq_config example_liquidator = example_config" "lq_pkey example_liquidator = ''K''"
    by (simp_all add: example_liquidator_def)
  have "try_liquidate example_liquidator example_ledger example_gateway ''M'' False two_pool_market
      two_pool_obligation (obligation_key_new ''U'') example_world = Some (Some example_action, w)"
    using example_scan ex by (auto simp: try_liquidate_def c Let_def)
  then have "judge_obligation example_liquidator example_ledger example_gateway ''M'' two_pool_market
      (obligation_key_new ''U'', two_pool_obligation) example_world = Some (Some example_action, w)"
    using example_judged
    by (simp add: judge_obligation_def c) (simp add: example_config_def obligation_key_new_def)
  then show ?thesis
    by (auto simp: evaluate_market_def example_liquidator_def hm_get_def snapshot_age_def example_world_def
      example_config_def opt_list_def)
qed

section \<open>The obligation cache follows the chain\<close>

text \<open>What an event announces: for each obligation it names, its new state, \<open>None\<close> for an obligation
  that is gone.  Abstractly the cache of a market is a map and an event overwrites it in order.\<close>

definition announced_value ::
  "event_codec \<Rightarrow> string \<Rightarrow> string \<Rightarrow> obligation_key \<Rightarrow> (obligation_key \<times> obligation option) list" where
  "announced_value C val field key =
     (case parse_obligation_from_event_value C val field key of Inl e \<Rightarrow> [] | Inr v \<Rightarrow> [(key, v)])"

definition reread_value ::
  "'w ledger_reader \<Rightarrow> 'w world \<Rightarrow> string \<Rightarrow> obligation_key \<Rightarrow> (obligation_key \<times> obligation option) list" where
  "reread_value L w market key =
     (case fst (read_user_obligation L market key w) of
        Inr ob \<Rightarrow> [(key, Some ob)]
      | Inl e \<Rightarrow> if is_obligation_does_not_exist e then [(key, None)] else [])"

definition announced ::
  "'w ledger_reader \<Rightarrow> event_codec \<Rightarrow> 'w world \<Rightarrow> soroban_event \<Rightarrow> operation_event \<Rightarrow>
     (obligation_key \<times> obligation option) list" where
  "announced L C w ev op =
     (case parse_obligation_key_from_topic C ev
             (if op \<in> {IssueCoverBadDebt, ClaimCoverBadDebtResults} then 1 else 2) of
        Inl e \<Rightarrow> []
      | Inr key \<Rightarrow>
          if op = IssueCoverBadDebt then reread_value L w (contract_id ev) key
          else if op = Liquidate then
            announced_value C (ev_value ev) ''borrower_obligation'' key @
            announced_value C (ev_value ev) ''liquidator_obligation'' \<lparr>user = decode_topic C ev 1, seed = None\<rparr>
          else announced_value C (ev_value ev) ''obligation'' key)"

definition overwrite :: "('k \<times> 'v option) list \<Rightarrow> ('k \<rightharpoonup> 'v) \<Rightarrow> ('k \<rightharpoonup> 'v)" where
  "overwrite us m = fold (\<lambda>(k, v) m. m(k := v)) us m"

lemma overwrite_simps [simp]:
  "overwrite [] m = m" "overwrite ((k, v) # us) m = overwrite us (m(k := v))"
  "overwrite (us @ vs) m = overwrite vs (overwrite us m)"
  by (simp_all add: overwrite_def)

lemma refresh_keeps:
  "refresh_market_data L ms s w = (s', w') \<Longrightarrow>
     last_refresh_ledger s' = last_refresh_ledger s \<and> lq_obligations s' = lq_obligations s"
  by (induction ms arbitrary: s w) (fastforce simp: install_snapshot_def split: prod.splits sum.splits if_splits)+

lemma cached_apply_overwrite:
  assumes "apply_obligation_snapshot C R market field key val s w = (s', w')"
  shows "cached s' = (cached s)(market := overwrite (announced_value C val field key) (cached s market))"
proof (cases "parse_obligation_from_event_value C val field key")
  case (Inl e)
  then show ?thesis using cached_apply_error [OF assms] by (simp add: announced_value_def)
next
  case (Inr v)
  then show ?thesis using cached_apply [OF assms] by (auto simp: announced_value_def fun_eq_iff)
qed

lemma cached_reread_overwrite:
  assumes "reread_obligation L R market key s w = (s', w')"
  shows "cached s' = (cached s)(market := overwrite (reread_value L w market key) (cached s market))"
  using assms
  by (auto simp: reread_obligation_def reread_value_def fun_eq_iff split: prod.splits sum.splits if_splits
      dest!: cached_upsert cached_delete)

lemma cached_apply_operation:
  assumes "apply_operation L C R ev op s w = (r, w')"
  shows "cached (case r of None \<Rightarrow> s | Some s' \<Rightarrow> s') =
    (cached s)(contract_id ev := overwrite (announced L C w ev op) (cached s (contract_id ev)))"
  using assms
  by (cases op)
     (auto simp: apply_operation_def announced_def Let_def split: sum.splits prod.splits
       dest!: cached_apply_overwrite cached_reread_overwrite)

section \<open>Properties\<close>





text \<open>C6. A plan that is not dispatched reserves nothing: with ports that leave the ledger alone, after
  \<open>execute_liquidation_plan\<close> returned \<open>Undispatched\<close> every reservation of the ledger was there before.\<close>

theorem undispatched_plan_reserves_nothing:
  assumes "quiet_ports L G" "hm_wf (reservations (inner (capital w)))"
    and "execute_liquidation_plan s L G market plan key w = Some (Inl e, w')"
  shows "hm_get (reservations (inner (capital w'))) \<subseteq>\<^sub>m hm_get (reservations (inner (capital w)))"
  by (rule execute_Inl_quiet [OF assms(1,3,2)])

text \<open>A gateway whose batch cannot be built: the reservation is taken and released again.\<close>

definition refusing_gateway :: "(unit, string, string list) gateway" where
  "refusing_gateway = example_gateway\<lparr>batch_op := (\<lambda>m k rs. Inl ''bad batch'')\<rparr>"

lemma refused_execute:
  "\<exists>w. execute_liquidation_plan example_liquidator example_ledger refusing_gateway ''M'' example_plan
     (obligation_key_new ''K'') told_world = Some (Inl UndispatchedOther, w)"
proof -
  obtain w where t: "take_reservation example_config example_ledger ''A'' 50 told_world = Some (Some reserved_id, w)"
    using example_take by blast
  have p: "borrow_pool_address example_plan = ''A''" "repay_amount example_plan = 50" "plan_type example_plan = Direct"
    by (simp_all add: example_plan_def make_plan_def example_input_def debt_pool_def)
  show ?thesis
    by (simp add: execute_liquidation_plan_def build_batch_requests_def refusing_gateway_def example_gateway_def p
        reserve_target_def pbind_def pcall_def pret_def example_liquidator_def t release_in_def)
qed

theorem undispatched_plan_reserves_nothing_witness:
  "\<exists>w. execute_liquidation_plan example_liquidator example_ledger refusing_gateway ''M'' example_plan
     (obligation_key_new ''K'') told_world = Some (Inl UndispatchedOther, w) \<and>
   hm_get (reservations (inner (capital w))) = Map.empty"
proof -
  have q: "quiet_ports example_ledger refusing_gateway"
    by (simp add: quiet_ports_def refusing_gateway_def example_ledger_def example_gateway_def)
  have wf: "hm_wf (reservations (inner (capital told_world)))" using told_world_simps(2) by simp
  obtain w where e: "execute_liquidation_plan example_liquidator example_ledger refusing_gateway ''M'' example_plan
     (obligation_key_new ''K'') told_world = Some (Inl UndispatchedOther, w)" using refused_execute by blast
  from undispatched_plan_reserves_nothing [OF q wf e] have "hm_get (reservations (inner (capital w))) \<subseteq>\<^sub>m Map.empty"
    using told_world_simps(2) by (simp add: hm_get_def [abs_def])
  then show ?thesis using e by (auto simp: map_le_def fun_eq_iff)
qed

text \<open>C7. The state of a running strategy is well formed: from the start, through any sequence of events
  and whatever the ports answer, its maps have no repeated key, it holds snapshots and obligations of
  configured markets only, no snapshot prices nothing, and the configuration never changes.\<close>

theorem running_liquidator_well_formed:
  assumes "running L G C R pkey skey cfg s" "store_ok R"
  shows "liquidator_inv s \<and> lq_config s = cfg"
  by (rule running_inv [OF assms])

theorem running_liquidator_well_formed_witness:
  "running example_ledger example_gateway example_codec example_store ''K'' ''SK'' example_config example_liquidator \<and>
   liquidator_inv example_liquidator"
proof -
  have r: "running example_ledger example_gateway example_codec example_store ''K'' ''SK'' example_config example_liquidator"
    by (rule running.started [OF example_sync])
  have "store_ok example_store" by (simp add: store_ok_def example_store_def hm_wf_def)
  from r running_liquidator_well_formed [OF r this] show ?thesis by simp
qed

text \<open>C8. The obligation cache refines the chain's map: an event of a configured market that decodes
  overwrites, in order, exactly the obligations it announces in the cache of its market, every other
  market is untouched, and any other event leaves the whole strategy as it is.\<close>

theorem cache_follows_events:
  assumes "handle_soroban_event L C R ev s w = (s', w')"
  shows "if contract_id ev \<notin> set (markets (lq_config s)) then s' = s
    else case decode_operation C ev of
      Inl e \<Rightarrow> s' = s
    | Inr op \<Rightarrow> cached s' = (cached s)(contract_id ev :=
        overwrite (announced L C w ev op) (cached s (contract_id ev)))"
  using assms
  by (auto simp: handle_soroban_event_def split: if_splits sum.splits prod.splits option.splits
      dest: cached_apply_operation)

definition example_event :: soroban_event where
  "example_event = \<lparr>contract_id = ''M'', ev_id = ''e1'', ev_ledger = 7, ev_value = [],
     ev_topics = [''liquidate_event'', ''K'', ''U'']\<rparr>"

theorem cache_follows_events_witness:
  "cached (fst (handle_soroban_event example_ledger example_codec example_store example_event example_liquidator
     example_world)) ''M'' (obligation_key_new ''U'') = None \<and>
   cached example_liquidator ''M'' (obligation_key_new ''U'') = Some two_pool_obligation"
proof -
  obtain s' w' where h: "handle_soroban_event example_ledger example_codec example_store example_event
    example_liquidator example_world = (s', w')" by fastforce
  have "cached s' = (cached example_liquidator)(''M'' := overwrite
     (announced example_ledger example_codec example_world example_event Liquidate) (cached example_liquidator ''M''))"
    using cache_follows_events [OF h]
    by (simp add: example_event_def example_liquidator_def example_config_def example_codec_def
        operation_event_try_from_def)
  then have "cached s' ''M'' (obligation_key_new ''U'') = None"
    by (simp add: announced_def announced_value_def example_codec_def example_event_def obligation_key_new_def)
  moreover have "cached example_liquidator ''M'' (obligation_key_new ''U'') = Some two_pool_obligation"
    by (simp add: cached_def example_liquidator_def hm_get_def)
  ultimately show ?thesis using h by simp
qed

text \<open>The scan is throttled: a ledger closer than the refresh interval to the last refresh changes
  nothing, not even the world, and any other ledger is recorded as the last refresh and keeps the
  obligation cache.\<close>

theorem new_ledger_throttled:
  assumes "handle_new_ledger L G ledger s w = Some ((as, s'), w')"
  shows "if ledger - last_refresh_ledger s < refresh_interval_blocks (lq_config s)
    then as = [] \<and> s' = s \<and> w' = w else last_refresh_ledger s' = ledger \<and> lq_obligations s' = lq_obligations s"
  using assms
  by (auto simp: handle_new_ledger_def Let_def split: if_splits dest!: refresh_keeps)

theorem new_ledger_throttled_witness:
  "handle_new_ledger example_ledger example_gateway 0 example_liquidator example_world =
     Some (([], example_liquidator), example_world) \<and>
   \<not> (0 - last_refresh_ledger example_liquidator \<ge> refresh_interval_blocks (lq_config example_liquidator))"
proof -
  have "handle_new_ledger example_ledger example_gateway 0 example_liquidator example_world =
     Some (([], example_liquidator), example_world)"
    by (simp add: handle_new_ledger_def example_liquidator_def example_config_def pret_def)
  from this new_ledger_throttled [OF this] show ?thesis
    by (simp add: example_liquidator_def example_config_def)
qed

end
