(* ===== verification/Withdrawer.thy ===== *)
theory Withdrawer
  imports Example_Ports
begin

text \<open>
  \<^verbatim>\<open>keeper/src/strategy/withdrawer.rs\<close>: the strategy that takes the keeper's own deposits out of the
  pools while that keeps their utilization inside the safe band.
\<close>

section \<open>Data\<close>

record withdrawer_config =
  wd_max_retries :: nat
  wd_markets :: "string list"
  wd_refresh_interval_blocks :: nat
  min_withdraw_value_cents :: i128
  utilization_safety_margin_bps :: i128

record withdrawer =
  wd_skey :: string
  wd_config :: withdrawer_config
  wd_liquidator_key :: obligation_key

definition withdrawer_new :: "string \<Rightarrow> string \<Rightarrow> withdrawer_config \<Rightarrow> withdrawer" where
  "withdrawer_new pkey skey cfg =
     \<lparr>wd_skey = skey, wd_config = cfg, wd_liquidator_key = obligation_key_new pkey\<rparr>"

section \<open>Opportunities\<close>

definition compute_withdrawal_value_cents :: "pool_data \<Rightarrow> market_data \<Rightarrow> i128 \<Rightarrow> (unit, i128 option) outcome" where
  "compute_withdrawal_value_cents pool md token_amount =
     (if oracle_asset_price pool \<le> 0 then Ok None
      else
      bindr (raw_add_u32 (token_decimals pool) (oracle_price_decimals md)) (\<lambda>pow.
      if pow < 2 then Ok None
      else
      or_stop (ok_of (amount_checked_mul token_amount (oracle_asset_price pool))) (\<lambda>numerator.
      bindr (raw_pow10 (pow - 2)) (\<lambda>f.
      bindr (raw_div numerator f) (\<lambda>value_raw.
      Ok (Some (max value_raw 0)))))))"

definition build_withdrawal_action ::
  "withdrawer \<Rightarrow> ('w, 'r, 'op) gateway \<Rightarrow> string \<Rightarrow> string \<Rightarrow> i128 \<Rightarrow> rpc_error + 'op action" where
  "build_withdrawal_action s G market pool_addr amount =
     (case withdraw_op G market (wd_liquidator_key s) pool_addr amount of
        Inl e \<Rightarrow> Inl e
      | Inr op \<Rightarrow> Inr (SubmitTx \<lparr>tx_op = op, signing_key = wd_skey s,
          max_submission_retries = wd_max_retries (wd_config s), on_settle = None\<rparr>))"

text \<open>One deposit: \<open>Inl ()\<close> is the early return that drops all actions, \<open>Inr None\<close> goes on with the
  next deposit.\<close>

definition judge_deposit ::
  "withdrawer \<Rightarrow> ('w, 'r, 'op) gateway \<Rightarrow> string \<Rightarrow> market_data \<Rightarrow> deposit_position \<Rightarrow>
     (unit, unit + 'op action option) outcome" where
  "judge_deposit s G market md dep =
     (case find_pool (pools_data md) (dp_pool_address dep) of
        None \<Rightarrow> Ok (Inr None)
      | Some pool \<Rightarrow>
          bindr (ok_of (compute_max_safe_withdrawal pool (utilization_safety_margin_bps (wd_config s)))) (\<lambda>m.
          case m of
            None \<Rightarrow> Ok (Inr None)
          | Some max_withdrawal \<Rightarrow>
              if max_withdrawal = 0 then Ok (Inr None)
              else
              bindr (ok_of (j_tokens_to_tokens_floor pool (j_tokens dep))) (\<lambda>u.
              case u of
                None \<Rightarrow> Ok (Inr None)
              | Some liquidator_underlying \<Rightarrow>
                  if liquidator_underlying = 0 then Ok (Inr None)
                  else
                  let withdrawal = min liquidator_underlying max_withdrawal in
                  bindr (compute_withdrawal_value_cents pool md withdrawal) (\<lambda>v.
                  case v of
                    None \<Rightarrow> Ok (Inl ())
                  | Some value_cents \<Rightarrow>
                      let amount = (if withdrawal = liquidator_underlying then i128_max else withdrawal) in
                      if value_cents \<ge> min_withdraw_value_cents (wd_config s)
                      then (case build_withdrawal_action s G market (pool_address pool) amount of
                              Inr a \<Rightarrow> Ok (Inr (Some a))
                            | Inl e \<Rightarrow> Ok (Inr None))
                      else Ok (Inr None)))))"

fun withdrawal_loop ::
  "withdrawer \<Rightarrow> ('w, 'r, 'op) gateway \<Rightarrow> string \<Rightarrow> market_data \<Rightarrow> deposit_position list \<Rightarrow> 'op action list \<Rightarrow>
     (unit, 'op action list) outcome" where
  "withdrawal_loop s G market md [] actions = Ok actions"
| "withdrawal_loop s G market md (dep # ds) actions =
     bindr (judge_deposit s G market md dep) (\<lambda>r.
     case r of
       Inl u \<Rightarrow> Ok []
     | Inr None \<Rightarrow> withdrawal_loop s G market md ds actions
     | Inr (Some a) \<Rightarrow> withdrawal_loop s G market md ds (actions @ [a]))"

definition find_withdrawal_opportunities ::
  "withdrawer \<Rightarrow> ('w, 'r, 'op) gateway \<Rightarrow> string \<Rightarrow> market_data \<Rightarrow> obligation \<Rightarrow> (unit, 'op action list) outcome"
where
  "find_withdrawal_opportunities s G market md ob = withdrawal_loop s G market md (deposits ob) []"

section \<open>Handlers\<close>

text \<open>The keeper's own obligation and the market, then the opportunities; both reads are needed.\<close>

definition withdraw_in ::
  "withdrawer \<Rightarrow> 'w ledger_reader \<Rightarrow> ('w, 'r, 'op) gateway \<Rightarrow> string \<Rightarrow> ('w, 'op action list) proc" where
  "withdraw_in s L G market =
     pbind (pcall (read_user_obligation L market (wd_liquidator_key s))) (\<lambda>ro.
     case ro of
       Inl e \<Rightarrow> pret []
     | Inr ob \<Rightarrow>
         pbind (pcall (read_market_data L market)) (\<lambda>rm.
         case rm of
           Inl e \<Rightarrow> pret []
         | Inr md \<Rightarrow> ppure (find_withdrawal_opportunities s G market md ob)))"

fun withdraw_markets ::
  "withdrawer \<Rightarrow> 'w ledger_reader \<Rightarrow> ('w, 'r, 'op) gateway \<Rightarrow> string list \<Rightarrow> ('w, 'op action list) proc" where
  "withdraw_markets s L G [] = pret []"
| "withdraw_markets s L G (m # ms) =
     pbind (withdraw_in s L G m) (\<lambda>as.
     pbind (withdraw_markets s L G ms) (\<lambda>bs. pret (as @ bs)))"

definition withdrawer_handle_new_ledger ::
  "withdrawer \<Rightarrow> 'w ledger_reader \<Rightarrow> ('w, 'r, 'op) gateway \<Rightarrow> nat \<Rightarrow> ('w, 'op action list) proc" where
  "withdrawer_handle_new_ledger s L G ledger =
     (if \<not> wd_refresh_interval_blocks (wd_config s) dvd ledger then pret []
      else withdraw_markets s L G (wd_markets (wd_config s)))"

definition withdrawer_handle_soroban_event ::
  "withdrawer \<Rightarrow> 'w ledger_reader \<Rightarrow> ('w, 'r, 'op) gateway \<Rightarrow> event_codec \<Rightarrow> soroban_event \<Rightarrow>
     ('w, 'op action list) proc" where
  "withdrawer_handle_soroban_event s L G C ev =
     (if contract_id ev \<notin> set (wd_markets (wd_config s)) then pret []
      else case decode_operation C ev of
        Inr Deposit \<Rightarrow> withdraw_in s L G (contract_id ev)
      | Inr Repay \<Rightarrow> withdraw_in s L G (contract_id ev)
      | Inr Liquidate \<Rightarrow> withdraw_in s L G (contract_id ev)
      | _ \<Rightarrow> pret [])"

definition withdrawer_process_event ::
  "withdrawer \<Rightarrow> 'w ledger_reader \<Rightarrow> ('w, 'r, 'op) gateway \<Rightarrow> event_codec \<Rightarrow> keeper_event \<Rightarrow>
     ('w, 'op action list) proc" where
  "withdrawer_process_event s L G C ev =
     (case ev of
        SorobanEvents e \<Rightarrow> withdrawer_handle_soroban_event s L G C e
      | NewLedger n \<Rightarrow> withdrawer_handle_new_ledger s L G n)"

section \<open>What a withdrawal may take\<close>

text \<open>A withdrawal action is safe for a deposit of the keeper when it is a withdrawal from the deposit's
  pool of the whole deposit or of a part of it, worth the configured minimum, after which the
  utilization of the pool is inside the safe band.\<close>

definition safe_withdrawal ::
  "withdrawer \<Rightarrow> ('w, 'r, 'op) gateway \<Rightarrow> string \<Rightarrow> market_data \<Rightarrow> deposit_position \<Rightarrow> 'op action \<Rightarrow> bool" where
  "safe_withdrawal s G market md dep a \<longleftrightarrow>
     (\<exists>pool op taken held cents.
        find_pool (pools_data md) (dp_pool_address dep) = Some pool \<and>
        j_tokens_to_tokens_floor pool (j_tokens dep) = Ok held \<and> taken \<le> held \<and>
        withdraw_op G market (wd_liquidator_key s) (pool_address pool)
          (if taken = held then i128_max else taken) = Inr op \<and>
        a = SubmitTx \<lparr>tx_op = op, signing_key = wd_skey s,
          max_submission_retries = wd_max_retries (wd_config s), on_settle = None\<rparr> \<and>
        compute_withdrawal_value_cents pool md taken = Ok (Some cents) \<and>
        min_withdraw_value_cents (wd_config s) \<le> cents \<and>
        (wf_pool pool \<and> 0 < taken \<and> taken < total_supply pool \<longrightarrow>
           utilization_after pool taken \<le>
             saturating_sub (utilization_ratio_limit_bps pool) (utilization_safety_margin_bps (wd_config s))))"

text \<open>Inside the safe band: \<open>Pool.max_safe_withdrawal_cases\<close> for any smaller amount.\<close>

lemma below_max_safe_withdrawal:
  assumes wf: "wf_pool p" and w: "compute_max_safe_withdrawal p m = Ok w" and a: "0 < a" "a \<le> w" "a < total_supply p"
  shows "utilization_after p a \<le> saturating_sub (utilization_ratio_limit_bps p) m"
proof -
  let ?s = "saturating_sub (utilization_ratio_limit_bps p) m" and ?b = "total_borrowed p * BPS_FACTOR"
  have s: "0 < ?s" using w a by (auto simp: compute_max_safe_withdrawal_def Let_def split: if_splits)
  from max_safe_withdrawal_cases [OF wf refl s w] a have "w = total_supply p - ceil_div ?b ?s" by linarith
  with a have "ceil_div ?b ?s \<le> total_supply p - a" by linarith
  then show ?thesis using s a by (simp add: utilization_after_le_iff ceil_div_le mult.commute)
qed

lemma build_withdrawal_action_Inr:
  "build_withdrawal_action s G market pool_addr amount = Inr a \<Longrightarrow>
     \<exists>op. withdraw_op G market (wd_liquidator_key s) pool_addr amount = Inr op \<and>
       a = SubmitTx \<lparr>tx_op = op, signing_key = wd_skey s,
          max_submission_retries = wd_max_retries (wd_config s), on_settle = None\<rparr>"
  by (auto simp: build_withdrawal_action_def split: sum.splits)

lemma safe_withdrawalI:
  assumes "find_pool (pools_data md) (dp_pool_address dep) = Some pool"
    and "compute_max_safe_withdrawal pool (utilization_safety_margin_bps (wd_config s)) = Ok safe" "safe \<noteq> 0"
    and "j_tokens_to_tokens_floor pool (j_tokens dep) = Ok held" "held \<noteq> 0"
    and "compute_withdrawal_value_cents pool md (min held safe) = Ok (Some cents)"
    and "min_withdraw_value_cents (wd_config s) \<le> cents"
    and "build_withdrawal_action s G market (pool_address pool)
           (if min held safe = held then i128_max else min held safe) = Inr a"
  shows "safe_withdrawal s G market md dep a"
proof -
  from build_withdrawal_action_Inr [OF assms(8)] obtain op where
    "withdraw_op G market (wd_liquidator_key s) (pool_address pool)
       (if min held safe = held then i128_max else min held safe) = Inr op"
    "a = SubmitTx \<lparr>tx_op = op, signing_key = wd_skey s,
       max_submission_retries = wd_max_retries (wd_config s), on_settle = None\<rparr>" by blast
  moreover have "wf_pool pool \<and> 0 < min held safe \<and> min held safe < total_supply pool \<longrightarrow>
      utilization_after pool (min held safe) \<le>
        saturating_sub (utilization_ratio_limit_bps pool) (utilization_safety_margin_bps (wd_config s))"
    using below_max_safe_withdrawal [OF _ assms(2)] by simp
  ultimately show ?thesis unfolding safe_withdrawal_def
    using assms(1,4,6,7) by (intro exI [of _ pool] exI [of _ op] exI [of _ "min held safe"] exI [of _ held] exI [of _ cents]) simp
qed

lemma judge_deposit_action:
  assumes "judge_deposit s G market md dep = Ok (Inr (Some a))"
  shows "safe_withdrawal s G market md dep a"
  using assms unfolding judge_deposit_def Let_def
  by (elim opt_caseE bindr_okE if_okE sum_caseE) (auto intro: safe_withdrawalI)

lemma withdrawal_loop_safe:
  assumes "withdrawal_loop s G market md ds acc = Ok as"
    and "list_all (\<lambda>a. \<exists>dep \<in> D. safe_withdrawal s G market md dep a) acc" "set ds \<subseteq> D"
  shows "list_all (\<lambda>a. \<exists>dep \<in> D. safe_withdrawal s G market md dep a) as"
  using assms
proof (induction ds arbitrary: acc)
  case (Cons dep ds)
  from Cons.prems(1) obtain r where r: "judge_deposit s G market md dep = Ok r" and
    rest: "(case r of Inl u \<Rightarrow> Ok [] | Inr None \<Rightarrow> withdrawal_loop s G market md ds acc
       | Inr (Some a) \<Rightarrow> withdrawal_loop s G market md ds (acc @ [a])) = Ok as" by auto
  show ?case
    using rest r Cons.IH Cons.prems(2,3) judge_deposit_action [of s G market md dep]
    by (fastforce split: sum.splits option.splits)
qed simp

lemma withdraw_in_safe:
  assumes "withdraw_in s L G market w = Some (as, w')"
  shows "list_all (\<lambda>a. \<exists>md ob dep w1 w2. fst (read_user_obligation L market (wd_liquidator_key s) w1) = Inr ob \<and>
    fst (read_market_data L market w2) = Inr md \<and> dep \<in> set (deposits ob) \<and> safe_withdrawal s G market md dep a) as"
proof (cases "as = []")
  case False
  with assms obtain ob w1 md w2 where "read_user_obligation L market (wd_liquidator_key s) w = (Inr ob, w1)"
    "read_market_data L market w1 = (Inr md, w2)" "find_withdrawal_opportunities s G market md ob = Ok as"
    unfolding withdraw_in_def by (elim task_elims) auto
  moreover from this(3) have "list_all (\<lambda>a. \<exists>dep \<in> set (deposits ob). safe_withdrawal s G market md dep a) as"
    unfolding find_withdrawal_opportunities_def by (rule withdrawal_loop_safe) auto
  ultimately show ?thesis by (auto simp: list_all_iff) (metis fst_conv)
qed simp

text \<open>Where an action of the strategy may come from.\<close>

definition own_withdrawal ::
  "withdrawer \<Rightarrow> 'w ledger_reader \<Rightarrow> ('w, 'r, 'op) gateway \<Rightarrow> 'op action \<Rightarrow> bool" where
  "own_withdrawal s L G a \<longleftrightarrow>
     (\<exists>market md ob dep w1 w2. market \<in> set (wd_markets (wd_config s)) \<and>
        fst (read_user_obligation L market (wd_liquidator_key s) w1) = Inr ob \<and>
        fst (read_market_data L market w2) = Inr md \<and> dep \<in> set (deposits ob) \<and>
        safe_withdrawal s G market md dep a)"

lemma withdraw_in_own:
  "withdraw_in s L G market w = Some (as, w') \<Longrightarrow> market \<in> set (wd_markets (wd_config s)) \<Longrightarrow>
     list_all (own_withdrawal s L G) as"
  using withdraw_in_safe [of s L G market w as w'] unfolding own_withdrawal_def list_all_iff by blast

lemma withdraw_markets_own:
  "withdraw_markets s L G ms w = Some (as, w') \<Longrightarrow> set ms \<subseteq> set (wd_markets (wd_config s)) \<Longrightarrow>
     list_all (own_withdrawal s L G) as"
  by (induction ms arbitrary: w as) (auto dest: withdraw_in_own)

lemma judge_deposit_abort_free:
  assumes "list_all wf_pool (pools_data md)"
    "list_all (\<lambda>p. token_decimals p + oracle_price_decimals md \<le> 40) (pools_data md)"
  shows "judge_deposit s G market md dep \<noteq> Panic"
proof (cases "find_pool (pools_data md) (dp_pool_address dep)")
  case None
  then show ?thesis by (simp add: judge_deposit_def)
next
  case (Some p)
  then have p: "wf_pool p" "token_decimals p + oracle_price_decimals md \<le> 40"
    using assms find_pool_SomeD by (fastforce simp: list_all_iff)+
  have "raw_pow10 (token_decimals p + oracle_price_decimals md - 2) \<noteq> (Panic :: (unit, i128) outcome)"
    using p(2) by (intro raw_pow10_not_Panic) simp
  then have "compute_withdrawal_value_cents p md x \<noteq> Panic" for x
    using p(2) by (auto simp: compute_withdrawal_value_cents_def bindr_eq_Panic_iff or_stop_eq_Panic_iff raw_add_u32_def u32_max_def
        raw_div_abort_free amount_checked_mul_def checked_mul_def)
  then show ?thesis
    using p(1) Some compute_max_safe_withdrawal_abort_free [OF p(1)] wf_pool_abort_free [OF p(1)]
    by (auto simp: judge_deposit_def bindr_eq_Panic_iff Let_def split: option.splits sum.splits)
qed

lemma withdrawal_loop_abort_free:
  assumes "list_all wf_pool (pools_data md)"
    "list_all (\<lambda>p. token_decimals p + oracle_price_decimals md \<le> 40) (pools_data md)"
  shows "withdrawal_loop s G market md ds acc \<noteq> Panic"
proof (induction ds arbitrary: acc)
  case (Cons dep ds)
  then show ?case
    using judge_deposit_abort_free [OF assms, of s G market dep]
    by (auto simp: bindr_eq_Panic_iff split: sum.splits option.splits)
qed simp

section \<open>A worked example\<close>

definition example_withdrawer :: withdrawer where
  "example_withdrawer = withdrawer_new ''K'' ''SK'' \<lparr>wd_max_retries = 3, wd_markets = [''M''],
     wd_refresh_interval_blocks = 10, min_withdraw_value_cents = 100, utilization_safety_margin_bps = 100\<rparr>"

definition withdrawn :: "string list action" where
  "withdrawn = SubmitTx \<lparr>tx_op = [''withdraw''], signing_key = ''SK'', max_submission_retries = 3, on_settle = None\<rparr>"

lemma example_opportunities:
  "find_withdrawal_opportunities example_withdrawer example_gateway ''M'' two_pool_market two_pool_obligation =
     Ok [withdrawn]"
  by (simp add: find_withdrawal_opportunities_def two_pool_defs judge_deposit_def find_pool_def
      compute_max_safe_withdrawal_def utilization_ratio_bps_def amount_defs i128_eval BPS_FACTOR_def opt_out_def
      example_withdrawer_def withdrawer_new_def Let_def compute_withdrawal_value_cents_def raw_add_u32_def u32_max_def
      build_withdrawal_action_def example_gateway_def withdrawn_def pair_eval cong: bindr_step_cong)

section \<open>Properties\<close>

text \<open>C20. The withdrawer takes only what is safe: every action of \<open>process_event\<close>, on a ledger or on an
  event, withdraws in a configured market from a pool in which the keeper's obligation, as just read,
  has a deposit; it takes at most the deposit, it is worth the configured minimum at the prices just
  read, and after it the utilization of the pool, as the market computes it, is at most the limit less
  the safety margin.\<close>

theorem withdrawals_are_safe:
  assumes "withdrawer_process_event s L G C ev w = Some (as, w')"
  shows "list_all (own_withdrawal s L G) as"
  using assms unfolding withdrawer_process_event_def
  by (cases ev)
     (auto simp: withdrawer_handle_soroban_event_def withdrawer_handle_new_ledger_def
       split: if_splits sum.splits operation_event.splits dest: withdraw_in_own withdraw_markets_own)

theorem withdrawals_are_safe_witness:
  "withdrawer_process_event example_withdrawer example_ledger example_gateway example_codec (NewLedger 20) example_world =
     Some ([withdrawn], example_world) \<and> own_withdrawal example_withdrawer example_ledger example_gateway withdrawn"
proof -
  have "withdraw_in example_withdrawer example_ledger example_gateway ''M'' example_world = Some ([withdrawn], example_world)"
    using example_opportunities by (simp add: withdraw_in_def example_ledger_def pbind_def pcall_def pret_def)
  then have "withdrawer_process_event example_withdrawer example_ledger example_gateway example_codec (NewLedger 20)
      example_world = Some ([withdrawn], example_world)"
    by (simp add: withdrawer_process_event_def withdrawer_handle_new_ledger_def)
       (simp add: example_withdrawer_def withdrawer_new_def)
  from this withdrawals_are_safe [OF this] show ?thesis by simp
qed

text \<open>The withdrawer never aborts the process on a well-formed snapshot whose decimals add up to at
  most 40, whatever the keeper's obligation holds.\<close>

theorem withdrawer_never_aborts:
  assumes "list_all wf_pool (pools_data md)"
    "list_all (\<lambda>p. token_decimals p + oracle_price_decimals md \<le> 40) (pools_data md)"
  shows "find_withdrawal_opportunities s G market md ob \<noteq> Panic"
  unfolding find_withdrawal_opportunities_def by (rule withdrawal_loop_abort_free [OF assms])

theorem withdrawer_never_aborts_witness:
  "find_withdrawal_opportunities example_withdrawer example_gateway ''M'' two_pool_market two_pool_obligation \<noteq> Panic"
  by (rule withdrawer_never_aborts)
     (simp_all add: two_pool_defs small_pool_def example_pool_def wf_pool_def i128_eval)

section \<open>A pool without a price\<close>

text \<open>A deposit whose withdrawal cannot be valued ends the whole search: the actions already built for
  the other deposits are dropped.\<close>

lemma unvalued_deposit_drops_all:
  assumes "withdrawal_loop s G market md ds [] = Ok as" "judge_deposit s G market md dep = Ok (Inl ())"
  shows "withdrawal_loop s G market md (ds @ [dep]) [] = Ok []"
proof -
  have "withdrawal_loop s G market md (ds @ [dep]) acc = Ok []" if "withdrawal_loop s G market md ds acc = Ok as" for acc
    using that assms(2) by (induction ds arbitrary: acc) (auto split: sum.splits option.splits)
  then show ?thesis using assms(1) .
qed

end
