(* ===== verification/Bad_Debt.thy ===== *)
theory Bad_Debt
  imports Example_Ports Errors
begin

text \<open>
  \<^verbatim>\<open>keeper/src/strategy/bad_debt_request_initiator.rs\<close>: the strategy that asks the market to cover the
  debt of an obligation nobody can liquidate any more.  The obligation is judged twice, as it is cached
  and as it stands on chain.
\<close>

section \<open>Data\<close>

record bad_debt_config =
  bd_max_retries :: nat
  bd_markets :: "string list"
  bd_refresh_interval_blocks :: nat
  bd_dust_rules :: dust_rules
  bd_min_profit_margin_cents :: i128

record bad_debt_initiator =
  bd_skey :: string
  bd_config :: bad_debt_config

definition bad_debt_new :: "string \<Rightarrow> bad_debt_config \<Rightarrow> bad_debt_initiator" where
  "bad_debt_new skey cfg = \<lparr>bd_skey = skey, bd_config = cfg\<rparr>"

section \<open>Eligibility\<close>

text \<open>The oracle value of a deposit, rounded as the check rounds it.\<close>

definition deposit_value_ceil :: "pool_data \<Rightarrow> deposit_position \<Rightarrow> i128 lm" where
  "deposit_value_ceil pool dep =
     bindr (j_tokens_to_tokens_ceil pool (j_tokens dep)) (\<lambda>underlying_from_j.
     bindr (amount_checked_add underlying_from_j (collateral dep)) (\<lambda>total_collateral.
     bindr (amount_checked_mul total_collateral (oracle_asset_price pool)) (\<lambda>v.
     bindr (raw_pow10 (token_decimals pool)) (\<lambda>f.
     Ok (saturating_div v f)))))"

text \<open>\<open>Ok False\<close> is the early return of the loop: a pool is missing or a deposit is above the dust
  threshold.\<close>

fun all_dust :: "market_data \<Rightarrow> i128 \<Rightarrow> deposit_position list \<Rightarrow> bool lm" where
  "all_dust md threshold [] = Ok True"
| "all_dust md threshold (dep # ds) =
     (case find_pool (pools_data md) (dp_pool_address dep) of
        None \<Rightarrow> Ok False
      | Some pool \<Rightarrow>
          bindr (deposit_value_ceil pool dep) (\<lambda>collateral_value.
          if collateral_value > threshold then Ok False else all_dust md threshold ds))"

definition is_eligible_for_bad_debt_request_issuance ::
  "bad_debt_config \<Rightarrow> obligation \<Rightarrow> market_data \<Rightarrow> nat \<Rightarrow> bool lm" where
  "is_eligible_for_bad_debt_request_issuance cfg ob md now =
     (if borrows ob = [] then Ok False
      else if open_bad_debt_requests ob > 0 then Ok False
      else if deposits ob = [] then Ok True
      else
      bindr (cents_to_oracle_value_ceil (min_collateral_value_cents md) (oracle_price_decimals md)) (\<lambda>threshold.
      bindr (all_dust md threshold (deposits ob)) (\<lambda>dust.
      if \<not> dust then Ok False
      else if bd_dust_rules cfg = NoDust then
        bindr (seizable_collateral_covers_debt ob md) (\<lambda>covers.
        if covers then Ok False
        else
        bindr (has_acceptable_liquidation ob md (bd_min_profit_margin_cents cfg) now) (\<lambda>acceptable.
        if acceptable then Ok False else Ok True))
      else Ok True)))"

definition judge_eligibility :: "bad_debt_config \<Rightarrow> obligation \<Rightarrow> market_data \<Rightarrow> nat \<Rightarrow> (unit, bool) outcome" where
  "judge_eligibility cfg ob md now = or_default False (is_eligible_for_bad_debt_request_issuance cfg ob md now)"

text \<open>\<open>unix_now()\<close> is read when the obligation is judged.\<close>

definition judge_now :: "bad_debt_config \<Rightarrow> obligation \<Rightarrow> market_data \<Rightarrow> ('w, bool) proc" where
  "judge_now cfg ob md = (\<lambda>w. ppure (judge_eligibility cfg ob md (unix_seconds w)) w)"

definition build_issue_bad_debt ::
  "bad_debt_initiator \<Rightarrow> ('w, 'r, 'op) gateway \<Rightarrow> string \<Rightarrow> obligation_key \<Rightarrow> rpc_error + 'op action" where
  "build_issue_bad_debt s G market key =
     (case cover_bad_debt_op G market key of
        Inl e \<Rightarrow> Inl e
      | Inr op \<Rightarrow> Inr (SubmitTx \<lparr>tx_op = op, signing_key = bd_skey s,
          max_submission_retries = bd_max_retries (bd_config s), on_settle = None\<rparr>))"

definition issued :: "rpc_error + 'op action \<Rightarrow> 'op action list" where
  "issued r = (case r of Inl e \<Rightarrow> [] | Inr a \<Rightarrow> [a])"

section \<open>Handlers\<close>

text \<open>One cached obligation of a market.\<close>

definition judge_cached ::
  "bad_debt_initiator \<Rightarrow> 'w ledger_reader \<Rightarrow> ('w, 'r, 'op) gateway \<Rightarrow> 'w store \<Rightarrow> string \<Rightarrow> market_data \<Rightarrow>
     obligation_key \<times> obligation \<Rightarrow> ('w, 'op action list) proc" where
  "judge_cached s L G R market md entry =
     (case entry of (key, ob) \<Rightarrow>
      pbind (judge_now (bd_config s) ob md) (\<lambda>eligible.
      if \<not> eligible then pret []
      else
      pbind (pcall (read_user_obligation L market key)) (\<lambda>r.
      case r of
        Inl e \<Rightarrow>
          if is_obligation_does_not_exist e
          then pbind (pcall (repo_delete R market key)) (\<lambda>_. pret [])
          else pret []
      | Inr fresh \<Rightarrow>
          pbind (judge_now (bd_config s) fresh md) (\<lambda>still.
          if \<not> still then pret []
          else pret (issued (build_issue_bad_debt s G market key))))))"

fun judge_all ::
  "bad_debt_initiator \<Rightarrow> 'w ledger_reader \<Rightarrow> ('w, 'r, 'op) gateway \<Rightarrow> 'w store \<Rightarrow> string \<Rightarrow> market_data \<Rightarrow>
     (obligation_key \<times> obligation) list \<Rightarrow> ('w, 'op action list) proc" where
  "judge_all s L G R market md [] = pret []"
| "judge_all s L G R market md (e # es) =
     pbind (judge_cached s L G R market md e) (\<lambda>as.
     pbind (judge_all s L G R market md es) (\<lambda>bs. pret (as @ bs)))"

definition judge_market ::
  "bad_debt_initiator \<Rightarrow> 'w ledger_reader \<Rightarrow> ('w, 'r, 'op) gateway \<Rightarrow> 'w store \<Rightarrow> string \<Rightarrow>
     ('w, 'op action list) proc" where
  "judge_market s L G R market =
     pbind (pcall (repo_load_all R market)) (\<lambda>rl.
     case rl of
       Inl e \<Rightarrow> pret []
     | Inr loaded \<Rightarrow>
         pbind (pcall (read_market_data L market)) (\<lambda>rm.
         case rm of
           Inl e \<Rightarrow> pret []
         | Inr md \<Rightarrow> judge_all s L G R market md loaded))"

fun judge_markets ::
  "bad_debt_initiator \<Rightarrow> 'w ledger_reader \<Rightarrow> ('w, 'r, 'op) gateway \<Rightarrow> 'w store \<Rightarrow> string list \<Rightarrow>
     ('w, 'op action list) proc" where
  "judge_markets s L G R [] = pret []"
| "judge_markets s L G R (m # ms) =
     pbind (judge_market s L G R m) (\<lambda>as.
     pbind (judge_markets s L G R ms) (\<lambda>bs. pret (as @ bs)))"

definition bad_debt_handle_new_ledger ::
  "bad_debt_initiator \<Rightarrow> 'w ledger_reader \<Rightarrow> ('w, 'r, 'op) gateway \<Rightarrow> 'w store \<Rightarrow> nat \<Rightarrow>
     ('w, 'op action list) proc" where
  "bad_debt_handle_new_ledger s L G R ledger =
     (if \<not> bd_refresh_interval_blocks (bd_config s) dvd ledger then pret []
      else judge_markets s L G R (bd_markets (bd_config s)))"

text \<open>A liquidation event carries the borrower's obligation; no re-read is made.\<close>

definition bad_debt_handle_soroban_event ::
  "bad_debt_initiator \<Rightarrow> 'w ledger_reader \<Rightarrow> ('w, 'r, 'op) gateway \<Rightarrow> event_codec \<Rightarrow> soroban_event \<Rightarrow>
     ('w, 'op action list) proc" where
  "bad_debt_handle_soroban_event s L G C ev =
     (if contract_id ev \<notin> set (bd_markets (bd_config s)) then pret []
      else if decode_operation C ev \<noteq> Inr Liquidate then pret []
      else case parse_obligation_key_from_topic C ev 2 of
        Inl e \<Rightarrow> pret []
      | Inr borrower \<Rightarrow>
          (case parse_obligation_from_event_value C (ev_value ev) ''borrower_obligation'' borrower of
             Inl e \<Rightarrow> pret []
           | Inr None \<Rightarrow> pret []
           | Inr (Some ob) \<Rightarrow>
               pbind (pcall (read_market_data L (contract_id ev))) (\<lambda>rm.
               case rm of
                 Inl e \<Rightarrow> pret []
               | Inr md \<Rightarrow>
                   pbind (judge_now (bd_config s) ob md) (\<lambda>eligible.
                   if \<not> eligible then pret []
                   else pret (issued (build_issue_bad_debt s G (contract_id ev) borrower))))))"

definition bad_debt_process_event ::
  "bad_debt_initiator \<Rightarrow> 'w ledger_reader \<Rightarrow> ('w, 'r, 'op) gateway \<Rightarrow> event_codec \<Rightarrow> 'w store \<Rightarrow> keeper_event \<Rightarrow>
     ('w, 'op action list) proc" where
  "bad_debt_process_event s L G C R ev =
     (case ev of
        SorobanEvents e \<Rightarrow> bad_debt_handle_soroban_event s L G C e
      | NewLedger n \<Rightarrow> bad_debt_handle_new_ledger s L G R n)"

section \<open>What a request needs\<close>

lemma all_dust_True_iff:
  "all_dust md t ds = Ok True \<longleftrightarrow>
     list_all (\<lambda>dep. \<exists>pool v. find_pool (pools_data md) (dp_pool_address dep) = Some pool \<and>
       deposit_value_ceil pool dep = Ok v \<and> v \<le> t) ds"
  by (induction ds) (auto split: option.splits if_splits simp: not_less)

lemma judge_eligibility_True:
  "judge_eligibility cfg ob md now = Ok True \<longleftrightarrow> is_eligible_for_bad_debt_request_issuance cfg ob md now = Ok True"
  by (cases "is_eligible_for_bad_debt_request_issuance cfg ob md now") (auto simp: judge_eligibility_def)

text \<open>A request for an obligation that was eligible at prices just read.\<close>

definition justified_request ::
  "bad_debt_initiator \<Rightarrow> 'w ledger_reader \<Rightarrow> ('w, 'r, 'op) gateway \<Rightarrow> obligation set \<Rightarrow> string \<Rightarrow> obligation_key \<Rightarrow>
     'op action \<Rightarrow> bool" where
  "justified_request s L G known market key a \<longleftrightarrow>
     market \<in> set (bd_markets (bd_config s)) \<and>
     (\<exists>op. cover_bad_debt_op G market key = Inr op \<and>
        a = SubmitTx \<lparr>tx_op = op, signing_key = bd_skey s,
          max_submission_retries = bd_max_retries (bd_config s), on_settle = None\<rparr>) \<and>
     (\<exists>ob md w1 now. ob \<in> known \<and> fst (read_market_data L market w1) = Inr md \<and>
        is_eligible_for_bad_debt_request_issuance (bd_config s) ob md now = Ok True)"

text \<open>The obligations the chain reports for a key, in whatever world it is asked.\<close>

definition on_chain :: "'w ledger_reader \<Rightarrow> string \<Rightarrow> obligation_key \<Rightarrow> obligation set" where
  "on_chain L market key = {ob. \<exists>w. fst (read_user_obligation L market key w) = Inr ob}"

lemma judge_now_Some:
  "judge_now cfg ob md w = Some (b, w') \<longleftrightarrow> w' = w \<and> judge_eligibility cfg ob md (unix_seconds w) = Ok b"
  by (auto simp: judge_now_def)

lemma issued_mem:
  "a \<in> set (issued (build_issue_bad_debt s G market key)) \<Longrightarrow>
     \<exists>op. cover_bad_debt_op G market key = Inr op \<and>
        a = SubmitTx \<lparr>tx_op = op, signing_key = bd_skey s,
          max_submission_retries = bd_max_retries (bd_config s), on_settle = None\<rparr>"
  by (auto simp: issued_def build_issue_bad_debt_def split: sum.splits)

lemma judge_cached_justified:
  assumes "judge_cached s L G R market md e w = Some (as, w')" "fst (read_market_data L market w1) = Inr md"
    "market \<in> set (bd_markets (bd_config s))"
  shows "list_all (justified_request s L G (on_chain L market (fst e)) market (fst e)) as"
proof (cases "as = []")
  case False
  obtain key ob where e: "e = (key, ob)" by (cases e)
  from assms(1) False obtain fresh u now where
    r: "read_user_obligation L market key w = (Inr fresh, u)" and
    j: "judge_eligibility (bd_config s) fresh md now = Ok True" and
    as: "as = issued (build_issue_bad_debt s G market key)"
    unfolding judge_cached_def e by (elim task_elims) (auto simp: judge_now_Some)
  have "fresh \<in> on_chain L market key" using r unfolding on_chain_def by (metis (mono_tags) fst_conv mem_Collect_eq)
  then have "justified_request s L G (on_chain L market key) market key a"
    if "a \<in> set (issued (build_issue_bad_debt s G market key))" for a
    using j assms(2,3) issued_mem [OF that] unfolding justified_request_def judge_eligibility_True by blast
  then show ?thesis by (simp add: as e list_all_iff)
qed simp

lemma judge_all_justified:
  assumes "judge_all s L G R market md es w = Some (as, w')" "fst (read_market_data L market w1) = Inr md"
    "market \<in> set (bd_markets (bd_config s))"
  shows "list_all (\<lambda>a. \<exists>key. justified_request s L G (on_chain L market key) market key a) as"
  using assms(1)
proof (induction es arbitrary: w as)
  case (Cons e es)
  then obtain bs w2 cs where b: "judge_cached s L G R market md e w = Some (bs, w2)"
    and c: "judge_all s L G R market md es w2 = Some (cs, w')" and as: "as = bs @ cs" by auto
  from judge_cached_justified [OF b assms(2,3)]
  have "list_all (\<lambda>a. \<exists>key. justified_request s L G (on_chain L market key) market key a) bs"
    unfolding list_all_iff by blast
  with Cons.IH [OF c] as show ?case by simp
qed simp

lemma judge_market_justified:
  assumes "judge_market s L G R market w = Some (as, w')" "market \<in> set (bd_markets (bd_config s))"
  shows "list_all (\<lambda>a. \<exists>key. justified_request s L G (on_chain L market key) market key a) as"
proof (cases "as = []")
  case False
  with assms obtain md w1 w2 loaded where m: "read_market_data L market w1 = (Inr md, w2)"
    "judge_all s L G R market md loaded w2 = Some (as, w')"
    unfolding judge_market_def by (elim task_elims) auto
  then show ?thesis using judge_all_justified [OF m(2) _ assms(2), of w1] by simp
qed simp

lemma judge_markets_justified:
  "judge_markets s L G R ms w = Some (as, w') \<Longrightarrow> set ms \<subseteq> set (bd_markets (bd_config s)) \<Longrightarrow>
     list_all (\<lambda>a. \<exists>market key. justified_request s L G (on_chain L market key) market key a) as"
proof (induction ms arbitrary: w as)
  case (Cons m ms)
  then obtain bs w2 cs where b: "judge_market s L G R m w = Some (bs, w2)"
    and c: "judge_markets s L G R ms w2 = Some (cs, w')" and as: "as = bs @ cs" by auto
  from judge_market_justified [OF b] Cons.prems(2)
  have "list_all (\<lambda>a. \<exists>market key. justified_request s L G (on_chain L market key) market key a) bs"
    unfolding list_all_iff by (auto; blast)
  with Cons.IH [OF c] Cons.prems(2) as show ?case by simp
qed simp

lemma event_request_justified:
  assumes "bad_debt_handle_soroban_event s L G C ev w = Some (as, w')"
  shows "list_all (\<lambda>a. \<exists>key. parse_obligation_key_from_topic C ev 2 = Inr key \<and>
    justified_request s L G
      {ob. parse_obligation_from_event_value C (ev_value ev) ''borrower_obligation'' key = Inr (Some ob)}
      (contract_id ev) key a) as"
proof (cases "as = []")
  case False
  with assms obtain key ob md w1 now where
    c: "contract_id ev \<in> set (bd_markets (bd_config s))" and k: "parse_obligation_key_from_topic C ev 2 = Inr key" and
    v: "parse_obligation_from_event_value C (ev_value ev) ''borrower_obligation'' key = Inr (Some ob)" and
    m: "read_market_data L (contract_id ev) w = (Inr md, w1)" and
    j: "judge_eligibility (bd_config s) ob md now = Ok True" and
    as: "as = issued (build_issue_bad_debt s G (contract_id ev) key)"
    unfolding bad_debt_handle_soroban_event_def by (elim task_elims) (auto simp: judge_now_Some)
  have "fst (read_market_data L (contract_id ev) w) = Inr md" using m by simp
  then have "justified_request s L G
      {ob. parse_obligation_from_event_value C (ev_value ev) ''borrower_obligation'' key = Inr (Some ob)}
      (contract_id ev) key a" if "a \<in> set as" for a
    using c v j issued_mem [OF that [unfolded as]] unfolding justified_request_def judge_eligibility_True by blast
  then show ?thesis using k by (auto simp: list_all_iff)
qed simp

section \<open>A worked example\<close>

definition example_bad_debt :: bad_debt_initiator where
  "example_bad_debt = bad_debt_new ''SK'' \<lparr>bd_max_retries = 3, bd_markets = [''M''], bd_refresh_interval_blocks = 10,
     bd_dust_rules = NoDust, bd_min_profit_margin_cents = 0\<rparr>"

text \<open>An obligation with a debt and no collateral.\<close>

definition bare_debt :: obligation where
  "bare_debt = two_pool_obligation\<lparr>deposits := []\<rparr>"

definition bare_store :: "unit store" where
  "bare_store = example_store\<lparr>repo_load_all := (\<lambda>m w. (Inr [(obligation_key_new ''U'', bare_debt)], w))\<rparr>"

definition bare_ledger :: "unit ledger_reader" where
  "bare_ledger = example_ledger\<lparr>read_user_obligation := (\<lambda>m k w. (Inr bare_debt, w))\<rparr>"

definition cover_action :: "string list action" where
  "cover_action = SubmitTx \<lparr>tx_op = [''cover''], signing_key = ''SK'', max_submission_retries = 3, on_settle = None\<rparr>"

lemma example_cover:
  "bad_debt_process_event example_bad_debt bare_ledger example_gateway example_codec bare_store (NewLedger 20)
     example_world = Some ([cover_action], example_world)"
  by (simp add: bad_debt_process_event_def bad_debt_handle_new_ledger_def example_bad_debt_def bad_debt_new_def
      judge_market_def bare_store_def bare_ledger_def example_store_def example_ledger_def judge_cached_def judge_now_def
      judge_eligibility_def is_eligible_for_bad_debt_request_issuance_def bare_debt_def two_pool_obligation_def
      build_issue_bad_debt_def example_gateway_def issued_def cover_action_def pcall_def pbind_def pret_def)

section \<open>Properties\<close>




text \<open>A row whose obligation is gone on chain is dropped: when a cached obligation is eligible and the
  chain reports it missing, no request is made and the row is deleted from the store.\<close>

theorem gone_obligation_dropped:
  assumes "judge_eligibility (bd_config s) ob md (unix_seconds w) = Ok True"
    and "read_user_obligation L market key w = (Inl e, w1)" "is_obligation_does_not_exist e"
  shows "judge_cached s L G R market md (key, ob) w = Some ([], snd (repo_delete R market key w1))"
  using assms
  by (simp add: judge_cached_def judge_now_def pbind_def pcall_def pret_def split: prod.splits)

theorem gone_obligation_dropped_witness:
  "judge_cached example_bad_debt (bare_ledger\<lparr>read_user_obligation := (\<lambda>m k w. (Inl ''Error(Contract, #200)'', w))\<rparr>)
     example_gateway bare_store ''M'' two_pool_market (obligation_key_new ''U'', bare_debt) example_world =
   Some ([], example_world)"
proof -
  let ?msg = "''Error(Contract, #200)''"
  have a: "after_first MARKER ?msg = Some ''200)''" by code_simp
  have t: "takeWhile is_ascii_digit ''200)'' = ''200''" by code_simp
  have d: "digits_value ''200'' = 200" by code_simp
  have n: "\<not> contains (to_lowercase ?msg) ''simulation returned no results''" by code_simp
  have "extract_contract_code ?msg = Some 200"
    by (simp only: extract_contract_code_def a option.case t) (simp only: parse_u32_def d, simp)
  then have "classify_str ?msg = Contract 200" using n by (simp only: classify_str_def Let_def if_False option.case)
  then have "is_obligation_does_not_exist ?msg"
    by (simp only: is_obligation_does_not_exist_def OBLIGATION_DOES_NOT_EXIST_CODE_def soroban_rpc_error.case)
  then show ?thesis
    using gone_obligation_dropped [of example_bad_debt bare_debt two_pool_market example_world
        "bare_ledger\<lparr>read_user_obligation := (\<lambda>m k w. (Inl ''Error(Contract, #200)'', w))\<rparr>" "''M''"
        "obligation_key_new ''U''" "''Error(Contract, #200)''" example_world example_gateway bare_store]
    by (simp add: judge_eligibility_def is_eligible_for_bad_debt_request_issuance_def bare_debt_def
        two_pool_obligation_def bare_store_def example_store_def)
qed

end
