(* ===== verification/Balancer.thy ===== *)
theory Balancer
  imports Example_Ports "HOL-Library.Monad_Syntax"
begin

text \<open>
  \<^verbatim>\<open>keeper/src/strategy/balancer.rs\<close>: the strategy that swaps assets the keeper does not want to hold
  back into its target asset, as long as a swap provider's price is close enough to the oracle's.
\<close>

section \<open>Data\<close>

record balancer_config =
  bl_market :: string
  bl_xlm_address :: string
  bl_xlm_safety_margin :: i128
  max_price_impact_bps :: i128
  bl_max_retries :: nat
  allowed_swap_slippage_bps :: i128
  bl_assets_to_hold :: "string list"
  bl_swap_providers :: "string list"
  bl_refresh_interval_blocks :: nat
  max_swap_provider_probes :: nat
  min_swap_amount_value_cents :: i128

record asset_info =
  ai_decimals :: nat
  ai_oracle_price :: i128
  ai_oracle_decimals :: nat

record balancer =
  bl_pkey :: string
  bl_skey :: string
  bl_config :: balancer_config
  bl_liquidator_key :: obligation_key
  asset_index :: "(string, asset_info) hash_map"

definition balancer_new :: "string \<Rightarrow> string \<Rightarrow> balancer_config \<Rightarrow> balancer" where
  "balancer_new pkey skey cfg =
     \<lparr>bl_pkey = pkey, bl_skey = skey, bl_config = cfg, bl_liquidator_key = obligation_key_new pkey,
      asset_index = []\<rparr>"

section \<open>Prices\<close>

record swap_price_impact =
  impact_bps :: i128
  execution_price_scaled :: i128

definition abs_diff :: "nat \<Rightarrow> nat \<Rightarrow> nat" where
  "abs_diff a b = (if a \<ge> b then a - b else b - a)"

definition compute_swap_price_impact ::
  "i128 \<Rightarrow> i128 \<Rightarrow> i128 \<Rightarrow> nat \<Rightarrow> nat \<Rightarrow> nat \<Rightarrow> swap_price_impact option" where
  "compute_swap_price_impact oracle_price amount_in amount_out in_decimals out_decimals oracle_decimals =
     (if amount_in \<le> 0 \<or> oracle_price \<le> 0 then None
      else do {
        scale \<leftarrow> checked_pow10 oracle_decimals;
        correction \<leftarrow> checked_pow10 (abs_diff in_decimals out_decimals);
        (numerator, denominator) \<leftarrow>
          (if in_decimals \<ge> out_decimals
           then do { n \<leftarrow> checked_mul amount_out scale; n' \<leftarrow> checked_mul n correction; Some (n', amount_in) }
           else do { n \<leftarrow> checked_mul amount_out scale; d \<leftarrow> checked_mul amount_in correction; Some (n, d) });
        execution_price \<leftarrow> checked_div numerator denominator;
        price_diff \<leftarrow> checked_sub oracle_price execution_price;
        scaled \<leftarrow> checked_mul price_diff BPS_FACTOR;
        bps \<leftarrow> checked_div scaled oracle_price;
        Some \<lparr>impact_bps = bps, execution_price_scaled = execution_price\<rparr>
      })"

definition compute_value_cents :: "i128 \<Rightarrow> asset_info \<Rightarrow> (unit, i128) outcome" where
  "compute_value_cents token_amount info =
     (if ai_oracle_price info \<le> 0 then Ok 0
      else
      bindr (raw_add_u32 (ai_decimals info) (ai_oracle_decimals info)) (\<lambda>denom_pow.
      if denom_pow < 2 then Ok 0
      else
      bindr (raw_pow10 (denom_pow - 2)) (\<lambda>denom.
      if denom = 0 then Ok 0
      else
      bindr (raw_div (saturating_mul token_amount (ai_oracle_price info)) denom) (\<lambda>v. Ok (max v 0)))))"

section \<open>Probing a provider\<close>

text \<open>\<open>n\<close> probes are left; an error of the quote ends the probing.\<close>

primrec probe_loop ::
  "'w ledger_reader \<Rightarrow> balancer_config \<Rightarrow> string \<Rightarrow> string \<Rightarrow> string \<Rightarrow> i128 \<Rightarrow> nat \<Rightarrow> asset_info \<Rightarrow> asset_info \<Rightarrow>
     nat \<Rightarrow> i128 \<Rightarrow> ('w, rpc_error + (i128 \<times> i128 \<times> i128) option) call" where
  "probe_loop L cfg provider asset_in asset_out oracle_price oracle_decimals in_info out_info 0 amount_in =
     (\<lambda>w. (Inr None, w))"
| "probe_loop L cfg provider asset_in asset_out oracle_price oracle_decimals in_info out_info (Suc n) amount_in =
     (\<lambda>w. case get_amount_out L amount_in asset_in asset_out provider w of
        (Inl e, w') \<Rightarrow> (Inl e, w')
      | (Inr amount_out, w') \<Rightarrow>
          (case compute_swap_price_impact oracle_price amount_in amount_out (ai_decimals in_info)
                  (ai_decimals out_info) oracle_decimals of
             None \<Rightarrow> (Inr None, w')
           | Some impact \<Rightarrow>
               if impact_bps impact \<le> max_price_impact_bps cfg
               then (Inr (Some (amount_in, amount_out, execution_price_scaled impact)), w')
               else probe_loop L cfg provider asset_in asset_out oracle_price oracle_decimals in_info out_info n
                      (amount_in sdiv 2) w'))"

definition probe_provider ::
  "balancer \<Rightarrow> 'w ledger_reader \<Rightarrow> string \<Rightarrow> string \<Rightarrow> string \<Rightarrow> i128 \<Rightarrow> nat \<Rightarrow> i128 \<Rightarrow>
     ('w, rpc_error + (i128 \<times> i128 \<times> i128) option) call" where
  "probe_provider s L provider asset_in asset_out oracle_price oracle_decimals swappable =
     (case (hm_get (asset_index s) asset_in, hm_get (asset_index s) asset_out) of
        (Some in_info, Some out_info) \<Rightarrow>
          probe_loop L (bl_config s) provider asset_in asset_out oracle_price oracle_decimals in_info out_info
            (max_swap_provider_probes (bl_config s)) swappable
      | _ \<Rightarrow> (\<lambda>w. (Inr None, w)))"

text \<open>The provider that takes the most: name, amount in, amount out, realised price.\<close>

fun best_provider_loop ::
  "balancer \<Rightarrow> 'w ledger_reader \<Rightarrow> string \<Rightarrow> string \<Rightarrow> i128 \<Rightarrow> nat \<Rightarrow> i128 \<Rightarrow> string list \<Rightarrow>
     (string \<times> i128 \<times> i128 \<times> i128) option \<Rightarrow> ('w, (string \<times> i128 \<times> i128 \<times> i128) option) call" where
  "best_provider_loop s L candidate target price od swappable [] best w = (best, w)"
| "best_provider_loop s L candidate target price od swappable (p # ps) best w =
     (case probe_provider s L p candidate target price od swappable w of
        (Inr (Some (amount_in, amount_out, realised)), w') \<Rightarrow>
          best_provider_loop s L candidate target price od swappable ps
            (if (case best of None \<Rightarrow> True | Some (_, best_in, _, _) \<Rightarrow> amount_in > best_in)
             then Some (p, amount_in, amount_out, realised) else best) w'
      | (_, w') \<Rightarrow> best_provider_loop s L candidate target price od swappable ps best w')"

section \<open>A candidate\<close>

definition swappable_balance :: "balancer_config \<Rightarrow> string \<Rightarrow> i128 \<Rightarrow> i128" where
  "swappable_balance cfg candidate raw =
     (if candidate = bl_xlm_address cfg then saturating_sub raw (bl_xlm_safety_margin cfg) else raw)"

text \<open>The tail of the evaluation, from the value check to the reservation.\<close>

definition dispatch_swap ::
  "balancer \<Rightarrow> ('w, 'r, 'op) gateway \<Rightarrow> string \<Rightarrow> string \<Rightarrow> i128 \<Rightarrow> string \<times> i128 \<times> i128 \<times> i128 \<Rightarrow>
     ('w, rpc_error + 'op action option) proc" where
  "dispatch_swap s G target candidate swappable route =
     (case route of (provider, amount_in, amount_out, realised) \<Rightarrow>
      case hm_get (asset_index s) candidate of
        None \<Rightarrow> (\<lambda>w. None)
      | Some info \<Rightarrow>
          pbind (ppure (compute_value_cents amount_in info)) (\<lambda>value_cents.
          if value_cents < min_swap_amount_value_cents (bl_config s) then pret (Inr None)
          else
          pbind (ppure (bindr (raw_sub BPS_FACTOR (allowed_swap_slippage_bps (bl_config s))) (\<lambda>f.
                   raw_div (saturating_mul amount_out f) BPS_FACTOR))) (\<lambda>min_amount_out.
          case swap_exact_tokens_request G provider amount_in min_amount_out [candidate, target] of
            Inl e \<Rightarrow> pret (Inl e)
          | Inr request \<Rightarrow>
              (case batch_op G (bl_market (bl_config s)) (bl_liquidator_key s) [request] of
                 Inl e \<Rightarrow> pret (Inl e)
               | Inr op \<Rightarrow>
                   pbind (pcall (reserve_in amount_in swappable candidate)) (\<lambda>r.
                   case r of
                     Ok rid \<Rightarrow> pret (Inr (Some (SubmitTx \<lparr>tx_op = op, signing_key = bl_skey s,
                       max_submission_retries = bl_max_retries (bl_config s),
                       on_settle = Some \<lparr>op_id = rid, liquidation_outcome = None\<rparr>\<rparr>)))
                   | Err e \<Rightarrow> pret (Inr None)
                   | Panic \<Rightarrow> (\<lambda>w. None))))))"

definition evaluate_rebalancable_candidate ::
  "balancer \<Rightarrow> 'w ledger_reader \<Rightarrow> ('w, 'r, 'op) gateway \<Rightarrow> string \<Rightarrow> string \<Rightarrow> nat \<Rightarrow> i128 \<Rightarrow> i128 \<Rightarrow>
     ('w, rpc_error + 'op action option) proc" where
  "evaluate_rebalancable_candidate s L G target candidate od target_price candidate_price =
     pbind (pcall (try_get_balance L candidate)) (\<lambda>rb.
     case rb of
       Inl e \<Rightarrow> pret (Inl e)
     | Inr raw \<Rightarrow>
         let swappable = swappable_balance (bl_config s) candidate raw in
         if \<not> swappable > 0 then pret (Inr None)
         else if target_price \<le> 0 then pret (Inr None)
         else
         pbind (ppure (bindr (raw_pow10 od) (\<lambda>scale. bindr (raw_mul candidate_price scale) (\<lambda>n.
                  raw_div n target_price)))) (\<lambda>quoted.
         pbind (pcall (best_provider_loop s L candidate target quoted od swappable
                  (bl_swap_providers (bl_config s)) None)) (\<lambda>best.
         case best of
           None \<Rightarrow> pret (Inr None)
         | Some route \<Rightarrow> dispatch_swap s G target candidate swappable route)))"

section \<open>Rebalancing\<close>

fun update_asset_index :: "nat \<Rightarrow> pool_data list \<Rightarrow> (string, asset_info) hash_map \<Rightarrow> (string, asset_info) hash_map" where
  "update_asset_index od [] ix = ix"
| "update_asset_index od (p # ps) ix =
     update_asset_index od ps (hm_insert (pool_address p)
       \<lparr>ai_decimals = token_decimals p, ai_oracle_price = oracle_asset_price p, ai_oracle_decimals = od\<rparr> ix)"

fun rebalance_loop ::
  "balancer \<Rightarrow> 'w ledger_reader \<Rightarrow> ('w, 'r, 'op) gateway \<Rightarrow> market_data \<Rightarrow> string \<Rightarrow> i128 \<Rightarrow> string list \<Rightarrow>
     ('w, 'op action list) proc" where
  "rebalance_loop s L G md target target_price [] = pret []"
| "rebalance_loop s L G md target target_price (candidate # cs) =
     (case find_pool (pools_data md) candidate of
        None \<Rightarrow> rebalance_loop s L G md target target_price cs
      | Some p \<Rightarrow>
          pbind (evaluate_rebalancable_candidate s L G target candidate (oracle_price_decimals md) target_price
                   (oracle_asset_price p)) (\<lambda>r.
          pbind (rebalance_loop s L G md target target_price cs) (\<lambda>as.
          pret ((case r of Inr (Some a) \<Rightarrow> [a] | _ \<Rightarrow> []) @ as))))"

text \<open>\<open>assets_to_hold[0]\<close> aborts on an empty list.\<close>

definition find_rebalance_actions ::
  "'w ledger_reader \<Rightarrow> ('w, 'r, 'op) gateway \<Rightarrow> market_data \<Rightarrow> balancer \<Rightarrow> ('w, 'op action list \<times> balancer) proc"
where
  "find_rebalance_actions L G md s0 =
     (let s = s0\<lparr>asset_index := update_asset_index (oracle_price_decimals md) (pools_data md) (asset_index s0)\<rparr> in
      case bl_assets_to_hold (bl_config s) of
        [] \<Rightarrow> (\<lambda>w. None)
      | target # _ \<Rightarrow>
          (case find_pool (pools_data md) target of
             None \<Rightarrow> pret ([], s)
           | Some p \<Rightarrow>
               pbind (rebalance_loop s L G md target (oracle_asset_price p)
                        (filter (\<lambda>a. a \<notin> set (bl_assets_to_hold (bl_config s))) (map fst (asset_index s)))) (\<lambda>as.
               pret (as, s))))"

definition is_swap_reasonable :: "balancer \<Rightarrow> bool" where
  "is_swap_reasonable s \<longleftrightarrow> bl_assets_to_hold (bl_config s) \<noteq> [] \<and> bl_swap_providers (bl_config s) \<noteq> []"

section \<open>Handlers\<close>

definition rebalance_now ::
  "'w ledger_reader \<Rightarrow> ('w, 'r, 'op) gateway \<Rightarrow> balancer \<Rightarrow> ('w, 'op action list \<times> balancer) proc" where
  "rebalance_now L G s =
     pbind (pcall (read_market_data L (bl_market (bl_config s)))) (\<lambda>rm.
     case rm of
       Inl e \<Rightarrow> pret ([], s)
     | Inr md \<Rightarrow> find_rebalance_actions L G md s)"

definition balancer_handle_new_ledger ::
  "'w ledger_reader \<Rightarrow> ('w, 'r, 'op) gateway \<Rightarrow> nat \<Rightarrow> balancer \<Rightarrow> ('w, 'op action list \<times> balancer) proc" where
  "balancer_handle_new_ledger L G ledger s =
     (if \<not> bl_refresh_interval_blocks (bl_config s) dvd ledger \<or> \<not> is_swap_reasonable s then pret ([], s)
      else rebalance_now L G s)"

definition try_parse_asset_from_liquidate_event :: "balancer \<Rightarrow> event_codec \<Rightarrow> soroban_event \<Rightarrow> string option" where
  "try_parse_asset_from_liquidate_event s C ev =
     (let liquidator = decode_topic C ev 1; collateral_pool = decode_topic C ev 4 in
      if liquidator \<noteq> bl_pkey s \<or> collateral_pool \<in> set (bl_assets_to_hold (bl_config s)) then None
      else case parse_liquidation_result_from_liquidation_event_value C (ev_value ev) of
        Inr (Some r) \<Rightarrow> if plain_collateral_seized r = 0 then None else Some collateral_pool
      | _ \<Rightarrow> None)"

definition try_parse_asset_from_withdraw_event :: "balancer \<Rightarrow> event_codec \<Rightarrow> soroban_event \<Rightarrow> string option" where
  "try_parse_asset_from_withdraw_event s C ev =
     (case parse_obligation_key_from_topic C ev 2 of
        Inl e \<Rightarrow> None
      | Inr withdrawer \<Rightarrow> if user withdrawer \<noteq> bl_pkey s then None else Some (decode_topic C ev 1))"

definition balancer_handle_soroban_event ::
  "'w ledger_reader \<Rightarrow> ('w, 'r, 'op) gateway \<Rightarrow> event_codec \<Rightarrow> soroban_event \<Rightarrow> balancer \<Rightarrow>
     ('w, 'op action list \<times> balancer) proc" where
  "balancer_handle_soroban_event L G C ev s =
     (if \<not> is_swap_reasonable s then pret ([], s)
      else
      let asset_to_swap =
        (case decode_operation C ev of
           Inr Liquidate \<Rightarrow> try_parse_asset_from_liquidate_event s C ev
         | Inr Withdraw \<Rightarrow> try_parse_asset_from_withdraw_event s C ev
         | _ \<Rightarrow> None) in
      if asset_to_swap \<noteq> None then rebalance_now L G s else pret ([], s))"

definition balancer_process_event ::
  "'w ledger_reader \<Rightarrow> ('w, 'r, 'op) gateway \<Rightarrow> event_codec \<Rightarrow> keeper_event \<Rightarrow> balancer \<Rightarrow>
     ('w, 'op action list \<times> balancer) proc" where
  "balancer_process_event L G C ev s =
     (case ev of
        NewLedger n \<Rightarrow> balancer_handle_new_ledger L G n s
      | SorobanEvents e \<Rightarrow> balancer_handle_soroban_event L G C e s)"

section \<open>Lemmas\<close>

subsection \<open>The price of a swap\<close>

text \<open>A truncated quotient is within one unit of the exact one.\<close>

lemma sdiv_le_bound:
  assumes "0 < (c::int)" "a sdiv c \<le> m"
  shows "a \<le> (m + 1) * c"
proof (cases "0 \<le> a")
  case True
  then have "a div c \<le> m" using assms sdiv_nonneg_eq_div by simp
  then have "(a div c + 1) * c \<le> (m + 1) * c" using assms(1) by (intro mult_right_mono) auto
  moreover have "a < c * (a div c) + c"
    using pos_mod_bound [OF assms(1), of a] mult_div_mod_eq [of c a] by linarith
  ultimately show ?thesis by (simp add: algebra_simps)
next
  case False
  then have "a sdiv c = - ((- a) div c)" using assms(1) sdiv_nonneg_eq_div [of "- a" c] by simp
  then have "- m \<le> (- a) div c" using assms(2) by simp
  then have "(- m) * c \<le> ((- a) div c) * c" using assms(1) by (intro mult_right_mono) auto
  moreover have "c * ((- a) div c) \<le> - a"
    using pos_mod_sign [OF assms(1), of "- a"] mult_div_mod_eq [of c "- a"] by linarith
  ultimately show ?thesis using assms(1) by (simp add: algebra_simps)
qed

lemma price_impact_cases:
  assumes "compute_swap_price_impact oracle ain aout din dout od = Some imp"
  obtains n d where "0 < ain" "0 < oracle" "0 < d"
    "n * (ain * 10 ^ dout) = d * (aout * 10 ^ od * 10 ^ din)"
    "execution_price_scaled imp = n sdiv d"
    "impact_bps imp = ((oracle - execution_price_scaled imp) * BPS_FACTOR) sdiv oracle"
    "n = aout * 10 ^ od * (if dout \<le> din then 10 ^ (din - dout) else 1)"
proof (cases "dout \<le> din")
  case True
  then have p: "(10::int) ^ din = 10 ^ (din - dout) * 10 ^ dout" by (simp flip: power_add)
  show ?thesis
    by (rule that [of ain "aout * 10 ^ od * 10 ^ (din - dout)"])
       (use assms True in \<open>auto simp: compute_swap_price_impact_def abs_diff_def bind_eq_Some_conv p
          split: if_splits\<close>)
next
  case False
  then have p: "(10::int) ^ dout = 10 ^ (dout - din) * 10 ^ din" by (simp flip: power_add)
  show ?thesis
    by (rule that [of "ain * 10 ^ (dout - din)" "aout * 10 ^ od"])
       (use assms False in \<open>auto simp: compute_swap_price_impact_def abs_diff_def bind_eq_Some_conv p
          split: if_splits\<close>)
qed

subsection \<open>Probes\<close>

lemma probe_loop_Some:
  assumes "probe_loop L cfg p x y price od ii oi n a w = (Inr (Some (ain, aout, realised)), w')" "0 \<le> a"
  shows "\<exists>k w1 imp. k < n \<and> ain = a div 2 ^ k \<and> fst (get_amount_out L ain x y p w1) = Inr aout \<and>
    compute_swap_price_impact price ain aout (ai_decimals ii) (ai_decimals oi) od = Some imp \<and>
    impact_bps imp \<le> max_price_impact_bps cfg \<and> realised = execution_price_scaled imp"
  using assms
proof (induction n arbitrary: a w)
  case (Suc n)
  obtain r w1 where g: "get_amount_out L a x y p w = (r, w1)" by fastforce
  from Suc.prems(1) g obtain out imp where
    r: "r = Inr out" and i: "compute_swap_price_impact price a out (ai_decimals ii) (ai_decimals oi) od = Some imp" and
    rest: "(if impact_bps imp \<le> max_price_impact_bps cfg then (Inr (Some (a, out, execution_price_scaled imp)), w1)
      else probe_loop L cfg p x y price od ii oi n (a sdiv 2) w1) = (Inr (Some (ain, aout, realised)), w')"
    by (auto split: sum.splits option.splits)
  show ?case
  proof (cases "impact_bps imp \<le> max_price_impact_bps cfg")
    case True
    with rest i g r show ?thesis by (intro exI [of _ 0] exI [of _ w] exI [of _ imp]) auto
  next
    case False
    with rest Suc.IH [of "a sdiv 2" w1] Suc.prems(2) obtain k w2 imp' where
      "k < n" "ain = a sdiv 2 div 2 ^ k" "fst (get_amount_out L ain x y p w2) = Inr aout"
      "compute_swap_price_impact price ain aout (ai_decimals ii) (ai_decimals oi) od = Some imp'"
      "impact_bps imp' \<le> max_price_impact_bps cfg" "realised = execution_price_scaled imp'" by auto
    moreover have "a sdiv 2 div 2 ^ k = a div 2 ^ Suc k"
      using Suc.prems(2) by (simp add: sdiv_nonneg_eq_div zdiv_zmult2_eq)
    ultimately show ?thesis by (intro exI [of _ "Suc k"] exI [of _ w2] exI [of _ imp']) auto
  qed
qed simp

text \<open>A route a provider was found to offer: within the balance, positive, quoted, and priced within the
  configured impact.\<close>

definition viable_route ::
  "balancer \<Rightarrow> 'w ledger_reader \<Rightarrow> string \<Rightarrow> string \<Rightarrow> i128 \<Rightarrow> nat \<Rightarrow> i128 \<Rightarrow> string \<times> i128 \<times> i128 \<times> i128 \<Rightarrow> bool" where
  "viable_route s L candidate target price od swappable route \<longleftrightarrow>
     (case route of (provider, amount_in, amount_out, realised) \<Rightarrow>
        provider \<in> set (bl_swap_providers (bl_config s)) \<and> 0 < amount_in \<and> amount_in \<le> swappable \<and>
        (\<exists>w1. fst (get_amount_out L amount_in candidate target provider w1) = Inr amount_out) \<and>
        (\<exists>ii oi imp. hm_get (asset_index s) candidate = Some ii \<and> hm_get (asset_index s) target = Some oi \<and>
           compute_swap_price_impact price amount_in amount_out (ai_decimals ii) (ai_decimals oi) od = Some imp \<and>
           impact_bps imp \<le> max_price_impact_bps (bl_config s) \<and> realised = execution_price_scaled imp))"

lemma probe_provider_viable:
  assumes "probe_provider s L p candidate target price od swappable w = (Inr (Some (ain, aout, realised)), w')"
    "0 < swappable" "p \<in> set (bl_swap_providers (bl_config s))"
  shows "viable_route s L candidate target price od swappable (p, ain, aout, realised)"
proof -
  from assms(1) obtain ii oi where ix: "hm_get (asset_index s) candidate = Some ii" "hm_get (asset_index s) target = Some oi"
    and l: "probe_loop L (bl_config s) p candidate target price od ii oi (max_swap_provider_probes (bl_config s))
      swappable w = (Inr (Some (ain, aout, realised)), w')"
    by (auto simp: probe_provider_def split: option.splits)
  from probe_loop_Some [OF l] assms(2) obtain k w1 imp where
    "ain = swappable div 2 ^ k" "fst (get_amount_out L ain candidate target p w1) = Inr aout"
    "compute_swap_price_impact price ain aout (ai_decimals ii) (ai_decimals oi) od = Some imp"
    "impact_bps imp \<le> max_price_impact_bps (bl_config s)" "realised = execution_price_scaled imp" by auto
  moreover have "swappable div 2 ^ k \<le> swappable"
    using assms(2) zdiv_mono2 [of swappable 1 "2 ^ k"] by simp
  moreover have "0 < ain" using calculation(3) by (auto elim: price_impact_cases)
  ultimately show ?thesis using ix assms(3) by (auto simp: viable_route_def)
qed

lemma best_provider_viable:
  assumes "best_provider_loop s L candidate target price od swappable ps best w = (Some route, w')"
    "0 < swappable" "set ps \<subseteq> set (bl_swap_providers (bl_config s))"
    "\<And>b. best = Some b \<Longrightarrow> viable_route s L candidate target price od swappable b"
  shows "viable_route s L candidate target price od swappable route"
  using assms
proof (induction ps arbitrary: best w)
  case (Cons p ps)
  obtain r w1 where pr: "probe_provider s L p candidate target price od swappable w = (r, w1)" by fastforce
  show ?case
  proof (cases "\<exists>ain aout realised. r = Inr (Some (ain, aout, realised))")
    case True
    then obtain ain aout realised where r: "r = Inr (Some (ain, aout, realised))" by blast
    have v: "viable_route s L candidate target price od swappable (p, ain, aout, realised)"
      by (rule probe_provider_viable [of s L p candidate target price od swappable w ain aout realised w1])
         (use pr r Cons.prems(2,3) in simp_all)
    show ?thesis
      by (rule Cons.IH [of "if (case best of None \<Rightarrow> True | Some (_, best_in, _, _) \<Rightarrow> ain > best_in)
            then Some (p, ain, aout, realised) else best" w1])
         (use Cons.prems pr r v in \<open>auto split: if_splits\<close>)
  next
    case False
    then have "best_provider_loop s L candidate target price od swappable (p # ps) best w =
        best_provider_loop s L candidate target price od swappable ps best w1"
      using pr by (auto split: sum.splits option.splits)
    with Cons.prems Cons.IH [of best w1] show ?thesis by simp
  qed
qed auto

lemma dispatch_swap_Some:
  assumes "dispatch_swap s G target candidate swappable (provider, ain, aout, realised) w = Some (Inr (Some a), w')"
  shows "\<exists>info cents min_out request tx hook e. hm_get (asset_index s) candidate = Some info \<and>
    compute_value_cents ain info = Ok cents \<and> min_swap_amount_value_cents (bl_config s) \<le> cents \<and>
    min_out = saturating_mul aout (BPS_FACTOR - allowed_swap_slippage_bps (bl_config s)) sdiv BPS_FACTOR \<and>
    swap_exact_tokens_request G provider ain min_out [candidate, target] = Inr request \<and>
    a = SubmitTx tx \<and> signing_key tx = bl_skey s \<and>
    max_submission_retries tx = bl_max_retries (bl_config s) \<and>
    batch_op G (bl_market (bl_config s)) (bl_liquidator_key s) [request] = Inr (tx_op tx) \<and>
    on_settle tx = Some hook \<and> ledger_of w' (op_id hook) = Some e \<and> res_amount e = ain \<and> res_token e = candidate"
  using assms unfolding dispatch_swap_def prod.case
  by (elim task_elims) (auto simp: not_less dest!: reserve_in_Ok)

text \<open>The swap an action of the strategy carries out.\<close>

definition justified_swap ::
  "balancer \<Rightarrow> 'w ledger_reader \<Rightarrow> ('w, 'r, 'op) gateway \<Rightarrow> string \<Rightarrow> string \<Rightarrow> nat \<Rightarrow> i128 \<Rightarrow> i128 \<Rightarrow> 'w world \<Rightarrow>
     'op action \<Rightarrow> bool" where
  "justified_swap s L G target candidate od target_price candidate_price w' a \<longleftrightarrow>
     (\<exists>raw w1 provider ain aout realised info cents min_out request tx hook e.
        fst (try_get_balance L candidate w1) = Inr raw \<and> 0 < target_price \<and>
        viable_route s L candidate target ((candidate_price * 10 ^ od) sdiv target_price) od
          (swappable_balance (bl_config s) candidate raw) (provider, ain, aout, realised) \<and>
        hm_get (asset_index s) candidate = Some info \<and> compute_value_cents ain info = Ok cents \<and>
        min_swap_amount_value_cents (bl_config s) \<le> cents \<and>
        min_out = saturating_mul aout (BPS_FACTOR - allowed_swap_slippage_bps (bl_config s)) sdiv BPS_FACTOR \<and>
        swap_exact_tokens_request G provider ain min_out [candidate, target] = Inr request \<and>
        a = SubmitTx tx \<and> signing_key tx = bl_skey s \<and>
        max_submission_retries tx = bl_max_retries (bl_config s) \<and>
        batch_op G (bl_market (bl_config s)) (bl_liquidator_key s) [request] = Inr (tx_op tx) \<and>
        on_settle tx = Some hook \<and> ledger_of w' (op_id hook) = Some e \<and> res_amount e = ain \<and> res_token e = candidate)"

lemma evaluate_candidate_Some:
  assumes "evaluate_rebalancable_candidate s L G target candidate od tp cp w = Some (Inr (Some a), w')"
  shows "justified_swap s L G target candidate od tp cp w' a"
proof -
  from assms obtain raw w1 quoted best w2 where
    b: "try_get_balance L candidate w = (Inr raw, w1)" and sw: "0 < swappable_balance (bl_config s) candidate raw" and
    tp: "0 < tp" and q: "quoted = (cp * 10 ^ od) sdiv tp" and
    l: "best_provider_loop s L candidate target quoted od (swappable_balance (bl_config s) candidate raw)
      (bl_swap_providers (bl_config s)) None w1 = (Some best, w2)" and
    d: "dispatch_swap s G target candidate (swappable_balance (bl_config s) candidate raw) best w2 =
      Some (Inr (Some a), w')"
    unfolding evaluate_rebalancable_candidate_def Let_def by (elim task_elims) (auto simp: not_le)
  obtain provider ain aout realised where best: "best = (provider, ain, aout, realised)" by (cases best)
  have v: "viable_route s L candidate target quoted od (swappable_balance (bl_config s) candidate raw) best"
    by (rule best_provider_viable [OF l sw]) auto
  have "fst (try_get_balance L candidate w) = Inr raw" using b by simp
  with v tp dispatch_swap_Some [OF d [unfolded best]] show ?thesis
    unfolding justified_swap_def best q by blast
qed

subsection \<open>Nothing is reserved without a swap\<close>

lemma evaluate_candidate_quiet:
  assumes q: "\<forall>t a w. capital (snd (read_token_balance L t a w)) = capital w"
      "\<forall>a x y p w. capital (snd (get_amount_out L a x y p w)) = capital w"
    and ev: "evaluate_rebalancable_candidate s L G target candidate od tp cp w = Some (r, w')"
    and none: "\<And>a. r \<noteq> Inr (Some a)" and wf: "hm_wf (reservations (inner (capital w)))"
  shows "ledger_of w' \<subseteq>\<^sub>m ledger_of w"
proof -
  have bal: "reservations (inner (capital w1)) = reservations (inner (capital w))"
    if "try_get_balance L candidate w = (x, w1)" for x w1
  proof -
    have "capital w2 = capital w" if "read_token_balance L t a w = (y, w2)" for t a y w2
      using q(1) that by (metis snd_conv)
    with that show ?thesis
      by (auto simp: try_get_balance_def cache_balance_def split: option.splits prod.splits sum.splits)
  qed
  have amt: "capital w2 = capital w1" if "get_amount_out L a x y p w1 = (z, w2)" for a x y p z w1 w2
    using q(2) that by (metis snd_conv)
  have loop: "capital w2 = capital w1"
    if "probe_loop L cfg p x y price k ii oi n a w1 = (z, w2)" for cfg p x y price k ii oi n a z w1 w2
    using that by (induction n arbitrary: a w1) (auto split: prod.splits sum.splits option.splits if_splits dest!: amt)
  have probe: "capital w2 = capital w1"
    if "probe_provider s L p x y price k sw w1 = (z, w2)" for p x y price k sw z w1 w2
    using that loop by (auto simp: probe_provider_def split: option.splits)
  have best: "capital w2 = capital w1"
    if "best_provider_loop s L candidate target price k sw ps b w1 = (z, w2)" for price k sw ps b z w1 w2
    using that
    by (induction ps arbitrary: b w1) (auto split: prod.splits sum.splits option.splits dest!: probe)
  have disp: "ledger_of w2 \<subseteq>\<^sub>m ledger_of w1"
    if "dispatch_swap s G target candidate sw route w1 = Some (r, w2)" "hm_wf (reservations (inner (capital w1)))"
    for sw route w1 w2
    using that none unfolding dispatch_swap_def
    by (elim task_elims) (auto dest: reserve_in_Err)
  show ?thesis
    using ev unfolding evaluate_rebalancable_candidate_def Let_def
    by (elim task_elims) (auto simp: wf dest!: bal best disp)
qed

section \<open>A worked example\<close>

text \<open>The keeper holds 1000 of \<open>''A''\<close>, wants \<open>''B''\<close>; both are priced alike, and the provider returns the
  amount less one part in two hundred.\<close>

definition example_balancer :: balancer where
  "example_balancer = balancer_new ''K'' ''SK'' \<lparr>bl_market = ''M'', bl_xlm_address = ''XLM'',
     bl_xlm_safety_margin = 0, max_price_impact_bps = 100, bl_max_retries = 3, allowed_swap_slippage_bps = 50,
     bl_assets_to_hold = [''B''], bl_swap_providers = [''S''], bl_refresh_interval_blocks = 10,
     max_swap_provider_probes = 3, min_swap_amount_value_cents = 10\<rparr>"

definition indexed_balancer :: balancer where
  "indexed_balancer = example_balancer\<lparr>asset_index :=
     [(''A'', \<lparr>ai_decimals = 0, ai_oracle_price = 100, ai_oracle_decimals = 2\<rparr>),
      (''B'', \<lparr>ai_decimals = 0, ai_oracle_price = 100, ai_oracle_decimals = 2\<rparr>)]\<rparr>"

definition swap_ledger :: "unit ledger_reader" where
  "swap_ledger = example_ledger\<lparr>get_amount_out := (\<lambda>a x y p w. (Inr (a * 199 div 200), w))\<rparr>"

lemma example_route:
  "best_provider_loop indexed_balancer swap_ledger ''A'' ''B'' 100 2 1000 [''S''] None w =
     (Some (''S'', 1000, 995, 99), w)"
proof -
  have "compute_swap_price_impact 100 1000 995 0 0 2 = Some \<lparr>impact_bps = 100, execution_price_scaled = 99\<rparr>"
    by (simp add: compute_swap_price_impact_def abs_diff_def i128_eval BPS_FACTOR_def)
  then show ?thesis
    by (simp add: probe_provider_def indexed_balancer_def example_balancer_def balancer_new_def hm_get_def
        swap_ledger_def numeral_3_eq_3)
qed

lemma example_candidate:
  "\<exists>a w. evaluate_rebalancable_candidate indexed_balancer swap_ledger example_gateway ''B'' ''A'' 2 100 100
     example_world = Some (Inr (Some a), w)"
proof -
  define w1 where "w1 = snd (try_get_balance swap_ledger ''A'' example_world)"
  have b: "try_get_balance swap_ledger ''A'' example_world = (Inr 1000, w1)" and
    r: "reservations (inner (capital w1)) = []"
    by (simp_all add: w1_def try_get_balance_def swap_ledger_def example_ledger_def example_world_def capital_new_def
        get_freshly_cached_balance_def cache_balance_def hm_get_def)
  have cfg: "bl_config indexed_balancer = bl_config example_balancer"
    by (simp add: indexed_balancer_def)
  have s: "swappable_balance (bl_config indexed_balancer) ''A'' 1000 = 1000"
    "bl_swap_providers (bl_config indexed_balancer) = [''S'']"
    by (simp_all add: swappable_balance_def cfg example_balancer_def balancer_new_def)
  have q: "bindr (raw_pow10 2) (\<lambda>scale. bindr (raw_mul 100 scale) (\<lambda>n. raw_div n 100)) = (Ok 100 :: (unit, i128) outcome)"
    by (simp add: i128_eval)
  obtain rid w2 where res: "reserve_in 1000 1000 ''A'' w1 = (Ok rid, w2)"
  proof -
    have "\<exists>i. fst (reserve n n' i 1000 1000 ''A'' (capital w1)) = Ok i" for n n'
      using r by (simp add: reserve_def unlock_expired_def hm_retain_def amounts_of_def i128_eval)
    moreover have "fst (reserve n n' i 1000 1000 ''A'' (capital w1)) = Ok i" for n n' i
      using r by (simp add: reserve_def unlock_expired_def hm_retain_def amounts_of_def i128_eval)
    then have "fst (reserve_in 1000 1000 ''A'' w1) = Ok (fst (draw_id w1))"
      by (auto simp: reserve_in_def split: prod.splits) (metis fst_conv)
    then show ?thesis using that by (metis prod.collapse)
  qed
  have "dispatch_swap indexed_balancer example_gateway ''B'' ''A'' 1000 (''S'', 1000, 995, 99) w1 =
    Some (Inr (Some (SubmitTx \<lparr>tx_op = [''swap''], signing_key = ''SK'', max_submission_retries = 3,
      on_settle = Some \<lparr>op_id = rid, liquidation_outcome = None\<rparr>\<rparr>)), w2)"
  proof -
    have "hm_get (asset_index indexed_balancer) ''A'' =
        Some \<lparr>ai_decimals = 0, ai_oracle_price = 100, ai_oracle_decimals = 2\<rparr>"
      by (simp add: indexed_balancer_def hm_get_def)
    moreover have "compute_value_cents 1000 \<lparr>ai_decimals = 0, ai_oracle_price = 100, ai_oracle_decimals = 2\<rparr> = Ok 100000"
      by (simp add: compute_value_cents_def raw_add_u32_def u32_max_def i128_eval)
    moreover have slip: "bindr (raw_sub BPS_FACTOR 50) (\<lambda>f. raw_div (saturating_mul 995 f) BPS_FACTOR) =
        (Ok 990 :: (unit, i128) outcome)"
      by (simp add: i128_eval BPS_FACTOR_def)
    moreover have "min_swap_amount_value_cents (bl_config indexed_balancer) = 10"
      "allowed_swap_slippage_bps (bl_config indexed_balancer) = 50" "bl_skey indexed_balancer = ''SK''"
      "bl_max_retries (bl_config indexed_balancer) = 3"
      by (simp_all add: indexed_balancer_def example_balancer_def balancer_new_def)
    ultimately show ?thesis
      using res by (simp add: dispatch_swap_def pbind_def pcall_def pret_def example_gateway_def slip)
  qed
  then show ?thesis
    by (simp add: evaluate_rebalancable_candidate_def pbind_def pcall_def pret_def b s q Let_def example_route
        del: best_provider_loop.simps)
qed

section \<open>Properties\<close>

text \<open>A swap the balancer dispatches is justified and funded: one of the configured providers quoted
  it, its amount is positive and at most the balance the keeper may swap, its price impact against the
  oracle is at most the configured one, it is worth the configured minimum, its minimum output is the
  quoted output less the allowed slippage, and the amount is reserved in the ledger under the id of
  the action's settle hook.\<close>

theorem dispatched_swap_justified:
  assumes "evaluate_rebalancable_candidate s L G target candidate od target_price candidate_price w =
    Some (Inr (Some a), w')"
  shows "justified_swap s L G target candidate od target_price candidate_price w' a"
  by (rule evaluate_candidate_Some [OF assms])

theorem dispatched_swap_justified_witness:
  "\<exists>a w. evaluate_rebalancable_candidate indexed_balancer swap_ledger example_gateway ''B'' ''A'' 2 100 100
     example_world = Some (Inr (Some a), w) \<and>
     justified_swap indexed_balancer swap_ledger example_gateway ''B'' ''A'' 2 100 100 w a"
proof -
  obtain a w where "evaluate_rebalancable_candidate indexed_balancer swap_ledger example_gateway ''B'' ''A'' 2 100 100
     example_world = Some (Inr (Some a), w)" using example_candidate by blast
  from this dispatched_swap_justified [OF this] show ?thesis by blast
qed

text \<open>C23. The admitted price impact bounds the loss: when a swap of \<open>amount_in\<close> for \<open>amount_out\<close> is priced
  with an impact of at most \<open>m\<close> basis points, the output is worth at least \<open>9999 - m\<close> ten-thousandths
  of the input at the oracle's ratio, each amount counted in whole tokens of its own decimals.\<close>

theorem admitted_swap_loss_bounded:
  assumes "compute_swap_price_impact oracle_price amount_in amount_out in_decimals out_decimals od = Some imp"
    and "impact_bps imp \<le> m" "0 \<le> amount_out"
  shows "amount_in * 10 ^ out_decimals * (oracle_price * (9999 - m)) \<le>
    amount_out * 10 ^ in_decimals * 10 ^ od * BPS_FACTOR"
proof -
  from assms(1) obtain n d where c: "0 < amount_in" "0 < oracle_price" "0 < d"
    "n * (amount_in * 10 ^ out_decimals) = d * (amount_out * 10 ^ od * 10 ^ in_decimals)"
    "execution_price_scaled imp = n sdiv d"
    "impact_bps imp = ((oracle_price - execution_price_scaled imp) * BPS_FACTOR) sdiv oracle_price"
    "n = amount_out * 10 ^ od * (if out_decimals \<le> in_decimals then 10 ^ (in_decimals - out_decimals) else 1)"
    by (rule price_impact_cases)
  let ?e = "n sdiv d" and ?X = "amount_in * 10 ^ out_decimals"
  have X: "0 \<le> ?X" using c(1) by simp
  have "0 \<le> n" using c(7) assms(3) by simp
  moreover have "d * (n div d) \<le> n" using pos_mod_sign [OF c(3), of n] mult_div_mod_eq [of d n] by linarith
  ultimately have ed: "?e * d \<le> n" using c(3) by (simp add: sdiv_nonneg_eq_div mult.commute)
  have "(oracle_price - ?e) * BPS_FACTOR \<le> (m + 1) * oracle_price"
    using sdiv_le_bound [OF c(2)] c(5,6) assms(2) by simp
  then have "oracle_price * (9999 - m) \<le> ?e * BPS_FACTOR" by (simp add: BPS_FACTOR_def algebra_simps)
  then have "d * (?X * (oracle_price * (9999 - m))) \<le> d * (?X * (?e * BPS_FACTOR))"
    using X c(3) by (intro mult_left_mono) auto
  also have "\<dots> = (?e * d) * (?X * BPS_FACTOR)" by simp
  also have "\<dots> \<le> n * (?X * BPS_FACTOR)" using ed X by (intro mult_right_mono) (auto simp: BPS_FACTOR_def)
  also have "\<dots> = d * (amount_out * 10 ^ in_decimals * 10 ^ od * BPS_FACTOR)" using c(4) by (simp add: algebra_simps)
  finally show ?thesis using c(3) by (simp add: mult_le_cancel_left)
qed

theorem admitted_swap_loss_bounded_witness:
  "compute_swap_price_impact 100 1000 995 0 0 2 = Some \<lparr>impact_bps = 100, execution_price_scaled = 99\<rparr> \<and>
   1000 * (100 * (9999 - 100)) \<le> 995 * 100 * BPS_FACTOR"
proof -
  have "compute_swap_price_impact 100 1000 995 0 0 2 = Some \<lparr>impact_bps = 100, execution_price_scaled = 99\<rparr>"
    by (simp add: compute_swap_price_impact_def abs_diff_def i128_eval BPS_FACTOR_def)
  from this admitted_swap_loss_bounded [OF this, of 100] show ?thesis by simp
qed

text \<open>An exact quote has no price impact: an output that is exactly the oracle's value of the input, in
  whole tokens of whatever decimals, is reported with an impact of zero and the oracle's own price,
  unless an intermediate product leaves the range of the type.\<close>

theorem exact_quote_no_impact:
  assumes "compute_swap_price_impact oracle_price amount_in amount_out in_decimals out_decimals od = Some imp"
    and "amount_out * 10 ^ od * 10 ^ in_decimals = oracle_price * (amount_in * 10 ^ out_decimals)"
  shows "imp = \<lparr>impact_bps = 0, execution_price_scaled = oracle_price\<rparr>"
proof -
  from assms(1) obtain n d where c: "0 < amount_in" "0 < oracle_price" "0 < d"
    "n * (amount_in * 10 ^ out_decimals) = d * (amount_out * 10 ^ od * 10 ^ in_decimals)"
    "execution_price_scaled imp = n sdiv d"
    "impact_bps imp = ((oracle_price - execution_price_scaled imp) * BPS_FACTOR) sdiv oracle_price"
    by (rule price_impact_cases)
  have "n * (amount_in * 10 ^ out_decimals) = (d * oracle_price) * (amount_in * 10 ^ out_decimals)"
    using c(4) assms(2) by simp
  then have "n = oracle_price * d" using c(1) by simp
  then have "n sdiv d = oracle_price" using c(2,3) by (simp add: sdiv_nonneg_eq_div)
  then show ?thesis using c(5,6) by (cases imp) simp
qed

theorem exact_quote_no_impact_witness:
  "compute_swap_price_impact 200 1000 20000 0 1 2 = Some \<lparr>impact_bps = 0, execution_price_scaled = 200\<rparr>"
proof -
  obtain imp where "compute_swap_price_impact 200 1000 20000 0 1 2 = Some imp"
    by (simp add: compute_swap_price_impact_def abs_diff_def i128_eval BPS_FACTOR_def)
  with exact_quote_no_impact [OF this] show ?thesis by simp
qed

text \<open>A candidate that is not swapped reserves nothing: with balance and quote reads that leave the
  capital ledger alone, after an evaluation that returned no action every reservation of the ledger was
  there before.\<close>

theorem unswapped_candidate_reserves_nothing:
  assumes "\<forall>t a w. capital (snd (read_token_balance L t a w)) = capital w"
      "\<forall>a x y p w. capital (snd (get_amount_out L a x y p w)) = capital w"
    and "evaluate_rebalancable_candidate s L G target candidate od tp cp w = Some (r, w')"
    and "case r of Inr (Some a) \<Rightarrow> False | _ \<Rightarrow> True" and "hm_wf (reservations (inner (capital w)))"
  shows "hm_get (reservations (inner (capital w'))) \<subseteq>\<^sub>m hm_get (reservations (inner (capital w)))"
  by (rule evaluate_candidate_quiet [OF assms(1-3)]) (use assms(4,5) in auto)

theorem unswapped_candidate_reserves_nothing_witness:
  "\<exists>w. evaluate_rebalancable_candidate indexed_balancer swap_ledger example_gateway ''B'' ''A'' 2 0 100
     example_world = Some (Inr None, w) \<and> hm_get (reservations (inner (capital w))) \<subseteq>\<^sub>m Map.empty"
proof -
  define w1 where "w1 = snd (try_get_balance swap_ledger ''A'' example_world)"
  have b: "try_get_balance swap_ledger ''A'' example_world = (Inr 1000, w1)"
    by (simp add: w1_def try_get_balance_def swap_ledger_def example_ledger_def example_world_def capital_new_def
        get_freshly_cached_balance_def hm_get_def)
  have ev: "evaluate_rebalancable_candidate indexed_balancer swap_ledger example_gateway ''B'' ''A'' 2 0 100
     example_world = Some (Inr None, w1)"
    by (simp add: evaluate_rebalancable_candidate_def pbind_def pcall_def b Let_def pret_def)
  have "hm_get (reservations (inner (capital w1))) \<subseteq>\<^sub>m hm_get (reservations (inner (capital example_world)))"
    by (rule unswapped_candidate_reserves_nothing [OF _ _ ev])
       (simp_all add: swap_ledger_def example_ledger_def example_world_def capital_new_def)
  moreover have "hm_get (reservations (inner (capital example_world))) = Map.empty"
    by (simp add: example_world_def capital_new_def hm_get_def fun_eq_iff)
  ultimately show ?thesis using ev by auto
qed

end
