(* ===== verification/Config.thy ===== *)
theory Config
  imports Liquidator_Correct Withdrawer Bad_Debt Balancer "HOL-Library.Sublist"
begin

text \<open>
  \<^verbatim>\<open>keeper/src/config.rs\<close>: the configuration of the keeper, its defaults and its validation, and the
  part of \<^verbatim>\<open>keeper/src/main.rs\<close> that distributes it over the components.  Reading the file and the
  environment (crate \<open>config\<close>) is outside: what it delivers is a \<open>raw_config\<close>, or an error.
\<close>

section \<open>Data\<close>

text \<open>The fields of \<open>CliConfig\<close>.  \<open>'i\<close> is the type of the amounts that pass through \<open>de_i128\<close>, \<open>'n\<close> and
  \<open>'d\<close> those of the fields with a default: before deserialization a 64-bit integer and an option.\<close>

record ('i, 'n, 'd) config_fields =
  cli_rpc_url :: string
  cli_db_path :: string
  cli_markets :: "string list"
  cli_xlm_address :: string
  cli_xlm_safety_margin :: 'i
  cli_default_simulation_fee :: nat
  cli_network_passphrase :: string
  cli_assets_to_hold :: "string list"
  cli_swap_providers :: "string list"
  cli_metrics_bind_addr :: string
  cli_readiness_staleness_budget_secs :: 'n
  cli_event_collector_start_ledger :: nat
  cli_keeper_capital_balance_ttl_secs :: nat
  cli_keeper_capital_reservation_ttl_secs :: nat
  cli_ledger_collector_polling_interval_secs :: nat
  cli_market_dust_rules :: 'd
  cli_bad_debt_request_initiator_max_retries :: nat
  cli_bad_debt_request_initiator_refresh_interval_blocks :: nat
  cli_withdrawer_max_retries :: nat
  cli_withdrawer_refresh_interval_blocks :: nat
  cli_withdrawer_min_withdraw_value_cents :: 'i
  cli_withdrawer_utilization_safety_margin_bps :: 'i
  cli_liquidator_max_retries :: nat
  cli_liquidator_refresh_interval_blocks :: nat
  cli_liquidator_max_market_data_age_secs :: 'n
  cli_liquidator_min_profit_margin_cents :: 'i
  cli_liquidator_max_allowed_swap_slippage_bps :: 'i
  cli_balancer_max_retries :: nat
  cli_balancer_refresh_interval_blocks :: nat
  cli_balancer_max_allowed_swap_slippage_bps :: 'i
  cli_balancer_max_price_impact_bps :: 'i
  cli_balancer_max_swap_provider_probes :: nat
  cli_balancer_min_swap_amount_value_cents :: 'i

type_synonym raw_config = "(64 word, nat option, dust_rules option) config_fields"
type_synonym cli_config = "(i128, nat, dust_rules) config_fields"

definition default_readiness_staleness_budget_secs :: nat where
  "default_readiness_staleness_budget_secs = 120"

definition default_liquidator_max_market_data_age_secs :: nat where
  "default_liquidator_max_market_data_age_secs = 60"

text \<open>\<open>i64::deserialize(..)? as i128\<close>.\<close>

definition de_i128 :: "64 word \<Rightarrow> i128" where
  "de_i128 w = sint w"

definition or_default :: "'a \<Rightarrow> 'a option \<Rightarrow> 'a" where
  "or_default d v = (case v of None \<Rightarrow> d | Some x \<Rightarrow> x)"

definition try_deserialize :: "raw_config \<Rightarrow> cli_config" where
  "try_deserialize r = \<lparr>
     cli_rpc_url = cli_rpc_url r,
     cli_db_path = cli_db_path r,
     cli_markets = cli_markets r,
     cli_xlm_address = cli_xlm_address r,
     cli_xlm_safety_margin = de_i128 (cli_xlm_safety_margin r),
     cli_default_simulation_fee = cli_default_simulation_fee r,
     cli_network_passphrase = cli_network_passphrase r,
     cli_assets_to_hold = cli_assets_to_hold r,
     cli_swap_providers = cli_swap_providers r,
     cli_metrics_bind_addr = cli_metrics_bind_addr r,
     cli_readiness_staleness_budget_secs =
       or_default default_readiness_staleness_budget_secs (cli_readiness_staleness_budget_secs r),
     cli_event_collector_start_ledger = cli_event_collector_start_ledger r,
     cli_keeper_capital_balance_ttl_secs = cli_keeper_capital_balance_ttl_secs r,
     cli_keeper_capital_reservation_ttl_secs = cli_keeper_capital_reservation_ttl_secs r,
     cli_ledger_collector_polling_interval_secs = cli_ledger_collector_polling_interval_secs r,
     cli_market_dust_rules = or_default Sweep (cli_market_dust_rules r),
     cli_bad_debt_request_initiator_max_retries = cli_bad_debt_request_initiator_max_retries r,
     cli_bad_debt_request_initiator_refresh_interval_blocks =
       cli_bad_debt_request_initiator_refresh_interval_blocks r,
     cli_withdrawer_max_retries = cli_withdrawer_max_retries r,
     cli_withdrawer_refresh_interval_blocks = cli_withdrawer_refresh_interval_blocks r,
     cli_withdrawer_min_withdraw_value_cents = de_i128 (cli_withdrawer_min_withdraw_value_cents r),
     cli_withdrawer_utilization_safety_margin_bps = de_i128 (cli_withdrawer_utilization_safety_margin_bps r),
     cli_liquidator_max_retries = cli_liquidator_max_retries r,
     cli_liquidator_refresh_interval_blocks = cli_liquidator_refresh_interval_blocks r,
     cli_liquidator_max_market_data_age_secs =
       or_default default_liquidator_max_market_data_age_secs (cli_liquidator_max_market_data_age_secs r),
     cli_liquidator_min_profit_margin_cents = de_i128 (cli_liquidator_min_profit_margin_cents r),
     cli_liquidator_max_allowed_swap_slippage_bps = de_i128 (cli_liquidator_max_allowed_swap_slippage_bps r),
     cli_balancer_max_retries = cli_balancer_max_retries r,
     cli_balancer_refresh_interval_blocks = cli_balancer_refresh_interval_blocks r,
     cli_balancer_max_allowed_swap_slippage_bps = de_i128 (cli_balancer_max_allowed_swap_slippage_bps r),
     cli_balancer_max_price_impact_bps = de_i128 (cli_balancer_max_price_impact_bps r),
     cli_balancer_max_swap_provider_probes = cli_balancer_max_swap_provider_probes r,
     cli_balancer_min_swap_amount_value_cents = de_i128 (cli_balancer_min_swap_amount_value_cents r)\<rparr>"

section \<open>Validation\<close>

definition validate_stellar_address :: "string \<Rightarrow> bool" where
  "validate_stellar_address addr \<longleftrightarrow>
     \<not> (length addr \<noteq> 56 \<or> (\<not> prefix ''C'' addr \<and> \<not> prefix ''G'' addr))"

definition validate_stellar_addresses :: "string list \<Rightarrow> bool" where
  "validate_stellar_addresses addrs \<longleftrightarrow> list_all validate_stellar_address addrs"

text \<open>\<open>config.validate()\<close> runs every validator and reports the fields that fail.\<close>

definition range_error :: "string \<Rightarrow> bool \<Rightarrow> string list" where
  "range_error field ok = (if ok then [] else [field])"

definition validate :: "cli_config \<Rightarrow> string list" where
  "validate c = concat [
     range_error ''markets'' (1 \<le> length (cli_markets c) \<and> validate_stellar_addresses (cli_markets c)),
     range_error ''xlm_address'' (length (cli_xlm_address c) = 56),
     range_error ''xlm_safety_margin'' (1 \<le> cli_xlm_safety_margin c),
     range_error ''default_simulation_fee'' (100 \<le> cli_default_simulation_fee c),
     range_error ''network_passphrase'' (1 \<le> length (cli_network_passphrase c)),
     range_error ''assets_to_hold''
       (1 \<le> length (cli_assets_to_hold c) \<and> validate_stellar_addresses (cli_assets_to_hold c)),
     range_error ''swap_providers''
       (1 \<le> length (cli_swap_providers c) \<and> validate_stellar_addresses (cli_swap_providers c)),
     range_error ''readiness_staleness_budget_secs'' (1 \<le> cli_readiness_staleness_budget_secs c),
     range_error ''keeper_capital_balance_ttl_secs''
       (1 \<le> cli_keeper_capital_balance_ttl_secs c \<and> cli_keeper_capital_balance_ttl_secs c \<le> 10),
     range_error ''keeper_capital_reservation_ttl_secs''
       (1 \<le> cli_keeper_capital_reservation_ttl_secs c \<and> cli_keeper_capital_reservation_ttl_secs c \<le> 30),
     range_error ''ledger_collector_polling_interval_secs'' (1 \<le> cli_ledger_collector_polling_interval_secs c),
     range_error ''bad_debt_request_initiator_max_retries''
       (1 \<le> cli_bad_debt_request_initiator_max_retries c \<and> cli_bad_debt_request_initiator_max_retries c \<le> 50),
     range_error ''bad_debt_request_initiator_refresh_interval_blocks''
       (1 \<le> cli_bad_debt_request_initiator_refresh_interval_blocks c),
     range_error ''withdrawer_max_retries''
       (1 \<le> cli_withdrawer_max_retries c \<and> cli_withdrawer_max_retries c \<le> 50),
     range_error ''withdrawer_refresh_interval_blocks'' (1 \<le> cli_withdrawer_refresh_interval_blocks c),
     range_error ''withdrawer_min_withdraw_value_cents'' (0 \<le> cli_withdrawer_min_withdraw_value_cents c),
     range_error ''withdrawer_utilization_safety_margin_bps''
       (0 \<le> cli_withdrawer_utilization_safety_margin_bps c \<and>
        cli_withdrawer_utilization_safety_margin_bps c \<le> 10000),
     range_error ''liquidator_max_retries''
       (1 \<le> cli_liquidator_max_retries c \<and> cli_liquidator_max_retries c \<le> 50),
     range_error ''liquidator_refresh_interval_blocks'' (1 \<le> cli_liquidator_refresh_interval_blocks c),
     range_error ''liquidator_max_market_data_age_secs'' (1 \<le> cli_liquidator_max_market_data_age_secs c),
     range_error ''liquidator_min_profit_margin_cents'' (- 1000 \<le> cli_liquidator_min_profit_margin_cents c),
     range_error ''liquidator_max_allowed_swap_slippage_bps''
       (0 \<le> cli_liquidator_max_allowed_swap_slippage_bps c \<and>
        cli_liquidator_max_allowed_swap_slippage_bps c \<le> 10000),
     range_error ''balancer_max_retries''
       (1 \<le> cli_balancer_max_retries c \<and> cli_balancer_max_retries c \<le> 50),
     range_error ''balancer_refresh_interval_blocks'' (1 \<le> cli_balancer_refresh_interval_blocks c),
     range_error ''balancer_max_allowed_swap_slippage_bps''
       (0 \<le> cli_balancer_max_allowed_swap_slippage_bps c \<and>
        cli_balancer_max_allowed_swap_slippage_bps c \<le> 10000),
     range_error ''balancer_max_price_impact_bps''
       (0 \<le> cli_balancer_max_price_impact_bps c \<and> cli_balancer_max_price_impact_bps c \<le> 10000),
     range_error ''balancer_max_swap_provider_probes'' (1 \<le> cli_balancer_max_swap_provider_probes c),
     range_error ''balancer_min_swap_amount_value_cents'' (0 \<le> cli_balancer_min_swap_amount_value_cents c)]"

text \<open>\<open>CliConfig::load\<close>: the sources are read and deserialized, then validated.\<close>

datatype load_error = Unreadable string | Invalid "string list"

definition load :: "string + raw_config \<Rightarrow> load_error + cli_config" where
  "load sources =
     (case sources of
        Inl e \<Rightarrow> Inl (Unreadable e)
      | Inr r \<Rightarrow>
          (let c = try_deserialize r; errors = validate c in
           if errors = [] then Inr c else Inl (Invalid errors)))"

section \<open>Distribution over the components\<close>

text \<open>The clocks of the world count nanoseconds, as \<open>Instant\<close> and \<open>Duration\<close> do.\<close>

definition from_secs :: "nat \<Rightarrow> nat" where
  "from_secs n = n * 10 ^ 9"

definition capital_config_of :: "cli_config \<Rightarrow> capital_config" where
  "capital_config_of c = \<lparr>cap_xlm_address = cli_xlm_address c,
     reservation_ttl = from_secs (cli_keeper_capital_reservation_ttl_secs c),
     balance_cache_ttl = from_secs (cli_keeper_capital_balance_ttl_secs c)\<rparr>"

definition bad_debt_config_of :: "cli_config \<Rightarrow> bad_debt_config" where
  "bad_debt_config_of c = \<lparr>bd_max_retries = cli_bad_debt_request_initiator_max_retries c,
     bd_markets = cli_markets c,
     bd_refresh_interval_blocks = cli_bad_debt_request_initiator_refresh_interval_blocks c,
     bd_dust_rules = cli_market_dust_rules c,
     bd_min_profit_margin_cents = cli_liquidator_min_profit_margin_cents c\<rparr>"

definition liquidator_config_of :: "cli_config \<Rightarrow> liquidator_config" where
  "liquidator_config_of c = \<lparr>max_retries = cli_liquidator_max_retries c,
     xlm_address = cli_xlm_address c,
     markets = cli_markets c,
     xlm_safety_margin = cli_xlm_safety_margin c,
     assets_to_hold = cli_assets_to_hold c,
     swap_providers = cli_swap_providers c,
     refresh_interval_blocks = cli_liquidator_refresh_interval_blocks c,
     min_profit_margin_cents = cli_liquidator_min_profit_margin_cents c,
     max_market_data_age = from_secs (cli_liquidator_max_market_data_age_secs c),
     max_allowed_swap_slippage_bps = cli_liquidator_max_allowed_swap_slippage_bps c,
     cfg_dust_rules = cli_market_dust_rules c\<rparr>"

definition withdrawer_config_of :: "cli_config \<Rightarrow> withdrawer_config" where
  "withdrawer_config_of c = \<lparr>wd_max_retries = cli_withdrawer_max_retries c,
     wd_markets = cli_markets c,
     wd_refresh_interval_blocks = cli_withdrawer_refresh_interval_blocks c,
     min_withdraw_value_cents = cli_withdrawer_min_withdraw_value_cents c,
     utilization_safety_margin_bps = cli_withdrawer_utilization_safety_margin_bps c\<rparr>"

text \<open>The balancer works in the first market: \<open>markets[0]\<close> aborts on an empty list.\<close>

definition balancer_config_of :: "cli_config \<Rightarrow> (string, balancer_config) outcome" where
  "balancer_config_of c =
     (case cli_markets c of
        [] \<Rightarrow> Panic
      | market # _ \<Rightarrow> Ok \<lparr>bl_market = market,
          bl_xlm_address = cli_xlm_address c,
          bl_xlm_safety_margin = cli_xlm_safety_margin c,
          max_price_impact_bps = cli_balancer_max_price_impact_bps c,
          bl_max_retries = cli_balancer_max_retries c,
          allowed_swap_slippage_bps = cli_balancer_max_allowed_swap_slippage_bps c,
          bl_assets_to_hold = cli_assets_to_hold c,
          bl_swap_providers = cli_swap_providers c,
          bl_refresh_interval_blocks = cli_balancer_refresh_interval_blocks c,
          max_swap_provider_probes = cli_balancer_max_swap_provider_probes c,
          min_swap_amount_value_cents = cli_balancer_min_swap_amount_value_cents c\<rparr>)"

section \<open>What a loaded configuration guarantees\<close>

lemma range_error_Nil [simp]: "range_error field ok = [] \<longleftrightarrow> ok"
  by (simp add: range_error_def)

lemma load_Inr_iff: "load sources = Inr c \<longleftrightarrow> (\<exists>r. sources = Inr r \<and> c = try_deserialize r \<and> validate c = [])"
  by (auto simp: load_def Let_def split: sum.splits)

lemma de_i128_range: "- (2 ^ 63) \<le> de_i128 w \<and> de_i128 w < 2 ^ 63"
  using sint_greater_eq [of w] sint_lt [of w] by (simp add: de_i128_def)

text \<open>Every strategy gets a retry limit between 1 and 50, a positive refresh interval and at least one
  market; the limits in basis points are proportions; the balancer has a market and an asset to hold.\<close>

definition sane_retries :: "nat \<Rightarrow> bool" where
  "sane_retries n \<longleftrightarrow> 1 \<le> n \<and> n \<le> 50"

definition proportion_bps :: "i128 \<Rightarrow> bool" where
  "proportion_bps b \<longleftrightarrow> 0 \<le> b \<and> b \<le> BPS_FACTOR"

lemmas config_of_defs =
  bad_debt_config_of_def liquidator_config_of_def withdrawer_config_of_def capital_config_of_def

lemma validated_retries:
  assumes "validate c = []"
  shows "sane_retries (max_retries (liquidator_config_of c))" "sane_retries (wd_max_retries (withdrawer_config_of c))"
    "sane_retries (bd_max_retries (bad_debt_config_of c))" "sane_retries (cli_balancer_max_retries c)"
  using assms by (simp_all add: validate_def config_of_defs sane_retries_def)

lemma validated_markets: "validate c = [] \<Longrightarrow> cli_markets c \<noteq> [] \<and> cli_assets_to_hold c \<noteq> []"
  by (auto simp: validate_def)

text \<open>The least output a swap is asked for.\<close>

lemma slippage_floor_bounds:
  assumes "proportion_bps b" "0 \<le> out"
  shows "0 \<le> saturating_mul out (BPS_FACTOR - b) sdiv BPS_FACTOR"
    "saturating_mul out (BPS_FACTOR - b) sdiv BPS_FACTOR \<le> out"
proof -
  let ?m = "saturating_mul out (BPS_FACTOR - b)"
  have f: "0 \<le> BPS_FACTOR - b" "BPS_FACTOR - b \<le> BPS_FACTOR" "0 < BPS_FACTOR"
    using assms(1) by (simp_all add: proportion_bps_def BPS_FACTOR_def)
  have "0 \<le> out * (BPS_FACTOR - b)" using f assms(2) by simp
  then have m: "0 \<le> ?m" "?m \<le> out * (BPS_FACTOR - b)"
    by (auto simp: saturating_mul_def clamp_i128_def i128_eval)
  have "?m sdiv BPS_FACTOR = ?m div BPS_FACTOR" using m(1) f(3) by (simp add: sdiv_nonneg_eq_div)
  moreover have "?m div BPS_FACTOR \<le> out"
  proof -
    have "?m \<le> out * BPS_FACTOR" using m(2) f assms(2) by (meson mult_left_mono order_trans)
    then show ?thesis using f(3) by (metis nonzero_mult_div_cancel_right order_less_irrefl zdiv_mono1)
  qed
  ultimately show "0 \<le> ?m sdiv BPS_FACTOR" "?m sdiv BPS_FACTOR \<le> out"
    using m(1) f(3) by (simp_all add: pos_imp_zdiv_nonneg_iff)
qed

section \<open>A worked example\<close>

definition example_raw :: raw_config where
  "example_raw = \<lparr>
     cli_rpc_url = ''http://localhost:8000'', cli_db_path = ''keeper.db'',
     cli_markets = [replicate 56 CHR ''C''], cli_xlm_address = replicate 56 CHR ''C'',
     cli_xlm_safety_margin = 100, cli_default_simulation_fee = 100, cli_network_passphrase = ''test'',
     cli_assets_to_hold = [replicate 56 CHR ''G''], cli_swap_providers = [replicate 56 CHR ''G''],
     cli_metrics_bind_addr = ''0.0.0.0:9000'', cli_readiness_staleness_budget_secs = None,
     cli_event_collector_start_ledger = 1, cli_keeper_capital_balance_ttl_secs = 5,
     cli_keeper_capital_reservation_ttl_secs = 30, cli_ledger_collector_polling_interval_secs = 1,
     cli_market_dust_rules = Some NoDust, cli_bad_debt_request_initiator_max_retries = 3,
     cli_bad_debt_request_initiator_refresh_interval_blocks = 10, cli_withdrawer_max_retries = 3,
     cli_withdrawer_refresh_interval_blocks = 7, cli_withdrawer_min_withdraw_value_cents = 0,
     cli_withdrawer_utilization_safety_margin_bps = 0, cli_liquidator_max_retries = 3,
     cli_liquidator_refresh_interval_blocks = 2, cli_liquidator_max_market_data_age_secs = None,
     cli_liquidator_min_profit_margin_cents = - 1000, cli_liquidator_max_allowed_swap_slippage_bps = 50,
     cli_balancer_max_retries = 3, cli_balancer_refresh_interval_blocks = 7,
     cli_balancer_max_allowed_swap_slippage_bps = 50, cli_balancer_max_price_impact_bps = 100,
     cli_balancer_max_swap_provider_probes = 4, cli_balancer_min_swap_amount_value_cents = 0\<rparr>"

definition example_cli :: cli_config where
  "example_cli = try_deserialize example_raw"

lemma example_address: "validate_stellar_address (replicate 56 CHR ''C'')" "validate_stellar_address (replicate 56 CHR ''G'')"
  by (simp_all add: validate_stellar_address_def prefix_def numeral_eq_Suc)

lemma example_load: "load (Inr example_raw) = Inr example_cli"
  unfolding load_Inr_iff example_cli_def
  by (simp add: validate_def try_deserialize_def example_raw_def validate_stellar_addresses_def example_address
      de_i128_def or_default_def default_readiness_staleness_budget_secs_def
      default_liquidator_max_market_data_age_secs_def)

section \<open>Properties\<close>

text \<open>C34. What is loaded is safe to run: the balancer's configuration exists, each strategy submits an
  action at most 50 times, the swap limits are proportions, so that the least output a swap is asked
  for lies between zero and the quoted output, reservations live at most 30 seconds, and every amount
  fits in 64 bits.\<close>

theorem loaded_config_sound:
  assumes "load sources = Inr c"
  shows "\<exists>bl. balancer_config_of c = Ok bl \<and> bl_market bl \<in> set (cli_markets c) \<and>
      list_all sane_retries [max_retries (liquidator_config_of c), wd_max_retries (withdrawer_config_of c),
        bd_max_retries (bad_debt_config_of c), bl_max_retries bl] \<and>
      (\<forall>out \<ge> 0. saturating_mul out (BPS_FACTOR - allowed_swap_slippage_bps bl) sdiv BPS_FACTOR \<in> {0..out}) \<and>
      proportion_bps (max_price_impact_bps bl) \<and>
      proportion_bps (max_allowed_swap_slippage_bps (liquidator_config_of c)) \<and>
      reservation_ttl (capital_config_of c) \<le> from_secs 30 \<and>
      list_all (\<lambda>x. - (2 ^ 63) \<le> x \<and> x < 2 ^ 63)
        [xlm_safety_margin (liquidator_config_of c), min_profit_margin_cents (liquidator_config_of c),
         min_withdraw_value_cents (withdrawer_config_of c), min_swap_amount_value_cents bl]"
proof -
  from assms obtain r where c: "c = try_deserialize r" and v: "validate c = []" by (auto simp: load_Inr_iff)
  from validated_markets [OF v] obtain m ms where m: "cli_markets c = m # ms" by (cases "cli_markets c") auto
  have bps: "proportion_bps (cli_balancer_max_allowed_swap_slippage_bps c)"
    "proportion_bps (cli_balancer_max_price_impact_bps c)"
    "proportion_bps (cli_liquidator_max_allowed_swap_slippage_bps c)"
    "cli_keeper_capital_reservation_ttl_secs c \<le> 30"
    using v by (simp_all add: validate_def proportion_bps_def BPS_FACTOR_def)
  have i64: "list_all (\<lambda>x. - (2 ^ 63) \<le> x \<and> x < 2 ^ 63)
        [cli_xlm_safety_margin c, cli_liquidator_min_profit_margin_cents c,
         cli_withdrawer_min_withdraw_value_cents c, cli_balancer_min_swap_amount_value_cents c]"
    unfolding c try_deserialize_def using de_i128_range by simp
  show ?thesis
    using validated_retries [OF v] bps i64 slippage_floor_bounds [OF bps(1)]
    by (simp add: balancer_config_of_def m config_of_defs from_secs_def)
qed

theorem loaded_config_sound_witness:
  "\<exists>bl. balancer_config_of example_cli = Ok bl \<and> bl_market bl = replicate 56 CHR ''C'' \<and>
     sane_retries (bl_max_retries bl) \<and> proportion_bps (max_price_impact_bps bl)"
proof -
  have "cli_markets example_cli = [replicate 56 CHR ''C'']"
    by (simp add: example_cli_def try_deserialize_def example_raw_def)
  then show ?thesis using loaded_config_sound [OF example_load] by auto
qed

end
