(* ===== verification/Rpc.thy ===== *)
theory Rpc
  imports World
begin

text \<open>
  The RPC client of the Stellar network, third-party code that the executor
  (\<^verbatim>\<open>keeper/src/execute/stellar_tx.rs\<close>) and the gateway (\<^verbatim>\<open>keeper/src/stellar/client.rs\<close>) call: the
  transactions they hand to it and the record of the calls they make.
\<close>

section \<open>Transactions\<close>

text \<open>The fields of a \<open>stellar_xdr::Transaction\<close> the executor sets; the precondition and the memo are
  always empty.  \<open>ext\<close> is \<open>None\<close> for \<open>V0\<close>.\<close>

record ('op, 'd) transaction =
  source_account :: "8 word list"
  fee :: nat
  tx_seq_num :: int
  operations :: "'op list"
  ext :: "'d option"

record ('op, 'd) envelope =
  env_tx :: "('op, 'd) transaction"
  signatures :: "(8 word list \<times> 8 word list) list"

record sim_result =
  sr_auth :: "string list"

record sim_response =
  sim_error :: "string option"
  transaction_data :: string
  results :: "sim_result list"
  min_resource_fee :: nat

section \<open>The client\<close>

record ('w, 'op, 'd) rpc_client =
  get_account_seq :: "string \<Rightarrow> ('w, rpc_error + int) call"
  simulate_transaction_envelope :: "('op, 'd) envelope \<Rightarrow> ('w, rpc_error + sim_response) call"
  send_transaction :: "('op, 'd) envelope \<Rightarrow> ('w, rpc_error + 8 word list) call"
  get_transaction_polling :: "8 word list \<Rightarrow> ('w, rpc_error + unit) call"
  sleep_millis :: "nat \<Rightarrow> ('w, unit) call"

end
