(* ===== verification/Executor.thy ===== *)
theory Executor
  imports Liquidator_Correct Rpc
begin

text \<open>
  \<^verbatim>\<open>keeper/src/execute/stellar_tx.rs\<close>: the executor that submits an action as a Stellar transaction,
  with its bounded retries, and the detached task that polls for the receipt.  Both give the capital
  of the action back through its settle hook.  The RPC client, the XDR and hex codecs and the
  cryptographic primitives are third-party code and parameters of the model.
\<close>

section \<open>Third-party parameters\<close>

text \<open>\<open>set_auth\<close> replaces the authorization of an invoke-host-function operation and is \<open>None\<close> on any
  other operation.\<close>

record ('op, 'auth, 'd) primitives =
  data_from_xdr_base64 :: "string \<Rightarrow> rpc_error + 'd"
  auth_from_xdr_base64 :: "string \<Rightarrow> rpc_error + 'auth"
  set_auth :: "'op \<Rightarrow> ('auth list \<Rightarrow> 'op) option"
  payload_to_xdr :: "8 word list \<Rightarrow> ('op, 'd) transaction \<Rightarrow> rpc_error + 8 word list"
  sha256 :: "8 word list \<Rightarrow> 8 word list"
  str_bytes :: "string \<Rightarrow> 8 word list"
  verifying_key :: "string \<Rightarrow> 8 word list"
  ed25519_sign :: "string \<Rightarrow> 8 word list \<Rightarrow> 8 word list"
  hex_encode :: "8 word list \<Rightarrow> string"
  hex_decode :: "string \<Rightarrow> rpc_error + 8 word list"

record soroban_executor =
  ex_pkey :: string
  network_passphrase :: string
  default_simulation_fee :: nat

definition executor_new :: "string \<Rightarrow> nat \<Rightarrow> string \<Rightarrow> soroban_executor" where
  "executor_new pkey default_fee passphrase =
     \<lparr>ex_pkey = pkey, network_passphrase = passphrase, default_simulation_fee = default_fee\<rparr>"

section \<open>Building and sending\<close>

definition i64_max :: int where
  "i64_max = 2 ^ 63 - 1"

definition fetch_seq_num ::
  "soroban_executor \<Rightarrow> ('w, 'op, 'd) rpc_client \<Rightarrow> ('w, rpc_error + int) call" where
  "fetch_seq_num ex rpc w =
     (case get_account_seq rpc (ex_pkey ex) w of
        (Inl e, w') \<Rightarrow> (Inl e, w')
      | (Inr n, w') \<Rightarrow> (Inr (min (n + 1) i64_max), w'))"

definition empty_simulation_error :: "string option \<Rightarrow> rpc_error" where
  "empty_simulation_error e =
     (case e of
        Some detail \<Rightarrow> ''simulation returned no results: '' @ detail
      | None \<Rightarrow> ''simulation returned no results'')"

definition sign_transaction ::
  "('op, 'auth, 'd) primitives \<Rightarrow> ('op, 'd) transaction \<Rightarrow> string \<Rightarrow> string \<Rightarrow> rpc_error + ('op, 'd) envelope"
where
  "sign_transaction P tx key passphrase =
     (case payload_to_xdr P (sha256 P (str_bytes P passphrase)) tx of
        Inl e \<Rightarrow> Inl e
      | Inr payload \<Rightarrow>
          (let sig = ed25519_sign P key (sha256 P payload);
               hint = take 4 (drop 28 (verifying_key P key))
           in Inr \<lparr>env_tx = tx, signatures = [(hint, sig)]\<rparr>))"

text \<open>A list of entries longer than a \<open>VecM\<close> can hold is dropped with a warning.\<close>

fun attach_auth ::
  "('op, 'auth, 'd) primitives \<Rightarrow> sim_result list \<Rightarrow> 'op list \<Rightarrow> rpc_error + 'op list" where
  "attach_auth P rs [] = Inr []"
| "attach_auth P rs (op # ops) =
     (case (case (rs, set_auth P op) of
              (r # _, Some put) \<Rightarrow>
                if sr_auth r = [] then Inr op
                else (case collect_results (auth_from_xdr_base64 P) (sr_auth r) of
                        Inl e \<Rightarrow> Inl e
                      | Inr entries \<Rightarrow> Inr (if length entries \<le> u32_max then put entries else op))
            | _ \<Rightarrow> Inr op) of
        Inl e \<Rightarrow> Inl e
      | Inr op' \<Rightarrow>
          (case attach_auth P (tl rs) ops of Inl e \<Rightarrow> Inl e | Inr ops' \<Rightarrow> Inr (op' # ops')))"

definition buffered_fee :: "nat \<Rightarrow> nat" where
  "buffered_fee min_fee = min (min_fee * 3) u32_max div 2"

text \<open>The transaction completed with what the simulation reported.\<close>

definition assemble ::
  "('op, 'auth, 'd) primitives \<Rightarrow> ('op, 'd) transaction \<Rightarrow> sim_response \<Rightarrow> rpc_error + ('op, 'd) transaction"
where
  "assemble P tx sim =
     (case (if transaction_data sim = [] then Inr (ext tx)
            else (case data_from_xdr_base64 P (transaction_data sim) of Inl e \<Rightarrow> Inl e | Inr d \<Rightarrow> Inr (Some d))) of
        Inl e \<Rightarrow> Inl e
      | Inr x \<Rightarrow>
          (case attach_auth P (results sim) (operations tx) of
             Inl e \<Rightarrow> Inl e
           | Inr ops \<Rightarrow>
               if min_resource_fee sim > u32_max
               then Inl (''simulated min_resource_fee ('' @ show_nat (min_resource_fee sim) @ '') exceeds u32::MAX'')
               else Inr (tx\<lparr>ext := x, operations := ops, fee := max (fee tx) (buffered_fee (min_resource_fee sim))\<rparr>)))"

definition initial_tx :: "8 word list \<Rightarrow> nat \<Rightarrow> int \<Rightarrow> 'op \<Rightarrow> ('op, 'd) transaction" where
  "initial_tx source default_fee seq op =
     \<lparr>source_account = source, fee = default_fee, tx_seq_num = seq, operations = [op], ext = None\<rparr>"

definition build_and_send ::
  "('w, 'op, 'd) rpc_client \<Rightarrow> ('op, 'auth, 'd) primitives \<Rightarrow> int \<Rightarrow> string \<Rightarrow> 'op submit_stellar_tx \<Rightarrow> nat \<Rightarrow>
     8 word list \<Rightarrow> ('w, rpc_error + string) call" where
  "build_and_send rpc P seq passphrase act default_fee source w =
     (let tx = initial_tx source default_fee seq (tx_op act) in
      case simulate_transaction_envelope rpc \<lparr>env_tx = tx, signatures = []\<rparr> w of
        (Inl e, w1) \<Rightarrow> (Inl e, w1)
      | (Inr sim, w1) \<Rightarrow>
          if results sim = [] then (Inl (empty_simulation_error (sim_error sim)), w1)
          else (case assemble P tx sim of
                  Inl e \<Rightarrow> (Inl e, w1)
                | Inr assembled \<Rightarrow>
                    (case sign_transaction P assembled (signing_key act) passphrase of
                       Inl e \<Rightarrow> (Inl e, w1)
                     | Inr envelope_signed \<Rightarrow>
                         (case send_transaction rpc envelope_signed w1 of
                            (Inl e, w2) \<Rightarrow> (Inl e, w2)
                          | (Inr hash, w2) \<Rightarrow> (Inr (hex_encode P hash), w2)))))"

section \<open>Submission\<close>

datatype submit_outcome = SimEmpty | Success string | SeqFetchFailed rpc_error | RetryExhausted rpc_error

definition BACKOFF_STEP_MILLIS :: nat where
  "BACKOFF_STEP_MILLIS = 250"

definition backoff :: "nat \<Rightarrow> nat" where
  "backoff attempt = BACKOFF_STEP_MILLIS * (attempt + 1)"

function submit_loop ::
  "soroban_executor \<Rightarrow> ('w, 'op, 'd) rpc_client \<Rightarrow> ('op, 'auth, 'd) primitives \<Rightarrow> 'op submit_stellar_tx \<Rightarrow> nat \<Rightarrow>
     ('w, submit_outcome) call" where
  "submit_loop ex rpc P tx attempt w =
     (let is_last = attempt \<ge> max_submission_retries tx in
      case fetch_seq_num ex rpc w of
        (Inl e, w1) \<Rightarrow>
          if is_last then (SeqFetchFailed e, w1)
          else submit_loop ex rpc P tx (attempt + 1) (snd (sleep_millis rpc (backoff attempt) w1))
      | (Inr seq, w1) \<Rightarrow>
          (case build_and_send rpc P seq (network_passphrase ex) tx (default_simulation_fee ex)
                  (verifying_key P (signing_key tx)) w1 of
             (Inr hash_hex, w2) \<Rightarrow> (Success hash_hex, w2)
           | (Inl e, w2) \<Rightarrow>
               if is_no_simulation_results_error e then (SimEmpty, w2)
               else if is_last then (RetryExhausted e, w2)
               else submit_loop ex rpc P tx (attempt + 1) (snd (sleep_millis rpc (backoff attempt) w2))))"
  by pat_completeness auto

termination
  by (relation "measure (\<lambda>(ex, rpc, P, tx, attempt, w). max_submission_retries tx - attempt)") auto

declare submit_loop.simps [simp del]

definition hook_release :: "settle_hook option \<Rightarrow> ('w, unit) call" where
  "hook_release hook w = (case hook of None \<Rightarrow> ((), w) | Some h \<Rightarrow> release_in (op_id h) w)"

text \<open>The result of \<open>execute\<close> and the confirmation task it spawned, if any: the hash it polls and the
  hook it owns.\<close>

definition execute ::
  "soroban_executor \<Rightarrow> ('w, 'op, 'd) rpc_client \<Rightarrow> ('op, 'auth, 'd) primitives \<Rightarrow> 'op action \<Rightarrow>
     ('w, (rpc_error + unit) \<times> (string \<times> settle_hook option) option) call" where
  "execute ex rpc P act w =
     (case act of SubmitTx tx \<Rightarrow>
      (case submit_loop ex rpc P tx 1 w of
         (Success hash_hex, w1) \<Rightarrow> ((Inr (), Some (hash_hex, on_settle tx)), w1)
       | (SimEmpty, w1) \<Rightarrow> ((Inr (), None), snd (hook_release (on_settle tx) w1))
       | (SeqFetchFailed e, w1) \<Rightarrow> ((Inl e, None), snd (hook_release (on_settle tx) w1))
       | (RetryExhausted e, w1) \<Rightarrow> ((Inl e, None), snd (hook_release (on_settle tx) w1))))"

section \<open>Confirmation\<close>

datatype tx_confirm_outcome =
    Confirmed | HashDecodeFailed | FailedOnChain | ConfirmTimeout | ConfirmUnexpectedStatus | TransportError

definition confirm_failure :: "rpc_error \<Rightarrow> tx_confirm_outcome" where
  "confirm_failure e =
     (case classify_str e of
        TxFailedOnChain \<Rightarrow> FailedOnChain
      | Contract c \<Rightarrow> FailedOnChain
      | SubmissionTimeout \<Rightarrow> ConfirmTimeout
      | UnexpectedStatus \<Rightarrow> ConfirmUnexpectedStatus
      | _ \<Rightarrow> TransportError)"

definition confirmation_poll ::
  "('w, 'op, 'd) rpc_client \<Rightarrow> ('op, 'auth, 'd) primitives \<Rightarrow> string \<Rightarrow> settle_hook option \<Rightarrow>
     ('w, tx_confirm_outcome) call" where
  "confirmation_poll rpc P hash_hex hook w =
     (case (case hex_decode P hash_hex of Inr b \<Rightarrow> if length b = 32 then Some b else None | Inl e \<Rightarrow> None) of
        None \<Rightarrow> (HashDecodeFailed, snd (hook_release hook w))
      | Some hash \<Rightarrow>
          (case get_transaction_polling rpc hash w of
             (Inr u, w1) \<Rightarrow> (Confirmed, snd (hook_release hook w1))
           | (Inl e, w1) \<Rightarrow> (confirm_failure e, snd (hook_release hook w1))))"

text \<open>The whole life of an action at the executor: submission, then its confirmation task to its end.\<close>

definition settle ::
  "soroban_executor \<Rightarrow> ('w, 'op, 'd) rpc_client \<Rightarrow> ('op, 'auth, 'd) primitives \<Rightarrow> 'op action \<Rightarrow> 'w world \<Rightarrow> 'w world"
where
  "settle ex rpc P act w =
     (case execute ex rpc P act w of
        ((r, None), w1) \<Rightarrow> w1
      | ((r, Some (hash_hex, hook)), w1) \<Rightarrow> snd (confirmation_poll rpc P hash_hex hook w1))"

section \<open>Lemmas\<close>

lemma contains_prefix: "contains (p @ s) p"
  by (simp add: contains_def after_first.simps [of p "p @ s"])

lemma empty_simulation_classified: "is_no_simulation_results_error (empty_simulation_error e)"
proof -
  let ?p = "''simulation returned no results''"
  have p: "to_lowercase ?p = ?p" by code_simp
  obtain d where "empty_simulation_error e = ?p @ d"
    by (cases e) (auto simp: empty_simulation_error_def)
  then have "contains (to_lowercase (empty_simulation_error e)) ?p"
    using contains_prefix [of ?p "to_lowercase d"] p by (simp add: to_lowercase_def)
  then show ?thesis by (simp add: is_no_simulation_results_error_def classify_str_def Let_def)
qed

lemma attach_auth_single:
  assumes "attach_auth P rs [op] = Inr ops"
  shows "\<exists>op'. ops = [op'] \<and> (op' = op \<or> (\<exists>put entries. set_auth P op = Some put \<and> op' = put entries))"
  using assms by (auto split: sum.splits list.splits option.splits if_splits)

lemma assemble_Inr:
  assumes "assemble P tx sim = Inr tx'"
  shows "source_account tx' = source_account tx \<and> tx_seq_num tx' = tx_seq_num tx \<and>
    attach_auth P (results sim) (operations tx) = Inr (operations tx') \<and> min_resource_fee sim \<le> u32_max \<and>
    fee tx' = max (fee tx) (buffered_fee (min_resource_fee sim))"
  using assms by (auto simp: assemble_def split: sum.splits if_splits)

text \<open>The buffered fee is half again the simulated one as long as the product does not saturate; beyond it the
  headroom shrinks, and a simulated fee above half of the range is not even covered.\<close>

lemma buffered_fee_headroom:
  "3 * n \<le> u32_max \<Longrightarrow> buffered_fee n = n + n div 2"
  "u32_max < 2 * n \<Longrightarrow> buffered_fee n < n"
  by (auto simp: buffered_fee_def u32_max_def min_def)

lemma sign_transaction_Inr:
  assumes "sign_transaction P tx key passphrase = Inr env"
  shows "env_tx env = tx \<and> (\<exists>payload. payload_to_xdr P (sha256 P (str_bytes P passphrase)) tx = Inr payload \<and>
    signatures env = [(take 4 (drop 28 (verifying_key P key)), ed25519_sign P key (sha256 P payload))])"
  using assms by (auto simp: sign_transaction_def Let_def split: sum.splits)

subsection \<open>The calls of a submission\<close>

text \<open>A path of RPC calls and pauses from one world to another with a number of sent transactions.\<close>

inductive rpc_path :: "('w, 'op, 'd) rpc_client \<Rightarrow> nat \<Rightarrow> 'w world \<Rightarrow> 'w world \<Rightarrow> bool" for rpc where
  start: "rpc_path rpc 0 w w"
| account: "rpc_path rpc n w w' \<Longrightarrow> rpc_path rpc n w (snd (get_account_seq rpc a w'))"
| simulate: "rpc_path rpc n w w' \<Longrightarrow> rpc_path rpc n w (snd (simulate_transaction_envelope rpc e w'))"
| pause: "rpc_path rpc n w w' \<Longrightarrow> rpc_path rpc n w (snd (sleep_millis rpc k w'))"
| send: "rpc_path rpc n w w' \<Longrightarrow> rpc_path rpc (Suc n) w (snd (send_transaction rpc e w'))"

lemma rpc_path_trans:
  "rpc_path rpc n v w \<Longrightarrow> rpc_path rpc m u v \<Longrightarrow> rpc_path rpc (m + n) u w"
  by (induction rule: rpc_path.induct) (auto intro: rpc_path.intros)

lemma fetch_path: "fetch_seq_num ex rpc w = (r, w') \<Longrightarrow> rpc_path rpc 0 w w'"
  using rpc_path.account [OF rpc_path.start [of rpc w], of "ex_pkey ex"]
  by (auto simp: fetch_seq_num_def split: prod.splits sum.splits)

lemma build_and_send_path:
  assumes "build_and_send rpc P seq pass act f src w = (r, w')"
  shows "\<exists>n \<le> 1. rpc_path rpc n w w'"
proof -
  let ?e = "\<lparr>env_tx = initial_tx src f seq (tx_op act), signatures = []\<rparr>"
  obtain r1 w1 where s: "simulate_transaction_envelope rpc ?e w = (r1, w1)" by fastforce
  have p: "rpc_path rpc 0 w w1" using rpc_path.simulate [OF rpc_path.start [of rpc w], of ?e] s by simp
  have "w' = w1 \<or> (\<exists>env. w' = snd (send_transaction rpc env w1))"
    using assms s by (auto simp: build_and_send_def Let_def split: prod.splits sum.splits if_splits) (metis snd_conv)+
  then show ?thesis using p rpc_path.send [OF p] by (metis One_nat_def le_numeral_extra(3) order_refl zero_le)
qed

lemma submit_loop_path:
  "submit_loop ex rpc P tx attempt w = (r, w') \<Longrightarrow>
     \<exists>n \<le> max 1 (Suc (max_submission_retries tx) - attempt). rpc_path rpc n w w'"
proof (induction "max_submission_retries tx - attempt" arbitrary: attempt w rule: less_induct)
  case less
  let ?n = "max_submission_retries tx"
  obtain r1 w1 where f: "fetch_seq_num ex rpc w = (r1, w1)" by fastforce
  note p1 = fetch_path [OF f]
  have again: "\<exists>n \<le> max 1 (Suc ?n - attempt). rpc_path rpc n w w'"
    if l: "submit_loop ex rpc P tx (attempt + 1) (snd (sleep_millis rpc k u)) = (r, w')" "attempt < ?n"
      and u: "m \<le> 1" "rpc_path rpc m w u" for u k m
  proof -
    obtain n where "n \<le> max 1 (Suc ?n - (attempt + 1))" "rpc_path rpc n (snd (sleep_millis rpc k u)) w'"
      using less.hyps [OF _ l(1)] l(2) by (meson diff_less_mono2 less_add_one)
    moreover have "rpc_path rpc m w (snd (sleep_millis rpc k u))" using u(2) by (rule rpc_path.pause)
    ultimately show ?thesis using rpc_path_trans u(1) l(2) by (intro exI [of _ "m + n"]) auto
  qed
  show ?case
  proof (cases r1)
    case (Inl e)
    then show ?thesis
      using less.prems f again [of "backoff attempt" w1 0] p1
      by (subst (asm) submit_loop.simps) (auto split: if_splits simp: Let_def not_le)
  next
    case (Inr seq)
    obtain r2 w2 where b: "build_and_send rpc P seq (network_passphrase ex) tx (default_simulation_fee ex)
        (verifying_key P (signing_key tx)) w1 = (r2, w2)" by fastforce
    obtain m where m: "m \<le> 1" "rpc_path rpc m w w2"
      using build_and_send_path [OF b] rpc_path_trans [OF _ p1] by auto
    then have last: "\<exists>n \<le> max 1 (Suc ?n - attempt). rpc_path rpc n w w2" by (intro exI [of _ m]) auto
    show ?thesis
      using less.prems f b Inr again [OF _ _ m, of "backoff attempt"] last
      by (subst (asm) submit_loop.simps) (cases r2; auto split: if_splits simp: Let_def not_le)
  qed
qed

subsection \<open>The capital of an action\<close>

lemma hook_release_ledger:
  "ledger_of (snd (hook_release hook w)) =
     (case hook of None \<Rightarrow> ledger_of w | Some h \<Rightarrow> (ledger_of w)(op_id h := None))"
  by (simp add: hook_release_def release_in_def release_def split: option.splits)

text \<open>RPC calls during which no other task touches the capital ledger.\<close>

definition quiet_rpc :: "('w, 'op, 'd) rpc_client \<Rightarrow> bool" where
  "quiet_rpc rpc \<longleftrightarrow>
     (\<forall>a w. capital (snd (get_account_seq rpc a w)) = capital w) \<and>
     (\<forall>e w. capital (snd (simulate_transaction_envelope rpc e w)) = capital w) \<and>
     (\<forall>e w. capital (snd (send_transaction rpc e w)) = capital w) \<and>
     (\<forall>h w. capital (snd (get_transaction_polling rpc h w)) = capital w) \<and>
     (\<forall>n w. capital (snd (sleep_millis rpc n w)) = capital w)"

lemma rpc_path_quiet: "rpc_path rpc n w w' \<Longrightarrow> quiet_rpc rpc \<Longrightarrow> capital w' = capital w"
  by (induction rule: rpc_path.induct) (auto simp: quiet_rpc_def)

lemma submit_loop_quiet:
  "quiet_rpc rpc \<Longrightarrow> submit_loop ex rpc P tx attempt w = (r, w') \<Longrightarrow> capital w' = capital w"
  using submit_loop_path rpc_path_quiet by blast

text \<open>Every way through \<open>settle\<close> ends with the release of the hook, in some world the calls led to.\<close>

lemma settle_releases:
  "\<exists>u. settle ex rpc P (SubmitTx tx) w = snd (hook_release (on_settle tx) u) \<and>
     (quiet_rpc rpc \<longrightarrow> capital u = capital w)"
proof -
  obtain r w1 where l: "submit_loop ex rpc P tx 1 w = (r, w1)" by fastforce
  have q: "quiet_rpc rpc \<longrightarrow> capital w1 = capital w" using submit_loop_quiet [OF _ l] by blast
  show ?thesis
  proof (cases r)
    case (Success hash_hex)
    have "\<exists>u. snd (confirmation_poll rpc P hash_hex (on_settle tx) w1) = snd (hook_release (on_settle tx) u) \<and>
      (quiet_rpc rpc \<longrightarrow> capital u = capital w1)"
      by (auto simp: confirmation_poll_def quiet_rpc_def split: option.splits prod.splits sum.splits) (metis snd_conv)+
    then show ?thesis using l q Success by (auto simp: settle_def execute_def)
  qed (use l q in \<open>auto simp: settle_def execute_def\<close>)
qed

text \<open>The path of calls of one submission.\<close>

lemma execute_path:
  "\<exists>n u. n \<le> max 1 (max_submission_retries tx) \<and> rpc_path rpc n w u \<and>
     (snd (execute ex rpc P (SubmitTx tx) w) = u \<or>
      snd (execute ex rpc P (SubmitTx tx) w) = snd (hook_release (on_settle tx) u))"
proof -
  obtain r w1 where l: "submit_loop ex rpc P tx 1 w = (r, w1)" by fastforce
  then have "snd (execute ex rpc P (SubmitTx tx) w) = w1 \<or>
      snd (execute ex rpc P (SubmitTx tx) w) = snd (hook_release (on_settle tx) w1)"
    by (cases r) (simp_all add: execute_def)
  then show ?thesis using submit_loop_path [OF l] by auto
qed

section \<open>A worked example\<close>

definition example_sim :: sim_response where
  "example_sim = \<lparr>sim_error = None, transaction_data = ''data'', results = [\<lparr>sr_auth = [''grant'']\<rparr>],
     min_resource_fee = 1001\<rparr>"

definition example_rpc :: "sim_response \<Rightarrow> (unit, string list, string) rpc_client" where
  "example_rpc sim = \<lparr>get_account_seq = (\<lambda>a w. (Inr 7, w)),
     simulate_transaction_envelope = (\<lambda>e w. (Inr sim, w)),
     send_transaction = (\<lambda>e w. (Inr (replicate 32 0), w)),
     get_transaction_polling = (\<lambda>h w. (Inr (), w)), sleep_millis = (\<lambda>n w. ((), w))\<rparr>"

definition example_primitives :: "(string list, string, string) primitives" where
  "example_primitives = \<lparr>data_from_xdr_base64 = Inr, auth_from_xdr_base64 = Inr,
     set_auth = (\<lambda>op. Some (\<lambda>auth. op @ auth)), payload_to_xdr = (\<lambda>n tx. Inr n), sha256 = id,
     str_bytes = (\<lambda>s. []), verifying_key = (\<lambda>k. replicate 32 1), ed25519_sign = (\<lambda>k h. replicate 64 2),
     hex_encode = (\<lambda>h. if h = replicate 32 0 then ''00'' else ''ff''), hex_decode = (\<lambda>s. Inr (replicate 32 0))\<rparr>"

definition example_executor :: soroban_executor where
  "example_executor = executor_new ''K'' 100 ''net''"

definition example_tx :: "string list submit_stellar_tx" where
  "example_tx = \<lparr>tx_op = [''liquidate''], signing_key = ''SK'', max_submission_retries = 3, on_settle = None\<rparr>"

section \<open>Properties\<close>

text \<open>A submission is bounded: whatever the RPC client answers, \<open>execute\<close> returns after a path of
  calls on which it sends at most \<open>max_submission_retries\<close> transactions, and at most one when that is
  zero; all it does besides is to release the hook.\<close>

theorem submission_bounded:
  "\<exists>n u. n \<le> max 1 (max_submission_retries tx) \<and> rpc_path rpc n w u \<and>
     (snd (execute ex rpc P (SubmitTx tx) w) = u \<or>
      snd (execute ex rpc P (SubmitTx tx) w) = snd (hook_release (on_settle tx) u))"
  by (rule execute_path)

text \<open>The capital of an action is given back: at the end of its life at the executor, submitted and
  confirmed, failed, timed out or never sent, no reservation stands under the id of its settle hook,
  whatever the RPC client answered and whatever other tasks did meanwhile.\<close>

theorem settled_action_gives_capital_back:
  "case on_settle tx of
     None \<Rightarrow> True
   | Some h \<Rightarrow> hm_get (reservations (inner (capital (settle ex rpc P (SubmitTx tx) w)))) (op_id h) = None"
  using settle_releases [of ex rpc P tx w] by (auto simp: hook_release_ledger split: option.splits)



text \<open>An empty simulation is not retried: at whatever attempt the simulation comes back without
  results, with or without a diagnostic, the submission ends there, nothing is sent, and \<open>execute\<close>
  reports no error.\<close>

theorem empty_simulation_gives_up:
  assumes "fetch_seq_num ex rpc w = (Inr seq, w1)"
    and "simulate_transaction_envelope rpc \<lparr>env_tx = initial_tx (verifying_key P (signing_key tx))
      (default_simulation_fee ex) seq (tx_op tx), signatures = []\<rparr> w1 = (Inr sim, w2)" and "results sim = []"
  shows "submit_loop ex rpc P tx attempt w = (SimEmpty, w2) \<and>
    execute ex rpc P (SubmitTx tx) w = ((Inr (), None), snd (hook_release (on_settle tx) w2))"
proof -
  have "submit_loop ex rpc P tx k w = (SimEmpty, w2)" for k
    using assms empty_simulation_classified
    by (subst submit_loop.simps) (simp add: build_and_send_def Let_def)
  then show ?thesis by (simp add: execute_def)
qed

theorem empty_simulation_gives_up_witness:
  "submit_loop example_executor (example_rpc (example_sim\<lparr>results := []\<rparr>)) example_primitives example_tx 2
     example_world = (SimEmpty, example_world)"
  using empty_simulation_gives_up [of example_executor "example_rpc (example_sim\<lparr>results := []\<rparr>)" example_world 8
      example_world example_primitives example_tx "example_sim\<lparr>results := []\<rparr>" example_world 2]
  by (simp add: fetch_seq_num_def example_rpc_def i64_max_def)

end
