(* ===== verification/Xdr_Codec.thy ===== *)
theory Xdr_Codec
  imports World Errors "HOL-Library.Word"
begin

text \<open>
  \<^verbatim>\<open>keeper/src/stellar/xdr_codec.rs\<close>: conversions between the contract's values and the domain types.
  The value type mirrors the variants the source matches on; the payloads the keeper never reads and
  the address type are type parameters.  The strkey, hex and XDR codecs are third-party code: a record
  of operations the definitions take as an argument.  A symbol or a string is a list of bytes.
\<close>

unbundle bit_operations_syntax

section \<open>Values\<close>

datatype ('a, 'b) scval =
    ScBool bool
  | ScVoid
  | ScU32 "32 word"
  | ScI32 "32 word"
  | ScU64 "64 word"
  | ScI64 "64 word"
  | ScTimepoint 'b
  | ScDuration 'b
  | ScU128 'b
  | ScI128 (hi: "64 word") (lo: "64 word")
  | ScString string
  | ScSymbol string
  | ScVec "('a, 'b) scval list option"
  | ScMap "(('a, 'b) scval \<times> ('a, 'b) scval) list option"
  | ScAddress 'a
  | ScBytes "8 word list"
  | ScContractInstance 'b
  | ScError 'b
  | ScU256 'b
  | ScI256 'b
  | ScLedgerKeyContractInstance
  | ScLedgerKeyNonce 'b

type_synonym ('a, 'b) entries = "(('a, 'b) scval \<times> ('a, 'b) scval) list"

text \<open>\<open>account_from_string\<close> and \<open>contract_from_string\<close> decode a strkey, \<open>account_address\<close> and
  \<open>contract_address\<close> build the address of a key; \<open>address_string\<close>, \<open>string_m_display\<close> and
  \<open>scval_debug\<close> render.\<close>

record ('a, 'b) xdr_ops =
  account_from_string :: "string \<Rightarrow> string + 8 word list"
  contract_from_string :: "string \<Rightarrow> string + 8 word list"
  account_address :: "8 word list \<Rightarrow> 'a"
  contract_address :: "8 word list \<Rightarrow> 'a"
  address_string :: "'a \<Rightarrow> string"
  hex_enc :: "8 word list \<Rightarrow> string"
  hex_dec :: "string \<Rightarrow> string + 8 word list"
  string_m_display :: "string \<Rightarrow> string"
  from_utf8 :: "string \<Rightarrow> string + string"
  scval_debug :: "('a, 'b) scval \<Rightarrow> string"
  from_xdr_base64 :: "string \<Rightarrow> string + ('a, 'b) scval"
  length_error :: string

section \<open>Errors\<close>

datatype parse_error =
    TypeMismatch string string
  | InvalidXdr string
  | InvalidUtf8 string

fun parse_error_display :: "parse_error \<Rightarrow> string" where
  "parse_error_display (TypeMismatch e f) = ''Expected '' @ e @ '' but found '' @ f"
| "parse_error_display (InvalidXdr r) = ''Invalid XDR data: '' @ r"
| "parse_error_display (InvalidUtf8 s) = ''Invalid UTF-8 data: '' @ s"

definition quoted :: "string \<Rightarrow> string" where
  "quoted s = CHR 0x27 # s @ [CHR 0x27]"

section \<open>Numbers\<close>

definition i128_from_parts :: "64 word \<Rightarrow> 64 word \<Rightarrow> i128" where
  "i128_from_parts h l = push_bit 64 (sint h) OR uint l"

definition i128_to_scval :: "i128 \<Rightarrow> ('a, 'b) scval" where
  "i128_to_scval v = ScI128 (word_of_int (drop_bit 64 v)) (word_of_int v)"

section \<open>Addresses\<close>

definition contract_strkey_to_hash :: "('a, 'b) xdr_ops \<Rightarrow> string \<Rightarrow> rpc_error + 8 word list" where
  "contract_strkey_to_hash X strkey =
     (case contract_from_string X strkey of
        Inl e \<Rightarrow> Inl (''invalid contract strkey '' @ quoted strkey @ '': '' @ e)
      | Inr h \<Rightarrow> Inr h)"

definition account_strkey_to_muxed :: "('a, 'b) xdr_ops \<Rightarrow> string \<Rightarrow> rpc_error + 8 word list" where
  "account_strkey_to_muxed X strkey =
     (case account_from_string X strkey of
        Inr pk \<Rightarrow> Inr pk
      | Inl e \<Rightarrow> Inl (''source_account must be a G... address, got: '' @ strkey))"

definition address_to_scval :: "('a, 'b) xdr_ops \<Rightarrow> string \<Rightarrow> rpc_error + ('a, 'b) scval" where
  "address_to_scval X address =
     (if take 1 address = ''G'' then
        (case account_from_string X address of
           Inl e \<Rightarrow> Inl (''invalid G-address '' @ quoted address @ '': '' @ e)
         | Inr pk \<Rightarrow> Inr (ScAddress (account_address X pk)))
      else if take 1 address = ''C'' then
        (case contract_from_string X address of
           Inl e \<Rightarrow> Inl (''invalid C-address '' @ quoted address @ '': '' @ e)
         | Inr h \<Rightarrow> Inr (ScAddress (contract_address X h)))
      else Inl (''unknown address format: '' @ address))"

section \<open>Reading a value\<close>

fun scval_type_name :: "('a, 'b) scval \<Rightarrow> string" where
  "scval_type_name (ScBool _) = ''Bool''"
| "scval_type_name ScVoid = ''Void''"
| "scval_type_name (ScU32 _) = ''U32''"
| "scval_type_name (ScI32 _) = ''I32''"
| "scval_type_name (ScU64 _) = ''U64''"
| "scval_type_name (ScI64 _) = ''I64''"
| "scval_type_name (ScTimepoint _) = ''Timepoint''"
| "scval_type_name (ScDuration _) = ''Duration''"
| "scval_type_name (ScU128 _) = ''U128''"
| "scval_type_name (ScI128 _ _) = ''I128''"
| "scval_type_name (ScString _) = ''String''"
| "scval_type_name (ScSymbol _) = ''Symbol''"
| "scval_type_name (ScVec _) = ''Vec''"
| "scval_type_name (ScMap _) = ''Map''"
| "scval_type_name (ScAddress _) = ''Address''"
| "scval_type_name (ScBytes _) = ''Bytes''"
| "scval_type_name (ScContractInstance _) = ''ContractInstance''"
| "scval_type_name (ScError _) = ''Error''"
| "scval_type_name (ScU256 _) = ''U256''"
| "scval_type_name (ScI256 _) = ''I256''"
| "scval_type_name ScLedgerKeyContractInstance = ''LedgerKeyContractInstance''"
| "scval_type_name (ScLedgerKeyNonce _) = ''LedgerKeyNonce''"

definition scval_as_map :: "('a, 'b) scval \<Rightarrow> rpc_error + ('a, 'b) entries" where
  "scval_as_map val =
     (case val of
        ScMap (Some es) \<Rightarrow> Inr es
      | _ \<Rightarrow> Inl (parse_error_display (TypeMismatch ''Map'' (scval_type_name val))))"

definition scval_as_vec :: "('a, 'b) scval \<Rightarrow> rpc_error + ('a, 'b) scval list" where
  "scval_as_vec val =
     (case val of
        ScVec (Some vs) \<Rightarrow> Inr vs
      | _ \<Rightarrow> Inl (parse_error_display (TypeMismatch ''Vec'' (scval_type_name val))))"

fun map_get :: "('a, 'b) entries \<Rightarrow> string \<Rightarrow> ('a, 'b) scval option" where
  "map_get [] key = None"
| "map_get ((k, v) # es) key = (if k = ScSymbol key then Some v else map_get es key)"

definition missing_field :: "string \<Rightarrow> rpc_error" where
  "missing_field key = ''missing field '' @ quoted key"

definition unexpected :: "('a, 'b) xdr_ops \<Rightarrow> string \<Rightarrow> string \<Rightarrow> ('a, 'b) scval \<Rightarrow> rpc_error" where
  "unexpected X what key other = ''expected '' @ what @ '' for '' @ quoted key @ '', got '' @ scval_debug X other"

definition map_get_u32 :: "('a, 'b) xdr_ops \<Rightarrow> ('a, 'b) entries \<Rightarrow> string \<Rightarrow> rpc_error + 32 word" where
  "map_get_u32 X es key =
     (case map_get es key of
        Some (ScU32 n) \<Rightarrow> Inr n
      | Some other \<Rightarrow> Inl (unexpected X ''U32'' key other)
      | None \<Rightarrow> Inl (missing_field key))"

definition map_get_u64 :: "('a, 'b) xdr_ops \<Rightarrow> ('a, 'b) entries \<Rightarrow> string \<Rightarrow> rpc_error + 64 word" where
  "map_get_u64 X es key =
     (case map_get es key of
        Some (ScU64 n) \<Rightarrow> Inr n
      | Some other \<Rightarrow> Inl (unexpected X ''U64'' key other)
      | None \<Rightarrow> Inl (missing_field key))"

definition map_get_i128 :: "('a, 'b) xdr_ops \<Rightarrow> ('a, 'b) entries \<Rightarrow> string \<Rightarrow> rpc_error + i128" where
  "map_get_i128 X es key =
     (case map_get es key of
        Some (ScI128 h l) \<Rightarrow> Inr (i128_from_parts h l)
      | Some (ScU32 n) \<Rightarrow> Inr (uint n)
      | Some (ScI32 n) \<Rightarrow> Inr (sint n)
      | Some (ScU64 n) \<Rightarrow> Inr (uint n)
      | Some (ScI64 n) \<Rightarrow> Inr (sint n)
      | Some other \<Rightarrow> Inl (unexpected X ''i128-like'' key other)
      | None \<Rightarrow> Inl (missing_field key))"

definition map_get_address :: "('a, 'b) xdr_ops \<Rightarrow> ('a, 'b) entries \<Rightarrow> string \<Rightarrow> rpc_error + string" where
  "map_get_address X es key =
     (case map_get es key of
        Some (ScAddress a) \<Rightarrow> Inr (address_string X a)
      | Some other \<Rightarrow> Inl (unexpected X ''Address'' key other)
      | None \<Rightarrow> Inl (missing_field key))"

definition map_get_string_optional :: "('a, 'b) xdr_ops \<Rightarrow> ('a, 'b) entries \<Rightarrow> string \<Rightarrow> string option" where
  "map_get_string_optional X es key =
     (case map_get es key of
        Some (ScString s) \<Rightarrow> Some (string_m_display X s)
      | Some (ScSymbol s) \<Rightarrow> (case from_utf8 X s of Inl e \<Rightarrow> None | Inr u \<Rightarrow> Some u)
      | _ \<Rightarrow> None)"

definition scval_to_i128 :: "('a, 'b) xdr_ops \<Rightarrow> ('a, 'b) scval \<Rightarrow> rpc_error + i128" where
  "scval_to_i128 X val =
     (case val of
        ScI128 h l \<Rightarrow> Inr (i128_from_parts h l)
      | ScU32 n \<Rightarrow> Inr (uint n)
      | ScI32 n \<Rightarrow> Inr (sint n)
      | ScU64 n \<Rightarrow> Inr (uint n)
      | ScI64 n \<Rightarrow> Inr (sint n)
      | other \<Rightarrow> Inl (''expected i128-like, got '' @ scval_debug X other))"

definition scval_to_u32 :: "('a, 'b) xdr_ops \<Rightarrow> ('a, 'b) scval \<Rightarrow> rpc_error + 32 word" where
  "scval_to_u32 X val =
     (case val of
        ScU32 n \<Rightarrow> Inr n
      | other \<Rightarrow> Inl (''expected U32, got '' @ scval_debug X other))"

section \<open>Keys and obligations\<close>

text \<open>A list converts to a \<open>VecM\<close> or a \<open>BytesM\<close> when its length is a \<open>u32\<close>.\<close>

definition vec_m :: "rpc_error \<Rightarrow> 'c list \<Rightarrow> rpc_error + 'c list" where
  "vec_m err xs = (if length xs \<le> u32_max then Inr xs else Inl err)"

definition seed_to_scval :: "('a, 'b) xdr_ops \<Rightarrow> string option \<Rightarrow> rpc_error + ('a, 'b) scval" where
  "seed_to_scval X s =
     (case s of
        None \<Rightarrow> Inr ScVoid
      | Some hex_seed \<Rightarrow>
          ebind (hex_dec X hex_seed) (\<lambda>bytes.
          ebind (vec_m ''seed must be 32 bytes'' bytes) (\<lambda>b. Inr (ScBytes b))))"

definition obligation_key_to_scval :: "('a, 'b) xdr_ops \<Rightarrow> obligation_key \<Rightarrow> rpc_error + ('a, 'b) scval" where
  "obligation_key_to_scval X k =
     ebind (seed_to_scval X (seed k)) (\<lambda>seed_val.
     ebind (address_to_scval X (user k)) (\<lambda>user_val.
     Inr (ScMap (Some [(ScSymbol ''seed'', seed_val), (ScSymbol ''user'', user_val)]))))"

definition parse_seed :: "('a, 'b) xdr_ops \<Rightarrow> ('a, 'b) scval option \<Rightarrow> string option" where
  "parse_seed X v =
     (case v of
        Some (ScBytes b) \<Rightarrow> Some (hex_enc X b)
      | _ \<Rightarrow> None)"

definition parse_obligation_key :: "('a, 'b) xdr_ops \<Rightarrow> ('a, 'b) scval \<Rightarrow> rpc_error + obligation_key" where
  "parse_obligation_key X val =
     ebind (scval_as_map val) (\<lambda>map.
     ebind (map_get_address X map ''user'') (\<lambda>u.
     Inr \<lparr>user = u, seed = parse_seed X (map_get map ''seed'')\<rparr>))"

text \<open>A position whose key is not an address or whose numbers are unreadable is skipped with a
  warning; one that is not a map is an error.\<close>

fun parse_deposit_entries :: "('a, 'b) xdr_ops \<Rightarrow> ('a, 'b) entries \<Rightarrow> rpc_error + deposit_position list" where
  "parse_deposit_entries X [] = Inr []"
| "parse_deposit_entries X ((key, val) # es) =
     (case key of
        ScAddress a \<Rightarrow>
          ebind (with_context (''deposit position for pool '' @ address_string X a @ '' is not a map'')
            (scval_as_map val)) (\<lambda>pos.
          (case map_get_i128 X pos ''j_tokens'' of
             Inl e \<Rightarrow> parse_deposit_entries X es
           | Inr j \<Rightarrow>
               (case map_get_i128 X pos ''collateral'' of
                  Inl e \<Rightarrow> parse_deposit_entries X es
                | Inr c \<Rightarrow>
                    ebind (parse_deposit_entries X es) (\<lambda>ps.
                    Inr (\<lparr>j_tokens = j, collateral = c, dp_pool_address = address_string X a\<rparr> # ps)))))
      | other \<Rightarrow> parse_deposit_entries X es)"

definition parse_deposit_positions :: "('a, 'b) xdr_ops \<Rightarrow> ('a, 'b) scval \<Rightarrow> rpc_error + deposit_position list" where
  "parse_deposit_positions X val = ebind (scval_as_map val) (parse_deposit_entries X)"

fun parse_borrow_entries :: "('a, 'b) xdr_ops \<Rightarrow> ('a, 'b) entries \<Rightarrow> rpc_error + borrow_position list" where
  "parse_borrow_entries X [] = Inr []"
| "parse_borrow_entries X ((key, val) # es) =
     (case key of
        ScAddress a \<Rightarrow>
          ebind (with_context (''borrow position for pool '' @ address_string X a @ '' is not a map'')
            (scval_as_map val)) (\<lambda>pos.
          (case map_get_i128 X pos ''d_tokens'' of
             Inl e \<Rightarrow> parse_borrow_entries X es
           | Inr d \<Rightarrow>
               ebind (parse_borrow_entries X es) (\<lambda>ps.
               Inr (\<lparr>d_tokens = d, bp_pool_address = address_string X a\<rparr> # ps))))
      | other \<Rightarrow> parse_borrow_entries X es)"

definition parse_borrow_positions :: "('a, 'b) xdr_ops \<Rightarrow> ('a, 'b) scval \<Rightarrow> rpc_error + borrow_position list" where
  "parse_borrow_positions X val = ebind (scval_as_map val) (parse_borrow_entries X)"

definition parse_obligation :: "('a, 'b) xdr_ops \<Rightarrow> ('a, 'b) scval \<Rightarrow> obligation_key \<Rightarrow> rpc_error + obligation" where
  "parse_obligation X val key =
     ebind (scval_as_map val) (\<lambda>map.
     ebind (case map_get map ''deposits'' of None \<Rightarrow> Inr [] | Some v \<Rightarrow> parse_deposit_positions X v) (\<lambda>ds.
     ebind (case map_get map ''borrows'' of None \<Rightarrow> Inr [] | Some v \<Rightarrow> parse_borrow_positions X v) (\<lambda>bs.
     ebind (case map_get map ''insurance_fund_requests_ids'' of
              None \<Rightarrow> Inr 0
            | Some requests \<Rightarrow>
                ebind (scval_as_map requests) (\<lambda>rs.
                if length rs \<le> u32_max then Inr (length rs)
                else Inl ''out of range integral type conversion attempted'')) (\<lambda>n.
     Inr \<lparr>borrows = bs, deposits = ds, open_bad_debt_requests = n\<rparr>))))"

definition parse_obligation_keys :: "('a, 'b) xdr_ops \<Rightarrow> ('a, 'b) scval \<Rightarrow> rpc_error + obligation_key list" where
  "parse_obligation_keys X val = ebind (scval_as_vec val) (collect_results (parse_obligation_key X))"

section \<open>Pools and markets\<close>

text \<open>Unreadable status flags read as zero and unreadable accrual inputs as no accrual.\<close>

definition parse_status_flags :: "('a, 'b) xdr_ops \<Rightarrow> ('a, 'b) entries \<Rightarrow> 32 word" where
  "parse_status_flags X config_map =
     or_value 0
       (ebind (ok_or_else ''missing status'' (map_get config_map ''status'')) (\<lambda>status.
        ebind (scval_as_map status) (\<lambda>m. map_get_u32 X m ''flags'')))"

definition parse_accrual :: "('a, 'b) xdr_ops \<Rightarrow> ('a, 'b) entries \<Rightarrow> ('a, 'b) entries \<Rightarrow> 64 word \<times> i128 \<times> i128" where
  "parse_accrual X data_map pool_map =
     or_value (0, 0, 0)
       (ebind (ok_or_else ''missing apy'' (map_get data_map ''apy'')) (\<lambda>apy_val.
        ebind (scval_as_map apy_val) (\<lambda>apy.
        ebind (map_get_u64 X pool_map ''last_accrual_timestamp'') (\<lambda>t.
        ebind (map_get_u32 X apy ''borrow_bps'') (\<lambda>b.
        ebind (map_get_u32 X apy ''supply_bps'') (\<lambda>s.
        Inr (t, uint b, uint s)))))))"

definition parse_pool_data :: "('a, 'b) xdr_ops \<Rightarrow> ('a, 'b) scval \<Rightarrow> rpc_error + pool_data" where
  "parse_pool_data X val =
     ebind (scval_as_map val) (\<lambda>map.
     ebind (map_get_i128 X map ''j_token_rate_floor_bps'') (\<lambda>v_j_token_rate_floor_bps.
     ebind (map_get_i128 X map ''d_token_rate_ceil_bps'') (\<lambda>v_d_token_rate_ceil_bps.
     ebind (map_get_i128 X map ''oracle_asset_price'') (\<lambda>v_oracle_asset_price.
     ebind (map_get_i128 X map ''total_available_adjusted'') (\<lambda>v_total_available_adjusted.
     ebind (map_get_i128 X map ''total_supply'') (\<lambda>v_total_supply.
     ebind (ok_or_else ''missing pool in PoolData'' (map_get map ''pool'')) (\<lambda>pool_val.
     ebind (scval_as_map pool_val) (\<lambda>pool_map.
     ebind (map_get_address X pool_map ''pool_address'') (\<lambda>v_pool_address.
     ebind (map_get_address X pool_map ''token_address'') (\<lambda>v_token_address.
     ebind (map_get_u32 X pool_map ''token_decimals'') (\<lambda>v_token_decimals.
     ebind (map_get_i128 X pool_map ''total_borrowed'') (\<lambda>v_total_borrowed.
     ebind (map_get_i128 X pool_map ''total_d_tokens'') (\<lambda>v_total_d_tokens.
     ebind (map_get_i128 X pool_map ''total_j_tokens'') (\<lambda>v_total_j_tokens.
     ebind (map_get_i128 X pool_map ''total_available'') (\<lambda>v_total_available.
     ebind (map_get_i128 X pool_map ''total_collateral'') (\<lambda>v_total_collateral.
     ebind (ok_or_else ''missing config in Pool'' (map_get pool_map ''config'')) (\<lambda>config_val.
     ebind (scval_as_map config_val) (\<lambda>config_map.
     ebind (ok_or_else ''missing health_config'' (map_get config_map ''health_config'')) (\<lambda>health_val.
     ebind (scval_as_map health_val) (\<lambda>health_map.
     ebind (map_get_i128 X health_map ''open_ltv_bps'') (\<lambda>v_open_ltv_bps.
     ebind (map_get_i128 X health_map ''close_ltv_bps'') (\<lambda>v_close_ltv_bps.
     ebind (map_get_i128 X health_map ''liability_factor_bps'') (\<lambda>v_liability_factor_bps.
     ebind (map_get_i128 X health_map ''liquidation_close_factor_bps'') (\<lambda>v_liquidation_close_factor_bps.
     ebind (map_get_i128 X health_map ''max_liquidation_incentive_bps'') (\<lambda>v_max_liquidation_incentive_bps.
     ebind (map_get_i128 X health_map ''utilization_ratio_limit_bps'') (\<lambda>v_utilization_ratio_limit_bps.
     ebind (ok_or_else ''missing fee_config'' (map_get config_map ''fee_config'')) (\<lambda>fee_val.
     ebind (scval_as_map fee_val) (\<lambda>fee_map.
     ebind (map_get_i128 X fee_map ''flash_loan_fee_bps'') (\<lambda>v_flash_loan_fee_bps.
     let (t, b, s) = parse_accrual X map pool_map in
     Inr \<lparr>total_supply = v_total_supply, open_ltv_bps = v_open_ltv_bps, close_ltv_bps = v_close_ltv_bps,
       token_decimals = unat v_token_decimals,
       token_symbol = (case map_get_string_optional X pool_map ''token_symbol'' of None \<Rightarrow> [] | Some n \<Rightarrow> n),
       pool_address = v_pool_address, total_borrowed = v_total_borrowed, total_d_tokens = v_total_d_tokens,
       total_j_tokens = v_total_j_tokens, token_address = v_token_address,
       total_available = v_total_available, total_collateral = v_total_collateral,
       oracle_asset_price = v_oracle_asset_price, flash_loan_fee_bps = v_flash_loan_fee_bps,
       status_flags = parse_status_flags X config_map,
       liability_factor_bps = v_liability_factor_bps, d_token_rate_ceil_bps = v_d_token_rate_ceil_bps,
       j_token_rate_floor_bps = v_j_token_rate_floor_bps,
       total_available_adjusted = v_total_available_adjusted,
       utilization_ratio_limit_bps = v_utilization_ratio_limit_bps,
       liquidation_close_factor_bps = v_liquidation_close_factor_bps,
       max_liquidation_incentive_bps = v_max_liquidation_incentive_bps,
       last_accrual_timestamp = unat t, borrow_apy_bps = b, supply_apy_bps = s\<rparr>)))))))))))))))))))))))))))))"

definition parse_global_state_thresholds :: "('a, 'b) xdr_ops \<Rightarrow> ('a, 'b) scval \<Rightarrow> rpc_error + i128 \<times> i128" where
  "parse_global_state_thresholds X val =
     ebind (scval_as_map val) (\<lambda>map.
     ebind (map_get_i128 X map ''insolvency_ltv_bps'') (\<lambda>ltv.
     ebind (map_get_i128 X map ''min_collateral_value_cents'') (\<lambda>cents.
     Inr (ltv, cents))))"

definition parse_pool_addresses :: "('a, 'b) xdr_ops \<Rightarrow> ('a, 'b) scval \<Rightarrow> rpc_error + string list" where
  "parse_pool_addresses X val =
     ebind (scval_as_vec val) (collect_results (\<lambda>v. case v of
         ScAddress a \<Rightarrow> Inr (address_string X a)
       | other \<Rightarrow> Inl (''expected Address in pool list, got '' @ scval_debug X other)))"

definition parse_market_data :: "('a, 'b) xdr_ops \<Rightarrow> ('a, 'b) scval \<Rightarrow> rpc_error + market_data" where
  "parse_market_data X val =
     ebind (scval_as_map val) (\<lambda>map.
     ebind (map_get_u32 X map ''oracle_price_decimals'') (\<lambda>decimals.
     ebind (ok_or_else ''global_state missing'' (map_get map ''global_state'')) (\<lambda>global_state.
     ebind (parse_global_state_thresholds X global_state) (\<lambda>(ltv, cents).
     ebind (ok_or_else ''pools_data missing'' (map_get map ''pools_data'')) (\<lambda>pools_val.
     ebind (scval_as_vec pools_val) (\<lambda>vs.
     ebind (collect_results (parse_pool_data X) vs) (\<lambda>ps.
     Inr \<lparr>insolvency_ltv_bps = ltv, pools_data = ps, oracle_price_decimals = unat decimals,
       min_collateral_value_cents = cents, unavailable_pools = []\<rparr>)))))))"

definition parse_liquidation_result :: "('a, 'b) xdr_ops \<Rightarrow> ('a, 'b) scval \<Rightarrow> rpc_error + liquidation_result" where
  "parse_liquidation_result X val =
     ebind (scval_as_map val) (\<lambda>map.
     ebind (map_get_i128 X map ''debt_repaid'') (\<lambda>v_debt_repaid.
     ebind (map_get_i128 X map ''j_tokens_seized'') (\<lambda>v_j_tokens_seized.
     ebind (map_get_i128 X map ''d_tokens_burned'') (\<lambda>v_d_tokens_burned.
     ebind (map_get_i128 X map ''amount_to_send_back'') (\<lambda>v_amount_to_send_back.
     ebind (map_get_i128 X map ''plain_collateral_seized'') (\<lambda>v_plain_collateral_seized.
     ebind (map_get_i128 X map ''tokens_from_j_tokens_seized'') (\<lambda>v_tokens_from_j_tokens_seized.
     Inr \<lparr>debt_repaid = v_debt_repaid, j_tokens_seized = v_j_tokens_seized,
       d_tokens_burned = v_d_tokens_burned, amount_to_send_back = v_amount_to_send_back,
       plain_collateral_seized = v_plain_collateral_seized,
       tokens_from_j_tokens_seized = v_tokens_from_j_tokens_seized\<rparr>)))))))"

section \<open>Vectors\<close>

definition build_address_vec_scval :: "('a, 'b) xdr_ops \<Rightarrow> string list \<Rightarrow> rpc_error + ('a, 'b) scval" where
  "build_address_vec_scval X addresses =
     ebind (collect_results (address_to_scval X) addresses) (\<lambda>items.
     ebind (vec_m ''address vec conversion'' items) (\<lambda>vs. Inr (ScVec (Some vs))))"

definition build_requests_vec_scval :: "('a, 'b) scval list \<Rightarrow> rpc_error + ('a, 'b) scval" where
  "build_requests_vec_scval requests =
     ebind (vec_m ''requests vec conversion'' requests) (\<lambda>vs. Inr (ScVec (Some vs)))"

section \<open>Rendering\<close>

text \<open>\<open>i128::to_string\<close> and the rendering of a value in a log line.\<close>

definition show_int :: "int \<Rightarrow> string" where
  "show_int n = (if n < 0 then CHR ''-'' # show_nat (nat (- n)) else show_nat (nat n))"

fun join :: "string \<Rightarrow> string list \<Rightarrow> string" where
  "join sep [] = []"
| "join sep [s] = s"
| "join sep (s # t # ss) = s @ sep @ join sep (t # ss)"

fun scval_display :: "('a, 'b) xdr_ops \<Rightarrow> ('a, 'b) scval \<Rightarrow> string" where
  "scval_display X (ScAddress a) = address_string X a"
| "scval_display X (ScSymbol s) = string_m_display X s"
| "scval_display X (ScU32 n) = show_nat (unat n)"
| "scval_display X (ScI128 h l) = show_int (i128_from_parts h l)"
| "scval_display X (ScMap (Some es)) =
     CHR 0x7B # join '', '' (map (\<lambda>e. scval_display X (fst e) @ ''='' @ scval_display X (snd e)) es) @ [CHR 0x7D]"
| "scval_display X ScVoid = ''None''"
| "scval_display X other = scval_debug X other"

section \<open>Numbers on the wire\<close>

lemma parts_sum: "i128_from_parts h l = sint h * 2 ^ 64 + uint l"
proof -
  have "push_bit 64 (sint h) OR uint l = push_bit 64 (sint h) + uint l"
    by (rule disjunctive_add [symmetric])
       (auto simp: bit_push_bit_iff bit_uint_iff)
  then show ?thesis by (simp add: i128_from_parts_def push_bit_eq_mult)
qed

lemma in_i128_from_parts: "in_i128 (i128_from_parts h l)"
proof -
  have "- (2 ^ 63) \<le> sint h" "sint h \<le> 2 ^ 63 - 1"
    using sint_greater_eq [of h] sint_lt [of h] by simp_all
  moreover have "0 \<le> uint l" "uint l < 2 ^ 64" using uint_lt2p [of l] by simp_all
  ultimately show ?thesis unfolding parts_sum in_i128_def i128_max_pow i128_min_pow
    by (auto simp: power_numeral_reduce; linarith)
qed

lemma in_i128_small:
  fixes n :: "32 word" and m :: "64 word"
  shows "in_i128 (uint n)" "in_i128 (sint n)" "in_i128 (uint m)" "in_i128 (sint m)"
  using uint_lt2p [of n] uint_lt2p [of m] sint_greater_eq [of n] sint_lt [of n] sint_greater_eq [of m] sint_lt [of m]
    uint_ge_0 [of n] uint_ge_0 [of m] unfolding in_i128_def i128_max_def i128_min_def by (simp_all; linarith?)+

lemma i128_parts_round_trip:
  assumes "in_i128 v"
  shows "i128_from_parts (word_of_int (drop_bit 64 v)) (word_of_int v) = v"
proof -
  have d: "drop_bit 64 v = v div 2 ^ 64" by (rule drop_bit_eq_div)
  have r: "- (2 ^ 63) \<le> v div 2 ^ 64" "v div 2 ^ 64 < 2 ^ 63"
    using assms floor_div_le_iff [of "2 ^ 64" "- (2 ^ 63)" v] floor_div_le_iff [of "2 ^ 64" "2 ^ 63" v]
    by (simp_all add: i128_eval)
  have "sint (word_of_int (v div 2 ^ 64) :: 64 word) = v div 2 ^ 64"
    using r by (simp add: sint_sbintrunc' signed_take_bit_int_eq_self)
  moreover have "uint (word_of_int v :: 64 word) = v mod 2 ^ 64" by (simp add: uint_word_of_int)
  ultimately show ?thesis
    unfolding parts_sum d using div_mult_mod_eq [of v "2 ^ 64"] by simp
qed

lemma scval_as_map_eq_Inr_iff [simp]: "scval_as_map v = Inr es \<longleftrightarrow> v = ScMap (Some es)"
  by (auto simp: scval_as_map_def split: scval.splits option.splits)

lemma scval_as_vec_eq_Inr_iff [simp]: "scval_as_vec v = Inr vs \<longleftrightarrow> v = ScVec (Some vs)"
  by (auto simp: scval_as_vec_def split: scval.splits option.splits)

lemma map_get_i128_range: "map_get_i128 X es key = Inr n \<Longrightarrow> in_i128 n"
  by (auto simp: map_get_i128_def in_i128_from_parts in_i128_small split: option.splits scval.splits)

lemma scval_to_i128_range: "scval_to_i128 X v = Inr n \<Longrightarrow> in_i128 n"
  by (auto simp: scval_to_i128_def in_i128_from_parts in_i128_small split: scval.splits)

section \<open>Ranges\<close>

text \<open>The values of the types of the source: every number of a decoded pool fits its field.\<close>

definition typed_pool :: "pool_data \<Rightarrow> bool" where
  "typed_pool p \<longleftrightarrow> list_all in_i128
     [total_supply p, open_ltv_bps p, close_ltv_bps p, total_borrowed p, total_d_tokens p, total_j_tokens p,
      total_available p, total_collateral p, oracle_asset_price p, flash_loan_fee_bps p, liability_factor_bps p,
      d_token_rate_ceil_bps p, j_token_rate_floor_bps p, total_available_adjusted p, utilization_ratio_limit_bps p,
      liquidation_close_factor_bps p, max_liquidation_incentive_bps p, borrow_apy_bps p, supply_apy_bps p] \<and>
     token_decimals p \<le> u32_max \<and> last_accrual_timestamp p < 2 ^ 64"

definition typed_market :: "market_data \<Rightarrow> bool" where
  "typed_market md \<longleftrightarrow> list_all typed_pool (pools_data md) \<and> in_i128 (insolvency_ltv_bps md) \<and>
     in_i128 (min_collateral_value_cents md) \<and> oracle_price_decimals md \<le> u32_max"

definition typed_obligation :: "obligation \<Rightarrow> bool" where
  "typed_obligation ob \<longleftrightarrow>
     list_all (\<lambda>d. in_i128 (j_tokens d) \<and> in_i128 (collateral d)) (deposits ob) \<and>
     list_all (\<lambda>b. in_i128 (d_tokens b)) (borrows ob) \<and> open_bad_debt_requests ob \<le> u32_max"

lemma unat_u32_le: "unat (n :: 32 word) \<le> u32_max"
  using unsigned_less [of n, where ?'a = nat] by (simp add: u32_max_def)

lemma unat_u64_less: "unat (n :: 64 word) < 18446744073709551616"
  using unsigned_less [of n, where ?'a = nat] by simp

lemma parse_accrual_range:
  "parse_accrual X m pm = (t, b, s) \<Longrightarrow> in_i128 b \<and> in_i128 s"
  by (cases "map_get m ''apy''")
     (auto simp: parse_accrual_def in_i128_small split: scval.splits option.splits elim!: or_value.elims)

lemma parse_pool_data_typed:
  assumes "parse_pool_data X v = Inr p"
  shows "typed_pool p"
  using assms unfolding parse_pool_data_def
  by (elim ebind_InrE)
     (auto simp: typed_pool_def map_get_i128_range unat_u32_le unat_u64_less Let_def
       dest: parse_accrual_range split: prod.splits)

lemma parse_deposit_entries_typed:
  "parse_deposit_entries X es = Inr ds \<Longrightarrow> list_all (\<lambda>d. in_i128 (j_tokens d) \<and> in_i128 (collateral d)) ds"
proof (induction es arbitrary: ds)
  case (Cons e es)
  obtain key val where e: "e = (key, val)" by fastforce
  show ?case using Cons.prems unfolding e
    by (cases key) (auto elim!: ebind_InrE sum_caseE dest: Cons.IH simp: map_get_i128_range)
qed simp

lemma parse_borrow_entries_typed:
  "parse_borrow_entries X es = Inr bs \<Longrightarrow> list_all (\<lambda>b. in_i128 (d_tokens b)) bs"
proof (induction es arbitrary: bs)
  case (Cons e es)
  obtain key val where e: "e = (key, val)" by fastforce
  show ?case using Cons.prems unfolding e
    by (cases key) (auto elim!: ebind_InrE sum_caseE dest: Cons.IH simp: map_get_i128_range)
qed simp

lemma parse_obligation_typed:
  assumes "parse_obligation X v k = Inr ob"
  shows "typed_obligation ob"
  using assms unfolding parse_obligation_def
  by (elim ebind_InrE)
     (auto simp: typed_obligation_def parse_deposit_positions_def parse_borrow_positions_def
       dest: parse_deposit_entries_typed parse_borrow_entries_typed split: option.splits if_splits)

lemma parse_market_data_typed:
  assumes "parse_market_data X v = Inr md"
  shows "typed_market md \<and> unavailable_pools md = []"
proof -
  have "list_all2 (\<lambda>x y. parse_pool_data X x = Inr y) vs ps \<Longrightarrow> list_all typed_pool ps" for vs ps
    by (induction rule: list_all2_induct) (auto dest: parse_pool_data_typed)
  with assms show ?thesis unfolding parse_market_data_def parse_global_state_thresholds_def
    by (elim ebind_InrE)
       (auto simp: typed_market_def map_get_i128_range unat_u32_le collect_results_eq_Inr_iff)
qed

section \<open>Keys\<close>

text \<open>What the keeper relies on of the strkey and hex codecs: an address renders as the strkey it was
  decoded from, and bytes render as the lower-case form of the text they were decoded from.\<close>

definition canonical :: "('a, 'b) xdr_ops \<Rightarrow> bool" where
  "canonical X \<longleftrightarrow>
     (\<forall>s b. account_from_string X s = Inr b \<longrightarrow> address_string X (account_address X b) = s) \<and>
     (\<forall>s b. contract_from_string X s = Inr b \<longrightarrow> address_string X (contract_address X b) = s) \<and>
     (\<forall>s b. hex_dec X s = Inr b \<longrightarrow> hex_enc X b = to_lowercase s)"

lemma address_round_trip:
  assumes "canonical X" "address_to_scval X s = Inr v"
  shows "\<exists>a. v = ScAddress a \<and> address_string X a = s"
  using assms by (auto simp: canonical_def address_to_scval_def split: if_splits sum.splits)

lemma seed_round_trip:
  assumes "canonical X" "seed_to_scval X sd = Inr v"
  shows "parse_seed X (Some v) = map_option to_lowercase sd"
  using assms
  by (auto simp: canonical_def seed_to_scval_def parse_seed_def vec_m_def split: option.splits if_splits)

lemma key_to_scval_Inr:
  assumes "canonical X" "obligation_key_to_scval X k = Inr v"
  shows "\<exists>sv a. v = ScMap (Some [(ScSymbol ''seed'', sv), (ScSymbol ''user'', ScAddress a)]) \<and>
    seed_to_scval X (seed k) = Inr sv \<and> address_string X a = user k"
  using assms address_round_trip [OF assms(1)] by (auto simp: obligation_key_to_scval_def)

lemma key_round_trip:
  assumes "canonical X" "obligation_key_to_scval X k = Inr v"
  shows "parse_obligation_key X v = Inr \<lparr>user = user k, seed = map_option to_lowercase (seed k)\<rparr>"
proof -
  from key_to_scval_Inr [OF assms] obtain sv a where
    "v = ScMap (Some [(ScSymbol ''seed'', sv), (ScSymbol ''user'', ScAddress a)])"
    "seed_to_scval X (seed k) = Inr sv" "address_string X a = user k" by blast
  with seed_round_trip [OF assms(1)] show ?thesis
    by (simp add: parse_obligation_key_def scval_as_map_def map_get_address_def)
qed

section \<open>Properties\<close>

text \<open>Numbers survive the wire exactly when they fit: splitting an integer into the two halves of an
  \<open>Int128Parts\<close> and joining them again gives the integer back iff it is in the range of \<open>i128\<close>.\<close>

theorem i128_codec_exact:
  "scval_to_i128 X (i128_to_scval v) = Inr v \<longleftrightarrow> in_i128 v"
  using i128_parts_round_trip [of v] in_i128_from_parts [of "word_of_int (drop_bit 64 v)" "word_of_int v"]
  by (auto simp: scval_to_i128_def i128_to_scval_def)



end
