(* ===== verification/Tx_Builder.thy ===== *)
theory Tx_Builder
  imports Xdr_Codec "HOL-Library.List_Lexorder" "HOL-Library.Char_ord"
begin

text \<open>
  \<^verbatim>\<open>keeper/src/stellar/tx_builder.rs\<close>: the requests of a batch and the operations the strategies
  submit.  A request is the vector of its variant's name and the map of its fields; an operation is an
  invocation of the market contract, always without a source account and without authorization.
\<close>

section \<open>Requests\<close>

text \<open>A constant converts to a \<open>ScSymbol\<close> when it has at most 32 bytes.\<close>

definition sc_symbol :: "rpc_error \<Rightarrow> string \<Rightarrow> rpc_error + ('a, 'b) scval" where
  "sc_symbol err s = (if length s \<le> 32 then Inr (ScSymbol s) else Inl err)"

definition field_entry ::
  "string \<Rightarrow> rpc_error + ('a, 'b) scval \<Rightarrow> rpc_error + ('a, 'b) scval \<times> ('a, 'b) scval" where
  "field_entry name val = ebind (sc_symbol ''symbol'' name) (\<lambda>k. ebind val (\<lambda>v. Inr (k, v)))"

definition variant ::
  "string \<Rightarrow> (string \<times> (rpc_error + ('a, 'b) scval)) list \<Rightarrow> rpc_error + ('a, 'b) scval" where
  "variant tag fds =
     ebind (collect_results (\<lambda>(name, val). field_entry name val) fds) (\<lambda>entries.
     ebind (vec_m ''map conversion'' entries) (\<lambda>es.
     ebind (sc_symbol ''symbol'' tag) (\<lambda>t.
     ebind (vec_m ''vec conversion'' [t, ScMap (Some es)]) (\<lambda>items.
     Inr (ScVec (Some items))))))"

definition build_flash_borrow_request_scval ::
  "('a, 'b) xdr_ops \<Rightarrow> string \<Rightarrow> i128 \<Rightarrow> rpc_error + ('a, 'b) scval" where
  "build_flash_borrow_request_scval X pool amount =
     variant ''FlashBorrow''
       [(''amount'', Inr (i128_to_scval amount)),
        (''pool_address'', address_to_scval X pool)]"

definition build_withdraw_request_scval ::
  "('a, 'b) xdr_ops \<Rightarrow> string \<Rightarrow> i128 \<Rightarrow> rpc_error + ('a, 'b) scval" where
  "build_withdraw_request_scval X pool amount =
     variant ''Withdraw''
       [(''amount'', Inr (i128_to_scval amount)),
        (''pool_address'', address_to_scval X pool)]"

definition build_liquidate_request_scval ::
  "('a, 'b) xdr_ops \<Rightarrow> obligation_key \<Rightarrow> string \<Rightarrow> string \<Rightarrow> i128 \<Rightarrow> i128 \<Rightarrow> rpc_error + ('a, 'b) scval" where
  "build_liquidate_request_scval X borrower_key bpool cpool repay min_collateral =
     variant ''Liquidate''
       [(''borrow_pool_address'', address_to_scval X bpool),
        (''borrower_obligation_key'', obligation_key_to_scval X borrower_key),
        (''collateral_pool_address'', address_to_scval X cpool),
        (''min_demanded_collateral_amount'', Inr (i128_to_scval min_collateral)),
        (''repay_amount'', Inr (i128_to_scval repay))]"

definition build_swap_exact_tokens_request_scval ::
  "('a, 'b) xdr_ops \<Rightarrow> string \<Rightarrow> string list \<Rightarrow> i128 \<Rightarrow> i128 \<Rightarrow> rpc_error + ('a, 'b) scval" where
  "build_swap_exact_tokens_request_scval X provider path amount_in min_amount_out =
     variant ''SwapExactTokens''
       [(''amount_in'', Inr (i128_to_scval amount_in)),
        (''min_amount_out'', Inr (i128_to_scval min_amount_out)),
        (''path'', build_address_vec_scval X path),
        (''swap_provider'', address_to_scval X provider)]"

definition build_swap_for_exact_tokens_request_scval ::
  "('a, 'b) xdr_ops \<Rightarrow> string \<Rightarrow> string list \<Rightarrow> i128 \<Rightarrow> i128 \<Rightarrow> rpc_error + ('a, 'b) scval" where
  "build_swap_for_exact_tokens_request_scval X provider path max_amount_in amount_out =
     variant ''SwapForExactTokens''
       [(''amount_out'', Inr (i128_to_scval amount_out)),
        (''max_amount_in'', Inr (i128_to_scval max_amount_in)),
        (''path'', build_address_vec_scval X path),
        (''swap_provider'', address_to_scval X provider)]"

section \<open>Operations\<close>

record ('a, 'b) invocation =
  inv_contract :: 'a
  inv_function :: string
  inv_args :: "('a, 'b) scval list"

definition invoke_op ::
  "('a, 'b) xdr_ops \<Rightarrow> 8 word list \<Rightarrow> string \<Rightarrow> ('a, 'b) scval list \<Rightarrow> rpc_error + ('a, 'b) invocation" where
  "invoke_op X hash name as =
     (if length name \<le> 32
      then Inr \<lparr>inv_contract = contract_address X hash, inv_function = name, inv_args = as\<rparr>
      else Inl ''function name too long'')"

definition build_withdraw_op ::
  "('a, 'b) xdr_ops \<Rightarrow> string \<Rightarrow> obligation_key \<Rightarrow> string \<Rightarrow> underlying \<Rightarrow> rpc_error + ('a, 'b) invocation" where
  "build_withdraw_op X market user_key pool amount =
     ebind (contract_strkey_to_hash X market) (\<lambda>hash.
     ebind (obligation_key_to_scval X user_key) (\<lambda>k.
     ebind (address_to_scval X pool) (\<lambda>p.
     ebind (vec_m ''args conversion'' [k, p, i128_to_scval amount, ScVoid]) (\<lambda>as.
     invoke_op X hash ''withdraw'' as))))"

definition build_issue_cover_bad_debt_op ::
  "('a, 'b) xdr_ops \<Rightarrow> string \<Rightarrow> obligation_key \<Rightarrow> rpc_error + ('a, 'b) invocation" where
  "build_issue_cover_bad_debt_op X market user_key =
     ebind (contract_strkey_to_hash X market) (\<lambda>hash.
     ebind (obligation_key_to_scval X user_key) (\<lambda>k.
     ebind (vec_m ''args conversion'' [k]) (\<lambda>as.
     invoke_op X hash ''issue_cover_bad_debt'' as)))"

definition build_batch_op ::
  "('a, 'b) xdr_ops \<Rightarrow> string \<Rightarrow> obligation_key \<Rightarrow> ('a, 'b) scval list \<Rightarrow> rpc_error + ('a, 'b) invocation" where
  "build_batch_op X market liquidator_key requests =
     ebind (contract_strkey_to_hash X market) (\<lambda>hash.
     ebind (build_requests_vec_scval requests) (\<lambda>requests_vec.
     ebind (obligation_key_to_scval X liquidator_key) (\<lambda>k.
     ebind (vec_m ''args conversion'' [k, requests_vec, ScVoid]) (\<lambda>as.
     invoke_op X hash ''submit_requests_batch'' as))))"

section \<open>The builder port\<close>

text \<open>The methods of \<open>OperationBuilder\<close>, whose argument orders differ from the helpers' above.\<close>

definition gw_liquidate_request ::
  "('a, 'b) xdr_ops \<Rightarrow> obligation_key \<Rightarrow> string \<Rightarrow> string \<Rightarrow> i128 \<Rightarrow> i128 \<Rightarrow> rpc_error + ('a, 'b) scval" where
  "gw_liquidate_request X borrower bpool cpool repay min_collateral =
     build_liquidate_request_scval X borrower bpool cpool repay min_collateral"

definition gw_flash_borrow_request :: "('a, 'b) xdr_ops \<Rightarrow> string \<Rightarrow> i128 \<Rightarrow> rpc_error + ('a, 'b) scval" where
  "gw_flash_borrow_request X pool amount = build_flash_borrow_request_scval X pool amount"

definition gw_withdraw_request :: "('a, 'b) xdr_ops \<Rightarrow> string \<Rightarrow> i128 \<Rightarrow> rpc_error + ('a, 'b) scval" where
  "gw_withdraw_request X pool amount = build_withdraw_request_scval X pool amount"

definition gw_swap_exact_tokens_request ::
  "('a, 'b) xdr_ops \<Rightarrow> string \<Rightarrow> i128 \<Rightarrow> i128 \<Rightarrow> string list \<Rightarrow> rpc_error + ('a, 'b) scval" where
  "gw_swap_exact_tokens_request X provider amount_in min_amount_out path =
     build_swap_exact_tokens_request_scval X provider path amount_in min_amount_out"

definition gw_swap_for_exact_tokens_request ::
  "('a, 'b) xdr_ops \<Rightarrow> string \<Rightarrow> i128 \<Rightarrow> i128 \<Rightarrow> string list \<Rightarrow> rpc_error + ('a, 'b) scval" where
  "gw_swap_for_exact_tokens_request X provider amount_out max_amount_in path =
     build_swap_for_exact_tokens_request_scval X provider path max_amount_in amount_out"

section \<open>What a request says\<close>

lemma vec_m_eq_Inr_iff [simp]: "vec_m err xs = Inr ys \<longleftrightarrow> ys = xs \<and> length xs \<le> u32_max"
  by (auto simp: vec_m_def)

lemma sc_symbol_eq_Inr_iff [simp]: "sc_symbol err s = Inr v \<longleftrightarrow> v = ScSymbol s \<and> length s \<le> 32"
  by (auto simp: sc_symbol_def)

lemma field_entry_eq_Inr_iff [simp]:
  "field_entry name val = Inr e \<longleftrightarrow> (\<exists>v. val = Inr v \<and> e = (ScSymbol name, v) \<and> length name \<le> 32)"
  by (auto simp: field_entry_def)

text \<open>Reading a request back: the name of its variant and its fields.\<close>

definition request_fields :: "('a, 'b) scval \<Rightarrow> (string \<times> ('a, 'b) entries) option" where
  "request_fields v =
     (case v of ScVec (Some [ScSymbol tag, ScMap (Some es)]) \<Rightarrow> Some (tag, es) | _ \<Rightarrow> None)"

definition field_names :: "('a, 'b) entries \<Rightarrow> string list" where
  "field_names es = map (\<lambda>e. case fst e of ScSymbol s \<Rightarrow> s | _ \<Rightarrow> []) es"

lemma map_get_i128_to_scval:
  "map_get es key = Some (i128_to_scval n) \<Longrightarrow> in_i128 n \<Longrightarrow> map_get_i128 X es key = Inr n"
  by (simp add: map_get_i128_def i128_to_scval_def i128_parts_round_trip)

lemma map_get_address_to_scval:
  assumes "canonical X" "address_to_scval X s = Inr v" "map_get es key = Some v"
  shows "map_get_address X es key = Inr s"
  using address_round_trip [OF assms(1,2)] assms(3) by (auto simp: map_get_address_def)

lemma path_round_trip:
  assumes "canonical X" "build_address_vec_scval X path = Inr v"
  shows "\<exists>as. v = ScVec (Some (map ScAddress as)) \<and> map (address_string X) as = path"
proof -
  have "list_all2 (\<lambda>x y. address_to_scval X x = Inr y) path vs \<Longrightarrow>
      \<exists>as. vs = map ScAddress as \<and> map (address_string X) as = path" for vs
  proof (induction rule: list_all2_induct)
    case (Cons x xs y ys)
    then obtain a as where "y = ScAddress a" "address_string X a = x" "ys = map ScAddress as"
      "map (address_string X) as = xs" using address_round_trip [OF assms(1)] by blast
    then show ?case by (intro exI [of _ "a # as"]) simp
  qed simp
  with assms(2) show ?thesis by (auto simp: build_address_vec_scval_def collect_results_eq_Inr_iff)
qed

text \<open>The lists of fields are in the ascending order the host demands of a map.\<close>

lemma names_sorted:
  "sorted_wrt (<) [''amount'', ''pool_address'']"
  "sorted_wrt (<) [''borrow_pool_address'', ''borrower_obligation_key'', ''collateral_pool_address'',
     ''min_demanded_collateral_amount'', ''repay_amount'']"
  "sorted_wrt (<) [''amount_in'', ''min_amount_out'', ''path'', ''swap_provider'']"
  "sorted_wrt (<) [''amount_out'', ''max_amount_in'', ''path'', ''swap_provider'']"
  by code_simp+

definition says :: "('a, 'b) scval \<Rightarrow> string \<Rightarrow> (('a, 'b) entries \<Rightarrow> bool) \<Rightarrow> bool" where
  "says v tag P \<longleftrightarrow>
     (case request_fields v of None \<Rightarrow> False | Some (t, es) \<Rightarrow> t = tag \<and> sorted_wrt (<) (field_names es) \<and> P es)"

lemmas request_eval = variant_def field_entry_def says_def request_fields_def field_names_def names_sorted

lemma flash_borrow_says:
  assumes "canonical X" "gw_flash_borrow_request X pool amount = Inr v" "in_i128 amount"
  shows "says v ''FlashBorrow'' (\<lambda>es. map_get_i128 X es ''amount'' = Inr amount \<and>
    map_get_address X es ''pool_address'' = Inr pool)"
  using assms
  by (auto simp: gw_flash_borrow_request_def build_flash_borrow_request_scval_def request_eval
      intro!: map_get_i128_to_scval map_get_address_to_scval split: sum.splits)

lemma withdraw_says:
  assumes "canonical X" "gw_withdraw_request X pool amount = Inr v" "in_i128 amount"
  shows "says v ''Withdraw'' (\<lambda>es. map_get_i128 X es ''amount'' = Inr amount \<and>
    map_get_address X es ''pool_address'' = Inr pool)"
  using assms
  by (auto simp: gw_withdraw_request_def build_withdraw_request_scval_def request_eval
      intro!: map_get_i128_to_scval map_get_address_to_scval split: sum.splits)

lemma liquidate_says:
  assumes "canonical X" "gw_liquidate_request X key bpool cpool repay least = Inr v" "in_i128 repay" "in_i128 least"
  shows "says v ''Liquidate'' (\<lambda>es. map_get_address X es ''borrow_pool_address'' = Inr bpool \<and>
    map_get_address X es ''collateral_pool_address'' = Inr cpool \<and>
    map_get_i128 X es ''repay_amount'' = Inr repay \<and>
    map_get_i128 X es ''min_demanded_collateral_amount'' = Inr least \<and>
    (\<exists>kv. map_get es ''borrower_obligation_key'' = Some kv \<and>
       parse_obligation_key X kv = Inr \<lparr>user = user key, seed = map_option to_lowercase (seed key)\<rparr>))"
  using assms
  by (auto simp: gw_liquidate_request_def build_liquidate_request_scval_def request_eval key_round_trip
      intro!: map_get_i128_to_scval map_get_address_to_scval split: sum.splits)

lemma swap_exact_says:
  assumes "canonical X" "gw_swap_exact_tokens_request X provider amount_in least path = Inr v"
    "in_i128 amount_in" "in_i128 least"
  shows "says v ''SwapExactTokens'' (\<lambda>es. map_get_i128 X es ''amount_in'' = Inr amount_in \<and>
    map_get_i128 X es ''min_amount_out'' = Inr least \<and> map_get_address X es ''swap_provider'' = Inr provider \<and>
    (\<exists>as. map_get es ''path'' = Some (ScVec (Some (map ScAddress as))) \<and> map (address_string X) as = path))"
  using assms path_round_trip [OF assms(1)]
  by (auto simp: gw_swap_exact_tokens_request_def build_swap_exact_tokens_request_scval_def request_eval
      intro!: map_get_i128_to_scval map_get_address_to_scval split: sum.splits)

lemma swap_for_exact_says:
  assumes "canonical X" "gw_swap_for_exact_tokens_request X provider amount_out most path = Inr v"
    "in_i128 amount_out" "in_i128 most"
  shows "says v ''SwapForExactTokens'' (\<lambda>es. map_get_i128 X es ''amount_out'' = Inr amount_out \<and>
    map_get_i128 X es ''max_amount_in'' = Inr most \<and> map_get_address X es ''swap_provider'' = Inr provider \<and>
    (\<exists>as. map_get es ''path'' = Some (ScVec (Some (map ScAddress as))) \<and> map (address_string X) as = path))"
  using assms path_round_trip [OF assms(1)]
  by (auto simp: gw_swap_for_exact_tokens_request_def build_swap_for_exact_tokens_request_scval_def request_eval
      intro!: map_get_i128_to_scval map_get_address_to_scval split: sum.splits)

section \<open>What an operation says\<close>

lemma invoke_op_eq_Inr_iff [simp]:
  "invoke_op X hash name as = Inr op \<longleftrightarrow> length name \<le> 32 \<and>
     op = \<lparr>inv_contract = contract_address X hash, inv_function = name, inv_args = as\<rparr>"
  by (auto simp: invoke_op_def)

lemma contract_strkey_eq_Inr_iff [simp]:
  "contract_strkey_to_hash X s = Inr h \<longleftrightarrow> contract_from_string X s = Inr h"
  by (simp add: contract_strkey_to_hash_def split: sum.splits)

lemma batch_op_says:
  assumes "canonical X" "build_batch_op X market key rs = Inr op"
  shows "address_string X (inv_contract op) = market \<and> inv_function op = ''submit_requests_batch'' \<and>
    (\<exists>kv. inv_args op = [kv, ScVec (Some rs), ScVoid] \<and>
       parse_obligation_key X kv = Inr \<lparr>user = user key, seed = map_option to_lowercase (seed key)\<rparr>)"
  using assms key_round_trip [OF assms(1)]
  by (auto simp: build_batch_op_def build_requests_vec_scval_def canonical_def)

lemma withdraw_op_says:
  assumes "canonical X" "build_withdraw_op X market key pool amount = Inr op" "in_i128 amount"
  shows "address_string X (inv_contract op) = market \<and> inv_function op = ''withdraw'' \<and>
    (\<exists>kv pa. inv_args op = [kv, ScAddress pa, i128_to_scval amount, ScVoid] \<and> address_string X pa = pool \<and>
       parse_obligation_key X kv = Inr \<lparr>user = user key, seed = map_option to_lowercase (seed key)\<rparr>)"
  using assms key_round_trip [OF assms(1)] address_round_trip [OF assms(1)]
  by (fastforce simp: build_withdraw_op_def canonical_def)

lemma cover_op_says:
  assumes "canonical X" "build_issue_cover_bad_debt_op X market key = Inr op"
  shows "address_string X (inv_contract op) = market \<and> inv_function op = ''issue_cover_bad_debt'' \<and>
    (\<exists>kv. inv_args op = [kv] \<and>
       parse_obligation_key X kv = Inr \<lparr>user = user key, seed = map_option to_lowercase (seed key)\<rparr>)"
  using assms key_round_trip [OF assms(1)] by (auto simp: build_issue_cover_bad_debt_op_def canonical_def)

end
