(* ===== verification/Event_Decode.thy ===== *)
theory Event_Decode
  imports Xdr_Codec
begin

text \<open>
  \<^verbatim>\<open>keeper/src/stellar/event_decode.rs\<close>: the event codec of the gateway.
\<close>

section \<open>Event values\<close>

definition parse_obligation_from_event_value_inner ::
  "('a, 'b) xdr_ops \<Rightarrow> string \<Rightarrow> string \<Rightarrow> obligation_key \<Rightarrow> rpc_error + obligation option" where
  "parse_obligation_from_event_value_inner X value_b64 name key =
     ebind (with_context ''decode event value XDR'' (from_xdr_base64 X value_b64)) (\<lambda>val.
     ebind (scval_as_map val) (\<lambda>map.
     case map_get map name of
       None \<Rightarrow> Inr None
     | Some ScVoid \<Rightarrow> Inr None
     | Some (ScVec None) \<Rightarrow> Inr None
     | Some v \<Rightarrow>
         ebind (with_context (''parse obligation field '' @ quoted name) (parse_obligation X v key)) (\<lambda>ob.
         Inr (Some ob))))"

definition parse_liquidation_result_inner ::
  "('a, 'b) xdr_ops \<Rightarrow> string \<Rightarrow> rpc_error + liquidation_result option" where
  "parse_liquidation_result_inner X value_b64 =
     ebind (with_context ''decode event value XDR'' (from_xdr_base64 X value_b64)) (\<lambda>val.
     ebind (scval_as_map val) (\<lambda>map.
     case map_get map ''liquidation_result'' of
       None \<Rightarrow> Inr None
     | Some ScVoid \<Rightarrow> Inr None
     | Some (ScVec None) \<Rightarrow> Inr None
     | Some v \<Rightarrow>
         ebind (with_context ''parse liquidation_result'' (parse_liquidation_result X v)) (\<lambda>r.
         Inr (Some r))))"

section \<open>Topics\<close>

definition xdr_decode_operation :: "('a, 'b) xdr_ops \<Rightarrow> soroban_event \<Rightarrow> rpc_error + operation_event" where
  "xdr_decode_operation X ev =
     (case ev_topics ev of
        [] \<Rightarrow> Inl (parse_error_display (InvalidXdr ''Event has no topics''))
      | t # ts \<Rightarrow>
          (case from_xdr_base64 X t of
             Inl e \<Rightarrow> Inl (parse_error_display (InvalidXdr (''Failed to decode XDR: '' @ e)))
           | Inr (ScSymbol s) \<Rightarrow>
               (case from_utf8 X s of
                  Inl e \<Rightarrow> Inl (parse_error_display (InvalidUtf8 e))
                | Inr u \<Rightarrow> operation_event_try_from u)
           | Inr other \<Rightarrow> Inl (parse_error_display (TypeMismatch ''Symbol'' (scval_type_name other)))))"

definition xdr_decode_topic :: "('a, 'b) xdr_ops \<Rightarrow> soroban_event \<Rightarrow> nat \<Rightarrow> string" where
  "xdr_decode_topic X ev index =
     (if index \<ge> length (ev_topics ev) then ''<missing>''
      else case from_xdr_base64 X (ev_topics ev ! index) of
             Inr val \<Rightarrow> scval_display X val
           | Inl e \<Rightarrow> ''<decode_error>'')"

text \<open>The loop over the entries of a key: later entries overwrite earlier ones, entries of an
  unexpected type are passed over.\<close>

fun topic_key_loop ::
  "('a, 'b) xdr_ops \<Rightarrow> ('a, 'b) entries \<Rightarrow> string option \<Rightarrow> string option \<Rightarrow> string option \<times> string option" where
  "topic_key_loop X [] u s = (u, s)"
| "topic_key_loop X ((key, val) # es) u s =
     (case key of
        ScSymbol name \<Rightarrow>
          if string_m_display X name = ''user'' then
            topic_key_loop X es (case val of ScAddress a \<Rightarrow> Some (address_string X a) | _ \<Rightarrow> u) s
          else if string_m_display X name = ''seed'' then
            topic_key_loop X es u (case val of ScBytes b \<Rightarrow> Some (hex_enc X b) | _ \<Rightarrow> s)
          else topic_key_loop X es u s
      | _ \<Rightarrow> topic_key_loop X es u s)"

definition xdr_parse_obligation_key_from_topic ::
  "('a, 'b) xdr_ops \<Rightarrow> soroban_event \<Rightarrow> nat \<Rightarrow> rpc_error + obligation_key" where
  "xdr_parse_obligation_key_from_topic X ev index =
     (if index \<ge> length (ev_topics ev) then Inl (''topic index '' @ show_nat index @ '' out of range'')
      else ebind (from_xdr_base64 X (ev_topics ev ! index)) (\<lambda>val.
        case val of
          ScMap (Some es) \<Rightarrow>
            (case topic_key_loop X es None None of (u, s) \<Rightarrow>
             ebind (ok_or_else ''missing user in ObligationKey'' u) (\<lambda>u'. Inr \<lparr>user = u', seed = s\<rparr>))
        | _ \<Rightarrow> Inl (''topic['' @ show_nat index @ ''] is not a Map'')))"

section \<open>The codec port\<close>

definition stellar_codec :: "('a, 'b) xdr_ops \<Rightarrow> event_codec" where
  "stellar_codec X =
     \<lparr>decode_operation = xdr_decode_operation X,
      decode_topic = xdr_decode_topic X,
      parse_obligation_key_from_topic = xdr_parse_obligation_key_from_topic X,
      parse_obligation_from_event_value = parse_obligation_from_event_value_inner X,
      parse_liquidation_result_from_liquidation_event_value = parse_liquidation_result_inner X\<rparr>"

section \<open>Agreement of the decoders of a key\<close>

text \<open>Rendering leaves the two field names alone and gives them to no other symbol.\<close>

definition plain_names :: "('a, 'b) xdr_ops \<Rightarrow> bool" where
  "plain_names X \<longleftrightarrow> (\<forall>s n. n \<in> {''user'', ''seed''} \<longrightarrow> (string_m_display X s = n \<longleftrightarrow> s = n))"

lemma plain_names_iff [simp]:
  "plain_names X \<Longrightarrow> string_m_display X s = ''user'' \<longleftrightarrow> s = ''user''"
  "plain_names X \<Longrightarrow> string_m_display X s = ''seed'' \<longleftrightarrow> s = ''seed''"
  by (auto simp: plain_names_def)

lemma map_get_None_notin: "ScSymbol k \<notin> fst ` set es \<Longrightarrow> map_get es k = None"
  by (induction es) auto

lemma topic_key_loop_user:
  assumes "plain_names X" "distinct (map fst es)"
  shows "fst (topic_key_loop X es u s) =
    (case map_get es ''user'' of Some (ScAddress a) \<Rightarrow> Some (address_string X a) | _ \<Rightarrow> u)"
  using assms
proof (induction es arbitrary: u s)
  case (Cons e es)
  obtain k v where e: "e = (k, v)" by fastforce
  have n: "k = ScSymbol ''user'' \<Longrightarrow> map_get es ''user'' = None"
    using Cons.prems by (intro map_get_None_notin) (auto simp: e)
  show ?case
    using Cons.IH [OF Cons.prems(1)] Cons.prems n
    by (cases k) (auto simp: e split: scval.splits)
qed simp

lemma topic_key_loop_seed:
  assumes "plain_names X" "distinct (map fst es)"
  shows "snd (topic_key_loop X es u s) =
    (case map_get es ''seed'' of Some (ScBytes b) \<Rightarrow> Some (hex_enc X b) | _ \<Rightarrow> s)"
  using assms
proof (induction es arbitrary: u s)
  case (Cons e es)
  obtain k v where e: "e = (k, v)" by fastforce
  have n: "k = ScSymbol ''seed'' \<Longrightarrow> map_get es ''seed'' = None"
    using Cons.prems by (intro map_get_None_notin) (auto simp: e)
  show ?case
    using Cons.IH [OF Cons.prems(1)] Cons.prems n
    by (cases k) (auto simp: e split: scval.splits)
qed simp

lemma topic_key_agrees:
  assumes "plain_names X" "distinct (map fst es)" "index < length (ev_topics ev)"
    and "from_xdr_base64 X (ev_topics ev ! index) = Inr (ScMap (Some es))"
  shows "xdr_parse_obligation_key_from_topic X ev index = Inr k \<longleftrightarrow> parse_obligation_key X (ScMap (Some es)) = Inr k"
proof -
  obtain u s where l: "topic_key_loop X es None None = (u, s)" by fastforce
  have "u = (case map_get es ''user'' of Some (ScAddress a) \<Rightarrow> Some (address_string X a) | _ \<Rightarrow> None)"
    "s = parse_seed X (map_get es ''seed'')"
    using topic_key_loop_user [OF assms(1,2), of None None] topic_key_loop_seed [OF assms(1,2), of None None] l
    by (simp_all add: parse_seed_def)
  then show ?thesis using assms(3,4) l
    by (auto simp: xdr_parse_obligation_key_from_topic_def parse_obligation_key_def scval_as_map_def
        map_get_address_def ok_or_else_def split: option.splits scval.splits)
qed

section \<open>Worked codec\<close>

text \<open>A codec on a fixed set of topics, with addresses rendered as themselves.\<close>

definition example_xdr :: "(string, unit) xdr_ops" where
  "example_xdr = \<lparr>account_from_string = (\<lambda>s. if s = ''GU'' then Inr [1] else if s = ''GK'' then Inr [2] else Inl ''bad key''),
     contract_from_string = (\<lambda>s. if s = ''CM'' then Inr [3] else if s = ''CP'' then Inr [4] else Inl ''bad key''),
     account_address = (\<lambda>b. if b = [1] then ''GU'' else ''GK''),
     contract_address = (\<lambda>b. if b = [3] then ''CM'' else ''CP''),
     address_string = (\<lambda>a. a),
     hex_enc = (\<lambda>b. if b = [10] then ''0a'' else ''''),
     hex_dec = (\<lambda>s. if s = ''0a'' \<or> s = ''0A'' then Inr [10] else Inl ''bad hex''),
     string_m_display = (\<lambda>s. s), from_utf8 = Inr, scval_debug = scval_type_name,
     from_xdr_base64 = (\<lambda>s. if s = ''op'' then Inr (ScSymbol ''liquidate_event'')
       else if s = ''key'' then Inr (ScMap (Some [(ScSymbol ''seed'', ScBytes [10]), (ScSymbol ''user'', ScAddress ''GU'')]))
       else Inl ''bad xdr''),
     length_error = ''length''\<rparr>"

lemma example_canonical: "canonical example_xdr"
proof -
  have "to_lowercase ''0a'' = ''0a''" "to_lowercase ''0A'' = ''0a''" by code_simp+
  then show ?thesis by (auto simp: canonical_def example_xdr_def split: if_splits)
qed

lemma example_plain: "plain_names example_xdr"
  by (simp add: plain_names_def example_xdr_def)

definition example_key_event :: soroban_event where
  "example_key_event = \<lparr>contract_id = ''CM'', ev_id = ''1'', ev_ledger = 7, ev_value = [], ev_topics = [''op'', ''key'']\<rparr>"

section \<open>Properties\<close>

text \<open>C36. A key survives the wire: what \<open>obligation_key_to_scval\<close> writes, both decoders, the one of contract
  results and the one of event topics, read back as the same user and the same seed in lower case,
  given that addresses render as the strkey they were decoded from and bytes as lower-case hex.\<close>

theorem obligation_key_round_trip:
  assumes "canonical X" "plain_names X" "obligation_key_to_scval X k = Inr v"
    and "index < length (ev_topics ev)" "from_xdr_base64 X (ev_topics ev ! index) = Inr v"
  shows "parse_obligation_key X v = Inr \<lparr>user = user k, seed = map_option to_lowercase (seed k)\<rparr> \<and>
    xdr_parse_obligation_key_from_topic X ev index = Inr \<lparr>user = user k, seed = map_option to_lowercase (seed k)\<rparr>"
proof -
  from key_to_scval_Inr [OF assms(1,3)] obtain sv a where
    v: "v = ScMap (Some [(ScSymbol ''seed'', sv), (ScSymbol ''user'', ScAddress a)])" by blast
  have "distinct (map fst [(ScSymbol ''seed'', sv), (ScSymbol ''user'', ScAddress a)])" by simp
  with topic_key_agrees [OF assms(2) this assms(4)] key_round_trip [OF assms(1,3)] assms(5) v
  show ?thesis by blast
qed

theorem obligation_key_round_trip_witness:
  "xdr_parse_obligation_key_from_topic example_xdr example_key_event 1 = Inr (new_with_seed ''GU'' ''0a'')"
proof -
  have l: "to_lowercase ''0A'' = ''0a''" by code_simp
  have "obligation_key_to_scval example_xdr (new_with_seed ''GU'' ''0A'') =
      Inr (ScMap (Some [(ScSymbol ''seed'', ScBytes [10]), (ScSymbol ''user'', ScAddress ''GU'')]))"
    by (simp add: obligation_key_to_scval_def seed_to_scval_def new_with_seed_def vec_m_def address_to_scval_def
        example_xdr_def u32_max_def)
  from obligation_key_round_trip [OF example_canonical example_plain this, of 1 example_key_event]
  show ?thesis by (simp add: example_key_event_def example_xdr_def new_with_seed_def l)
qed

text \<open>The decoder of event topics and the decoder of contract results accept the same maps and read the
  same key from them, whatever else the map holds, as long as no field occurs twice.\<close>

theorem key_decoders_agree:
  assumes "plain_names X" "distinct (map fst es)" "index < length (ev_topics ev)"
    and "from_xdr_base64 X (ev_topics ev ! index) = Inr (ScMap (Some es))"
  shows "xdr_parse_obligation_key_from_topic X ev index = Inr k \<longleftrightarrow> parse_obligation_key X (ScMap (Some es)) = Inr k"
  by (rule topic_key_agrees [OF assms])

theorem key_decoders_agree_witness:
  "xdr_parse_obligation_key_from_topic example_xdr example_key_event 1 = Inr (new_with_seed ''GU'' ''0a'') \<longleftrightarrow>
   parse_obligation_key example_xdr
     (ScMap (Some [(ScSymbol ''seed'', ScBytes [10]), (ScSymbol ''user'', ScAddress ''GU'')])) = Inr (new_with_seed ''GU'' ''0a'')"
  by (rule key_decoders_agree [OF example_plain]) (simp_all add: example_key_event_def example_xdr_def)

end
