(* ===== verification/Simulation.thy ===== *)
theory Simulation
  imports Rpc Tx_Builder Event_Decode Example_Ports "HOL-Library.Sublist"
begin

text \<open>
  \<^verbatim>\<open>keeper/src/stellar/client.rs\<close> and \<^verbatim>\<open>keeper/src/stellar/simulation.rs\<close>: the gateway's reads, each a
  simulated contract call, the rebuild of a market snapshot pool by pool, and the dry run of a batch.
  Decoding the results of a response is third-party code: the parameter \<open>D\<close>.
\<close>

section \<open>Contract calls\<close>

definition DEFAULT_SIMULATION_FEE :: nat where
  "DEFAULT_SIMULATION_FEE = 100000"

record ('w, 'a, 'b, 'd) stellar =
  xdr :: "('a, 'b) xdr_ops"
  rpc :: "('w, ('a, 'b) invocation, 'd) rpc_client"
  decode_results :: "sim_response \<Rightarrow> rpc_error + ('a, 'b) scval list"
  gw_source :: string

text \<open>\<open>Gateway::new\<close> around a client that was built.\<close>

definition stellar_new ::
  "('a, 'b) xdr_ops \<Rightarrow> (sim_response \<Rightarrow> rpc_error + ('a, 'b) scval list) \<Rightarrow>
     rpc_error + ('w, ('a, 'b) invocation, 'd) rpc_client \<Rightarrow> string \<Rightarrow> rpc_error + ('w, 'a, 'b, 'd) stellar" where
  "stellar_new X D client source =
     ebind client (\<lambda>c. Inr \<lparr>xdr = X, rpc = c, decode_results = D, gw_source = source\<rparr>)"

definition contract_call_tx ::
  "8 word list \<Rightarrow> ('a, 'b) invocation \<Rightarrow> (('a, 'b) invocation, 'd) envelope" where
  "contract_call_tx source invoked =
     \<lparr>env_tx = \<lparr>source_account = source, fee = DEFAULT_SIMULATION_FEE, tx_seq_num = 0, operations = [invoked], ext = None\<rparr>,
      signatures = []\<rparr>"

definition call_result ::
  "('w, 'a, 'b, 'd) stellar \<Rightarrow> string \<Rightarrow> sim_response \<Rightarrow> rpc_error + ('a, 'b) scval" where
  "call_result S name response =
     (case sim_error response of
        Some err \<Rightarrow> Inl (''simulation failed for '' @ name @ '': '' @ err)
      | None \<Rightarrow>
          ebind (decode_results S response) (\<lambda>rs.
          case rs of
            [] \<Rightarrow> Inl (''simulation returned no results for '' @ name)
          | r # _ \<Rightarrow> Inr r))"

definition simulate_contract_call ::
  "('w, 'a, 'b, 'd) stellar \<Rightarrow> string \<Rightarrow> string \<Rightarrow> ('a, 'b) scval list \<Rightarrow> ('w, rpc_error + ('a, 'b) scval) call" where
  "simulate_contract_call S contract name as w =
     (case ebind (contract_strkey_to_hash (xdr S) contract) (\<lambda>hash.
           ebind (account_strkey_to_muxed (xdr S) (gw_source S)) (\<lambda>source.
           if length name > 32 \<or> length as > u32_max then Inl (length_error (xdr S))
           else Inr (contract_call_tx source \<lparr>inv_contract = contract_address (xdr S) hash, inv_function = name,
                  inv_args = as\<rparr>))) of
        Inl e \<Rightarrow> (Inl e, w)
      | Inr envelope \<Rightarrow>
          (case simulate_transaction_envelope (rpc S) envelope w of
             (Inl e, w') \<Rightarrow> (Inl e, w')
           | (Inr response, w') \<Rightarrow> (call_result S name response, w')))"

text \<open>\<open>cbind\<close> and \<open>clift\<close>: \<open>?\<close> in an asynchronous function, after a call and after a pure step.\<close>

definition cbind :: "('w, 'e + 'c) call \<Rightarrow> ('c \<Rightarrow> ('w, 'e + 'd) call) \<Rightarrow> ('w, 'e + 'd) call" where
  "cbind m f w = (case m w of (Inl e, w') \<Rightarrow> (Inl e, w') | (Inr x, w') \<Rightarrow> f x w')"

definition clift :: "'e + 'c \<Rightarrow> ('w, 'e + 'c) call" where
  "clift r w = (r, w)"

definition called :: "string \<Rightarrow> ('w, rpc_error + 'c) call \<Rightarrow> ('w, rpc_error + 'c) call" where
  "called ctx m w = (case m w of (r, w') \<Rightarrow> (with_context ctx r, w'))"

section \<open>Reads\<close>

definition gw_read_pool_data ::
  "('w, 'a, 'b, 'd) stellar \<Rightarrow> string \<Rightarrow> string \<Rightarrow> ('w, rpc_error + pool_data) call" where
  "gw_read_pool_data S market pool =
     cbind (clift (address_to_scval (xdr S) pool)) (\<lambda>p.
     cbind (called ''simulate get_pool_data'' (simulate_contract_call S market ''get_pool_data'' [p])) (\<lambda>v.
     clift (parse_pool_data (xdr S) v)))"

fun read_pools ::
  "('w, 'a, 'b, 'd) stellar \<Rightarrow> string \<Rightarrow> string list \<Rightarrow> ('w, (string \<times> (rpc_error + pool_data)) list) call" where
  "read_pools S market [] w = ([], w)"
| "read_pools S market (p # ps) w =
     (case gw_read_pool_data S market p w of
        (r, w1) \<Rightarrow> (case read_pools S market ps w1 of (rs, w2) \<Rightarrow> ((p, r) # rs, w2)))"

fun partition_pool_reads :: "(string \<times> (rpc_error + pool_data)) list \<Rightarrow> pool_data list \<times> string list" where
  "partition_pool_reads [] = ([], [])"
| "partition_pool_reads ((a, r) # rs) =
     (case partition_pool_reads rs of (ps, us) \<Rightarrow>
      (case r of Inr p \<Rightarrow> (p # ps, us) | Inl e \<Rightarrow> (ps, a # us)))"

definition read_market_data_per_pool ::
  "('w, 'a, 'b, 'd) stellar \<Rightarrow> string \<Rightarrow> ('w, rpc_error + market_data) call" where
  "read_market_data_per_pool S market =
     cbind (called ''simulate get_all_pools'' (simulate_contract_call S market ''get_all_pools'' [])) (\<lambda>pools_val.
     cbind (clift (parse_pool_addresses (xdr S) pools_val)) (\<lambda>addresses.
     cbind (called ''simulate get_global_state'' (simulate_contract_call S market ''get_global_state'' [])) (\<lambda>global_val.
     cbind (clift (parse_global_state_thresholds (xdr S) global_val)) (\<lambda>(ltv, cents).
     cbind (called ''simulate get_oracle_price_decimals''
       (simulate_contract_call S market ''get_oracle_price_decimals'' [])) (\<lambda>decimals_val.
     cbind (clift (scval_to_u32 (xdr S) decimals_val)) (\<lambda>decimals w.
     case read_pools S market addresses w of
       (reads, w') \<Rightarrow>
         (case partition_pool_reads reads of (ps, us) \<Rightarrow>
          (Inr \<lparr>insolvency_ltv_bps = ltv, pools_data = ps, oracle_price_decimals = unat decimals,
             min_collateral_value_cents = cents, unavailable_pools = us\<rparr>, w'))))))))"

definition gw_read_market_data ::
  "('w, 'a, 'b, 'd) stellar \<Rightarrow> string \<Rightarrow> ('w, rpc_error + market_data) call" where
  "gw_read_market_data S market w =
     (case simulate_contract_call S market ''get_market_data'' [] w of
        (Inr v, w') \<Rightarrow> (parse_market_data (xdr S) v, w')
      | (Inl e, w') \<Rightarrow> read_market_data_per_pool S market w')"

definition gw_read_user_obligation ::
  "('w, 'a, 'b, 'd) stellar \<Rightarrow> string \<Rightarrow> obligation_key \<Rightarrow> ('w, rpc_error + obligation) call" where
  "gw_read_user_obligation S market key =
     cbind (clift (obligation_key_to_scval (xdr S) key)) (\<lambda>k.
     cbind (called ''simulate get_user_obligation'' (simulate_contract_call S market ''get_user_obligation'' [k])) (\<lambda>v.
     clift (parse_obligation (xdr S) v key)))"

definition gw_read_all_obligations_keys ::
  "('w, 'a, 'b, 'd) stellar \<Rightarrow> string \<Rightarrow> ('w, rpc_error + obligation_key list) call" where
  "gw_read_all_obligations_keys S market =
     cbind (called ''simulate get_all_obligations'' (simulate_contract_call S market ''get_all_obligations'' [])) (\<lambda>v.
     clift (parse_obligation_keys (xdr S) v))"

definition gw_read_token_balance ::
  "('w, 'a, 'b, 'd) stellar \<Rightarrow> string \<Rightarrow> string \<Rightarrow> ('w, rpc_error + i128) call" where
  "gw_read_token_balance S token account =
     cbind (clift (address_to_scval (xdr S) account)) (\<lambda>a.
     cbind (simulate_contract_call S token ''balance'' [a]) (\<lambda>v.
     clift (with_context ''parse balance result'' (scval_to_i128 (xdr S) v))))"

definition gw_get_amount_out ::
  "('w, 'a, 'b, 'd) stellar \<Rightarrow> i128 \<Rightarrow> string \<Rightarrow> string \<Rightarrow> string \<Rightarrow> ('w, rpc_error + i128) call" where
  "gw_get_amount_out S amount_in asset_in asset_out provider =
     cbind (clift (build_address_vec_scval (xdr S) [asset_in, asset_out])) (\<lambda>path.
     cbind (called ''simulate swap_provider get_amount_out''
       (simulate_contract_call S provider ''get_amount_out'' [path, i128_to_scval amount_in])) (\<lambda>v.
     clift (with_context ''get_amount_out result is not an i128'' (scval_to_i128 (xdr S) v))))"

definition gw_get_amount_in ::
  "('w, 'a, 'b, 'd) stellar \<Rightarrow> i128 \<Rightarrow> string \<Rightarrow> string \<Rightarrow> string \<Rightarrow> ('w, rpc_error + i128) call" where
  "gw_get_amount_in S amount_out asset_in asset_out provider =
     cbind (clift (build_address_vec_scval (xdr S) [asset_in, asset_out])) (\<lambda>path.
     cbind (called ''simulate swap_provider get_amount_in''
       (simulate_contract_call S provider ''get_amount_in'' [path, i128_to_scval amount_out])) (\<lambda>v.
     clift (with_context ''get_amount_in result is not an i128'' (scval_to_i128 (xdr S) v))))"

definition gw_get_is_obligation_liquidatable ::
  "('w, 'a, 'b, 'd) stellar \<Rightarrow> string \<Rightarrow> string \<Rightarrow> obligation_key \<Rightarrow> string \<Rightarrow> string \<Rightarrow> ('w, rpc_error + bool) call" where
  "gw_get_is_obligation_liquidatable S market liquidator_address borrower bpool cpool =
     cbind (clift (address_to_scval (xdr S) liquidator_address)) (\<lambda>l.
     cbind (clift (obligation_key_to_scval (xdr S) borrower)) (\<lambda>k.
     cbind (clift (address_to_scval (xdr S) bpool)) (\<lambda>b.
     cbind (clift (address_to_scval (xdr S) cpool)) (\<lambda>c w.
     case simulate_contract_call S market ''liquidate'' [l, k, b, c, ScI128 0 1000, ScI128 0 0] w of
       (Inr v, w') \<Rightarrow> (Inr True, w')
     | (Inl e, w') \<Rightarrow> (if is_expected_liquidation_failure e then Inr False else Inl e, w')))))"

section \<open>The dry run of a batch\<close>

definition gw_simulate_batch ::
  "('w, 'a, 'b, 'd) stellar \<Rightarrow> string \<Rightarrow> obligation_key \<Rightarrow> ('a, 'b) scval list \<Rightarrow>
     ('w, rpc_error + batch_simulation) call" where
  "gw_simulate_batch S market liquidator_key requests =
     cbind (clift (build_requests_vec_scval requests)) (\<lambda>requests_vec.
     cbind (clift (obligation_key_to_scval (xdr S) liquidator_key)) (\<lambda>k w.
     case simulate_contract_call S market ''submit_requests_batch'' [k, requests_vec, ScVoid] w of
       (Inr v, w') \<Rightarrow> (Inr BatchOk, w')
     | (Inl e, w') \<Rightarrow> (Inr (BatchFailed (contract_error_code e)), w')))"

section \<open>The ports of the gateway\<close>

definition stellar_ledger :: "('w, 'a, 'b, 'd) stellar \<Rightarrow> 'w ledger_reader" where
  "stellar_ledger S =
     \<lparr>read_token_balance = gw_read_token_balance S,
      read_market_data = gw_read_market_data S,
      read_pool_data = gw_read_pool_data S,
      read_user_obligation = gw_read_user_obligation S,
      read_all_obligations_keys = gw_read_all_obligations_keys S,
      read_account_token_balance = gw_read_token_balance S,
      get_amount_out = gw_get_amount_out S,
      get_amount_in = gw_get_amount_in S,
      get_is_obligation_liquidatable = gw_get_is_obligation_liquidatable S\<rparr>"

definition stellar_gateway ::
  "('w, 'a, 'b, 'd) stellar \<Rightarrow> ('w, ('a, 'b) scval, ('a, 'b) invocation) gateway" where
  "stellar_gateway S =
     \<lparr>liquidate_request = gw_liquidate_request (xdr S),
      flash_borrow_request = gw_flash_borrow_request (xdr S),
      withdraw_request = gw_withdraw_request (xdr S),
      swap_exact_tokens_request = gw_swap_exact_tokens_request (xdr S),
      swap_for_exact_tokens_request = gw_swap_for_exact_tokens_request (xdr S),
      batch_op = build_batch_op (xdr S),
      withdraw_op = build_withdraw_op (xdr S),
      cover_bad_debt_op = build_issue_cover_bad_debt_op (xdr S),
      simulate_batch = gw_simulate_batch S\<rparr>"

section \<open>Results of the reads\<close>

lemma pair_case_iff: "(case z of (a, b) \<Rightarrow> f a b) = y \<longleftrightarrow> (\<exists>a b. z = (a, b) \<and> f a b = y)"
  by (cases z) auto

lemma cbind_eq_Inr_iff [simp]:
  "cbind m f w = (Inr y, w'') \<longleftrightarrow> (\<exists>x w'. m w = (Inr x, w') \<and> f x w' = (Inr y, w''))"
  by (auto simp: cbind_def split: prod.splits sum.splits)

lemma clift_eq_iff [simp]: "clift r w = (y, w') \<longleftrightarrow> r = y \<and> w = w'"
  by (auto simp: clift_def)

lemma called_eq_Inr_iff [simp]: "called ctx m w = (Inr y, w') \<longleftrightarrow> m w = (Inr y, w')"
  by (auto simp: called_def split: prod.splits)

lemma read_pools_addresses: "read_pools S market ps w = (rs, w') \<Longrightarrow> map fst rs = ps"
  by (induction ps arbitrary: w rs w') (auto split: prod.splits)

lemma read_pools_read:
  "read_pools S market ps w = (rs, w') \<Longrightarrow> (a, r) \<in> set rs \<Longrightarrow> \<exists>w1 w2. gw_read_pool_data S market a w1 = (r, w2)"
  by (induction ps arbitrary: w rs w') (auto split: prod.splits, blast)

lemma partition_pool_reads_parts:
  "partition_pool_reads rs = (ps, us) \<Longrightarrow>
     set ps = {p. \<exists>a. (a, Inr p) \<in> set rs} \<and> set us = {a. \<exists>e. (a, Inl e) \<in> set rs} \<and>
     length ps + length us = length rs \<and> subseq us (map fst rs)"
  by (induction rs arbitrary: ps us rule: partition_pool_reads.induct) (fastforce split: prod.splits sum.splits)+

lemma gw_read_pool_data_typed: "gw_read_pool_data S market a w = (Inr p, w') \<Longrightarrow> typed_pool p"
  by (auto simp: gw_read_pool_data_def dest: parse_pool_data_typed)

text \<open>A snapshot that was rebuilt splits the pools the market listed.\<close>

definition splits_pools :: "string list \<Rightarrow> market_data \<Rightarrow> bool" where
  "splits_pools addresses md \<longleftrightarrow>
     length (pools_data md) + length (unavailable_pools md) = length addresses \<and>
     subseq (unavailable_pools md) addresses \<and>
     list_all (\<lambda>a. a \<in> set (unavailable_pools md) \<or> find_pool (pools_data md) a \<noteq> None) addresses"

lemma per_pool_snapshot:
  assumes "read_market_data_per_pool S market w = (Inr md, w')"
    and ask: "\<forall>a p w w'. gw_read_pool_data S market a w = (Inr p, w') \<longrightarrow> pool_address p = a"
  shows "\<exists>v w1 addresses. simulate_contract_call S market ''get_all_pools'' [] w = (Inr v, w1) \<and>
    parse_pool_addresses (xdr S) v = Inr addresses \<and> splits_pools addresses md \<and> typed_market md"
proof -
  from assms(1) obtain v w1 addresses v2 ltv cents w2 v3 w3 d reads ps us where
    l: "simulate_contract_call S market ''get_all_pools'' [] w = (Inr v, w1)"
      "parse_pool_addresses (xdr S) v = Inr addresses"
    and t: "parse_global_state_thresholds (xdr S) v2 = Inr (ltv, cents)"
    and r: "read_pools S market addresses w3 = (reads, w')" "partition_pool_reads reads = (ps, us)"
    and md: "md = \<lparr>insolvency_ltv_bps = ltv, pools_data = ps, oracle_price_decimals = unat (d :: 32 word),
             min_collateral_value_cents = cents, unavailable_pools = us\<rparr>"
    unfolding read_market_data_per_pool_def by (auto simp: pair_case_iff)
  have p: "set ps = {p. \<exists>a. (a, Inr p) \<in> set reads}" "set us = {a. \<exists>e. (a, Inl e) \<in> set reads}"
    "length ps + length us = length reads" "subseq us (map fst reads)"
    using partition_pool_reads_parts [OF r(2)] by auto
  have f: "map fst reads = addresses" by (rule read_pools_addresses [OF r(1)])
  have "a \<in> set us \<or> find_pool ps a \<noteq> None" if "a \<in> set addresses" for a
  proof -
    from that f obtain x where x: "(a, x) \<in> set reads" by force
    show ?thesis
    proof (cases x)
      case (Inl e)
      then show ?thesis using x p(2) by blast
    next
      case (Inr q)
      with x p(1) have "q \<in> set ps" by blast
      moreover have "pool_address q = a" using read_pools_read [OF r(1) x] Inr ask by blast
      ultimately show ?thesis by (auto simp: find_pool_def find_None_iff_all)
    qed
  qed
  moreover have "list_all typed_pool ps"
    using p(1) read_pools_read [OF r(1)] gw_read_pool_data_typed by (fastforce simp: list_all_iff)
  moreover have "in_i128 ltv" "in_i128 cents"
    using t by (auto simp: parse_global_state_thresholds_def map_get_i128_range)
  moreover have "length ps + length us = length addresses" "subseq us addresses" using p(3,4) f by auto
  ultimately have "splits_pools addresses md \<and> typed_market md"
    unfolding splits_pools_def typed_market_def md by (simp add: list_all_iff unat_u32_le)
  then show ?thesis using l by blast
qed

text \<open>No pool read can fail the rebuild.\<close>

lemma per_pool_total:
  assumes "simulate_contract_call S market ''get_all_pools'' [] w = (Inr v1, w1)"
    "parse_pool_addresses (xdr S) v1 = Inr addresses"
    "simulate_contract_call S market ''get_global_state'' [] w1 = (Inr v2, w2)"
    "parse_global_state_thresholds (xdr S) v2 = Inr (ltv, cents)"
    "simulate_contract_call S market ''get_oracle_price_decimals'' [] w2 = (Inr v3, w3)"
    "scval_to_u32 (xdr S) v3 = Inr d"
  shows "\<exists>md w'. read_market_data_per_pool S market w = (Inr md, w') \<and> w' = snd (read_pools S market addresses w3) \<and>
    unavailable_pools md = snd (partition_pool_reads (fst (read_pools S market addresses w3)))"
  using assms
  by (auto simp: read_market_data_per_pool_def cbind_def called_def clift_def split: prod.splits)

section \<open>Contract errors\<close>

lemma call_failed_message:
  assumes "sim_error response = Some err"
  shows "call_result S name response = Inl ((''simulation failed for '' @ name) @ CHR '':'' # '' '' @ err)"
  using assms by (simp add: call_result_def)

lemma simulate_contract_call_error:
  assumes "contract_from_string (xdr S) contract = Inr hash" "account_from_string (xdr S) (gw_source S) = Inr source"
    and "length name \<le> 32" "length as \<le> u32_max"
    and "simulate_transaction_envelope (rpc S) (contract_call_tx source \<lparr>inv_contract = contract_address (xdr S) hash,
      inv_function = name, inv_args = as\<rparr>) w = (Inr response, w')" "sim_error response = Some err"
  shows "simulate_contract_call S contract name as w = (Inl ((''simulation failed for '' @ name) @ CHR '':'' # '' '' @ err), w')"
  using assms call_failed_message [OF assms(6)]
  by (simp add: simulate_contract_call_def contract_strkey_to_hash_def account_strkey_to_muxed_def)

lemma extract_contract_code_space: "extract_contract_code (CHR '' '' # e) = extract_contract_code e"
proof -
  have "strip_prefix MARKER (CHR '' '' # e) = None" by (simp add: MARKER_def)
  then show ?thesis by (simp add: extract_contract_code_def after_first.simps [of MARKER "CHR '' '' # e"])
qed

lemma contains_space: "p \<noteq> [] \<Longrightarrow> hd p \<noteq> c \<Longrightarrow> contains (c # s) p \<longleftrightarrow> contains s p"
  by (cases p) (simp_all add: contains_def after_first.simps [of _ "c # s"])

lemma phrase_not_in_chain:
  assumes "\<not> contains (to_lowercase c1) p" "\<not> contains (to_lowercase c2) p" "\<not> contains (to_lowercase err) p"
    and "CHR '':'' \<notin> set p" "p \<noteq> []" "hd p \<noteq> CHR '' ''"
  shows "\<not> contains (to_lowercase (c1 @ CHR '':'' # '' '' @ c2 @ CHR '':'' # '' '' @ err)) p"
proof -
  have "to_lower_char (CHR '':'') = CHR '':''" "to_lower_char (CHR '' '') = CHR '' ''" by code_simp+
  moreover have "to_lowercase (c # s) = to_lower_char c # to_lowercase s" for c s by (simp add: to_lowercase_def)
  ultimately show ?thesis using assms by (simp add: contains_sep contains_space)
qed

lemma user_obligation_error:
  fixes S :: "('w, 'a, 'b, 'd) stellar"
  assumes "extract_contract_code err = Some n"
  defines "e \<equiv> ''simulate get_user_obligation'' @ CHR '':'' # '' '' @
    (''simulation failed for '' @ ''get_user_obligation'') @ CHR '':'' # '' '' @ err"
  shows "contract_error_code e = Some n"
    and "\<not> contains (to_lowercase err) ''simulation returned no results'' \<Longrightarrow>
      is_obligation_does_not_exist e \<longleftrightarrow> n = OBLIGATION_DOES_NOT_EXIST_CODE"
proof -
  have m: "\<not> contains ''simulate get_user_obligation'' MARKER"
    "\<not> contains ('' '' @ ''simulation failed for '' @ ''get_user_obligation'') MARKER" by code_simp+
  have x: "extract_contract_code e = Some n"
    using extract_contract_code_context [OF m(1)] extract_contract_code_context [OF m(2)] assms(1)
      extract_contract_code_space [of err]
    by (simp add: e_def)
  then show "contract_error_code e = Some n" by (simp add: contract_error_code_def)
  let ?p = "''simulation returned no results''"
  assume "\<not> contains (to_lowercase err) ?p"
  moreover have "\<not> contains (to_lowercase ''simulate get_user_obligation'') ?p"
    "\<not> contains (to_lowercase (''simulation failed for '' @ ''get_user_obligation'')) ?p" by code_simp+
  ultimately have "\<not> contains (to_lowercase e) ?p"
    unfolding e_def by (intro phrase_not_in_chain) simp_all
  with x show "is_obligation_does_not_exist e \<longleftrightarrow> n = OBLIGATION_DOES_NOT_EXIST_CODE"
    by (simp add: is_obligation_does_not_exist_def classify_str_def Let_def)
qed

section \<open>A worked gateway\<close>

text \<open>A market with two pools, of which only \<open>CM\<close> can be priced; the aggregate call fails.  A response
  names what was asked in \<open>transaction_data\<close>.\<close>

definition num :: "nat \<Rightarrow> (string, unit) scval" where
  "num n = ScU32 (of_nat n)"

definition example_pool_val :: "(string, unit) scval" where
  "example_pool_val = ScMap (Some
     [(ScSymbol ''j_token_rate_floor_bps'', num 10000), (ScSymbol ''d_token_rate_ceil_bps'', num 10000),
      (ScSymbol ''oracle_asset_price'', num 100), (ScSymbol ''total_available_adjusted'', num 0),
      (ScSymbol ''total_supply'', num 0),
      (ScSymbol ''pool'', ScMap (Some
        [(ScSymbol ''pool_address'', ScAddress ''CM''), (ScSymbol ''token_address'', ScAddress ''CM''),
         (ScSymbol ''token_decimals'', num 7), (ScSymbol ''total_borrowed'', num 0),
         (ScSymbol ''total_d_tokens'', num 0), (ScSymbol ''total_j_tokens'', num 0),
         (ScSymbol ''total_available'', num 0), (ScSymbol ''total_collateral'', num 0),
         (ScSymbol ''config'', ScMap (Some
           [(ScSymbol ''health_config'', ScMap (Some
              [(ScSymbol ''open_ltv_bps'', num 8000), (ScSymbol ''close_ltv_bps'', num 8500),
               (ScSymbol ''liability_factor_bps'', num 10000), (ScSymbol ''liquidation_close_factor_bps'', num 5000),
               (ScSymbol ''max_liquidation_incentive_bps'', num 1000),
               (ScSymbol ''utilization_ratio_limit_bps'', num 9000)])),
            (ScSymbol ''fee_config'', ScMap (Some [(ScSymbol ''flash_loan_fee_bps'', num 5)]))]))]))])"

definition example_answer :: "(string, unit) invocation \<Rightarrow> sim_response" where
  "example_answer op =
     \<lparr>sim_error = (if inv_function op \<in> {''get_all_pools'', ''get_global_state'', ''get_oracle_price_decimals''} \<or>
          inv_function op = ''get_pool_data'' \<and> inv_args op = [ScAddress ''CM'']
        then None else Some ''Error(Contract, #200)''),
      transaction_data = inv_function op, results = [], min_resource_fee = 0\<rparr>"

definition example_decode :: "sim_response \<Rightarrow> rpc_error + (string, unit) scval list" where
  "example_decode r =
     (let f = transaction_data r in
      if f = ''get_all_pools'' then Inr [ScVec (Some [ScAddress ''CP'', ScAddress ''CM''])]
      else if f = ''get_global_state'' then
        Inr [ScMap (Some [(ScSymbol ''insolvency_ltv_bps'', num 9900), (ScSymbol ''min_collateral_value_cents'', num 100)])]
      else if f = ''get_oracle_price_decimals'' then Inr [num 14]
      else if f = ''get_pool_data'' then Inr [example_pool_val]
      else Inr [])"

definition example_client :: "(unit, (string, unit) invocation, unit) rpc_client" where
  "example_client =
     \<lparr>get_account_seq = (\<lambda>a w. (Inr 7, w)),
      simulate_transaction_envelope = (\<lambda>env w. (Inr (example_answer (hd (operations (env_tx env)))), w)),
      send_transaction = (\<lambda>env w. (Inr [1], w)), get_transaction_polling = (\<lambda>h w. (Inr (), w)),
      sleep_millis = (\<lambda>n w. ((), w))\<rparr>"

definition example_stellar :: "(unit, string, unit, unit) stellar" where
  "example_stellar = \<lparr>xdr = example_xdr, rpc = example_client, decode_results = example_decode, gw_source = ''GK''\<rparr>"

lemma example_call:
  "contract = ''CM'' \<Longrightarrow> length name \<le> 32 \<Longrightarrow> length as \<le> 1 \<Longrightarrow>
   simulate_contract_call example_stellar contract name as w =
     (call_result example_stellar name (example_answer \<lparr>inv_contract = ''CM'', inv_function = name, inv_args = as\<rparr>), w)"
  by (simp add: simulate_contract_call_def example_stellar_def example_client_def contract_strkey_to_hash_def
      account_strkey_to_muxed_def example_xdr_def contract_call_tx_def u32_max_def)

lemmas example_reads = call_result_def example_answer_def example_decode_def

lemma example_pool_parses: "\<exists>p. parse_pool_data example_xdr example_pool_val = Inr p \<and> pool_address p = ''CM''"
  by (simp add: parse_pool_data_def example_pool_val_def num_def scval_as_map_def map_get_i128_def map_get_u32_def
      map_get_address_def ok_or_else_def example_xdr_def Let_def split: prod.splits)

lemma example_pool_read:
  "gw_read_pool_data example_stellar ''CM'' a w = (Inr p, w') \<Longrightarrow> pool_address p = a"
proof -
  assume r: "gw_read_pool_data example_stellar ''CM'' a w = (Inr p, w')"
  obtain q where q: "parse_pool_data example_xdr example_pool_val = Inr q" "pool_address q = ''CM''"
    using example_pool_parses by blast
  have x: "xdr example_stellar = example_xdr" "decode_results example_stellar = example_decode"
    by (simp_all add: example_stellar_def)
  from r obtain v u where v: "address_to_scval example_xdr a = Inr v"
    "simulate_contract_call example_stellar ''CM'' ''get_pool_data'' [v] w = (Inr u, w')"
    "parse_pool_data example_xdr u = Inr p"
    by (auto simp: gw_read_pool_data_def x)
  have "u = example_pool_val \<and> v = ScAddress ''CM''"
    using v(2) by (auto simp: example_call example_reads x Let_def split: if_splits)
  moreover obtain b where "v = ScAddress b" "address_string example_xdr b = a"
    using address_round_trip [OF example_canonical v(1)] by blast
  moreover have "address_string example_xdr ''CM'' = ''CM''" by (simp add: example_xdr_def)
  ultimately show ?thesis using q v(3) by simp
qed

lemma example_rebuild:
  "\<exists>md w'. read_market_data_per_pool example_stellar ''CM'' w = (Inr md, w') \<and> unavailable_pools md = [''CP'']"
proof -
  have x: "xdr example_stellar = example_xdr" "decode_results example_stellar = example_decode"
    by (simp_all add: example_stellar_def)
  obtain q where q: "parse_pool_data example_xdr example_pool_val = Inr q" using example_pool_parses by blast
  have a: "address_to_scval example_xdr ''CP'' = Inr (ScAddress ''CP'')" "address_to_scval example_xdr ''CM'' = Inr (ScAddress ''CM'')"
    by (simp_all add: address_to_scval_def example_xdr_def)
  have p: "\<exists>e. gw_read_pool_data example_stellar ''CM'' ''CP'' w = (Inl e, w)"
    "gw_read_pool_data example_stellar ''CM'' ''CM'' w = (Inr q, w)" for w
    by (simp_all add: gw_read_pool_data_def cbind_def clift_def called_def x a example_call example_reads q Let_def)
  obtain e where e: "gw_read_pool_data example_stellar ''CM'' ''CP'' w = (Inl e, w)" using p(1) by blast
  have r: "read_pools example_stellar ''CM'' [''CP'', ''CM''] w = ([(''CP'', Inl e), (''CM'', Inr q)], w)"
    using e p(2) by simp
  have g: "parse_pool_addresses example_xdr (ScVec (Some [ScAddress ''CP'', ScAddress ''CM''])) = Inr [''CP'', ''CM'']"
    by (simp add: parse_pool_addresses_def scval_as_vec_def example_xdr_def)
  have c: "simulate_contract_call example_stellar ''CM'' ''get_all_pools'' [] w =
      (Inr (ScVec (Some [ScAddress ''CP'', ScAddress ''CM''])), w)"
    "\<exists>v ltv cents. simulate_contract_call example_stellar ''CM'' ''get_global_state'' [] w = (Inr v, w) \<and>
       parse_global_state_thresholds example_xdr v = Inr (ltv, cents)"
    "\<exists>v d. simulate_contract_call example_stellar ''CM'' ''get_oracle_price_decimals'' [] w = (Inr v, w) \<and>
       scval_to_u32 example_xdr v = Inr d"
    by (simp_all add: example_call example_reads x Let_def parse_global_state_thresholds_def scval_as_map_def
        map_get_i128_def num_def scval_to_u32_def)
  then show ?thesis
    using per_pool_total [of example_stellar "''CM''" w, unfolded x, OF c(1) g] r by fastforce
qed

section \<open>Properties\<close>

text \<open>A rebuilt snapshot loses no pool: when the gateway rebuilds a market pool by pool, every pool the
  market listed is either in the snapshot or marked as unavailable, the marked ones in the order of the
  list, and there are as many entries as listed pools; all its numbers have the ranges of their types.
  The market is relied on to answer \<open>get_pool_data\<close> with the pool it was asked for.\<close>

theorem rebuilt_snapshot_accounts_for_pools:
  assumes "read_market_data_per_pool S market w = (Inr md, w')"
    and "\<forall>a p w w'. gw_read_pool_data S market a w = (Inr p, w') \<longrightarrow> pool_address p = a"
  shows "\<exists>v w1 addresses. simulate_contract_call S market ''get_all_pools'' [] w = (Inr v, w1) \<and>
    parse_pool_addresses (xdr S) v = Inr addresses \<and> splits_pools addresses md \<and> typed_market md"
  by (rule per_pool_snapshot [OF assms])

theorem rebuilt_snapshot_accounts_for_pools_witness:
  "\<exists>md. unavailable_pools md = [''CP''] \<and> splits_pools [''CP'', ''CM''] md"
proof -
  obtain md w' where md: "read_market_data_per_pool example_stellar ''CM'' example_world = (Inr md, w')"
    "unavailable_pools md = [''CP'']" using example_rebuild by blast
  from rebuilt_snapshot_accounts_for_pools [OF md(1)] example_pool_read obtain v w1 addresses where
    v: "simulate_contract_call example_stellar ''CM'' ''get_all_pools'' [] example_world = (Inr v, w1)"
    "parse_pool_addresses (xdr example_stellar) v = Inr addresses" "splits_pools addresses md" by blast
  have "v = ScVec (Some [ScAddress ''CP'', ScAddress ''CM''])"
    using v(1) by (simp add: example_call example_reads Let_def) (simp add: example_stellar_def example_decode_def)
  with v(2) have "addresses = [''CP'', ''CM'']"
    by (simp add: parse_pool_addresses_def scval_as_vec_def example_stellar_def example_xdr_def)
  with md(2) v(3) show ?thesis by blast
qed

text \<open>A dead price feed costs its pool and nothing else: once the list of pools, the thresholds and the
  decimals are read, the rebuild succeeds whatever the reads of the single pools return, and exactly the
  pools whose read failed are marked.\<close>

theorem failed_pool_reads_are_tolerated:
  assumes "simulate_contract_call S market ''get_all_pools'' [] w = (Inr v1, w1)"
    "parse_pool_addresses (xdr S) v1 = Inr addresses"
    "simulate_contract_call S market ''get_global_state'' [] w1 = (Inr v2, w2)"
    "parse_global_state_thresholds (xdr S) v2 = Inr (ltv, cents)"
    "simulate_contract_call S market ''get_oracle_price_decimals'' [] w2 = (Inr v3, w3)"
    "scval_to_u32 (xdr S) v3 = Inr d"
  shows "\<exists>md w'. read_market_data_per_pool S market w = (Inr md, w') \<and>
    (\<forall>a. a \<in> set (unavailable_pools md) \<longleftrightarrow>
       (\<exists>e. (a, Inl e) \<in> set (fst (read_pools S market addresses w3))))"
proof -
  obtain ps us where p: "partition_pool_reads (fst (read_pools S market addresses w3)) = (ps, us)" by fastforce
  then show ?thesis using per_pool_total [OF assms] partition_pool_reads_parts [OF p] by auto
qed

theorem failed_pool_reads_are_tolerated_witness:
  "\<exists>md w'. read_market_data_per_pool example_stellar ''CM'' example_world = (Inr md, w')"
proof -
  have x: "xdr example_stellar = example_xdr" "decode_results example_stellar = example_decode"
    by (simp_all add: example_stellar_def)
  have c: "simulate_contract_call example_stellar ''CM'' ''get_all_pools'' [] example_world =
      (Inr (ScVec (Some [ScAddress ''CP'', ScAddress ''CM''])), example_world)"
    "simulate_contract_call example_stellar ''CM'' ''get_global_state'' [] example_world =
      (Inr (ScMap (Some [(ScSymbol ''insolvency_ltv_bps'', num 9900), (ScSymbol ''min_collateral_value_cents'', num 100)])),
       example_world)"
    "simulate_contract_call example_stellar ''CM'' ''get_oracle_price_decimals'' [] example_world =
      (Inr (num 14), example_world)"
    by (simp_all add: example_call example_reads x Let_def)
  have v: "parse_pool_addresses (xdr example_stellar) (ScVec (Some [ScAddress ''CP'', ScAddress ''CM''])) = Inr [''CP'', ''CM'']"
    "parse_global_state_thresholds (xdr example_stellar) (ScMap (Some [(ScSymbol ''insolvency_ltv_bps'', num 9900),
       (ScSymbol ''min_collateral_value_cents'', num 100)])) = Inr (9900, 100)"
    "scval_to_u32 (xdr example_stellar) (num 14) = Inr 14"
    by (simp_all add: x parse_pool_addresses_def scval_as_vec_def example_xdr_def parse_global_state_thresholds_def
        scval_as_map_def map_get_i128_def num_def scval_to_u32_def)
  show ?thesis using failed_pool_reads_are_tolerated [OF c(1) v(1) c(2) v(2) c(3) v(3)] by blast
qed



end
