(* ===== verification/Storage.thy ===== *)
theory Storage
  imports Liquidator_Correct
begin

text \<open>
  \<^verbatim>\<open>keeper/src/storage\<close>: the SQLite database of the keeper, a table of obligations with the primary key
  (market, user, seed) and a table of at most one cursor row (\<^verbatim>\<open>schema.sql\<close>).  A statement either runs or
  fails as a whole; whether it fails is a parameter, as is \<open>serde_json\<close>.  The laws the strategies rely
  on are the locale \<open>obligation_repo\<close>, interpreted on the database.
\<close>

section \<open>The database\<close>

record event_cursor =
  cur_ledger :: nat
  cursor_id :: string

record database =
  rows :: "(string \<times> string \<times> string, string) hash_map"
  cursor_row :: "event_cursor option"

record json =
  to_json :: "obligation \<Rightarrow> rpc_error + string"
  from_json :: "string \<Rightarrow> rpc_error + obligation"

type_synonym fault = "rpc_error option"

text \<open>\<open>SqliteStore::open\<close> creates what is missing and keeps what is there.\<close>

definition store_open :: "fault \<Rightarrow> database option \<Rightarrow> rpc_error + database" where
  "store_open f existing =
     (case f of
        Some e \<Rightarrow> Inl e
      | None \<Rightarrow> Inr (case existing of Some d \<Rightarrow> d | None \<Rightarrow> \<lparr>rows = [], cursor_row = None\<rparr>))"

section \<open>Obligations\<close>

record obligation_row =
  row_user :: string
  row_seed :: string
  data_json :: string

definition row_key :: "obligation_row \<Rightarrow> obligation_key" where
  "row_key r = (if row_seed r = [] then obligation_key_new (row_user r) else new_with_seed (row_user r) (row_seed r))"

definition row_of :: "(string \<times> string \<times> string) \<times> string \<Rightarrow> obligation_row" where
  "row_of e = \<lparr>row_user = fst (snd (fst e)), row_seed = snd (snd (fst e)), data_json = snd e\<rparr>"

definition select_rows :: "string \<Rightarrow> database \<Rightarrow> obligation_row list" where
  "select_rows market d = map row_of (filter (\<lambda>e. fst (fst e) = market) (rows d))"

fun load_rows ::
  "json \<Rightarrow> obligation_row list \<Rightarrow> (obligation_key, obligation) hash_map \<Rightarrow>
     rpc_error + (obligation_key, obligation) hash_map" where
  "load_rows J [] out = Inr out"
| "load_rows J (r # rs) out =
     ebind (from_json J (data_json r)) (\<lambda>ob. load_rows J rs (hm_insert (row_key r) ob out))"

definition load_all ::
  "json \<Rightarrow> fault \<Rightarrow> string \<Rightarrow> database \<Rightarrow> rpc_error + (obligation_key, obligation) hash_map" where
  "load_all J f market d =
     (case f of Some e \<Rightarrow> Inl e | None \<Rightarrow> load_rows J (select_rows market d) [])"

definition put_obligation ::
  "json \<Rightarrow> fault \<Rightarrow> string \<Rightarrow> obligation_key \<Rightarrow> obligation \<Rightarrow> database \<Rightarrow> (rpc_error + unit) \<times> database" where
  "put_obligation J f market key ob d =
     (case to_json J ob of
        Inl e \<Rightarrow> (Inl e, d)
      | Inr data \<Rightarrow>
          (case f of
             Some e \<Rightarrow> (Inl e, d)
           | None \<Rightarrow> (Inr (), d\<lparr>rows := hm_insert (market, user key, seed_as_str key) data (rows d)\<rparr>)))"

definition delete_row ::
  "fault \<Rightarrow> string \<Rightarrow> obligation_key \<Rightarrow> database \<Rightarrow> (rpc_error + unit) \<times> database" where
  "delete_row f market key d =
     (case f of
        Some e \<Rightarrow> (Inl e, d)
      | None \<Rightarrow> (Inr (), d\<lparr>rows := hm_remove (market, user key, seed_as_str key) (rows d)\<rparr>))"

section \<open>The cursor\<close>

definition get_cursor :: "fault \<Rightarrow> database \<Rightarrow> rpc_error + event_cursor option" where
  "get_cursor f d = (case f of Some e \<Rightarrow> Inl e | None \<Rightarrow> Inr (cursor_row d))"

definition set_cursor :: "fault \<Rightarrow> string \<Rightarrow> nat \<Rightarrow> database \<Rightarrow> (rpc_error + unit) \<times> database" where
  "set_cursor f cid ledger d =
     (case f of
        Some e \<Rightarrow> (Inl e, d)
      | None \<Rightarrow> (Inr (), d\<lparr>cursor_row := Some \<lparr>cur_ledger = ledger, cursor_id = cid\<rparr>\<rparr>))"

section \<open>The store port\<close>

text \<open>The database is a part of the world; \<open>F\<close> says whether the next statement fails.\<close>

record 'x machine =
  database :: database
  rest :: 'x

definition on_db ::
  "(fault \<Rightarrow> database \<Rightarrow> 'r \<times> database) \<Rightarrow> ('x machine world \<Rightarrow> fault) \<Rightarrow> ('x machine, 'r) call" where
  "on_db step F w =
     (case step (F w) (database (outside w)) of (r, d) \<Rightarrow> (r, w\<lparr>outside := (outside w)\<lparr>database := d\<rparr>\<rparr>))"

definition sqlite_store :: "json \<Rightarrow> ('x machine world \<Rightarrow> fault) \<Rightarrow> 'x machine store" where
  "sqlite_store J F =
     \<lparr>repo_put = (\<lambda>m k ob. on_db (\<lambda>f. put_obligation J f m k ob) F),
      repo_delete = (\<lambda>m k. on_db (\<lambda>f. delete_row f m k) F),
      repo_load_all = (\<lambda>m. on_db (\<lambda>f d. (load_all J f m d, d)) F),
      cursor_set = (\<lambda>c n. on_db (\<lambda>f. set_cursor f c n) F)\<rparr>"

section \<open>What the database holds\<close>

text \<open>A key whose seed is present and empty shares its row with the key without a seed.\<close>

definition good_key :: "obligation_key \<Rightarrow> bool" where
  "good_key k \<longleftrightarrow> seed k \<noteq> Some []"

definition stored :: "json \<Rightarrow> database \<Rightarrow> string \<Rightarrow> obligation_key \<Rightarrow> obligation option" where
  "stored J d market k =
     (if good_key k then
        (case hm_get (rows d) (market, user k, seed_as_str k) of
           None \<Rightarrow> None
         | Some data \<Rightarrow> (case from_json J data of Inl e \<Rightarrow> None | Inr ob \<Rightarrow> Some ob))
      else None)"

definition readable :: "json \<Rightarrow> database \<Rightarrow> bool" where
  "readable J d \<longleftrightarrow> hm_wf (rows d) \<and> list_all (\<lambda>e. \<exists>ob. from_json J (snd e) = Inr ob) (rows d)"

definition encodable :: "json \<Rightarrow> obligation \<Rightarrow> bool" where
  "encodable J ob \<longleftrightarrow> (\<exists>data. to_json J ob = Inr data \<and> from_json J data = Inr ob)"

lemma row_key_eq_iff:
  "row_key r = k \<longleftrightarrow> good_key k \<and> user k = row_user r \<and> seed_as_str k = row_seed r"
  by (cases k) (auto simp: row_key_def good_key_def obligation_key_new_def new_with_seed_def seed_as_str_def
      split: option.splits)

lemma same_row_iff:
  "good_key k \<Longrightarrow> good_key l \<Longrightarrow> (user k, seed_as_str k) = (user l, seed_as_str l) \<longleftrightarrow> k = l"
  by (cases k; cases l) (auto simp: good_key_def seed_as_str_def split: option.splits)

lemma load_rows_get:
  assumes "load_rows J (map row_of (filter (\<lambda>e. fst (fst e) = market) rs)) out = Inr obs" "distinct (map fst rs)"
  shows "hm_get obs k = (case map_of rs (market, user k, seed_as_str k) of
      Some data \<Rightarrow> if good_key k then (case from_json J data of Inl e \<Rightarrow> None | Inr ob \<Rightarrow> Some ob) else hm_get out k
    | None \<Rightarrow> hm_get out k)"
  using assms
proof (induction rs arbitrary: out)
  case (Cons e rs)
  obtain m u s data where e: "e = ((m, u, s), data)" by (metis prod.exhaust)
  show ?case
  proof (cases "m = market")
    case False
    then show ?thesis using Cons e by simp
  next
    case True
    let ?r = "row_of e"
    have "data_json ?r = data" by (simp add: row_of_def e)
    with Cons.prems(1) True e obtain ob where ob: "from_json J data = Inr ob"
      and l: "load_rows J (map row_of (filter (\<lambda>e. fst (fst e) = market) rs)) (hm_insert (row_key ?r) ob out) = Inr obs"
      by auto
    have n: "map_of rs (market, u, s) = None" using Cons.prems(2) e True by (auto simp: map_of_eq_None_iff)
    have r: "k = row_key ?r \<longleftrightarrow> good_key k \<and> user k = u \<and> seed_as_str k = s"
      using row_key_eq_iff [of ?r k] by (auto simp: row_of_def e)
    show ?thesis
    proof (cases "user k = u \<and> seed_as_str k = s")
      case True
      then show ?thesis using Cons.IH [OF l] Cons.prems(2) n ob r by (simp add: e \<open>m = market\<close>)
    next
      case False
      then show ?thesis using Cons.IH [OF l] Cons.prems(2) r by (auto simp: e split: option.splits)
    qed
  qed
qed simp

lemma load_rows_wf: "load_rows J rs out = Inr obs \<Longrightarrow> hm_wf out \<Longrightarrow> hm_wf obs"
  by (induction rs arbitrary: out) auto

lemma load_rows_total:
  "list_all (\<lambda>r. \<exists>ob. from_json J (data_json r) = Inr ob) rs \<Longrightarrow> \<exists>obs. load_rows J rs out = Inr obs"
  by (induction rs arbitrary: out) auto

lemma load_all_stored:
  assumes "load_all J f market d = Inr obs" "hm_wf (rows d)"
  shows "hm_get obs = stored J d market \<and> hm_wf obs"
proof
  show "hm_get obs = stored J d market"
  proof
    fix k
    have "load_rows J (select_rows market d) [] = Inr obs" using assms(1) by (simp add: load_all_def split: option.splits)
    from load_rows_get [OF this [unfolded select_rows_def]] assms(2)
    show "hm_get obs k = stored J d market k"
      by (simp add: stored_def hm_wf_def hm_get_def split: option.splits)
  qed
  show "hm_wf obs" using assms(1) by (auto simp: load_all_def split: option.splits dest: load_rows_wf)
qed

lemma load_all_total:
  assumes "readable J d"
  shows "\<exists>obs. load_all J None market d = Inr obs"
proof -
  have "list_all (\<lambda>r. \<exists>ob. from_json J (data_json r) = Inr ob) (select_rows market d)"
    using assms by (auto simp: readable_def select_rows_def list_all_iff row_of_def)
  from load_rows_total [OF this] show ?thesis by (simp add: load_all_def)
qed

lemma stored_put:
  assumes "put_obligation J f market k ob d = (Inr (), d')" "good_key k" "encodable J ob"
  shows "stored J d' = (stored J d)(market := (stored J d market)(k \<mapsto> ob))"
proof (intro ext)
  fix m l
  show "stored J d' m l = ((stored J d)(market := (stored J d market)(k \<mapsto> ob))) m l"
    using assms same_row_iff [of l k]
    by (cases "m = market \<and> l = k")
       (auto simp: put_obligation_def stored_def encodable_def split: sum.split_asm option.split_asm)
qed

lemma stored_delete:
  assumes "delete_row f market k d = (Inr (), d')" "good_key k"
  shows "stored J d' = (stored J d)(market := (stored J d market)(k := None))"
proof (intro ext)
  fix m l
  show "stored J d' m l = ((stored J d)(market := (stored J d market)(k := None))) m l"
    using assms same_row_iff [of l k]
    by (cases "m = market \<and> l = k") (auto simp: delete_row_def stored_def split: option.split_asm)
qed

lemma readable_put:
  assumes "put_obligation J f market k ob d = (r, d')" "encodable J ob" "readable J d"
  shows "readable J d'"
proof -
  have "list_all P (hm_insert key v m)" if "list_all P m" "P (key, v)" for P m and key :: "string \<times> string \<times> string" and v :: string
    using that by (auto simp: hm_insert_def hm_remove_def list_all_iff)
  then show ?thesis
    using assms by (auto simp: put_obligation_def readable_def encodable_def split: sum.splits option.splits)
qed

lemma readable_delete:
  assumes "delete_row f market k d = (r, d')" "readable J d"
  shows "readable J d'"
  using assms by (auto simp: delete_row_def readable_def list_all_iff split: option.splits) (auto simp: hm_remove_def)

lemma stored_cursor: "stored J (d\<lparr>cursor_row := c\<rparr>) = stored J d"
  by (intro ext) (auto simp: stored_def)

section \<open>The contract of a repository\<close>

text \<open>What the strategies rely on: a written obligation is there, a deleted one is gone, all others and
  all other markets are as before, and a load returns what is there.  \<open>fine\<close> are the worlds in which the
  contract holds, \<open>ok_key\<close> and \<open>ok_val\<close> the keys and obligations it covers.\<close>

locale obligation_repo =
  fixes R :: "'w store"
    and view :: "'w world \<Rightarrow> string \<Rightarrow> obligation_key \<Rightarrow> obligation option"
    and fine :: "'w world \<Rightarrow> bool"
    and ok_key :: "obligation_key \<Rightarrow> bool"
    and ok_val :: "obligation \<Rightarrow> bool"
  assumes put: "fine w \<Longrightarrow> ok_key k \<Longrightarrow> ok_val ob \<Longrightarrow> repo_put R m k ob w = (r, w') \<Longrightarrow>
      view w' = (view w)(m := (view w m)(k \<mapsto> ob)) \<and> fine w'"
    and del: "fine w \<Longrightarrow> ok_key k \<Longrightarrow> repo_delete R m k w = (r, w') \<Longrightarrow>
      view w' = (view w)(m := (view w m)(k := None)) \<and> fine w'"
    and load: "fine w \<Longrightarrow> repo_load_all R m w = (x, w') \<Longrightarrow>
      view w' = view w \<and> fine w' \<and> (\<exists>obs. x = Inr obs \<and> hm_get obs = view w m)"
    and cursor: "fine w \<Longrightarrow> cursor_set R c n w = (r, w') \<Longrightarrow> view w' = view w \<and> fine w'"
begin

text \<open>The cache and the repository agree on the configured markets.\<close>

definition mirrors :: "liquidator \<Rightarrow> 'w world \<Rightarrow> bool" where
  "mirrors s w \<longleftrightarrow> fine w \<and> (\<forall>m \<in> set (markets (lq_config s)). cached s m = view w m)"

lemma upsert_mirrors:
  assumes "mirrors s w" "ok_key k" "ok_val ob" "upsert_obligation R m k ob s w = (s', w')"
  shows "mirrors s' w'"
proof -
  obtain r where r: "repo_put R m k ob w = (r, w')"
    using assms(4) by (auto simp: upsert_obligation_def Let_def split: prod.splits)
  have c: "lq_config s' = lq_config s" using assms(4) by (auto simp: upsert_obligation_def Let_def split: prod.splits)
  from put [OF _ assms(2,3) r] assms(1) cached_upsert [OF assms(4)] show ?thesis
    by (auto simp: mirrors_def c fun_eq_iff)
qed

lemma delete_mirrors:
  assumes "mirrors s w" "ok_key k" "delete_obligation R m k s w = (s', w')"
  shows "mirrors s' w'"
proof -
  obtain r where r: "repo_delete R m k w = (r, w')"
    using assms(3) by (auto simp: delete_obligation_def split: prod.splits option.splits)
  have c: "lq_config s' = lq_config s" using assms(3) by (auto simp: delete_obligation_def split: prod.splits option.splits)
  from del [OF _ assms(2) r] assms(1) cached_delete [OF assms(3)] show ?thesis
    by (auto simp: mirrors_def c fun_eq_iff)
qed

lemma apply_mirrors:
  assumes "mirrors s w" "ok_key k" "\<And>ob. parse_obligation_from_event_value C v f k = Inr (Some ob) \<Longrightarrow> ok_val ob"
    "apply_obligation_snapshot C R m f k v s w = (s', w')"
  shows "mirrors s' w'"
proof (cases "parse_obligation_from_event_value C v f k")
  case (Inl e)
  then show ?thesis using assms(1,4) by (simp add: apply_obligation_snapshot_def)
next
  case (Inr val)
  then show ?thesis
    using assms(4) upsert_mirrors [OF assms(1,2)] delete_mirrors [OF assms(1,2)] assms(3)
    by (cases val) (simp_all add: apply_obligation_snapshot_def)
qed

lemma reread_mirrors:
  assumes "mirrors s w" "ok_key k" "\<And>ob w1. read_user_obligation L m k w = (Inr ob, w1) \<Longrightarrow> ok_val ob"
    "\<And>w1. snd (read_user_obligation L m k w) = w1 \<Longrightarrow> view w1 = view w \<and> fine w1"
    "reread_obligation L R m k s w = (s', w')"
  shows "mirrors s' w'"
proof -
  obtain r w1 where r: "read_user_obligation L m k w = (r, w1)" by fastforce
  have m: "mirrors s w1" using assms(1,4) r by (auto simp: mirrors_def)
  show ?thesis
    using assms(3,5) r upsert_mirrors [OF m assms(2)] delete_mirrors [OF m assms(2)] m
    by (cases r) (simp_all add: reread_obligation_def split: if_splits)
qed

lemma sync_loads:
  assumes "fine w" "\<And>m w r w'. fine w \<Longrightarrow> read_market_data L m w = (r, w') \<Longrightarrow> view w' = view w \<and> fine w'"
    "sync_markets L R ms s w = (s', w')"
  shows "view w' = view w \<and> fine w' \<and>
    (\<forall>m. cached s' m = (if m \<in> set ms then view w m else cached s m))"
  using assms(1,3)
proof (induction ms arbitrary: s w)
  case (Cons m ms)
  obtain r w1 where r: "read_market_data L m w = (r, w1)" by fastforce
  obtain r2 w2 where r2: "repo_load_all R m w1 = (r2, w2)" by fastforce
  define s1 where "s1 = (case r of Inr md \<Rightarrow> snd (install_snapshot (instant w1) m md s) | Inl e \<Rightarrow> s)"
  define s2 where "s2 = s1\<lparr>lq_obligations := hm_insert m (case r2 of Inr x \<Rightarrow> x | Inl e \<Rightarrow> []) (lq_obligations s1)\<rparr>"
  have v: "view w1 = view w" "fine w1" using assms(2) [OF Cons.prems(1) r] by simp_all
  obtain obs where obs: "r2 = Inr obs" "hm_get obs = view w1 m" and v2: "view w2 = view w1" "fine w2"
    using load [OF v(2) r2] by blast
  have "lq_obligations s1 = lq_obligations s" by (auto simp: s1_def install_snapshot_def split: sum.splits)
  then have c: "cached s2 m' = (if m' = m then view w m else cached s m')" for m'
    using obs v by (auto simp: s2_def cached_def fun_eq_iff)
  have "sync_markets L R ms s2 w2 = (s', w')" using Cons.prems(2) r r2 by (simp add: s1_def s2_def Let_def)
  from Cons.IH [OF v2(2) this] show ?case using v v2(1) c by auto
qed simp

end

section \<open>The database keeps the contract\<close>

text \<open>While no statement fails and the rows are readable.\<close>

interpretation sqlite: obligation_repo "sqlite_store J (\<lambda>w. None)" "\<lambda>w. stored J (database (outside w))"
  "\<lambda>w. readable J (database (outside w))" good_key "encodable J" for J
proof unfold_locales
  fix w :: "'x machine world" and k ob m r w'
  assume "readable J (database (outside w))" "good_key k" "encodable J ob"
    "repo_put (sqlite_store J (\<lambda>w. None)) m k ob w = (r, w')"
  moreover obtain d' where d: "put_obligation J None m k ob (database (outside w)) = (Inr (), d')"
    using \<open>encodable J ob\<close> by (auto simp: put_obligation_def encodable_def)
  ultimately show "stored J (database (outside w')) = (stored J (database (outside w)))
      (m := (stored J (database (outside w)) m)(k \<mapsto> ob)) \<and> readable J (database (outside w'))"
    using stored_put [OF d] readable_put [OF d] by (auto simp: sqlite_store_def on_db_def)
next
  fix w :: "'x machine world" and k m r w'
  assume "readable J (database (outside w))" "good_key k" "repo_delete (sqlite_store J (\<lambda>w. None)) m k w = (r, w')"
  moreover obtain d' where d: "delete_row None m k (database (outside w)) = (Inr (), d')" by (simp add: delete_row_def)
  ultimately show "stored J (database (outside w')) = (stored J (database (outside w)))
      (m := (stored J (database (outside w)) m)(k := None)) \<and> readable J (database (outside w'))"
    using stored_delete [OF d] readable_delete [OF d] by (auto simp: sqlite_store_def on_db_def)
next
  fix w :: "'x machine world" and m r w'
  assume a: "readable J (database (outside w))" "repo_load_all (sqlite_store J (\<lambda>w. None)) m w = (r, w')"
  obtain obs where o: "load_all J None m (database (outside w)) = Inr obs" using load_all_total [OF a(1)] by blast
  have "hm_get obs = stored J (database (outside w)) m"
    using load_all_stored [OF o] a(1) by (simp add: readable_def)
  then show "stored J (database (outside w')) = stored J (database (outside w)) \<and>
      readable J (database (outside w')) \<and> (\<exists>obs. r = Inr obs \<and> hm_get obs = stored J (database (outside w)) m)"
    using a by (auto simp: sqlite_store_def on_db_def o)
next
  fix w :: "'x machine world" and c n r w'
  assume "readable J (database (outside w))" "cursor_set (sqlite_store J (\<lambda>w. None)) c n w = (r, w')"
  then show "stored J (database (outside w')) = stored J (database (outside w)) \<and> readable J (database (outside w'))"
    by (auto simp: sqlite_store_def on_db_def set_cursor_def stored_cursor readable_def)
qed

section \<open>Restart\<close>

text \<open>Ports that do not touch the database, and announce only what it can hold.\<close>

definition storable ::
  "json \<Rightarrow> 'x machine ledger_reader \<Rightarrow> event_codec \<Rightarrow> bool" where
  "storable J L C \<longleftrightarrow>
     (\<forall>m w. database (outside (snd (read_market_data L m w))) = database (outside w)) \<and>
     (\<forall>m k w. database (outside (snd (read_user_obligation L m k w))) = database (outside w)) \<and>
     (\<forall>m k w ob. fst (read_user_obligation L m k w) = Inr ob \<longrightarrow> encodable J ob) \<and>
     (\<forall>v f k ob. parse_obligation_from_event_value C v f k = Inr (Some ob) \<longrightarrow> encodable J ob) \<and>
     (\<forall>ev i k. parse_obligation_key_from_topic C ev i = Inr k \<longrightarrow> good_key k)"

lemma storableD:
  assumes "storable J L C"
  shows "read_market_data L m w = (x, w1) \<Longrightarrow> database (outside w1) = database (outside w)"
    "read_user_obligation L m k w = (y, w2) \<Longrightarrow> database (outside w2) = database (outside w)"
    "read_user_obligation L m k w = (Inr ob, w2) \<Longrightarrow> encodable J ob"
    "parse_obligation_from_event_value C v f k = Inr (Some ob) \<Longrightarrow> encodable J ob"
    "parse_obligation_key_from_topic C ev i = Inr k \<Longrightarrow> good_key k"
  using assms unfolding storable_def by (metis fst_conv snd_conv)+

lemma apply_operation_mirrors:
  fixes L :: "'x machine ledger_reader"
  assumes st: "storable J L C" and m: "sqlite.mirrors J s w"
    and ap: "apply_operation L C (sqlite_store J (\<lambda>w. None)) ev op s w = (Some s', w')"
  shows "sqlite.mirrors J s' w'"
proof -
  have snapshot: "sqlite.mirrors J t' u'"
    if "apply_obligation_snapshot C (sqlite_store J (\<lambda>w. None)) market f k v t u = (t', u')"
      "sqlite.mirrors J t u" "good_key k" for t u k market f v t' u'
    by (rule sqlite.apply_mirrors [OF that(2,3) storableD(4) [OF st] that(1)])
  have reread: "sqlite.mirrors J t' u'"
    if "reread_obligation L (sqlite_store J (\<lambda>w. None)) market k t u = (t', u')" "sqlite.mirrors J t u" "good_key k"
    for t u k market t' u'
  proof (rule sqlite.reread_mirrors [OF that(2,3) storableD(3) [OF st] _ that(1)])
    fix w1 assume "snd (read_user_obligation L market k u) = w1"
    then have "database (outside w1) = database (outside u)" using storableD(2) [OF st] by (metis surjective_pairing)
    then show "stored J (database (outside w1)) = stored J (database (outside u)) \<and> readable J (database (outside w1))"
      using that(2) by (simp add: sqlite.mirrors_def)
  qed
  have good: "good_key \<lparr>user = u, seed = None\<rparr>" for u by (simp add: good_key_def)
  show ?thesis
    using ap unfolding apply_operation_def Let_def
    by (cases op; simp only: operation_event.case; elim sum_caseE pair_caseE)
       (auto intro: snapshot [OF _ m] reread [OF _ m] storableD(5) [OF st]
          snapshot [OF _ snapshot [OF _ m storableD(5) [OF st]] good])
qed

lemma apply_operation_None: "apply_operation L C R ev op s w = (None, w') \<Longrightarrow> w' = w"
  unfolding apply_operation_def Let_def
  by (cases op; simp only: operation_event.case; elim sum_caseE pair_caseE; simp)

lemma handle_event_mirrors:
  fixes L :: "'x machine ledger_reader"
  assumes st: "storable J L C" and m: "sqlite.mirrors J s w"
    and h: "handle_soroban_event L C (sqlite_store J (\<lambda>w. None)) ev s w = (s', w')"
  shows "sqlite.mirrors J s' w'"
proof -
  have "sqlite.mirrors J t u'" if "cursor_set (sqlite_store J (\<lambda>w. None)) c n u = (r, u')" "sqlite.mirrors J t u"
    for t c n r and u u' :: "'x machine world"
    using sqlite.cursor [OF _ that(1)] that(2) by (simp add: sqlite.mirrors_def)
  then show ?thesis
    using h m apply_operation_mirrors [OF st m] apply_operation_None
    by (auto simp: handle_soroban_event_def split: if_splits sum.split_asm prod.split_asm option.split_asm) blast+
qed

text \<open>A strategy that keeps its cache in the database: synchronised at start, then fed events, with new
  ledgers and other tasks in between that leave the database alone.\<close>

inductive persisted ::
  "json \<Rightarrow> 'x machine ledger_reader \<Rightarrow> ('x machine, 'r, 'op) gateway \<Rightarrow> event_codec \<Rightarrow> liquidator_config \<Rightarrow>
     liquidator \<Rightarrow> 'x machine world \<Rightarrow> bool"
  for J L G C cfg where
  synced: "readable J (database (outside w)) \<Longrightarrow>
     sync_state L (sqlite_store J (\<lambda>w. None)) (liquidator_new pkey skey cfg) w = (s, w') \<Longrightarrow>
     persisted J L G C cfg s w'"
| event: "persisted J L G C cfg s w \<Longrightarrow>
     handle_soroban_event L C (sqlite_store J (\<lambda>w. None)) ev s w = (s', w') \<Longrightarrow> persisted J L G C cfg s' w'"
| ledger: "persisted J L G C cfg s w \<Longrightarrow> handle_new_ledger L G n s w = Some ((as, s'), w') \<Longrightarrow>
     database (outside w') = database (outside w) \<Longrightarrow> persisted J L G C cfg s' w'"
| other: "persisted J L G C cfg s w \<Longrightarrow> database (outside w') = database (outside w) \<Longrightarrow> persisted J L G C cfg s w'"

lemma sync_mirrors:
  fixes L :: "'x machine ledger_reader"
  assumes "storable J L C" "readable J (database (outside w))"
    "sync_state L (sqlite_store J (\<lambda>w. None)) (liquidator_new pkey skey cfg) w = (s, w')"
  shows "\<forall>m. cached s m = (if m \<in> set (markets cfg) then stored J (database (outside w)) m else Map.empty)"
    "readable J (database (outside w'))" "stored J (database (outside w')) = stored J (database (outside w))"
proof -
  have k: "stored J (database (outside u')) = stored J (database (outside u)) \<and> readable J (database (outside u'))"
    if "readable J (database (outside u))" "read_market_data L m u = (r, u')" for m u r u'
    using storableD(1) [OF assms(1) that(2)] that(1) by simp
  have "cached (liquidator_new pkey skey cfg) m = Map.empty" for m
    by (auto simp: cached_def liquidator_new_def hm_get_def fun_eq_iff)
  moreover have "markets (lq_config (liquidator_new pkey skey cfg)) = markets cfg" by (simp add: liquidator_new_def)
  ultimately show "\<forall>m. cached s m = (if m \<in> set (markets cfg) then stored J (database (outside w)) m else Map.empty)"
    "readable J (database (outside w'))" "stored J (database (outside w')) = stored J (database (outside w))"
    using sqlite.sync_loads [OF assms(2) k assms(3) [unfolded sync_state_def]] by simp_all
qed

lemma persisted_mirrors:
  assumes "persisted J L G C cfg s w" "storable J L C"
  shows "sqlite.mirrors J s w \<and> lq_config s = cfg \<and> liquidator_inv s"
  using assms
proof induction
  case (synced w pkey skey s w')
  have ok: "store_ok (sqlite_store J (\<lambda>w. None))"
    unfolding store_ok_def sqlite_store_def on_db_def load_all_def by (auto split: option.splits dest: load_rows_wf)
  have "liquidator_inv s \<and> lq_config s = cfg"
    using sync_markets_inv [OF synced(2) [unfolded sync_state_def] ok liquidator_inv_new] by (simp add: liquidator_new_def)
  with sync_mirrors [OF synced(3,1,2)] show ?case by (simp add: sqlite.mirrors_def)
next
  case (event s w ev s' w')
  then show ?case using handle_event_mirrors handle_soroban_event_inv by metis
next
  case (ledger s w n as s' w')
  have "lq_obligations s' = lq_obligations s"
    using ledger.hyps(2) by (auto simp: handle_new_ledger_def Let_def split: if_splits dest!: refresh_keeps)
  with ledger handle_new_ledger_inv [OF ledger.hyps(2)] show ?case by (auto simp: sqlite.mirrors_def cached_def fun_eq_iff)
next
  case (other s w w')
  then show ?case by (simp add: sqlite.mirrors_def)
qed

section \<open>A worked database\<close>

definition example_json :: json where
  "example_json = \<lparr>to_json = (\<lambda>ob. if ob = two_pool_obligation then Inr ''two'' else Inl ''unknown''),
     from_json = (\<lambda>s. if s = ''two'' then Inr two_pool_obligation else Inl ''unknown'')\<rparr>"

definition example_machine :: "unit machine world" where
  "example_machine = \<lparr>capital = capital_new ''K'' example_capital_config, instant = 100, unix_seconds = 0,
     unix_nanos = Some 5, process_id = 1, seed_counter = 0,
     outside = \<lparr>database = \<lparr>rows = [((''M'', ''U'', []), ''two'')], cursor_row = None\<rparr>, rest = ()\<rparr>\<rparr>"

definition machine_ledger :: "unit machine ledger_reader" where
  "machine_ledger = \<lparr>read_token_balance = (\<lambda>t a w. (Inr 1000, w)),
     read_market_data = (\<lambda>m w. (Inr two_pool_market, w)),
     read_pool_data = (\<lambda>m p w. (Inr debt_pool, w)),
     read_user_obligation = (\<lambda>m k w. (Inr two_pool_obligation, w)),
     read_all_obligations_keys = (\<lambda>m w. (Inr [], w)),
     read_account_token_balance = (\<lambda>t a w. (Inr 1000, w)),
     get_amount_out = (\<lambda>a x y p w. (Inr 40, w)),
     get_amount_in = (\<lambda>a x y p w. (Inr 40, w)),
     get_is_obligation_liquidatable = (\<lambda>m a k b c w. (Inr True, w))\<rparr>"

lemma example_storable: "storable example_json machine_ledger example_codec"
  by (auto simp: storable_def machine_ledger_def example_codec_def example_json_def encodable_def good_key_def
      obligation_key_new_def split: if_splits)

lemma example_readable: "readable example_json (database (outside example_machine))"
  by (simp add: readable_def example_machine_def example_json_def hm_wf_def)

section \<open>Properties\<close>



text \<open>What is put is loaded: on a readable database, after an obligation was written under a key whose
  seed is not the empty string, loading its market returns the map as before with that entry, loading
  any other market returns the same map, and deleting the entry again removes it.\<close>

theorem put_then_load:
  assumes "readable J d" "encodable J ob" "good_key k" "put_obligation J None market k ob d = (r, d')"
    and "load_all J None m d = Inr before"
  shows "\<exists>after. load_all J None m d' = Inr after \<and>
    hm_get after = (if m = market then (hm_get before)(k \<mapsto> ob) else hm_get before) \<and>
    (\<exists>gone. load_all J None m (snd (delete_row None market k d')) = Inr gone \<and>
      hm_get gone = (if m = market then (hm_get before)(k := None) else hm_get before))"
proof -
  have r: "r = Inr ()" using assms(2,4) by (auto simp: encodable_def put_obligation_def)
  have d: "readable J d'" by (rule readable_put [OF assms(4,2,1)])
  obtain d'' where d'': "delete_row None market k d' = (Inr (), d'')" by (simp add: delete_row_def)
  have rd: "readable J d''" by (rule readable_delete [OF d'' d])
  obtain after where a: "load_all J None m d' = Inr after" using load_all_total [OF d] by blast
  obtain gone where g: "load_all J None m d'' = Inr gone" using load_all_total [OF rd] by blast
  have wf: "hm_wf (rows d)" "hm_wf (rows d')" "hm_wf (rows d'')" using assms(1) d rd by (simp_all add: readable_def)
  have "hm_get before = stored J d m" "hm_get after = stored J d' m" "hm_get gone = stored J d'' m"
    using load_all_stored [OF assms(5) wf(1)] load_all_stored [OF a wf(2)] load_all_stored [OF g wf(3)] by simp_all
  then show ?thesis
    using stored_put [OF assms(4) [unfolded r] assms(3,2)] stored_delete [OF d'' assms(3), of J] a g d'' by auto
qed

theorem put_then_load_witness:
  "\<exists>d' after. put_obligation example_json None ''M'' (new_with_seed ''U'' ''0a'') two_pool_obligation
      (database (outside example_machine)) = (Inr (), d') \<and>
    load_all example_json None ''M'' d' = Inr after \<and>
    hm_get after (new_with_seed ''U'' ''0a'') = Some two_pool_obligation"
proof -
  obtain d' where p: "put_obligation example_json None ''M'' (new_with_seed ''U'' ''0a'') two_pool_obligation
      (database (outside example_machine)) = (Inr (), d')" by (simp add: put_obligation_def example_json_def)
  obtain before where b: "load_all example_json None ''M'' (database (outside example_machine)) = Inr before"
    using load_all_total [OF example_readable] by blast
  have "encodable example_json two_pool_obligation" "good_key (new_with_seed ''U'' ''0a'')"
    by (simp_all add: encodable_def example_json_def good_key_def new_with_seed_def)
  from put_then_load [OF example_readable this p b] p show ?thesis by auto
qed

section \<open>The empty seed\<close>

text \<open>A key whose seed is the empty string is written to the row of the key without a seed, and comes
  back as that key.\<close>

lemma empty_seed_shares_row:
  assumes "readable J d" "encodable J ob" "put_obligation J None market (new_with_seed u []) ob d = (r, d')"
  shows "\<exists>obs. load_all J None market d' = Inr obs \<and> hm_get obs (new_with_seed u []) = None \<and>
    hm_get obs (obligation_key_new u) = Some ob"
proof -
  have d: "readable J d'" by (rule readable_put [OF assms(3,2,1)])
  obtain obs where o: "load_all J None market d' = Inr obs" using load_all_total [OF d] by blast
  have "hm_get obs = stored J d' market" using load_all_stored [OF o] d by (simp add: readable_def)
  with o assms(2,3) show ?thesis
    by (auto simp: stored_def good_key_def new_with_seed_def obligation_key_new_def seed_as_str_def encodable_def
        put_obligation_def)
qed

end
