(* ===== verification/Collectors.thy ===== *)
theory Collectors
  imports Storage
begin

text \<open>
  \<^verbatim>\<open>keeper/src/collect\<close>: the collector of contract events, which polls the RPC from its cursor and
  persists it, and the collector of ledgers.  Each is a loop that never ends by itself: one iteration is
  a function, a run is a sequence of iterations with the events they sent.  The RPC client and the
  broadcast channel are parameters.
\<close>

section \<open>The event collector\<close>

datatype event_start = StartCursor string | StartLedger nat

record events_response =
  resp_events :: "soroban_event list"
  resp_cursor :: string

text \<open>\<open>send\<close> answers whether the channel still has a receiver.\<close>

record 'w event_source =
  get_events :: "event_start \<Rightarrow> ('w, rpc_error + events_response) call"
  get_latest_ledger :: "('w, rpc_error + nat) call"
  send :: "keeper_event \<Rightarrow> ('w, bool) call"
  sleep_secs :: "nat \<Rightarrow> ('w, unit) call"

record event_collector =
  last_ledger :: nat
  last_cursor_id :: "string option"
  is_first_poll :: bool

definition collector_try_new :: "nat \<Rightarrow> rpc_error + event_cursor option \<Rightarrow> rpc_error + event_collector" where
  "collector_try_new start_ledger saved =
     ebind saved (\<lambda>row.
       Inr (case row of
              Some c \<Rightarrow> \<lparr>last_ledger = cur_ledger c,
                last_cursor_id = (if cursor_id c = [] then None else Some (cursor_id c)), is_first_poll = True\<rparr>
            | None \<Rightarrow> \<lparr>last_ledger = start_ledger, last_cursor_id = None, is_first_poll = True\<rparr>))"

definition start_of :: "event_collector \<Rightarrow> event_start" where
  "start_of c =
     (case last_cursor_id c of Some cursor \<Rightarrow> StartCursor cursor | None \<Rightarrow> StartLedger (last_ledger c))"

text \<open>The events that were sent, the ledger of the last one, and whether a receiver is left.\<close>

fun send_events ::
  "'w event_source \<Rightarrow> soroban_event list \<Rightarrow> nat \<Rightarrow> ('w, soroban_event list \<times> nat \<times> bool) call" where
  "send_events E [] ledger w = (([], ledger, True), w)"
| "send_events E (ev # evs) ledger w =
     (case send E (SorobanEvents ev) w of
        (False, w1) \<Rightarrow> (([], ev_ledger ev, False), w1)
      | (True, w1) \<Rightarrow>
          (case send_events E evs (ev_ledger ev) w1 of ((sent, l, ok), w2) \<Rightarrow> ((ev # sent, l, ok), w2)))"

text \<open>One iteration: the events sent and the next state, or \<open>None\<close> when the task returns.\<close>

definition poll_events ::
  "'w event_source \<Rightarrow> 'w store \<Rightarrow> event_collector \<Rightarrow> ('w, soroban_event list \<times> event_collector option) call" where
  "poll_events E R c w =
     (case get_events E (start_of c) w of
        (Inr response, w1) \<Rightarrow>
          (case send_events E (resp_events response) (last_ledger c) w1 of
             ((sent, ledger, False), w2) \<Rightarrow> ((sent, None), w2)
           | ((sent, ledger, True), w2) \<Rightarrow>
               let c1 = c\<lparr>last_ledger := ledger, is_first_poll := False\<rparr>;
                   (c2, w3) = (if resp_cursor response = [] then (c1, w2)
                     else (c1\<lparr>last_cursor_id := Some (resp_cursor response)\<rparr>,
                           snd (cursor_set R (resp_cursor response) ledger w2)));
                   w4 = (if resp_events response = [] then snd (sleep_secs E 1 w3) else w3)
               in ((sent, Some c2), w4))
      | (Inl e, w1) \<Rightarrow>
          if is_terminal_cursor_error e \<and> is_first_poll c then (([], None), w1)
          else
            let (c1, w2) = (if is_terminal_cursor_error e then
                  (case get_latest_ledger E w1 of
                     (Inr seq, w2) \<Rightarrow> (c\<lparr>last_cursor_id := None, last_ledger := seq\<rparr>, w2)
                   | (Inl e', w2) \<Rightarrow> (c\<lparr>last_cursor_id := None\<rparr>, w2))
                else (c, w1))
            in (([], Some (c1\<lparr>is_first_poll := False\<rparr>)), snd (sleep_secs E 1 w2)))"

section \<open>The ledger collector\<close>

record ledger_collector =
  last_seq_num :: nat
  ledger_polling_interval_secs :: nat

definition ledger_collector_new :: "nat \<Rightarrow> ledger_collector" where
  "ledger_collector_new interval = \<lparr>last_seq_num = 0, ledger_polling_interval_secs = interval\<rparr>"

definition poll_ledger ::
  "'w event_source \<Rightarrow> ledger_collector \<Rightarrow> ('w, keeper_event list \<times> ledger_collector option) call" where
  "poll_ledger E c w =
     (case get_latest_ledger E w of
        (Inr seq, w1) \<Rightarrow>
          if seq > last_seq_num c then
            let c1 = c\<lparr>last_seq_num := seq\<rparr> in
            (case send E (NewLedger seq) w1 of
               (False, w2) \<Rightarrow> (([], None), w2)
             | (True, w2) \<Rightarrow>
                 (([NewLedger seq], Some c1), snd (sleep_secs E (ledger_polling_interval_secs c) w2)))
          else (([], Some c), snd (sleep_secs E (ledger_polling_interval_secs c) w1))
      | (Inl e, w1) \<Rightarrow> (([], Some c), snd (sleep_secs E (ledger_polling_interval_secs c) w1)))"

section \<open>The stream of a receiver\<close>

text \<open>A receiver yields values and, when it was overtaken, the number of values it lost; the stream of a
  collector drops these and counts them.\<close>

datatype 'e received = Item 'e | Lagged nat

fun lag_counted_stream :: "'e received list \<Rightarrow> 'e list \<times> nat" where
  "lag_counted_stream [] = ([], 0)"
| "lag_counted_stream (r # rs) =
     (case lag_counted_stream rs of (vs, lost) \<Rightarrow>
      (case r of Item v \<Rightarrow> (v # vs, lost) | Lagged n \<Rightarrow> (vs, n + lost)))"

section \<open>The tasks\<close>

text \<open>\<open>get_event_stream\<close> spawns the loop with an RPC client of its own; when the client cannot be built the
  task returns at once.\<close>

definition spawn_event_collector :: "rpc_error + 'client \<Rightarrow> event_collector \<Rightarrow> event_collector option" where
  "spawn_event_collector client c =
     (case client of Inl e \<Rightarrow> None | Inr _ \<Rightarrow> Some (c\<lparr>is_first_poll := True\<rparr>))"

definition spawn_ledger_collector :: "rpc_error + 'client \<Rightarrow> ledger_collector \<Rightarrow> ledger_collector option" where
  "spawn_ledger_collector client c = (case client of Inl e \<Rightarrow> None | Inr _ \<Rightarrow> Some c)"

section \<open>Runs\<close>

text \<open>What a collector has sent since a state and the state of its task, \<open>None\<close> when it has returned;
  between two polls the world moves on.\<close>

inductive event_run ::
  "'w event_source \<Rightarrow> 'w store \<Rightarrow> event_collector \<Rightarrow> soroban_event list \<Rightarrow> event_collector option \<Rightarrow> bool"
  for E R c where
  begun: "event_run E R c [] (Some c)"
| polled: "event_run E R c evs (Some c1) \<Longrightarrow> poll_events E R c1 w = ((sent, c2), w') \<Longrightarrow>
     event_run E R c (evs @ sent) c2"

inductive ledger_run ::
  "'w event_source \<Rightarrow> ledger_collector \<Rightarrow> keeper_event list \<Rightarrow> ledger_collector option \<Rightarrow> bool"
  for E c where
  begun: "ledger_run E c [] (Some c)"
| polled: "ledger_run E c evs (Some c1) \<Longrightarrow> poll_ledger E c1 w = ((sent, c2), w') \<Longrightarrow> ledger_run E c (evs @ sent) c2"

text \<open>The stream of a collector ends when its task has returned.\<close>

definition event_stream_ends ::
  "rpc_error + 'client \<Rightarrow> 'w event_source \<Rightarrow> 'w store \<Rightarrow> event_collector \<Rightarrow> soroban_event list \<Rightarrow> bool" where
  "event_stream_ends client E R c evs \<longleftrightarrow>
     (case spawn_event_collector client c of None \<Rightarrow> evs = [] | Some c1 \<Rightarrow> event_run E R c1 evs None)"

definition ledger_stream_ends ::
  "rpc_error + 'client \<Rightarrow> 'w event_source \<Rightarrow> ledger_collector \<Rightarrow> keeper_event list \<Rightarrow> bool" where
  "ledger_stream_ends client E c evs \<longleftrightarrow>
     (case spawn_ledger_collector client c of None \<Rightarrow> evs = [] | Some c1 \<Rightarrow> ledger_run E c1 evs None)"

section \<open>Delivery\<close>

text \<open>What the collector relies on of the RPC: the market's events are numbered, a page is the stretch of
  events that starts at the requested place, and its cursor names the place after it.\<close>

definition serves :: "'w event_source \<Rightarrow> (nat \<Rightarrow> soroban_event) \<Rightarrow> (event_start \<Rightarrow> nat) \<Rightarrow> bool" where
  "serves E log place \<longleftrightarrow>
     (\<forall>start w resp w'. get_events E start w = (Inr resp, w') \<longrightarrow>
        resp_cursor resp \<noteq> [] \<and>
        resp_events resp = map log [place start ..< place start + length (resp_events resp)] \<and>
        place (StartCursor (resp_cursor resp)) = place start + length (resp_events resp))"

definition no_terminal_errors :: "'w event_source \<Rightarrow> bool" where
  "no_terminal_errors E \<longleftrightarrow>
     (\<forall>start w e w'. get_events E start w = (Inl e, w') \<longrightarrow> \<not> is_terminal_cursor_error e)"

lemma send_events_prefix:
  "send_events E evs l w = ((sent, l', ok), w') \<Longrightarrow> \<exists>k. k \<le> length evs \<and> sent = take k evs \<and> (ok \<longrightarrow> k = length evs)"
proof (induction evs arbitrary: l w sent l' ok w')
  case (Cons ev evs)
  obtain b w1 where b: "send E (SorobanEvents ev) w = (b, w1)" by fastforce
  show ?case
  proof (cases b)
    case False
    then show ?thesis using Cons.prems b by (intro exI [of _ 0]) auto
  next
    case True
    with Cons.prems b obtain sent1 w2 where s: "send_events E evs (ev_ledger ev) w1 = ((sent1, l', ok), w2)" "sent = ev # sent1"
      by (auto split: prod.splits)
    from Cons.IH [OF s(1)] obtain k where "k \<le> length evs" "sent1 = take k evs" "ok \<longrightarrow> k = length evs" by blast
    then show ?thesis using s(2) by (intro exI [of _ "Suc k"]) simp
  qed
qed simp

lemma start_of_first_poll [simp]: "start_of (c\<lparr>is_first_poll := b\<rparr>) = start_of c"
  by (cases "last_cursor_id c") (simp_all add: start_of_def)

lemma poll_events_page:
  assumes "serves E log place" "no_terminal_errors E" "poll_events E R c w = ((sent, c'), w')"
  shows "sent = map log [place (start_of c) ..< place (start_of c) + length sent] \<and>
    (\<forall>c1. c' = Some c1 \<longrightarrow> place (start_of c1) = place (start_of c) + length sent)"
proof -
  obtain r w1 where r: "get_events E (start_of c) w = (r, w1)" by fastforce
  show ?thesis
  proof (cases r)
    case (Inl e)
    then have "\<not> is_terminal_cursor_error e" using assms(2) r by (auto simp: no_terminal_errors_def)
    then show ?thesis using assms(3) r Inl by (auto simp: poll_events_def)
  next
    case (Inr resp)
    have v: "resp_cursor resp \<noteq> []"
      "resp_events resp = map log [place (start_of c) ..< place (start_of c) + length (resp_events resp)]"
      "place (StartCursor (resp_cursor resp)) = place (start_of c) + length (resp_events resp)"
      using assms(1) r Inr by (auto simp: serves_def)
    obtain sent1 l ok w2 where s: "send_events E (resp_events resp) (last_ledger c) w1 = ((sent1, l, ok), w2)"
      by (metis prod.exhaust)
    from send_events_prefix [OF s] obtain k where k: "k \<le> length (resp_events resp)" "sent1 = take k (resp_events resp)"
      "ok \<longrightarrow> k = length (resp_events resp)" by blast
    have "sent1 = map log [place (start_of c) ..< place (start_of c) + length sent1]"
      using k(1,2) v(2) by (metis add_le_cancel_left length_take min.absorb2 take_map take_upt)
    then show ?thesis
      using assms(3) r Inr s v k(2,3)
      by (cases ok) (auto simp: poll_events_def Let_def start_of_def)
  qed
qed

lemma event_run_delivers:
  assumes "event_run E R c evs c'" "serves E log place" "no_terminal_errors E"
  shows "evs = map log [place (start_of c) ..< place (start_of c) + length evs] \<and>
    (\<forall>c1. c' = Some c1 \<longrightarrow> place (start_of c1) = place (start_of c) + length evs)"
  using assms(1)
proof induction
  case (polled evs c1 w sent c2 w')
  from poll_events_page [OF assms(2,3) polled.hyps(2)] polled.IH
  have p: "sent = map log [place (start_of c) + length evs ..< place (start_of c) + length evs + length sent]"
    "\<forall>c'. c2 = Some c' \<longrightarrow> place (start_of c') = place (start_of c) + length evs + length sent" by simp_all
  have "evs @ sent = map log ([place (start_of c) ..< place (start_of c) + length evs] @
      [place (start_of c) + length evs ..< place (start_of c) + length evs + length sent])"
    using polled.IH p(1) by (metis map_append)
  also have "\<dots> = map log [place (start_of c) ..< place (start_of c) + length (evs @ sent)]"
    by (metis add.assoc length_append le_add1 upt_add_eq_append)
  finally show ?case using p(2) by (simp add: add.assoc)
qed simp

section \<open>Ledgers\<close>

lemma le_last_sorted: "sorted_wrt (<) xs \<Longrightarrow> x \<in> set xs \<Longrightarrow> x \<le> (last xs :: nat)"
  by (induction xs) (auto intro: less_imp_le)

lemma ledger_run_increasing:
  assumes "ledger_run E c evs c'"
  shows "sorted_wrt (<) (last_seq_num c # map seq_num evs) \<and>
    (\<forall>c1. c' = Some c1 \<longrightarrow> last_seq_num c1 = last (last_seq_num c # map seq_num evs))"
  using assms
proof induction
  case (polled evs c1 w sent c2 w')
  let ?xs = "last_seq_num c # map seq_num evs"
  have l: "\<forall>x \<in> set ?xs. x \<le> last ?xs" using polled.IH le_last_sorted by blast
  have "last_seq_num c1 = last ?xs" using polled.IH by simp
  with polled.hyps(2) have "sent = [] \<and> (\<forall>c'. c2 = Some c' \<longrightarrow> last_seq_num c' = last ?xs) \<or>
      (\<exists>seq. seq > last ?xs \<and> sent = [NewLedger seq] \<and> (\<forall>c'. c2 = Some c' \<longrightarrow> last_seq_num c' = seq))"
    by (auto simp: poll_ledger_def Let_def split: prod.splits sum.splits if_splits bool.splits)
  then show ?case
  proof
    assume "\<exists>seq. seq > last ?xs \<and> sent = [NewLedger seq] \<and> (\<forall>c'. c2 = Some c' \<longrightarrow> last_seq_num c' = seq)"
    then obtain seq where q: "seq > last ?xs" "sent = [NewLedger seq]" "\<forall>c'. c2 = Some c' \<longrightarrow> last_seq_num c' = seq" by blast
    have "sorted_wrt (<) (?xs @ [seq])"
      using polled.IH l q(1) by (auto simp: sorted_wrt_append)
    then show ?thesis using q by simp
  next
    assume a: "sent = [] \<and> (\<forall>c'. c2 = Some c' \<longrightarrow> last_seq_num c' = last ?xs)"
    then have n: "evs @ sent = evs" by simp
    show ?thesis unfolding n using a polled.IH by blast
  qed
qed simp

section \<open>Errors\<close>

lemma terminal_error_resets:
  assumes "get_events E (start_of c) w = (Inl e, w1)" "is_terminal_cursor_error e" "\<not> is_first_poll c"
    "get_latest_ledger E w1 = (Inr seq, w2)"
  shows "\<exists>c'. poll_events E R c w = (([], Some c'), snd (sleep_secs E 1 w2)) \<and> start_of c' = StartLedger seq"
  using assms by (simp add: poll_events_def start_of_def)

section \<open>Giving up\<close>

text \<open>What the tasks rely on of the channel: its receiver lives as long as the stream is read.\<close>

definition received_by_engine :: "'w event_source \<Rightarrow> bool" where
  "received_by_engine E \<longleftrightarrow> (\<forall>ev w. fst (send E ev w))"

lemma send_events_received: "received_by_engine E \<Longrightarrow> fst (send_events E evs l w) = (sent, l', ok) \<Longrightarrow> ok"
proof (induction evs arbitrary: l w sent)
  case (Cons ev evs)
  obtain w1 where "send E (SorobanEvents ev) w = (True, w1)"
    using Cons.prems(1) by (metis (full_types) received_by_engine_def prod.collapse)
  with Cons.prems obtain sent1 where "fst (send_events E evs (ev_ledger ev) w1) = (sent1, l', ok)"
    by (auto split: prod.splits)
  then show ?case using Cons.IH Cons.prems(1) by blast
qed simp

lemma poll_events_gives_up:
  assumes "poll_events E R c w = ((sent, None), w')" "received_by_engine E"
  shows "sent = [] \<and> is_first_poll c \<and> (\<exists>e w1. get_events E (start_of c) w = (Inl e, w1) \<and> is_terminal_cursor_error e)"
proof -
  obtain r w1 where r: "get_events E (start_of c) w = (r, w1)" by fastforce
  show ?thesis
  proof (cases r)
    case (Inl e)
    then show ?thesis using assms(1) r by (auto simp: poll_events_def Let_def split: if_splits prod.splits)
  next
    case (Inr resp)
    obtain sent1 l ok w2 where s: "send_events E (resp_events resp) (last_ledger c) w1 = ((sent1, l, ok), w2)"
      by (metis prod.exhaust)
    then have ok using send_events_received [OF assms(2)] by (metis fst_conv)
    then show ?thesis using assms(1) r Inr s by (auto simp: poll_events_def Let_def split: if_splits)
  qed
qed

lemma poll_events_not_first: "poll_events E R c w = ((sent, Some c'), w') \<Longrightarrow> \<not> is_first_poll c'"
  by (auto simp: poll_events_def Let_def split: sum.splits prod.splits bool.splits if_splits)

lemma event_run_not_first: "event_run E R c evs (Some c') \<Longrightarrow> is_first_poll c' \<Longrightarrow> evs = [] \<and> c' = c"
  by (erule event_run.cases) (auto dest: poll_events_not_first)

lemma poll_ledger_goes_on: "received_by_engine E \<Longrightarrow> poll_ledger E c w = ((sent, c'), w') \<Longrightarrow> c' \<noteq> None"
  by (auto simp: poll_ledger_def received_by_engine_def Let_def split: sum.splits prod.splits bool.splits if_splits)
     (metis fst_conv)

lemma ledger_stream_persists:
  assumes "received_by_engine E"
  shows "ledger_stream_ends client E l ls \<longleftrightarrow> (\<exists>e. client = Inl e) \<and> ls = []"
proof -
  have "\<not> ledger_run E l ls None" using poll_ledger_goes_on [OF assms] by (metis ledger_run.cases option.distinct(1))
  then show ?thesis by (cases client) (simp_all add: ledger_stream_ends_def spawn_ledger_collector_def)
qed

lemma event_stream_persists:
  assumes "received_by_engine E" "event_stream_ends client E R c evs"
  shows "evs = [] \<and> ((\<exists>e. client = Inl e) \<or>
    (\<exists>w e w1. get_events E (start_of c) w = (Inl e, w1) \<and> is_terminal_cursor_error e))"
proof (cases client)
  case (Inl e)
  then show ?thesis using assms(2) by (simp add: event_stream_ends_def spawn_event_collector_def)
next
  case (Inr r)
  with assms(2) have "event_run E R (c\<lparr>is_first_poll := True\<rparr>) evs None"
    by (simp add: event_stream_ends_def spawn_event_collector_def)
  then show ?thesis
  proof cases
    case (polled evs0 c1 w sent w')
    from poll_events_gives_up [OF polled(3) assms(1)] event_run_not_first [OF polled(2)] polled(1)
    show ?thesis by auto
  qed
qed

section \<open>A worked source\<close>

text \<open>One event per ledger; the cursor after ledger \<open>n\<close> is \<open>n + 1\<close> strokes.\<close>

definition example_log :: "nat \<Rightarrow> soroban_event" where
  "example_log n = \<lparr>contract_id = ''M'', ev_id = replicate n CHR ''x'', ev_ledger = n, ev_value = [], ev_topics = []\<rparr>"

fun example_place :: "event_start \<Rightarrow> nat" where
  "example_place (StartLedger n) = n"
| "example_place (StartCursor s) = length s"

definition example_source :: "'w event_source" where
  "example_source = \<lparr>get_events = (\<lambda>start w. (Inr \<lparr>resp_events = [example_log (example_place start)],
       resp_cursor = replicate (example_place start + 1) CHR ''x''\<rparr>, w)),
     get_latest_ledger = (\<lambda>w. (Inr 9, w)), send = (\<lambda>e w. (True, w)), sleep_secs = (\<lambda>n w. ((), w))\<rparr>"

lemma example_serves: "serves example_source example_log example_place"
  by (auto simp: serves_def example_source_def)

lemma example_poll:
  "poll_events example_source R \<lparr>last_ledger = 5, last_cursor_id = None, is_first_poll = True\<rparr> w =
     (([example_log 5], Some \<lparr>last_ledger = 5, last_cursor_id = Some (replicate 6 CHR ''x''), is_first_poll = False\<rparr>),
      snd (cursor_set R (replicate 6 CHR ''x'') 5 w))"
  by (simp add: poll_events_def example_source_def start_of_def example_log_def Let_def eval_nat_numeral)

text \<open>A node that no longer has what is asked for.\<close>

definition pruned_source :: "'w event_source" where
  "pruned_source = example_source\<lparr>get_events := (\<lambda>start w. (Inl ''the start ledger is too old'', w))\<rparr>"

lemma pruned_terminal: "is_terminal_cursor_error ''the start ledger is too old''"
  by code_simp

section \<open>Properties\<close>

text \<open>C32. Events are delivered once and in order: as long as the RPC serves its pages by place and never
  reports a terminal cursor error, what the collector has sent since a state is exactly the stretch of
  the market's events that starts at the place of that state, without a gap and without a repetition,
  and the next request starts right after it.\<close>

theorem events_delivered_once_in_order:
  assumes "event_run E R c evs c'" "serves E log place" "no_terminal_errors E"
  shows "evs = map log [place (start_of c) ..< place (start_of c) + length evs] \<and>
    (case c' of None \<Rightarrow> True | Some c1 \<Rightarrow> place (start_of c1) = place (start_of c) + length evs)"
  using event_run_delivers [OF assms] by (auto split: option.splits)

theorem events_delivered_once_in_order_witness:
  "\<exists>c'. event_run example_source example_store \<lparr>last_ledger = 5, last_cursor_id = None, is_first_poll = True\<rparr>
      [example_log 5] (Some c') \<and> example_place (start_of c') = 6"
proof -
  let ?c = "\<lparr>last_ledger = 5, last_cursor_id = None, is_first_poll = True\<rparr>"
  from event_run.polled [OF event_run.begun example_poll [of example_store example_world]]
  have r: "event_run example_source example_store ?c [example_log 5]
      (Some \<lparr>last_ledger = 5, last_cursor_id = Some (replicate 6 CHR ''x''), is_first_poll = False\<rparr>)" by simp
  have n: "no_terminal_errors example_source" by (simp add: no_terminal_errors_def example_source_def)
  from events_delivered_once_in_order [OF r example_serves n]
  show ?thesis using r by (auto simp: start_of_def)
qed



text \<open>The collectors do not give up: as long as the engine reads them, the stream of ledgers ends only if
  no RPC client could be built for it, and the stream of events only for that reason or because the very
  first request was refused for good; it has delivered nothing then.  No error of a later request ends
  a stream.\<close>

theorem collectors_persist:
  assumes "received_by_engine E"
  shows "(ledger_stream_ends client E l ls \<longleftrightarrow> (\<exists>e. client = Inl e) \<and> ls = []) \<and>
    (event_stream_ends client E R c evs \<longrightarrow>
       evs = [] \<and> ((\<exists>e. client = Inl e) \<or>
         (\<exists>w e w1. get_events E (start_of c) w = (Inl e, w1) \<and> is_terminal_cursor_error e)))"
  by (rule conjI [OF ledger_stream_persists [OF assms] impI [OF event_stream_persists [OF assms]]])

theorem collectors_persist_witness:
  "event_stream_ends (Inr ()) (pruned_source :: unit event_source) example_store
     \<lparr>last_ledger = 5, last_cursor_id = None, is_first_poll = True\<rparr> [] \<and>
   (\<exists>w e w1. get_events (pruned_source :: unit event_source) (StartLedger 5) w = (Inl e, w1) \<and> is_terminal_cursor_error e) \<and>
   \<not> ledger_stream_ends (Inr ()) (pruned_source :: unit event_source) (ledger_collector_new 5) []"
proof -
  let ?c = "\<lparr>last_ledger = 5, last_cursor_id = None, is_first_poll = True\<rparr>"
  have r: "received_by_engine (pruned_source :: unit event_source)"
    by (simp add: received_by_engine_def pruned_source_def example_source_def)
  have "poll_events pruned_source example_store ?c example_world = (([], None), example_world)"
    by (simp add: poll_events_def pruned_source_def pruned_terminal)
  from event_run.polled [OF event_run.begun this] have e: "event_stream_ends (Inr ()) pruned_source example_store ?c []"
    by (simp add: event_stream_ends_def spawn_event_collector_def)
  from collectors_persist [OF r, of "Inr ()" "ledger_collector_new 5" "[]" example_store ?c "[]"] e
  show ?thesis by (simp add: start_of_def)
qed

text \<open>Ledgers only advance: the sequence numbers the ledger collector sends are strictly increasing and
  above the one it started from.\<close>

theorem ledgers_strictly_increase:
  assumes "ledger_run E c evs c'"
  shows "sorted_wrt (<) (last_seq_num c # map seq_num evs)"
  using ledger_run_increasing [OF assms] by blast

theorem ledgers_strictly_increase_witness:
  "ledger_run (example_source :: unit event_source) (ledger_collector_new 5) [NewLedger 9] (Some \<lparr>last_seq_num = 9, ledger_polling_interval_secs = 5\<rparr>) \<and>
   sorted_wrt (<) [0, 9 :: nat]"
proof -
  have p: "poll_ledger example_source (ledger_collector_new 5) example_world =
      (([NewLedger 9], Some \<lparr>last_seq_num = 9, ledger_polling_interval_secs = 5\<rparr>), example_world)"
    by (simp add: poll_ledger_def example_source_def ledger_collector_new_def)
  have r: "ledger_run (example_source :: unit event_source) (ledger_collector_new 5) ([] @ [NewLedger 9])
      (Some \<lparr>last_seq_num = 9, ledger_polling_interval_secs = 5\<rparr>)"
    by (rule ledger_run.polled [OF ledger_run.begun p])
  from r ledgers_strictly_increase [OF r] show ?thesis by (simp add: ledger_collector_new_def)
qed

end
