(* ===== verification/Reactor.thy ===== *)
theory Reactor
  imports Keeper_Prelude "HOL-Library.Sublist"
begin

text \<open>
  \<^verbatim>\<open>engine/src/reactor\<close>: the engine that wires collectors, strategies and executors together by two
  broadcast channels, one task per component.  The tasks interleave, so the running engine is a step
  relation.  Every subscriber has its own queue; a subscriber that is overtaken loses the oldest entries
  of its queue, at whatever moment and however many the channel decides.  The strategies and executors
  are trait objects: what a strategy may answer to an event is the parameter \<open>answers\<close>.
\<close>

section \<open>Assembly\<close>

definition DEFAULT_CHANNEL_CAPACITY :: nat where
  "DEFAULT_CHANNEL_CAPACITY = 1024"

record ('c, 's, 'x) engine =
  collectors :: "'c list"
  strategies :: "'s list"
  executors :: "'x list"
  action_channel_capacity :: nat
  event_channel_capacity :: nat

definition engine_new :: "('c, 's, 'x) engine" where
  "engine_new = \<lparr>collectors = [], strategies = [], executors = [],
     action_channel_capacity = DEFAULT_CHANNEL_CAPACITY, event_channel_capacity = DEFAULT_CHANNEL_CAPACITY\<rparr>"

definition with_event_channel_capacity :: "nat \<Rightarrow> ('c, 's, 'x) engine \<Rightarrow> ('c, 's, 'x) engine" where
  "with_event_channel_capacity n e = e\<lparr>event_channel_capacity := n\<rparr>"

definition with_action_channel_capacity :: "nat \<Rightarrow> ('c, 's, 'x) engine \<Rightarrow> ('c, 's, 'x) engine" where
  "with_action_channel_capacity n e = e\<lparr>action_channel_capacity := n\<rparr>"

definition add_collector :: "'c \<Rightarrow> ('c, 's, 'x) engine \<Rightarrow> ('c, 's, 'x) engine" where
  "add_collector c e = e\<lparr>collectors := collectors e @ [c]\<rparr>"

definition add_strategy :: "'s \<Rightarrow> ('c, 's, 'x) engine \<Rightarrow> ('c, 's, 'x) engine" where
  "add_strategy s e = e\<lparr>strategies := strategies e @ [s]\<rparr>"

definition add_executor :: "'x \<Rightarrow> ('c, 's, 'x) engine \<Rightarrow> ('c, 's, 'x) engine" where
  "add_executor x e = e\<lparr>executors := executors e @ [x]\<rparr>"

section \<open>The running engine\<close>

text \<open>The channels as their subscribers see them: \<open>inbox\<close> is the queue of a strategy, \<open>outbox\<close> what it
  still has to send of its last answer, \<open>todo\<close> the queue of an executor.  \<open>collected\<close>, \<open>handled\<close>, \<open>sent\<close>
  and \<open>executed\<close> record the past.\<close>

record ('e, 'a, 's) running_engine =
  strats :: "nat \<Rightarrow> 's"
  inbox :: "nat \<Rightarrow> 'e list"
  outbox :: "nat \<Rightarrow> 'a list"
  todo :: "nat \<Rightarrow> 'a list"
  collected :: "'e list"
  handled :: "nat \<Rightarrow> 'e list"
  sent_actions :: "'a list"
  executed :: "nat \<Rightarrow> 'a list"

text \<open>\<open>Engine::run\<close>: every executor and strategy subscribes before the first collector starts, the
  strategies are synchronised one after the other, and the first that fails ends the start.\<close>

fun sync_strategies :: "('s \<Rightarrow> 'w \<Rightarrow> (string + 's) \<times> 'w) \<Rightarrow> 's list \<Rightarrow> 'w \<Rightarrow> (string + 's list) \<times> 'w" where
  "sync_strategies sync [] w = (Inr [], w)"
| "sync_strategies sync (s # ss) w =
     (case sync s w of
        (Inl e, w1) \<Rightarrow> (Inl e, w1)
      | (Inr s', w1) \<Rightarrow>
          (case sync_strategies sync ss w1 of
             (Inl e, w2) \<Rightarrow> (Inl e, w2)
           | (Inr ss', w2) \<Rightarrow> (Inr (s' # ss'), w2)))"

definition started :: "'s list \<Rightarrow> ('e, 'a, 's) running_engine" where
  "started ss = \<lparr>strats = (\<lambda>i. ss ! i), inbox = (\<lambda>i. []), outbox = (\<lambda>i. []), todo = (\<lambda>i. []), collected = [],
     handled = (\<lambda>i. []), sent_actions = [], executed = (\<lambda>i. [])\<rparr>"

definition engine_run ::
  "('s \<Rightarrow> 'w \<Rightarrow> (string + 's) \<times> 'w) \<Rightarrow> ('c, 's, 'x) engine \<Rightarrow> 'w \<Rightarrow> (string + ('e, 'a, 's) running_engine) \<times> 'w" where
  "engine_run sync e w =
     (case sync_strategies sync (strategies e) w of
        (Inl err, w') \<Rightarrow> (Inl err, w')
      | (Inr ss, w') \<Rightarrow> (Inr (started ss), w'))"

text \<open>The steps: a collector broadcasts an event; a strategy that has sent all it had to send handles its
  next event; a strategy sends an action to every executor; an executor takes an action, whatever the
  outcome.\<close>

inductive engine_progress ::
  "nat \<Rightarrow> nat \<Rightarrow> (nat \<Rightarrow> 's \<Rightarrow> 'e \<Rightarrow> 'a list \<Rightarrow> 's \<Rightarrow> bool) \<Rightarrow>
     ('e, 'a, 's) running_engine \<Rightarrow> ('e, 'a, 's) running_engine \<Rightarrow> bool"
  for ns nx answers where
  collect: "engine_progress ns nx answers g
     (g\<lparr>inbox := (\<lambda>i. if i < ns then inbox g i @ [e] else inbox g i), collected := collected g @ [e]\<rparr>)"
| handle: "i < ns \<Longrightarrow> inbox g i = e # es \<Longrightarrow> outbox g i = [] \<Longrightarrow> answers i (strats g i) e as s' \<Longrightarrow>
     engine_progress ns nx answers g
       (g\<lparr>strats := (strats g)(i := s'), inbox := (inbox g)(i := es), outbox := (outbox g)(i := as),
          handled := (handled g)(i := handled g i @ [e])\<rparr>)"
| send: "i < ns \<Longrightarrow> outbox g i = a # as \<Longrightarrow>
     engine_progress ns nx answers g
       (g\<lparr>outbox := (outbox g)(i := as), todo := (\<lambda>j. if j < nx then todo g j @ [a] else todo g j),
          sent_actions := sent_actions g @ [a]\<rparr>)"
| execute: "j < nx \<Longrightarrow> todo g j = a # as \<Longrightarrow>
     engine_progress ns nx answers g
       (g\<lparr>todo := (todo g)(j := as), executed := (executed g)(j := executed g j @ [a])\<rparr>)"

text \<open>An overtaken subscriber loses the oldest entries of its queue.\<close>

inductive engine_lag ::
  "nat \<Rightarrow> nat \<Rightarrow> ('e, 'a, 's) running_engine \<Rightarrow> ('e, 'a, 's) running_engine \<Rightarrow> bool"
  for ns nx where
  strategy_lags: "i < ns \<Longrightarrow> inbox g i = lost @ es \<Longrightarrow> lost \<noteq> [] \<Longrightarrow>
     engine_lag ns nx g (g\<lparr>inbox := (inbox g)(i := es)\<rparr>)"
| executor_lags: "j < nx \<Longrightarrow> todo g j = lost @ as \<Longrightarrow> lost \<noteq> [] \<Longrightarrow>
     engine_lag ns nx g (g\<lparr>todo := (todo g)(j := as)\<rparr>)"

inductive engine_reaches ::
  "nat \<Rightarrow> nat \<Rightarrow> (nat \<Rightarrow> 's \<Rightarrow> 'e \<Rightarrow> 'a list \<Rightarrow> 's \<Rightarrow> bool) \<Rightarrow> 's list \<Rightarrow> ('e, 'a, 's) running_engine \<Rightarrow> bool"
  for ns nx answers ss where
  begun: "engine_reaches ns nx answers ss (started ss)"
| progressed: "engine_reaches ns nx answers ss g \<Longrightarrow> engine_progress ns nx answers g g' \<Longrightarrow>
     engine_reaches ns nx answers ss g'"
| lagged: "engine_reaches ns nx answers ss g \<Longrightarrow> engine_lag ns nx g g' \<Longrightarrow> engine_reaches ns nx answers ss g'"

section \<open>What the tasks see of each other\<close>

text \<open>A queue behind its history is what was broadcast, less what was lost.\<close>

definition in_order :: "nat \<Rightarrow> nat \<Rightarrow> ('e, 'a, 's) running_engine \<Rightarrow> bool" where
  "in_order ns nx g \<longleftrightarrow>
     (\<forall>i < ns. subseq (handled g i @ inbox g i) (collected g)) \<and>
     (\<forall>j < nx. subseq (executed g j @ todo g j) (sent_actions g))"

text \<open>Every action was answered by a strategy, in a state it was in, to an event that was collected.\<close>

definition answered ::
  "nat \<Rightarrow> (nat \<Rightarrow> 's \<Rightarrow> 'e \<Rightarrow> 'a list \<Rightarrow> 's \<Rightarrow> bool) \<Rightarrow> ('e, 'a, 's) running_engine \<Rightarrow> 'a \<Rightarrow> bool" where
  "answered ns answers g a \<longleftrightarrow>
     (\<exists>i < ns. \<exists>s e as s'. e \<in> set (collected g) \<and> answers i s e as s' \<and> a \<in> set as)"

definition traced :: "nat \<Rightarrow> (nat \<Rightarrow> 's \<Rightarrow> 'e \<Rightarrow> 'a list \<Rightarrow> 's \<Rightarrow> bool) \<Rightarrow> ('e, 'a, 's) running_engine \<Rightarrow> bool" where
  "traced ns answers g \<longleftrightarrow>
     (\<forall>i < ns. list_all (answered ns answers g) (outbox g i)) \<and> list_all (answered ns answers g) (sent_actions g)"

lemma subseq_drop_middle: "subseq (h @ lost @ q) c \<Longrightarrow> subseq (h @ q) c"
proof -
  have "subseq (h @ q) (h @ lost @ q)" by (simp add: subseq_append' list_emb_append2)
  then show "subseq (h @ lost @ q) c \<Longrightarrow> subseq (h @ q) c" using subseq_order.order_trans by blast
qed

lemma progress_in_order:
  "engine_progress ns nx answers g g' \<Longrightarrow> in_order ns nx g \<Longrightarrow> in_order ns nx g'"
proof (induction rule: engine_progress.induct)
  case (handle i g e es as s')
  then have "subseq (handled g i @ e # es) (collected g)" by (metis in_order_def)
  with handle show ?case by (simp add: in_order_def)
next
  case (execute j g a as)
  then have "subseq (executed g j @ a # as) (sent_actions g)" by (metis in_order_def)
  with execute show ?case by (simp add: in_order_def)
qed (simp_all add: in_order_def list_emb_append_mono flip: append_assoc)

lemma lag_in_order: "engine_lag ns nx g g' \<Longrightarrow> in_order ns nx g \<Longrightarrow> in_order ns nx g'"
proof (induction rule: engine_lag.induct)
  case (strategy_lags i g lost es)
  then have "subseq (handled g i @ es) (collected g)" using subseq_drop_middle by (metis in_order_def)
  with strategy_lags show ?case by (simp add: in_order_def)
next
  case (executor_lags j g lost as)
  then have "subseq (executed g j @ as) (sent_actions g)" using subseq_drop_middle by (metis in_order_def)
  with executor_lags show ?case by (simp add: in_order_def)
qed

lemma in_order_collected:
  assumes "in_order ns nx g" "i < ns" "inbox g i = e # es"
  shows "e \<in> set (collected g)"
proof -
  have "subseq (handled g i @ e # es) (collected g)" using assms by (metis in_order_def)
  from list_emb_set [OF this, of e] show ?thesis by auto
qed

lemma answered_mono:
  "answered ns answers g a \<Longrightarrow> set (collected g) \<subseteq> set (collected g') \<Longrightarrow> answered ns answers g' a"
  unfolding answered_def by blast

lemma progress_traced:
  assumes "engine_progress ns nx answers g g'" "in_order ns nx g" "traced ns answers g"
  shows "traced ns answers g'"
proof -
  have m: "answered ns answers g a \<Longrightarrow> answered ns answers g' a" for a
    using assms(1) by cases (simp_all add: answered_def, blast?)
  have new: "answered ns answers g' a" if "i < ns" "inbox g i = e # es" "answers i (strats g i) e as s'" "a \<in> set as"
    for i e es as s' a
    using that in_order_collected [OF assms(2) that(1,2)] m unfolding answered_def by blast
  show ?thesis
    using assms(1,3) m new by cases (auto simp: traced_def list_all_iff)
qed

lemma lag_traced: "engine_lag ns nx g g' \<Longrightarrow> traced ns answers g \<Longrightarrow> traced ns answers g'"
  by (induction rule: engine_lag.induct) (simp_all add: traced_def answered_def [abs_def])

lemma reaches_invariant:
  assumes "engine_reaches ns nx answers ss g"
  shows "in_order ns nx g \<and> traced ns answers g"
  using assms
proof induction
  case begun
  then show ?case by (simp add: in_order_def traced_def started_def)
next
  case (progressed g g')
  then show ?case using progress_in_order progress_traced by blast
next
  case (lagged g g')
  then show ?case using lag_in_order lag_traced by blast
qed

section \<open>The contract of the strategies\<close>

text \<open>What an engine may promise of the actions it executes rests on what its strategies promise: a
  property of their states that handling an event keeps, and that gives every action they answer with a
  justification.\<close>

locale strategy_contract =
  fixes keeps :: "'s \<Rightarrow> bool"
    and replies :: "'s \<Rightarrow> 'e \<Rightarrow> 'a list \<Rightarrow> 's \<Rightarrow> bool"
    and warrant :: "'a \<Rightarrow> bool"
  assumes reply_keeps: "keeps s \<Longrightarrow> replies s e as s' \<Longrightarrow> keeps s'"
    and reply_warranted: "keeps s \<Longrightarrow> replies s e as s' \<Longrightarrow> list_all warrant as"
begin

lemma progress_contract:
  assumes "engine_progress ns nx (\<lambda>i. replies) g g'"
    "\<forall>i < ns. keeps (strats g i) \<and> list_all warrant (outbox g i)" "list_all warrant (sent_actions g)"
  shows "(\<forall>i < ns. keeps (strats g' i) \<and> list_all warrant (outbox g' i)) \<and> list_all warrant (sent_actions g')"
  using assms
proof cases
  case (handle i e es as s')
  then have "keeps s'" "list_all warrant as"
    using assms(2) reply_keeps [of "strats g i" e as s'] reply_warranted [of "strats g i" e as s'] by simp_all
  then show ?thesis using handle assms(2,3) by simp
next
  case (send i a as)
  then have "list_all warrant (a # as)" using assms(2) by metis
  then show ?thesis using send assms(2,3) by simp
qed simp_all

lemma reaches_contract:
  assumes "engine_reaches ns nx (\<lambda>i. replies) ss g" "\<forall>i < ns. keeps (ss ! i)"
  shows "(\<forall>i < ns. keeps (strats g i) \<and> list_all warrant (outbox g i)) \<and> list_all warrant (sent_actions g)"
  using assms
proof induction
  case begun
  then show ?case by (simp add: started_def)
next
  case (progressed g g')
  then show ?case using progress_contract [of ns nx g g'] by simp
next
  case (lagged g g')
  from lagged(2) have "strats g' = strats g \<and> outbox g' = outbox g \<and> sent_actions g' = sent_actions g" by cases simp_all
  then show ?case using lagged by simp
qed

text \<open>Whatever is executed is warranted.\<close>

lemma executed_warranted:
  assumes "engine_reaches ns nx (\<lambda>i. replies) ss g" "\<forall>i < ns. keeps (ss ! i)" "j < nx"
  shows "list_all warrant (executed g j)"
proof -
  have "subseq (executed g j @ todo g j) (sent_actions g)"
    using reaches_invariant [OF assms(1)] assms(3) by (simp add: in_order_def)
  from list_emb_set [OF this] have "set (executed g j) \<subseteq> set (sent_actions g)" by auto
  then show ?thesis using reaches_contract [OF assms(1,2)] by (auto simp: list_all_iff)
qed

end

section \<open>Without loss\<close>

text \<open>A run in which nobody is overtaken.\<close>

inductive engine_keeps_up ::
  "nat \<Rightarrow> nat \<Rightarrow> (nat \<Rightarrow> 's \<Rightarrow> 'e \<Rightarrow> 'a list \<Rightarrow> 's \<Rightarrow> bool) \<Rightarrow> 's list \<Rightarrow> ('e, 'a, 's) running_engine \<Rightarrow> bool"
  for ns nx answers ss where
  begun: "engine_keeps_up ns nx answers ss (started ss)"
| progressed: "engine_keeps_up ns nx answers ss g \<Longrightarrow> engine_progress ns nx answers g g' \<Longrightarrow>
     engine_keeps_up ns nx answers ss g'"

lemma keeps_up_reaches: "engine_keeps_up ns nx answers ss g \<Longrightarrow> engine_reaches ns nx answers ss g"
  by (induction rule: engine_keeps_up.induct) (auto intro: engine_reaches.intros)

definition lossless :: "nat \<Rightarrow> nat \<Rightarrow> ('e, 'a, 's) running_engine \<Rightarrow> bool" where
  "lossless ns nx g \<longleftrightarrow>
     (\<forall>i < ns. handled g i @ inbox g i = collected g) \<and> (\<forall>j < nx. executed g j @ todo g j = sent_actions g)"

section \<open>One round\<close>

text \<open>An event that the first strategy answers with one action, up to the execution of that action.\<close>

lemma one_round:
  fixes answers :: "nat \<Rightarrow> 's \<Rightarrow> 'e \<Rightarrow> 'a list \<Rightarrow> 's \<Rightarrow> bool"
  assumes "0 < ns" "0 < nx" "answers 0 (ss ! 0) e [a] s'"
  shows "\<exists>g. engine_keeps_up ns nx answers ss g \<and> collected g = [e] \<and> handled g 0 = [e] \<and> executed g 0 = [a]"
proof -
  let ?g0 = "started ss :: ('e, 'a, 's) running_engine"
  let ?g1 = "?g0\<lparr>inbox := (\<lambda>i. if i < ns then inbox ?g0 i @ [e] else inbox ?g0 i), collected := collected ?g0 @ [e]\<rparr>"
  let ?g2 = "?g1\<lparr>strats := (strats ?g1)(0 := s'), inbox := (inbox ?g1)(0 := []), outbox := (outbox ?g1)(0 := [a]),
    handled := (handled ?g1)(0 := handled ?g1 0 @ [e])\<rparr>"
  let ?g3 = "?g2\<lparr>outbox := (outbox ?g2)(0 := []), todo := (\<lambda>j. if j < nx then todo ?g2 j @ [a] else todo ?g2 j),
    sent_actions := sent_actions ?g2 @ [a]\<rparr>"
  let ?g4 = "?g3\<lparr>todo := (todo ?g3)(0 := []), executed := (executed ?g3)(0 := executed ?g3 0 @ [a])\<rparr>"
  have 1: "engine_keeps_up ns nx answers ss ?g1"
    by (rule engine_keeps_up.progressed [OF engine_keeps_up.begun engine_progress.collect])
  have 2: "engine_keeps_up ns nx answers ss ?g2"
    by (rule engine_keeps_up.progressed [OF 1 engine_progress.handle]) (use assms in \<open>simp_all add: started_def\<close>)
  have 3: "engine_keeps_up ns nx answers ss ?g3"
    by (rule engine_keeps_up.progressed [OF 2 engine_progress.send]) (use assms in \<open>simp_all add: started_def\<close>)
  have 4: "engine_keeps_up ns nx answers ss ?g4"
    by (rule engine_keeps_up.progressed [OF 3 engine_progress.execute]) (use assms in \<open>simp_all add: started_def\<close>)
  show ?thesis by (rule exI [of _ ?g4]) (use 4 in \<open>simp add: started_def\<close>)
qed

text \<open>A strategy that answers every event with that event.\<close>

definition echo :: "nat \<Rightarrow> unit \<Rightarrow> nat \<Rightarrow> nat list \<Rightarrow> unit \<Rightarrow> bool" where
  "echo i s e as s' \<longleftrightarrow> as = [e]"

section \<open>Properties\<close>

text \<open>C31. The engine invents nothing and reorders nothing: in every interleaving of its tasks, however the
  channels drop entries, each strategy has handled a subsequence of the collected events in their
  order, each executor a subsequence of the sent actions in their order, and every action an executor
  has taken was a strategy's answer to a collected event.\<close>

theorem actions_trace_back_to_events:
  assumes "engine_reaches ns nx answers ss g" "i < ns" "j < nx"
  shows "subseq (handled g i) (collected g) \<and> subseq (executed g j) (sent_actions g) \<and>
    list_all (answered ns answers g) (executed g j)"
proof -
  have o: "in_order ns nx g" "traced ns answers g" using reaches_invariant [OF assms(1)] by simp_all
  have "subseq (handled g i @ inbox g i) (collected g)" "subseq (executed g j @ todo g j) (sent_actions g)"
    using o(1) assms(2,3) by (simp_all add: in_order_def)
  then have h: "subseq (handled g i) (collected g)" "subseq (executed g j) (sent_actions g)"
    using subseq_drop_middle [of _ _ "[]"] by (metis append_Nil2)+
  have "set (executed g j) \<subseteq> set (sent_actions g)" using list_emb_set [OF h(2)] by auto
  then show ?thesis using h o(2) by (auto simp: traced_def list_all_iff)
qed

theorem actions_trace_back_to_events_witness:
  "\<exists>g. engine_reaches 1 1 echo [()] g \<and> executed g 0 = [7] \<and> answered 1 echo g 7"
proof -
  obtain g where g: "engine_keeps_up 1 1 echo [()] g" "executed g 0 = [7]"
    using one_round [of 1 1 echo "[()]" 7 7] by (auto simp: echo_def)
  have "engine_reaches 1 1 echo [()] g" by (rule keeps_up_reaches [OF g(1)])
  with actions_trace_back_to_events [OF this, of 0 0] g(2) show ?thesis by (intro exI [of _ g]) simp
qed

end
