(* ===== verification/Keeper_System.thy ===== *)
theory Keeper_System
  imports Config Executor Simulation Collectors Reactor
begin

text \<open>
  \<^verbatim>\<open>keeper/src/main.rs\<close>: how the keeper is put together.  The configuration is loaded, the store and the
  gateway are opened, the four strategies, two collectors and one executor are registered with the
  engine, and the engine runs.  The end-to-end statements follow from the contract each strategy has
  with the engine (locale \<open>strategy_contract\<close>), interpreted here once per strategy and once for the
  whole keeper.
\<close>

section \<open>Assembly\<close>

datatype keeper_strategy =
    StratBadDebt bad_debt_initiator
  | StratLiquidator liquidator
  | StratWithdrawer withdrawer
  | StratBalancer balancer

text \<open>The event collector asks for the contract events of the given addresses only.\<close>

datatype keeper_collector = EventPoll "string list" event_collector | LedgerPoll ledger_collector

type_synonym keeper_engine = "(keeper_collector, keeper_strategy, soroban_executor) engine"

definition keeper_assemble ::
  "string \<Rightarrow> string \<Rightarrow> cli_config \<Rightarrow> balancer_config \<Rightarrow> event_collector \<Rightarrow> keeper_engine" where
  "keeper_assemble pkey skey c bl events =
     add_executor (executor_new pkey (cli_default_simulation_fee c) (cli_network_passphrase c))
     (add_collector (LedgerPoll (ledger_collector_new (cli_ledger_collector_polling_interval_secs c)))
     (add_collector (EventPoll (cli_markets c) events)
     (add_strategy (StratBalancer (balancer_new pkey skey bl))
     (add_strategy (StratWithdrawer (withdrawer_new pkey skey (withdrawer_config_of c)))
     (add_strategy (StratLiquidator (liquidator_new pkey skey (liquidator_config_of c)))
     (add_strategy (StratBadDebt (bad_debt_new skey (bad_debt_config_of c)))
     engine_new))))))"

datatype start_error =
    ConfigError load_error | KeyError string | StoreError rpc_error | GatewayError rpc_error | CursorError rpc_error

text \<open>\<open>main\<close> up to the start of the engine.  Its surroundings are arguments: the configuration sources,
  the parsed key pair, the database file with the faults of opening it and reading the cursor, and the
  construction of the RPC client.\<close>

definition keeper_main ::
  "string + raw_config \<Rightarrow> string + string \<times> string \<Rightarrow> fault \<Rightarrow> database option \<Rightarrow> rpc_error + 'client \<Rightarrow> fault \<Rightarrow>
     (start_error, liquidator_capital \<times> keeper_engine) outcome" where
  "keeper_main sources keys open_fault existing client cursor_fault =
     (case load sources of
        Inl e \<Rightarrow> Err (ConfigError e)
      | Inr c \<Rightarrow>
     (case keys of
        Inl e \<Rightarrow> Err (KeyError e)
      | Inr (pkey, skey) \<Rightarrow>
     (case store_open open_fault existing of
        Inl e \<Rightarrow> Err (StoreError e)
      | Inr db \<Rightarrow>
     (case client of
        Inl e \<Rightarrow> Err (GatewayError e)
      | Inr _ \<Rightarrow>
     (case balancer_config_of c of
        Panic \<Rightarrow> Panic
      | Err e \<Rightarrow> Panic
      | Ok bl \<Rightarrow>
     (case collector_try_new (cli_event_collector_start_ledger c) (get_cursor cursor_fault db) of
        Inl e \<Rightarrow> Err (CursorError e)
      | Inr events \<Rightarrow>
          Ok (capital_new pkey (capital_config_of c), keeper_assemble pkey skey c bl events)))))))"

text \<open>\<open>Strategy::sync_state\<close> and \<open>Strategy::process_event\<close> of the registered strategies.\<close>

definition keeper_sync ::
  "'w ledger_reader \<Rightarrow> 'w store \<Rightarrow> keeper_strategy \<Rightarrow> 'w world \<Rightarrow> (string + keeper_strategy) \<times> 'w world" where
  "keeper_sync L R s w =
     (case s of
        StratLiquidator l \<Rightarrow> (case sync_state L R l w of (l', w') \<Rightarrow> (Inr (StratLiquidator l'), w'))
      | _ \<Rightarrow> (Inr s, w))"

definition keeper_process ::
  "'w ledger_reader \<Rightarrow> ('w, 'r, 'op) gateway \<Rightarrow> event_codec \<Rightarrow> 'w store \<Rightarrow> keeper_event \<Rightarrow> keeper_strategy \<Rightarrow>
     ('w, 'op action list \<times> keeper_strategy) proc" where
  "keeper_process L G C R ev s =
     (case s of
        StratBadDebt b \<Rightarrow> pbind (bad_debt_process_event b L G C R ev) (\<lambda>as. pret (as, s))
      | StratLiquidator l \<Rightarrow>
          pbind (process_event L G C R ev l) (\<lambda>(as, l'). pret (as, StratLiquidator l'))
      | StratWithdrawer v \<Rightarrow> pbind (withdrawer_process_event v L G C ev) (\<lambda>as. pret (as, s))
      | StratBalancer b \<Rightarrow>
          pbind (balancer_process_event L G C ev b) (\<lambda>(as, b'). pret (as, StratBalancer b')))"

text \<open>What a strategy may answer, in whatever world the event reaches it.\<close>

definition keeper_replies ::
  "'w ledger_reader \<Rightarrow> ('w, 'r, 'op) gateway \<Rightarrow> event_codec \<Rightarrow> 'w store \<Rightarrow> keeper_strategy \<Rightarrow> keeper_event \<Rightarrow>
     'op action list \<Rightarrow> keeper_strategy \<Rightarrow> bool" where
  "keeper_replies L G C R s ev as s' \<longleftrightarrow> (\<exists>w w'. keeper_process L G C R ev s w = Some ((as, s'), w'))"

text \<open>The states of the running keeper.\<close>

definition keeper_reaches ::
  "'w ledger_reader \<Rightarrow> ('w, 'r, 'op) gateway \<Rightarrow> event_codec \<Rightarrow> 'w store \<Rightarrow> keeper_engine \<Rightarrow>
     (keeper_event, 'op action, keeper_strategy) running_engine \<Rightarrow> bool" where
  "keeper_reaches L G C R e g \<longleftrightarrow>
     (\<exists>w ss w'. sync_strategies (keeper_sync L R) (strategies e) w = (Inr ss, w') \<and>
        engine_reaches (length (strategies e)) (length (executors e)) (\<lambda>i. keeper_replies L G C R) ss g)"

section \<open>The liquidator's contract\<close>

definition liquidation_warrant ::
  "('w, 'r, 'op) gateway \<Rightarrow> string \<Rightarrow> string \<Rightarrow> liquidator_config \<Rightarrow> 'op action \<Rightarrow> bool" where
  "liquidation_warrant G pkey skey cfg a \<longleftrightarrow>
     (\<exists>market md entry. market \<in> set (markets cfg) \<and> \<not> prices_nothing md \<and>
        warranted (liquidator_new pkey skey cfg) G market md entry a)"

definition keeps_liquidator :: "string \<Rightarrow> string \<Rightarrow> liquidator_config \<Rightarrow> liquidator \<Rightarrow> bool" where
  "keeps_liquidator pkey skey cfg s \<longleftrightarrow>
     liquidator_inv s \<and> lq_pkey s = pkey \<and> lq_skey s = skey \<and> lq_config s = cfg"

lemma warranted_new:
  "warranted s G market md entry a \<longleftrightarrow>
     warranted (liquidator_new (lq_pkey s) (lq_skey s) (lq_config s)) G market md entry a"
  by (simp add: warranted_def eligible_def carries_out_def liquidator_new_def)

lemma list_all2_right: "list_all2 P xs ys \<Longrightarrow> list_all (\<lambda>y. \<exists>x. P x y) ys"
  by (induction rule: list_all2_induct) (simp_all, blast)

lemma evaluate_market_warrant:
  assumes "evaluate_market s L G market w = Some (as, w')" "keeps_liquidator pkey skey cfg s"
  shows "list_all (liquidation_warrant G pkey skey cfg) as"
proof (cases "as = []")
  case False
  with assms(1) obtain snapshot obs w1 where
    m: "hm_get (lq_market_data s) market = Some snapshot" and
    sc: "scan_obligations s L G market (snap_data snapshot) obs w1 = Some (as, w')"
    by (auto simp: evaluate_market_def split: option.splits if_splits)
  from scan_obligations_actions [OF sc] obtain fs where
    "list_all2 (warranted s G market (snap_data snapshot)) fs as" by blast
  then have "list_all (\<lambda>a. \<exists>entry. warranted s G market (snap_data snapshot) entry a) as"
    by (rule list_all2_right)
  moreover have "market \<in> set (markets cfg)" "\<not> prices_nothing (snap_data snapshot)"
    using m assms(2) by (auto simp: keeps_liquidator_def liquidator_inv_def)
  ultimately show ?thesis
    using warranted_new [of s G market "snap_data snapshot"] assms(2)
    unfolding liquidation_warrant_def keeps_liquidator_def list_all_iff by metis
qed simp

lemma evaluate_markets_warrant:
  "evaluate_markets s L G ms w = Some (as, w') \<Longrightarrow> keeps_liquidator pkey skey cfg s \<Longrightarrow>
     list_all (liquidation_warrant G pkey skey cfg) as"
  by (induction ms arbitrary: w as) (auto dest: evaluate_market_warrant)

lemma process_event_keeps:
  "process_event L G C R ev s w = Some ((as, s'), w') \<Longrightarrow> keeps_liquidator pkey skey cfg s \<Longrightarrow>
     keeps_liquidator pkey skey cfg s'"
  using process_event_inv [of L G C R ev s w as s' w'] by (simp add: keeps_liquidator_def)

lemma handle_new_ledger_warrant:
  assumes "handle_new_ledger L G n s w = Some ((as, s'), w')" "keeps_liquidator pkey skey cfg s"
  shows "list_all (liquidation_warrant G pkey skey cfg) as"
proof (cases "as = []")
  case False
  with assms(1) obtain w1 where e: "evaluate_markets s' L G (markets (lq_config s')) w1 = Some (as, w')"
    by (auto simp: handle_new_ledger_def Let_def split: if_splits)
  have "keeps_liquidator pkey skey cfg s'"
    using assms handle_new_ledger_inv [OF assms(1)] by (simp add: keeps_liquidator_def)
  from evaluate_markets_warrant [OF e this] show ?thesis .
qed simp

interpretation liquidating: strategy_contract
    "keeps_liquidator pkey skey cfg"
    "\<lambda>s ev as s'. \<exists>w w'. process_event L G C R ev s w = Some ((as, s'), w')"
    "liquidation_warrant G pkey skey cfg"
  for L :: "'w ledger_reader" and G :: "('w, 'r, 'op) gateway" and C R pkey skey cfg
proof
  show "keeps_liquidator pkey skey cfg s'" if "keeps_liquidator pkey skey cfg s"
    "\<exists>w w'. process_event L G C R ev s w = Some ((as, s'), w')" for s ev as s'
    using that process_event_keeps by blast
next
  show "list_all (liquidation_warrant G pkey skey cfg) as" if "keeps_liquidator pkey skey cfg s"
    "\<exists>w w'. process_event L G C R ev s w = Some ((as, s'), w')" for s ev as s'
    using that handle_new_ledger_warrant by (cases ev) (auto simp: process_event_def)
qed

section \<open>The contracts of the other strategies\<close>

text \<open>The withdrawer and the bad-debt initiator keep no state; the balancer keeps an index of assets.\<close>

definition withdrawal_warrant ::
  "'w ledger_reader \<Rightarrow> ('w, 'r, 'op) gateway \<Rightarrow> string \<Rightarrow> string \<Rightarrow> withdrawer_config \<Rightarrow> 'op action \<Rightarrow> bool" where
  "withdrawal_warrant L G pkey skey cfg = own_withdrawal (withdrawer_new pkey skey cfg) L G"

lemma withdrawer_process_warrant:
  "withdrawer_process_event s L G C ev w = Some (as, w') \<Longrightarrow> list_all (own_withdrawal s L G) as"
  unfolding withdrawer_process_event_def
  by (cases ev)
     (auto simp: withdrawer_handle_soroban_event_def withdrawer_handle_new_ledger_def
       split: if_splits sum.splits operation_event.splits dest: withdraw_in_own withdraw_markets_own)

interpretation withdrawing: strategy_contract
    "\<lambda>s. s = withdrawer_new pkey skey cfg"
    "\<lambda>s ev as s'. s' = s \<and> (\<exists>w w'. withdrawer_process_event s L G C ev w = Some (as, w'))"
    "withdrawal_warrant L G pkey skey cfg"
  for L :: "'w ledger_reader" and G :: "('w, 'r, 'op) gateway" and C pkey skey cfg
  by unfold_locales (auto simp: withdrawal_warrant_def dest: withdrawer_process_warrant)

text \<open>The obligation a request was judged on is the one the chain reports or the one a liquidation event
  announced.\<close>

definition request_warrant ::
  "'w ledger_reader \<Rightarrow> ('w, 'r, 'op) gateway \<Rightarrow> event_codec \<Rightarrow> string \<Rightarrow> bad_debt_config \<Rightarrow> 'op action \<Rightarrow> bool" where
  "request_warrant L G C skey cfg a \<longleftrightarrow>
     (\<exists>market key known. justified_request (bad_debt_new skey cfg) L G known market key a \<and>
        (known = on_chain L market key \<or>
         (\<exists>e :: soroban_event. known = {ob. parse_obligation_from_event_value C (ev_value e) ''borrower_obligation'' key =
            Inr (Some ob)})))"

lemma bad_debt_process_warrant:
  assumes "bad_debt_process_event (bad_debt_new skey cfg) L G C R ev w = Some (as, w')"
  shows "list_all (request_warrant L G C skey cfg) as"
proof (cases ev)
  case (SorobanEvents e)
  then have "bad_debt_handle_soroban_event (bad_debt_new skey cfg) L G C e w = Some (as, w')"
    using assms by (simp add: bad_debt_process_event_def)
  from event_request_justified [OF this] show ?thesis
    unfolding request_warrant_def list_all_iff by blast
next
  case (NewLedger n)
  then have "list_all (\<lambda>a. \<exists>market key.
      justified_request (bad_debt_new skey cfg) L G (on_chain L market key) market key a) as"
    using assms
      judge_markets_justified [of "bad_debt_new skey cfg" L G R "bd_markets (bd_config (bad_debt_new skey cfg))" w as w']
    by (auto simp: bad_debt_process_event_def bad_debt_handle_new_ledger_def split: if_splits)
  then show ?thesis unfolding request_warrant_def list_all_iff by blast
qed

interpretation requesting: strategy_contract
    "\<lambda>s. s = bad_debt_new skey cfg"
    "\<lambda>s ev as s'. s' = s \<and> (\<exists>w w'. bad_debt_process_event s L G C R ev w = Some (as, w'))"
    "request_warrant L G C skey cfg"
  for L :: "'w ledger_reader" and G :: "('w, 'r, 'op) gateway" and C R skey cfg
  by unfold_locales (auto dest: bad_debt_process_warrant)

text \<open>A swap sells an asset that is not to be held for the first that is.\<close>

definition swap_warrant ::
  "'w ledger_reader \<Rightarrow> ('w, 'r, 'op) gateway \<Rightarrow> string \<Rightarrow> string \<Rightarrow> balancer_config \<Rightarrow> 'op action \<Rightarrow> bool" where
  "swap_warrant L G pkey skey cfg a \<longleftrightarrow>
     (\<exists>ix target candidate od tp cp w. candidate \<notin> set (bl_assets_to_hold cfg) \<and>
        target \<in> set (bl_assets_to_hold cfg) \<and>
        justified_swap ((balancer_new pkey skey cfg)\<lparr>asset_index := ix\<rparr>) L G target candidate od tp cp w a)"

definition keeps_balancer :: "string \<Rightarrow> string \<Rightarrow> balancer_config \<Rightarrow> balancer \<Rightarrow> bool" where
  "keeps_balancer pkey skey cfg s \<longleftrightarrow> (\<exists>ix. s = (balancer_new pkey skey cfg)\<lparr>asset_index := ix\<rparr>)"

lemma keeps_balancer_config: "keeps_balancer pkey skey cfg s \<Longrightarrow> bl_config s = cfg"
  by (auto simp: keeps_balancer_def balancer_new_def)

lemma keeps_balancer_index: "keeps_balancer pkey skey cfg s \<Longrightarrow> keeps_balancer pkey skey cfg (s\<lparr>asset_index := ix\<rparr>)"
  by (auto simp: keeps_balancer_def)

lemma rebalance_loop_warrant:
  "rebalance_loop s L G md target tp cs w = Some (as, w') \<Longrightarrow> keeps_balancer pkey skey cfg s \<Longrightarrow>
     target \<in> set (bl_assets_to_hold cfg) \<Longrightarrow> set cs \<inter> set (bl_assets_to_hold cfg) = {} \<Longrightarrow>
     list_all (swap_warrant L G pkey skey cfg) as"
proof (induction cs arbitrary: w as)
  case (Cons candidate cs)
  show ?case
  proof (cases "find_pool (pools_data md) candidate")
    case None
    then show ?thesis using Cons by simp
  next
    case (Some p)
    with Cons.prems(1) obtain r w1 bs where
      r: "evaluate_rebalancable_candidate s L G target candidate (oracle_price_decimals md) tp (oracle_asset_price p) w =
        Some (r, w1)" and
      bs: "rebalance_loop s L G md target tp cs w1 = Some (bs, w')" and
      as: "as = (case r of Inr (Some a) \<Rightarrow> [a] | _ \<Rightarrow> []) @ bs" by auto
    have "candidate \<notin> set (bl_assets_to_hold cfg)" using Cons.prems(4) by auto
    then have "swap_warrant L G pkey skey cfg a" if "r = Inr (Some a)" for a
      using evaluate_candidate_Some [OF r [unfolded that]] Cons.prems(2,3)
      unfolding swap_warrant_def keeps_balancer_def by blast
    then show ?thesis using Cons.IH [OF bs] Cons.prems as by (auto split: sum.splits option.splits)
  qed
qed simp

lemma find_rebalance_warrant:
  assumes "find_rebalance_actions L G md s w = Some ((as, s'), w')" "keeps_balancer pkey skey cfg s"
  shows "keeps_balancer pkey skey cfg s' \<and> list_all (swap_warrant L G pkey skey cfg) as"
proof -
  define s1 where "s1 = s\<lparr>asset_index := update_asset_index (oracle_price_decimals md) (pools_data md) (asset_index s)\<rparr>"
  have k: "keeps_balancer pkey skey cfg s1" unfolding s1_def by (rule keeps_balancer_index [OF assms(2)])
  from assms(1) have s': "s' = s1"
    by (auto simp: find_rebalance_actions_def Let_def s1_def split: list.splits option.splits)
  show ?thesis
  proof (cases "as = []")
    case False
    have c: "bl_config s = cfg" by (rule keeps_balancer_config [OF assms(2)])
    with assms(1) obtain target rest where t: "bl_assets_to_hold cfg = target # rest"
      by (cases "bl_assets_to_hold cfg") (auto simp: find_rebalance_actions_def Let_def)
    with assms(1) c False obtain p where "find_pool (pools_data md) target = Some p"
      by (cases "find_pool (pools_data md) target") (auto simp: find_rebalance_actions_def Let_def)
    with assms(1) c t have l: "rebalance_loop s1 L G md target (oracle_asset_price p)
        (filter (\<lambda>a. a \<notin> set (bl_assets_to_hold cfg)) (map fst (asset_index s1))) w = Some (as, w')"
      by (auto simp: find_rebalance_actions_def Let_def s1_def)
    have "list_all (swap_warrant L G pkey skey cfg) as"
      by (rule rebalance_loop_warrant [OF l k]) (auto simp: t)
    then show ?thesis using k s' by simp
  qed (use k s' in simp)
qed

lemma balancer_process_warrant:
  assumes "balancer_process_event L G C ev s w = Some ((as, s'), w')" "keeps_balancer pkey skey cfg s"
  shows "keeps_balancer pkey skey cfg s' \<and> list_all (swap_warrant L G pkey skey cfg) as"
proof -
  have now: "keeps_balancer pkey skey cfg s' \<and> list_all (swap_warrant L G pkey skey cfg) as"
    if "rebalance_now L G s w = Some ((as, s'), w')"
    using that assms(2) unfolding rebalance_now_def by (elim task_elims) (auto dest: find_rebalance_warrant)
  show ?thesis
    using assms now unfolding balancer_process_event_def balancer_handle_new_ledger_def balancer_handle_soroban_event_def
    by (cases ev) (auto simp: Let_def split: if_splits)
qed

interpretation balancing: strategy_contract
    "keeps_balancer pkey skey cfg"
    "\<lambda>s ev as s'. \<exists>w w'. balancer_process_event L G C ev s w = Some ((as, s'), w')"
    "swap_warrant L G pkey skey cfg"
  for L :: "'w ledger_reader" and G :: "('w, 'r, 'op) gateway" and C pkey skey cfg
  by unfold_locales (auto dest: balancer_process_warrant)

section \<open>The keeper's contract\<close>

definition keeper_warrant ::
  "'w ledger_reader \<Rightarrow> ('w, 'r, 'op) gateway \<Rightarrow> event_codec \<Rightarrow> string \<Rightarrow> string \<Rightarrow> cli_config \<Rightarrow> balancer_config \<Rightarrow>
     'op action \<Rightarrow> bool" where
  "keeper_warrant L G C pkey skey c bl a \<longleftrightarrow>
     liquidation_warrant G pkey skey (liquidator_config_of c) a \<or>
     withdrawal_warrant L G pkey skey (withdrawer_config_of c) a \<or>
     request_warrant L G C skey (bad_debt_config_of c) a \<or>
     swap_warrant L G pkey skey bl a"

fun keeps_keeper :: "string \<Rightarrow> string \<Rightarrow> cli_config \<Rightarrow> balancer_config \<Rightarrow> keeper_strategy \<Rightarrow> bool" where
  "keeps_keeper pkey skey c bl (StratBadDebt b) \<longleftrightarrow> b = bad_debt_new skey (bad_debt_config_of c)"
| "keeps_keeper pkey skey c bl (StratLiquidator l) \<longleftrightarrow> keeps_liquidator pkey skey (liquidator_config_of c) l"
| "keeps_keeper pkey skey c bl (StratWithdrawer v) \<longleftrightarrow> v = withdrawer_new pkey skey (withdrawer_config_of c)"
| "keeps_keeper pkey skey c bl (StratBalancer b) \<longleftrightarrow> keeps_balancer pkey skey bl b"

lemma keeper_warrantI:
  "list_all (liquidation_warrant G pkey skey (liquidator_config_of c)) as \<Longrightarrow>
     list_all (keeper_warrant L G C pkey skey c bl) as"
  "list_all (withdrawal_warrant L G pkey skey (withdrawer_config_of c)) as \<Longrightarrow>
     list_all (keeper_warrant L G C pkey skey c bl) as"
  "list_all (request_warrant L G C skey (bad_debt_config_of c)) as \<Longrightarrow>
     list_all (keeper_warrant L G C pkey skey c bl) as"
  "list_all (swap_warrant L G pkey skey bl) as \<Longrightarrow> list_all (keeper_warrant L G C pkey skey c bl) as"
  by (simp_all add: list_all_iff keeper_warrant_def)

lemma keeper_replies_contract:
  assumes "keeps_keeper pkey skey c bl s" "keeper_replies L G C R s ev as s'"
  shows "keeps_keeper pkey skey c bl s' \<and> list_all (keeper_warrant L G C pkey skey c bl) as"
proof -
  from assms(2) obtain w w' where p: "keeper_process L G C R ev s w = Some ((as, s'), w')"
    by (auto simp: keeper_replies_def)
  show ?thesis
  proof (cases s)
    case (StratBadDebt b)
    with p assms(1) have "s' = s" "list_all (request_warrant L G C skey (bad_debt_config_of c)) as"
      using bad_debt_process_warrant by (auto simp: keeper_process_def)
    then show ?thesis using assms(1) by (simp add: keeper_warrantI)
  next
    case (StratLiquidator l)
    with p obtain l' where l: "process_event L G C R ev l w = Some ((as, l'), w')" "s' = StratLiquidator l'"
      by (auto simp: keeper_process_def)
    have k: "keeps_liquidator pkey skey (liquidator_config_of c) l" using assms(1) StratLiquidator by simp
    have r: "\<exists>w w'. process_event L G C R ev l w = Some ((as, l'), w')" using l(1) by blast
    from liquidating.reply_keeps [OF k r] liquidating.reply_warranted [OF k r] show ?thesis
      using l(2) by (simp add: keeper_warrantI)
  next
    case (StratWithdrawer v)
    with p assms(1) have "s' = s" "list_all (withdrawal_warrant L G pkey skey (withdrawer_config_of c)) as"
      using withdrawer_process_warrant by (auto simp: keeper_process_def withdrawal_warrant_def)
    then show ?thesis using assms(1) by (simp add: keeper_warrantI)
  next
    case (StratBalancer b)
    with p obtain b' where b: "balancer_process_event L G C ev b w = Some ((as, b'), w')" "s' = StratBalancer b'"
      by (auto simp: keeper_process_def)
    have "keeps_balancer pkey skey bl b" using assms(1) StratBalancer by simp
    from balancer_process_warrant [OF b(1) this] show ?thesis
      using b(2) by (simp add: keeper_warrantI)
  qed
qed

interpretation keeping: strategy_contract
    "keeps_keeper pkey skey c bl" "keeper_replies L G C R" "keeper_warrant L G C pkey skey c bl"
  for L :: "'w ledger_reader" and G :: "('w, 'r, 'op) gateway" and C R pkey skey c bl
  using keeper_replies_contract by unfold_locales blast+

lemma keeper_main_Ok:
  assumes "keeper_main sources keys open_fault existing client cursor_fault = Ok (cap, e)"
  shows "\<exists>c pkey skey bl events. load sources = Inr c \<and> keys = Inr (pkey, skey) \<and> balancer_config_of c = Ok bl \<and>
    cap = capital_new pkey (capital_config_of c) \<and> e = keeper_assemble pkey skey c bl events"
  using assms by (auto simp: keeper_main_def split: sum.splits outcome.splits)

lemma keeper_assemble_parts:
  "strategies (keeper_assemble pkey skey c bl events) =
     [StratBadDebt (bad_debt_new skey (bad_debt_config_of c)),
      StratLiquidator (liquidator_new pkey skey (liquidator_config_of c)),
      StratWithdrawer (withdrawer_new pkey skey (withdrawer_config_of c)),
      StratBalancer (balancer_new pkey skey bl)]"
  "collectors (keeper_assemble pkey skey c bl events) =
     [EventPoll (cli_markets c) events, LedgerPoll (ledger_collector_new (cli_ledger_collector_polling_interval_secs c))]"
  "executors (keeper_assemble pkey skey c bl events) =
     [executor_new pkey (cli_default_simulation_fee c) (cli_network_passphrase c)]"
  by (simp_all add: keeper_assemble_def add_strategy_def add_collector_def add_executor_def engine_new_def)

text \<open>Synchronising establishes the contract.\<close>

lemma keeper_sync_keeps:
  assumes "keeper_sync L R s w = (Inr s', w')" "keeps_keeper pkey skey c bl s" "store_ok R"
  shows "keeps_keeper pkey skey c bl s'"
proof (cases s)
  case (StratLiquidator l)
  with assms(1) obtain l' where l: "sync_state L R l w = (l', w')" "s' = StratLiquidator l'"
    by (auto simp: keeper_sync_def split: prod.splits)
  have "liquidator_inv l' \<and> same_keeper l' l"
    using sync_markets_inv [OF l(1) [unfolded sync_state_def] assms(3)] assms(2) StratLiquidator
    by (simp add: keeps_liquidator_def)
  then show ?thesis using assms(2) l(2) StratLiquidator by (simp add: keeps_liquidator_def)
qed (use assms in \<open>auto simp: keeper_sync_def\<close>)

lemma sync_strategies_keeps:
  "sync_strategies (keeper_sync L R) ss w = (Inr ss', w') \<Longrightarrow> store_ok R \<Longrightarrow>
     list_all (keeps_keeper pkey skey c bl) ss \<Longrightarrow>
     list_all (keeps_keeper pkey skey c bl) ss' \<and> length ss' = length ss"
  by (induction ss arbitrary: w ss')
     (auto split: prod.splits sum.splits dest: keeper_sync_keeps)

lemma keeper_new_keeps:
  "list_all (keeps_keeper pkey skey c bl) (strategies (keeper_assemble pkey skey c bl events))"
  by (simp add: keeper_assemble_parts keeps_liquidator_def liquidator_inv_new keeps_balancer_def)
     (simp add: liquidator_new_def balancer_new_def)

lemma keeper_executes_warranted:
  assumes "keeper_reaches L G C R (keeper_assemble pkey skey c bl events) g" "store_ok R"
  shows "list_all (keeper_warrant L G C pkey skey c bl) (executed g 0)"
proof -
  let ?e = "keeper_assemble pkey skey c bl events"
  from assms(1) obtain w ss w' where s: "sync_strategies (keeper_sync L R) (strategies ?e) w = (Inr ss, w')"
    and g: "engine_reaches (length (strategies ?e)) (length (executors ?e)) (\<lambda>i. keeper_replies L G C R) ss g"
    by (auto simp: keeper_reaches_def)
  have "list_all (keeps_keeper pkey skey c bl) ss" "length ss = length (strategies ?e)"
    using sync_strategies_keeps [OF s assms(2) keeper_new_keeps] by auto
  then have "\<forall>i < length (strategies ?e). keeps_keeper pkey skey c bl (ss ! i)" by (simp add: list_all_length)
  then show ?thesis using keeping.executed_warranted [OF g, of pkey skey c bl 0] by (simp add: keeper_assemble_parts(3))
qed

text \<open>Whoever answers, the action is signed with the keeper's key and submitted as often as configured.\<close>

lemma keeper_warrant_signed:
  assumes "keeper_warrant L G C pkey skey c bl (SubmitTx tx)"
  shows "signing_key tx = skey \<and>
    max_submission_retries tx \<in> {max_retries (liquidator_config_of c), wd_max_retries (withdrawer_config_of c),
      bd_max_retries (bad_debt_config_of c), bl_max_retries bl}"
  using assms unfolding keeper_warrant_def
proof (elim disjE)
  assume "liquidation_warrant G pkey skey (liquidator_config_of c) (SubmitTx tx)"
  then show ?thesis by (auto simp: liquidation_warrant_def warranted_def carries_out_def liquidator_new_def)
next
  assume "withdrawal_warrant L G pkey skey (withdrawer_config_of c) (SubmitTx tx)"
  then show ?thesis
    by (auto simp: withdrawal_warrant_def own_withdrawal_def safe_withdrawal_def withdrawer_new_def)
next
  assume "request_warrant L G C skey (bad_debt_config_of c) (SubmitTx tx)"
  then show ?thesis by (auto simp: request_warrant_def justified_request_def bad_debt_new_def)
next
  assume "swap_warrant L G pkey skey bl (SubmitTx tx)"
  then show ?thesis by (auto simp: swap_warrant_def justified_swap_def balancer_new_def)
qed

section \<open>A worked example\<close>

text \<open>The example configuration on a fresh database, and a ledger whose one obligation is a bare debt: the
  bad-debt initiator answers the twentieth ledger with a request, which is executed.\<close>

definition example_balancer_config :: balancer_config where
  "example_balancer_config = (case balancer_config_of example_cli of Ok bl \<Rightarrow> bl)"

definition example_engine :: keeper_engine where
  "example_engine = keeper_assemble ''K'' ''SK'' example_cli example_balancer_config
     \<lparr>last_ledger = 1, last_cursor_id = None, is_first_poll = True\<rparr>"

lemma example_cli_simps:
  "cli_markets example_cli = [replicate 56 CHR ''C'']" "cli_event_collector_start_ledger example_cli = 1"
  by (simp_all add: example_cli_def try_deserialize_def example_raw_def)

lemma example_main:
  "keeper_main (Inr example_raw) (Inr (''K'', ''SK'')) None None (Inr ()) None =
     Ok (capital_new ''K'' (capital_config_of example_cli), example_engine)"
  by (simp add: keeper_main_def example_load store_open_def balancer_config_of_def example_cli_simps
      collector_try_new_def get_cursor_def example_engine_def example_balancer_config_def)

lemma keeper_sync_total: "\<exists>s' w'. keeper_sync L R s w = (Inr s', w')"
  by (auto simp: keeper_sync_def split: keeper_strategy.splits prod.splits)

lemma sync_strategies_total: "\<exists>ss' w'. sync_strategies (keeper_sync L R) ss w = (Inr ss', w')"
proof (induction ss arbitrary: w)
  case (Cons s ss)
  obtain s' w1 where "keeper_sync L R s w = (Inr s', w1)" using keeper_sync_total by blast
  moreover obtain ss' w2 where "sync_strategies (keeper_sync L R) ss w1 = (Inr ss', w2)" using Cons.IH by blast
  ultimately show ?case by simp
qed simp

lemmas example_request_eval =
  bad_debt_process_event_def bad_debt_handle_new_ledger_def bad_debt_new_def bad_debt_config_of_def
  example_cli_def try_deserialize_def example_raw_def or_default_def
  judge_market_def bare_store_def bare_ledger_def example_store_def example_ledger_def judge_cached_def judge_now_def
  judge_eligibility_def is_eligible_for_bad_debt_request_issuance_def bare_debt_def two_pool_obligation_def
  build_issue_bad_debt_def issued_def pcall_def pbind_def pret_def

lemma example_request:
  "keeper_replies bare_ledger example_gateway example_codec bare_store
     (StratBadDebt (bad_debt_new ''SK'' (bad_debt_config_of example_cli))) (NewLedger 20) [cover_action]
     (StratBadDebt (bad_debt_new ''SK'' (bad_debt_config_of example_cli)))"
  unfolding keeper_replies_def keeper_process_def
  by (rule exI [of _ example_world], rule exI [of _ example_world])
     (simp add: example_request_eval example_gateway_def cover_action_def)

lemma first_round:
  assumes "keeper_replies L G C R (StratBadDebt (bad_debt_new ''SK'' (bad_debt_config_of example_cli))) ev [a] s'"
  shows "\<exists>g. keeper_reaches L G C R example_engine g \<and> executed g 0 = [a]"
proof -
  obtain w ss w' where s: "sync_strategies (keeper_sync L R) (strategies example_engine) w = (Inr ss, w')"
    using sync_strategies_total by blast
  then have "ss ! 0 = StratBadDebt (bad_debt_new ''SK'' (bad_debt_config_of example_cli))"
    by (auto simp: example_engine_def keeper_assemble_parts keeper_sync_def split: prod.splits sum.splits)
  then obtain g where "engine_keeps_up 4 1 (\<lambda>i. keeper_replies L G C R) ss g" "executed g 0 = [a]"
    using one_round [of 4 1 "\<lambda>i. keeper_replies L G C R" ss ev a s'] assms by auto
  moreover have "length (strategies example_engine) = 4" "length (executors example_engine) = 1"
    by (simp_all add: example_engine_def keeper_assemble_parts)
  ultimately show ?thesis using s keeps_up_reaches unfolding keeper_reaches_def by metis
qed

lemmas example_run = first_round [OF example_request]

lemma bare_store_ok: "store_ok bare_store"
  by (simp add: store_ok_def bare_store_def hm_wf_def)

section \<open>Properties\<close>



text \<open>C26. Whatever the keeper executes is signed with its key and sent at most fifty times: the path of
  network calls of an executed action has at most fifty transactions, whatever the network answers.\<close>

theorem keeper_submissions_bounded:
  assumes "keeper_main sources (Inr (pkey, skey)) open_fault existing client cursor_fault = Ok (cap, e)"
    and "store_ok R" "keeper_reaches L G C R e g" "SubmitTx tx \<in> set (executed g 0)"
  shows "signing_key tx = skey \<and>
    (\<exists>n u. n \<le> 50 \<and> rpc_path net n w u \<and>
       (snd (execute ex net P (SubmitTx tx) w) = u \<or>
        snd (execute ex net P (SubmitTx tx) w) = snd (hook_release (on_settle tx) u)))"
proof -
  from keeper_main_Ok [OF assms(1)] obtain c bl events where c: "load sources = Inr c" "balancer_config_of c = Ok bl"
    and e: "e = keeper_assemble pkey skey c bl events" by blast
  from keeper_executes_warranted [OF assms(3) [unfolded e] assms(2)] assms(4)
  have "keeper_warrant L G C pkey skey c bl (SubmitTx tx)" by (auto simp: list_all_iff)
  note signed = keeper_warrant_signed [OF this]
  have v: "validate c = []" using c(1) by (auto simp: load_Inr_iff)
  have "bl_max_retries bl = cli_balancer_max_retries c" using c(2) by (auto simp: balancer_config_of_def split: list.splits)
  then have "max 1 (max_submission_retries tx) \<le> 50"
    using signed validated_retries [OF v] by (auto simp: sane_retries_def)
  then have "n \<le> 50" if "n \<le> max 1 (max_submission_retries tx)" for n using that by simp
  with signed execute_path [of tx net w ex P] show ?thesis by blast
qed

theorem keeper_submissions_bounded_witness:
  "\<exists>g tx n u. keeper_reaches bare_ledger example_gateway example_codec bare_store example_engine g \<and>
     SubmitTx tx \<in> set (executed g 0) \<and> signing_key tx = ''SK'' \<and> n \<le> 50 \<and> rpc_path (example_rpc example_sim) n example_world u"
proof -
  obtain g where g: "keeper_reaches bare_ledger example_gateway example_codec bare_store example_engine g"
    "executed g 0 = [cover_action]" using example_run by blast
  obtain tx where tx: "cover_action = SubmitTx tx" by (cases cover_action)
  with g have "SubmitTx tx \<in> set (executed g 0)" by simp
  from this keeper_submissions_bounded [OF example_main bare_store_ok g(1) this, of "example_rpc example_sim" example_world
      example_executor example_primitives] g(1) show ?thesis by blast
qed

end
