(* ===== verification/Keeper_Wire.thy ===== *)
theory Keeper_Wire
  imports Keeper_System
begin

text \<open>
  What the keeper says to the network: the composition of the strategies with the Stellar gateway
  (\<^verbatim>\<open>keeper/src/stellar\<close>).  Read back with the decoders of the adapter, an operation invokes one of three
  functions of a configured market, and the batch of a liquidation plan says what the plan says.
\<close>

section \<open>Whose obligation an operation is for\<close>

definition names_key :: "('a, 'b) xdr_ops \<Rightarrow> ('a, 'b) scval \<Rightarrow> string \<Rightarrow> bool" where
  "names_key X kv pkey \<longleftrightarrow> parse_obligation_key X kv = Inr \<lparr>user = pkey, seed = None\<rparr>"

text \<open>An operation of the keeper: a batch or a withdrawal for its own obligation, or a request to cover
  some obligation's bad debt.\<close>

definition keeper_operation :: "('a, 'b) xdr_ops \<Rightarrow> string \<Rightarrow> string list \<Rightarrow> ('a, 'b) invocation \<Rightarrow> bool" where
  "keeper_operation X pkey ms op \<longleftrightarrow>
     address_string X (inv_contract op) \<in> set ms \<and>
     ((\<exists>kv rs. inv_function op = ''submit_requests_batch'' \<and> inv_args op = [kv, ScVec (Some rs), ScVoid] \<and>
         names_key X kv pkey) \<or>
      (\<exists>kv pa amount. inv_function op = ''withdraw'' \<and> inv_args op = [kv, ScAddress pa, amount, ScVoid] \<and>
         names_key X kv pkey) \<or>
      (\<exists>kv k. inv_function op = ''issue_cover_bad_debt'' \<and> inv_args op = [kv] \<and> parse_obligation_key X kv = Inr k))"

lemma own_batch:
  assumes "canonical X" "build_batch_op X market (obligation_key_new pkey) rs = Inr op" "market \<in> set ms"
  shows "keeper_operation X pkey ms op"
  using batch_op_says [OF assms(1,2)] assms(3)
  by (auto simp: keeper_operation_def names_key_def obligation_key_new_def)

lemma own_withdraw:
  assumes "canonical X" "build_withdraw_op X market (obligation_key_new pkey) pool amount = Inr op" "market \<in> set ms"
  shows "keeper_operation X pkey ms op"
  using assms key_round_trip [OF assms(1)] address_round_trip [OF assms(1)]
  by (fastforce simp: build_withdraw_op_def canonical_def keeper_operation_def names_key_def obligation_key_new_def)

lemma warrant_operation:
  assumes w: "keeper_warrant L (stellar_gateway S) C pkey skey c bl (SubmitTx tx)"
    and x: "canonical (xdr S)" and bl: "balancer_config_of c = Ok bl"
  shows "keeper_operation (xdr S) pkey (cli_markets c) (tx_op tx)"
  using w unfolding keeper_warrant_def
proof (elim disjE)
  assume "liquidation_warrant (stellar_gateway S) pkey skey (liquidator_config_of c) (SubmitTx tx)"
  then obtain market rs where "market \<in> set (cli_markets c)"
    "build_batch_op (xdr S) market (obligation_key_new pkey) rs = Inr (tx_op tx)"
    by (auto simp: liquidation_warrant_def warranted_def carries_out_def liquidator_new_def stellar_gateway_def
        liquidator_config_of_def)
  then show ?thesis using own_batch [OF x] by blast
next
  assume "withdrawal_warrant L (stellar_gateway S) pkey skey (withdrawer_config_of c) (SubmitTx tx)"
  then obtain market pool amount where "market \<in> set (cli_markets c)"
    "build_withdraw_op (xdr S) market (obligation_key_new pkey) pool amount = Inr (tx_op tx)"
    by (fastforce simp: withdrawal_warrant_def own_withdrawal_def safe_withdrawal_def withdrawer_new_def
        stellar_gateway_def withdrawer_config_of_def)
  then show ?thesis using own_withdraw [OF x] by blast
next
  assume "request_warrant L (stellar_gateway S) C skey (bad_debt_config_of c) (SubmitTx tx)"
  then obtain market key where m: "market \<in> set (cli_markets c)" and
    b: "build_issue_cover_bad_debt_op (xdr S) market key = Inr (tx_op tx)"
    by (auto simp: request_warrant_def justified_request_def bad_debt_new_def bad_debt_config_of_def stellar_gateway_def)
  from cover_op_says [OF x b] m show ?thesis by (auto simp: keeper_operation_def)
next
  assume "swap_warrant L (stellar_gateway S) pkey skey bl (SubmitTx tx)"
  then obtain rs where "build_batch_op (xdr S) (bl_market bl) (obligation_key_new pkey) rs = Inr (tx_op tx)"
    by (auto simp: swap_warrant_def justified_swap_def balancer_new_def stellar_gateway_def)
  moreover have "bl_market bl \<in> set (cli_markets c)"
    using bl by (auto simp: balancer_config_of_def split: list.splits)
  ultimately show ?thesis using own_batch [OF x] by blast
qed

section \<open>What a batch says\<close>

definition says_liquidate :: "('a, 'b) xdr_ops \<Rightarrow> liquidation_plan \<Rightarrow> ('a, 'b) scval \<Rightarrow> bool" where
  "says_liquidate X plan v \<longleftrightarrow> says v ''Liquidate'' (\<lambda>es.
     map_get_address X es ''borrow_pool_address'' = Inr (borrow_pool_address plan) \<and>
     map_get_address X es ''collateral_pool_address'' = Inr (collateral_pool_address plan) \<and>
     map_get_i128 X es ''repay_amount'' = Inr (repay_amount plan) \<and>
     map_get_i128 X es ''min_demanded_collateral_amount'' = Inr (expected_seized_collateral plan) \<and>
     (\<exists>kv. map_get es ''borrower_obligation_key'' = Some kv \<and>
        parse_obligation_key X kv = Inr \<lparr>user = user (borrower_key plan),
          seed = map_option to_lowercase (seed (borrower_key plan))\<rparr>))"

definition says_swap :: "('a, 'b) xdr_ops \<Rightarrow> string \<Rightarrow> i128 \<Rightarrow> i128 \<Rightarrow> string list \<Rightarrow> ('a, 'b) scval \<Rightarrow> bool" where
  "says_swap X provider amount_in least path v \<longleftrightarrow> says v ''SwapExactTokens'' (\<lambda>es.
     map_get_i128 X es ''amount_in'' = Inr amount_in \<and> map_get_i128 X es ''min_amount_out'' = Inr least \<and>
     map_get_address X es ''swap_provider'' = Inr provider \<and>
     (\<exists>as. map_get es ''path'' = Some (ScVec (Some (map ScAddress as))) \<and> map (address_string X) as = path))"

definition says_amount :: "('a, 'b) xdr_ops \<Rightarrow> string \<Rightarrow> string \<Rightarrow> i128 \<Rightarrow> ('a, 'b) scval \<Rightarrow> bool" where
  "says_amount X tag pool amount v \<longleftrightarrow> says v tag (\<lambda>es.
     map_get_i128 X es ''amount'' = Inr amount \<and> map_get_address X es ''pool_address'' = Inr pool)"

text \<open>The batch of each kind of plan, in the order the market executes it.\<close>

definition wire_plan :: "('a, 'b) xdr_ops \<Rightarrow> liquidation_plan \<Rightarrow> ('a, 'b) scval list \<Rightarrow> bool" where
  "wire_plan X plan rs \<longleftrightarrow>
     (case plan_type plan of
        Direct \<Rightarrow> \<exists>l. rs = [l] \<and> says_liquidate X plan l
      | PreSwap asset amount_in least provider \<Rightarrow> \<exists>s l. rs = [s, l] \<and>
          says_swap X provider amount_in least [asset, borrow_pool_address plan] s \<and> says_liquidate X plan l
      | Flash flash_repay provider withdraw \<Rightarrow> \<exists>f l ws s. rs = [f, l] @ ws @ [s] \<and>
          says_amount X ''FlashBorrow'' (borrow_pool_address plan) (repay_amount plan) f \<and> says_liquidate X plan l \<and>
          (if withdraw > 0
           then \<exists>v. ws = [v] \<and> says_amount X ''Withdraw'' (collateral_pool_address plan) withdraw v
           else ws = []) \<and>
          says_swap X provider (expected_seized_collateral plan) flash_repay
            [collateral_pool_address plan, borrow_pool_address plan] s)"

text \<open>The amounts of a plan are 128-bit integers.\<close>

definition typed_plan :: "liquidation_plan \<Rightarrow> bool" where
  "typed_plan plan \<longleftrightarrow> in_i128 (repay_amount plan) \<and> in_i128 (expected_seized_collateral plan) \<and>
     (case plan_type plan of
        Direct \<Rightarrow> True
      | PreSwap asset amount_in least provider \<Rightarrow> in_i128 amount_in \<and> in_i128 least
      | Flash flash_repay provider withdraw \<Rightarrow> in_i128 flash_repay \<and> in_i128 withdraw)"

lemma liquidate_request_says:
  assumes "canonical (xdr S)" "typed_plan plan"
    "liquidate_request (stellar_gateway S) (borrower_key plan) (borrow_pool_address plan)
       (collateral_pool_address plan) (repay_amount plan) (expected_seized_collateral plan) = Inr l"
  shows "says_liquidate (xdr S) plan l"
  using assms unfolding says_liquidate_def
  by (intro liquidate_says) (simp_all add: stellar_gateway_def typed_plan_def)

lemma batch_says:
  assumes "canonical (xdr S)" "typed_plan plan" "build_batch_requests (stellar_gateway S) plan = Some rs"
  shows "wire_plan (xdr S) plan rs"
proof (cases "plan_type plan")
  case Direct
  then obtain l where "rs = [l]" "liquidate_request (stellar_gateway S) (borrower_key plan) (borrow_pool_address plan)
       (collateral_pool_address plan) (repay_amount plan) (expected_seized_collateral plan) = Inr l"
    using assms(3) by (auto simp: build_batch_requests_def Let_def split: sum.splits)
  then show ?thesis using liquidate_request_says [OF assms(1,2)] Direct by (simp add: wire_plan_def)
next
  case (PreSwap asset amount_in least provider)
  then obtain s l where rs: "rs = [s, l]"
    and l: "liquidate_request (stellar_gateway S) (borrower_key plan) (borrow_pool_address plan)
       (collateral_pool_address plan) (repay_amount plan) (expected_seized_collateral plan) = Inr l"
    and s: "gw_swap_exact_tokens_request (xdr S) provider amount_in least [asset, borrow_pool_address plan] = Inr s"
    using assms(3) by (auto simp: build_batch_requests_def Let_def stellar_gateway_def split: sum.splits)
  have "says_swap (xdr S) provider amount_in least [asset, borrow_pool_address plan] s"
    unfolding says_swap_def
    by (rule swap_exact_says [OF assms(1) s]) (use assms(2) PreSwap in \<open>simp_all add: typed_plan_def\<close>)
  then show ?thesis using rs liquidate_request_says [OF assms(1,2) l] PreSwap by (simp add: wire_plan_def)
next
  case (Flash flash_repay provider withdraw)
  then obtain f l ws s where rs: "rs = [f, l] @ ws @ [s]"
    and f: "gw_flash_borrow_request (xdr S) (borrow_pool_address plan) (repay_amount plan) = Inr f"
    and l: "liquidate_request (stellar_gateway S) (borrower_key plan) (borrow_pool_address plan)
       (collateral_pool_address plan) (repay_amount plan) (expected_seized_collateral plan) = Inr l"
    and ws: "if withdraw > 0 then \<exists>v. gw_withdraw_request (xdr S) (collateral_pool_address plan) withdraw = Inr v \<and> ws = [v]
      else ws = []"
    and s: "gw_swap_exact_tokens_request (xdr S) provider (expected_seized_collateral plan) flash_repay
      [collateral_pool_address plan, borrow_pool_address plan] = Inr s"
    using assms(3)
    by (auto simp: build_batch_requests_def Let_def stellar_gateway_def split: sum.splits option.splits if_splits)
  have ty: "in_i128 (repay_amount plan)" "in_i128 (expected_seized_collateral plan)" "in_i128 flash_repay" "in_i128 withdraw"
    using assms(2) Flash by (simp_all add: typed_plan_def)
  have "says_amount (xdr S) ''FlashBorrow'' (borrow_pool_address plan) (repay_amount plan) f"
    unfolding says_amount_def by (rule flash_borrow_says [OF assms(1) f ty(1)])
  moreover have "if withdraw > 0 then \<exists>v. ws = [v] \<and> says_amount (xdr S) ''Withdraw'' (collateral_pool_address plan) withdraw v
      else ws = []"
    using ws withdraw_says [OF assms(1) _ ty(4)] unfolding says_amount_def by (auto split: if_splits)
  moreover have "says_swap (xdr S) provider (expected_seized_collateral plan) flash_repay
      [collateral_pool_address plan, borrow_pool_address plan] s"
    unfolding says_swap_def by (rule swap_exact_says [OF assms(1) s ty(2,3)])
  ultimately show ?thesis using rs liquidate_request_says [OF assms(1,2) l] Flash unfolding wire_plan_def by auto
qed

section \<open>A worked example\<close>

text \<open>A codec that knows the market of the example configuration and the borrower \<open>''GU''\<close>, and a network on
  which every simulation succeeds.\<close>

definition wire_xdr :: "(string, unit) xdr_ops" where
  "wire_xdr = example_xdr\<lparr>
     contract_from_string := (\<lambda>s. if s = replicate 56 CHR ''C'' then Inr [3] else Inl ''bad key''),
     contract_address := (\<lambda>b. replicate 56 CHR ''C'')\<rparr>"

definition wire_stellar :: "(string, unit) xdr_ops \<Rightarrow> (unit, string, unit, unit) stellar" where
  "wire_stellar X = \<lparr>xdr = X,
     rpc = example_client\<lparr>simulate_transaction_envelope := (\<lambda>env w. (Inr \<lparr>sim_error = None, transaction_data = [],
       results = [], min_resource_fee = 0\<rparr>, w))\<rparr>,
     decode_results = (\<lambda>r. Inr [ScVoid]), gw_source = ''GK''\<rparr>"

definition wire_store :: "unit store" where
  "wire_store = example_store\<lparr>repo_load_all := (\<lambda>m w. (Inr [(obligation_key_new ''GU'', bare_debt)], w))\<rparr>"

lemma wire_canonical: "canonical wire_xdr"
  using example_canonical by (auto simp: canonical_def wire_xdr_def example_xdr_def split: if_splits)

lemma wire_store_ok: "store_ok wire_store"
  by (simp add: store_ok_def wire_store_def hm_wf_def)

definition wire_request :: "(string, unit) invocation action" where
  "wire_request = SubmitTx \<lparr>tx_op = \<lparr>inv_contract = replicate 56 CHR ''C'', inv_function = ''issue_cover_bad_debt'',
       inv_args = [ScMap (Some [(ScSymbol ''seed'', ScVoid), (ScSymbol ''user'', ScAddress ''GU'')])]\<rparr>,
     signing_key = ''SK'', max_submission_retries = 3, on_settle = None\<rparr>"

lemma wire_replies:
  "keeper_replies bare_ledger (stellar_gateway (wire_stellar wire_xdr)) example_codec wire_store
     (StratBadDebt (bad_debt_new ''SK'' (bad_debt_config_of example_cli))) (NewLedger 20) [wire_request]
     (StratBadDebt (bad_debt_new ''SK'' (bad_debt_config_of example_cli)))"
  unfolding keeper_replies_def keeper_process_def
  by (rule exI [of _ example_world], rule exI [of _ example_world])
     (simp add: example_request_eval wire_store_def stellar_gateway_def wire_stellar_def wire_xdr_def example_xdr_def
      build_issue_cover_bad_debt_op_def contract_strkey_to_hash_def obligation_key_to_scval_def seed_to_scval_def
      address_to_scval_def obligation_key_new_def vec_m_def invoke_op_def u32_max_def wire_request_def)

text \<open>A flash liquidation, which needs no capital of the keeper.\<close>

definition flash_plan :: liquidation_plan where
  "flash_plan = \<lparr>repay_amount = 50, net_profit_value = 500, borrower_key = obligation_key_new ''GU'',
     borrow_pool_address = ''CP'', collateral_pool_address = ''CM'', expected_seized_collateral = 55,
     plan_type = Flash 51 ''GK'' 0\<rparr>"

lemma flash_dispatched:
  "\<exists>tx w. execute_liquidation_plan (example_liquidator\<lparr>lq_pkey := ''GK''\<rparr>) example_ledger
     (stellar_gateway (wire_stellar example_xdr)) ''CM'' flash_plan (obligation_key_new ''GK'') example_world =
     Some (Inr (SubmitTx tx), w)"
  by (simp add: execute_liquidation_plan_def build_batch_requests_def flash_plan_def stellar_gateway_def wire_stellar_def
      gw_flash_borrow_request_def build_flash_borrow_request_scval_def gw_liquidate_request_def
      build_liquidate_request_scval_def gw_swap_exact_tokens_request_def build_swap_exact_tokens_request_scval_def
      build_address_vec_scval_def variant_def field_entry_def sc_symbol_def vec_m_def u32_max_def example_xdr_def
      address_to_scval_def obligation_key_to_scval_def seed_to_scval_def obligation_key_new_def gw_simulate_batch_def
      build_requests_vec_scval_def simulate_contract_call_def contract_strkey_to_hash_def account_strkey_to_muxed_def
      call_result_def example_client_def cbind_def clift_def contract_call_tx_def reserve_target_def take_reservation_def
      build_batch_op_def invoke_op_def pbind_def pcall_def pret_def split: prod.splits)

section \<open>Properties\<close>

text \<open>C2. Every operation the keeper executes on the Stellar gateway invokes a configured market: it is a
  batch or a withdrawal for the keeper's own obligation, or a request to cover an obligation's bad
  debt, with arguments that the adapter's decoders read back, and it is signed with the keeper's key.\<close>

theorem keeper_operations_on_the_wire:
  assumes "keeper_main sources (Inr (pkey, skey)) open_fault existing client cursor_fault = Ok (cap, e)"
    and "store_ok R" "keeper_reaches L (stellar_gateway S) C R e g" "canonical (xdr S)"
    and "SubmitTx tx \<in> set (executed g 0)"
  shows "\<exists>c. load sources = Inr c \<and> keeper_operation (xdr S) pkey (cli_markets c) (tx_op tx) \<and> signing_key tx = skey"
proof -
  from keeper_main_Ok [OF assms(1)] obtain c bl events where c: "load sources = Inr c" "balancer_config_of c = Ok bl"
    and e: "e = keeper_assemble pkey skey c bl events" by blast
  from keeper_executes_warranted [OF assms(3) [unfolded e] assms(2)] assms(5)
  have w: "keeper_warrant L (stellar_gateway S) C pkey skey c bl (SubmitTx tx)" by (auto simp: list_all_iff)
  show ?thesis using warrant_operation [OF w assms(4) c(2)] keeper_warrant_signed [OF w] c(1) by blast
qed

theorem keeper_operations_on_the_wire_witness:
  "\<exists>g tx. keeper_reaches bare_ledger (stellar_gateway (wire_stellar wire_xdr)) example_codec wire_store example_engine g \<and>
     executed g 0 = [SubmitTx tx] \<and> signing_key tx = ''SK'' \<and>
     keeper_operation wire_xdr ''K'' [replicate 56 CHR ''C''] (tx_op tx)"
proof -
  obtain tx where tx: "wire_request = SubmitTx tx" by (cases wire_request)
  obtain g where g: "keeper_reaches bare_ledger (stellar_gateway (wire_stellar wire_xdr)) example_codec wire_store
      example_engine g" "executed g 0 = [SubmitTx tx]"
    using first_round [OF wire_replies] tx by metis
  have x: "canonical (xdr (wire_stellar wire_xdr))" by (simp add: wire_stellar_def wire_canonical)
  have "SubmitTx tx \<in> set (executed g 0)" using g(2) by simp
  from keeper_operations_on_the_wire [OF example_main wire_store_ok g(1) x this] show ?thesis
    using g example_load by (auto simp: wire_stellar_def example_cli_simps)
qed

text \<open>C24. The plan reaches the market as it was judged: a dispatched plan submits to its market, for the
  keeper's obligation, a batch that reads back as the plan, with the planned repay, the expected seized
  collateral as the least demanded one, and the swaps and flash loan of its kind in execution order.\<close>

theorem plan_on_the_wire:
  assumes "execute_liquidation_plan s L (stellar_gateway S) market plan (obligation_key_new (lq_pkey s)) w =
      Some (Inr (SubmitTx tx), w')"
    and "canonical (xdr S)" "typed_plan plan"
  shows "address_string (xdr S) (inv_contract (tx_op tx)) = market \<and>
    inv_function (tx_op tx) = ''submit_requests_batch'' \<and>
    (\<exists>kv rs. inv_args (tx_op tx) = [kv, ScVec (Some rs), ScVoid] \<and> names_key (xdr S) kv (lq_pkey s) \<and>
       wire_plan (xdr S) plan rs)"
proof -
  from execute_carries_out [OF assms(1)] obtain rs where
    r: "build_batch_requests (stellar_gateway S) plan = Some rs" and
    b: "build_batch_op (xdr S) market (obligation_key_new (lq_pkey s)) rs = Inr (tx_op tx)"
    by (auto simp: carries_out_def stellar_gateway_def)
  from batch_op_says [OF assms(2) b] batch_says [OF assms(2,3) r] show ?thesis
    by (auto simp: names_key_def obligation_key_new_def)
qed

theorem plan_on_the_wire_witness:
  "\<exists>tx w rs kv. execute_liquidation_plan (example_liquidator\<lparr>lq_pkey := ''GK''\<rparr>) example_ledger
       (stellar_gateway (wire_stellar example_xdr)) ''CM'' flash_plan (obligation_key_new ''GK'') example_world =
       Some (Inr (SubmitTx tx), w) \<and>
     inv_args (tx_op tx) = [kv, ScVec (Some rs), ScVoid] \<and> wire_plan example_xdr flash_plan rs"
proof -
  let ?s = "example_liquidator\<lparr>lq_pkey := ''GK''\<rparr>"
  obtain tx w where e: "execute_liquidation_plan ?s example_ledger (stellar_gateway (wire_stellar example_xdr)) ''CM''
      flash_plan (obligation_key_new (lq_pkey ?s)) example_world = Some (Inr (SubmitTx tx), w)"
    using flash_dispatched by auto
  have "canonical (xdr (wire_stellar example_xdr))" by (simp add: wire_stellar_def example_canonical)
  moreover have "typed_plan flash_plan" by (simp add: typed_plan_def flash_plan_def i128_eval)
  ultimately obtain kv rs where "inv_args (tx_op tx) = [kv, ScVec (Some rs), ScVoid]"
    "wire_plan (xdr (wire_stellar example_xdr)) flash_plan rs" using plan_on_the_wire [OF e] by blast
  with e show ?thesis by (intro exI [of _ tx] exI [of _ w] exI [of _ rs] exI [of _ kv]) (simp add: wire_stellar_def)
qed

text \<open>C25. The life of a dispatched plan leaves no capital behind: between dispatch and the end of its
  settlement, when no other task touches the ledger of reservations, every reservation that stands
  afterwards stood before, whatever the simulation, the submission and the confirmation answered.\<close>

theorem capital_cycle:
  assumes "execute_liquidation_plan s L G market plan key w = Some (Inr a, w')"
    and "quiet_ports L G" "quiet_rpc net" "hm_wf (reservations (inner (capital w)))"
  shows "ledger_of (settle ex net P a w') \<subseteq>\<^sub>m ledger_of w"
proof -
  obtain tx where tx: "a = SubmitTx tx" by (cases a)
  from assms(1) tx obtain token amount rid w1 requests sim where
    s: "simulate_batch G market key requests w = (sim, w1)" and
    t: "take_reservation (lq_config s) L token amount w1 = Some (Some rid, w')" and
    h: "map_option op_id (on_settle tx) = Some rid"
    unfolding execute_liquidation_plan_def by (elim task_elims) auto
  have c: "capital w1 = capital w" using assms(2) s unfolding quiet_ports_def by (metis snd_conv)
  obtain u where u: "settle ex net P a w' = snd (hook_release (on_settle tx) u)" "capital u = capital w'"
    using settle_releases [of ex net P tx w'] assms(3) tx by blast
  have "ledger_of (settle ex net P a w') = (ledger_of w')(rid := None)"
    using h u by (auto simp: hook_release_ledger split: option.splits)
  then show ?thesis using take_reservation_quiet(2) [OF assms(2) t, of rid] c assms(4) by simp
qed

theorem capital_cycle_witness:
  "\<exists>w. execute_liquidation_plan example_liquidator example_ledger example_gateway ''M'' example_plan
      (obligation_key_new ''K'') told_world = Some (Inr example_action, w) \<and>
     ledger_of (settle example_executor (example_rpc example_sim) example_primitives example_action w) = Map.empty"
proof -
  obtain w where e: "execute_liquidation_plan example_liquidator example_ledger example_gateway ''M'' example_plan
      (obligation_key_new ''K'') told_world = Some (Inr example_action, w)" using example_execute by blast
  have q: "quiet_rpc (example_rpc example_sim)" by (simp add: quiet_rpc_def example_rpc_def)
  have "hm_wf (reservations (inner (capital told_world)))" "ledger_of told_world = Map.empty"
    by (simp_all add: told_world_simps hm_wf_def hm_get_def fun_eq_iff)
  with capital_cycle [OF e example_quiet q, of example_executor example_primitives] e show ?thesis
    by (auto simp: map_le_def fun_eq_iff)
qed

end
