(* ===== verification/Engine_Tasks.thy ===== *)
theory Engine_Tasks
  imports Reactor "HOL-Library.Word"
begin

text \<open>
  The tasks that \<open>Engine::run\<close> of \<^verbatim>\<open>engine/src/reactor/mod.rs\<close> spawns, on the two bounded channels it
  creates: when a subscriber is overtaken, what it loses and what it counts, when a channel is closed
  and which task returns then.  The engine of theory \<open>Reactor\<close>, where entries may be lost at any moment,
  is the abstraction: every step here is one there or ends a task.
\<close>

section \<open>Tasks and channels\<close>

record ('e, 'a, 's) engine_tasks =
  engine :: "('e, 'a, 's) running_engine"
  collector_live :: "nat \<Rightarrow> bool"
  strategy_live :: "nat \<Rightarrow> bool"
  executor_live :: "nat \<Rightarrow> bool"
  strategy_lagged_events_total :: "64 word"
  executor_lagged_actions_total :: "64 word"

definition spawned :: "('e, 'a, 's) running_engine \<Rightarrow> ('e, 'a, 's) engine_tasks" where
  "spawned g = \<lparr>engine = g, collector_live = (\<lambda>c. True), strategy_live = (\<lambda>i. True), executor_live = (\<lambda>j. True),
     strategy_lagged_events_total = 0, executor_lagged_actions_total = 0\<rparr>"

text \<open>A channel is closed when the last of its senders is gone: a collector keeps one of the events, a
  strategy one of the actions, until its task returns.\<close>

definition events_closed :: "nat \<Rightarrow> ('e, 'a, 's) engine_tasks \<Rightarrow> bool" where
  "events_closed nc t \<longleftrightarrow> (\<forall>c < nc. \<not> collector_live t c)"

definition actions_closed :: "nat \<Rightarrow> ('e, 'a, 's) engine_tasks \<Rightarrow> bool" where
  "actions_closed ns t \<longleftrightarrow> (\<forall>i < ns. \<not> strategy_live t i)"

text \<open>The collector's loop: \<open>event_sender.send\<close>, and the end of the stream.  The collectors are trait objects:
  \<open>ends\<close> says which streams may end.\<close>

inductive collector_task ::
  "(nat \<Rightarrow> bool) \<Rightarrow> nat \<Rightarrow> nat \<Rightarrow> ('e, 'a, 's) engine_tasks \<Rightarrow> ('e, 'a, 's) engine_tasks \<Rightarrow> bool"
  for ends nc ns where
  broadcast: "c < nc \<Longrightarrow> collector_live t c \<Longrightarrow> g = engine t \<Longrightarrow>
     collector_task ends nc ns t (t\<lparr>engine := g\<lparr>inbox := (\<lambda>i. if i < ns then inbox g i @ [e] else inbox g i),
       collected := collected g @ [e]\<rparr>\<rparr>)"
| stream_ended: "c < nc \<Longrightarrow> collector_live t c \<Longrightarrow> ends c \<Longrightarrow>
     collector_task ends nc ns t (t\<lparr>collector_live := (collector_live t)(c := False)\<rparr>)"

text \<open>The strategy's loop: an event, the actions of its answer one after the other, \<open>Lagged\<close> when more
  than the capacity is waiting, \<open>Closed\<close> when nothing is waiting any more.\<close>

inductive strategy_task ::
  "nat \<Rightarrow> nat \<Rightarrow> nat \<Rightarrow> nat \<Rightarrow> (nat \<Rightarrow> 's \<Rightarrow> 'e \<Rightarrow> 'a list \<Rightarrow> 's \<Rightarrow> bool) \<Rightarrow>
     ('e, 'a, 's) engine_tasks \<Rightarrow> ('e, 'a, 's) engine_tasks \<Rightarrow> bool"
  for capacity nc ns nx answers where
  received: "i < ns \<Longrightarrow> strategy_live t i \<Longrightarrow> g = engine t \<Longrightarrow> outbox g i = [] \<Longrightarrow> inbox g i = e # es \<Longrightarrow>
     length (e # es) \<le> capacity \<Longrightarrow> answers i (strats g i) e as s' \<Longrightarrow>
     strategy_task capacity nc ns nx answers t
       (t\<lparr>engine := g\<lparr>strats := (strats g)(i := s'), inbox := (inbox g)(i := es), outbox := (outbox g)(i := as),
          handled := (handled g)(i := handled g i @ [e])\<rparr>\<rparr>)"
| sends: "i < ns \<Longrightarrow> strategy_live t i \<Longrightarrow> g = engine t \<Longrightarrow> outbox g i = a # as \<Longrightarrow>
     strategy_task capacity nc ns nx answers t
       (t\<lparr>engine := g\<lparr>outbox := (outbox g)(i := as), todo := (\<lambda>j. if j < nx then todo g j @ [a] else todo g j),
          sent_actions := sent_actions g @ [a]\<rparr>\<rparr>)"
| lagged: "i < ns \<Longrightarrow> strategy_live t i \<Longrightarrow> g = engine t \<Longrightarrow> outbox g i = [] \<Longrightarrow>
     n = length (inbox g i) - capacity \<Longrightarrow> 0 < n \<Longrightarrow>
     strategy_task capacity nc ns nx answers t
       (t\<lparr>engine := g\<lparr>inbox := (inbox g)(i := drop n (inbox g i))\<rparr>,
          strategy_lagged_events_total := strategy_lagged_events_total t + of_nat n\<rparr>)"
| closed: "i < ns \<Longrightarrow> strategy_live t i \<Longrightarrow> g = engine t \<Longrightarrow> outbox g i = [] \<Longrightarrow> inbox g i = [] \<Longrightarrow>
     events_closed nc t \<Longrightarrow>
     strategy_task capacity nc ns nx answers t (t\<lparr>strategy_live := (strategy_live t)(i := False)\<rparr>)"

text \<open>The executor's loop; an action that fails is reported and the loop goes on.\<close>

inductive executor_task ::
  "nat \<Rightarrow> nat \<Rightarrow> nat \<Rightarrow> ('e, 'a, 's) engine_tasks \<Rightarrow> ('e, 'a, 's) engine_tasks \<Rightarrow> bool"
  for capacity ns nx where
  received: "j < nx \<Longrightarrow> executor_live t j \<Longrightarrow> g = engine t \<Longrightarrow> todo g j = a # as \<Longrightarrow> length (a # as) \<le> capacity \<Longrightarrow>
     executor_task capacity ns nx t
       (t\<lparr>engine := g\<lparr>todo := (todo g)(j := as), executed := (executed g)(j := executed g j @ [a])\<rparr>\<rparr>)"
| lagged: "j < nx \<Longrightarrow> executor_live t j \<Longrightarrow> g = engine t \<Longrightarrow> n = length (todo g j) - capacity \<Longrightarrow> 0 < n \<Longrightarrow>
     executor_task capacity ns nx t
       (t\<lparr>engine := g\<lparr>todo := (todo g)(j := drop n (todo g j))\<rparr>,
          executor_lagged_actions_total := executor_lagged_actions_total t + of_nat n\<rparr>)"
| closed: "j < nx \<Longrightarrow> executor_live t j \<Longrightarrow> g = engine t \<Longrightarrow> todo g j = [] \<Longrightarrow> actions_closed ns t \<Longrightarrow>
     executor_task capacity ns nx t (t\<lparr>executor_live := (executor_live t)(j := False)\<rparr>)"

text \<open>The tasks of an assembled engine, interleaved.\<close>

definition task_works ::
  "('c, 's, 'x) engine \<Rightarrow> (nat \<Rightarrow> 's \<Rightarrow> 'e \<Rightarrow> 'a list \<Rightarrow> 's \<Rightarrow> bool) \<Rightarrow>
     ('e, 'a, 's) engine_tasks \<Rightarrow> ('e, 'a, 's) engine_tasks \<Rightarrow> bool" where
  "task_works E answers t t' \<longleftrightarrow>
     strategy_task (event_channel_capacity E) (length (collectors E)) (length (strategies E)) (length (executors E))
       answers t t' \<or>
     executor_task (action_channel_capacity E) (length (strategies E)) (length (executors E)) t t'"

inductive engine_executes ::
  "('c, 's, 'x) engine \<Rightarrow> (nat \<Rightarrow> bool) \<Rightarrow> (nat \<Rightarrow> 's \<Rightarrow> 'e \<Rightarrow> 'a list \<Rightarrow> 's \<Rightarrow> bool) \<Rightarrow> 's list \<Rightarrow> ('e, 'a, 's) engine_tasks \<Rightarrow> bool"
  for E ends answers ss where
  spawned: "engine_executes E ends answers ss (spawned (started ss))"
| collects: "engine_executes E ends answers ss t \<Longrightarrow> collector_task ends (length (collectors E)) (length (strategies E)) t t' \<Longrightarrow>
     engine_executes E ends answers ss t'"
| works: "engine_executes E ends answers ss t \<Longrightarrow> task_works E answers t t' \<Longrightarrow> engine_executes E ends answers ss t'"

section \<open>Refinement of the engine\<close>

text \<open>Seen from the channels a step of a task is a step of the engine, a loss, or none.\<close>

definition engine_step ::
  "nat \<Rightarrow> nat \<Rightarrow> (nat \<Rightarrow> 's \<Rightarrow> 'e \<Rightarrow> 'a list \<Rightarrow> 's \<Rightarrow> bool) \<Rightarrow>
     ('e, 'a, 's) running_engine \<Rightarrow> ('e, 'a, 's) running_engine \<Rightarrow> bool" where
  "engine_step ns nx answers g g' \<longleftrightarrow> g' = g \<or> engine_progress ns nx answers g g' \<or> engine_lag ns nx g g'"

lemma engine_step_reaches:
  "engine_reaches ns nx answers ss g \<Longrightarrow> engine_step ns nx answers g g' \<Longrightarrow> engine_reaches ns nx answers ss g'"
  by (auto simp: engine_step_def intro: engine_reaches.intros)

lemma collector_task_refines:
  assumes "collector_task ends nc ns t t'"
  shows "engine_step ns nx answers (engine t) (engine t')"
  using assms by cases (auto simp: engine_step_def intro: engine_progress.collect)

lemma lost_prefix:
  assumes "n = length xs - capacity" "0 < n"
  shows "xs = take n xs @ drop n xs" "take n xs \<noteq> []"
  using assms by auto

lemma strategy_task_refines:
  assumes "strategy_task capacity nc ns nx answers t t'"
  shows "engine_step ns nx answers (engine t) (engine t')"
  using assms
proof cases
  case (received i g e es as s')
  then show ?thesis by (simp add: engine_step_def engine_progress.handle)
next
  case (sends i g a as)
  then show ?thesis by (auto simp: engine_step_def intro: engine_progress.send)
next
  case (lagged i g n)
  then show ?thesis using engine_lag.strategy_lags [OF lagged(2) lost_prefix [OF lagged(6,7)]] by (simp add: engine_step_def)
qed (simp add: engine_step_def)

lemma executor_task_refines:
  assumes "executor_task capacity ns nx t t'"
  shows "engine_step ns nx answers (engine t) (engine t')"
  using assms
proof cases
  case (received j g a as)
  then show ?thesis by (simp add: engine_step_def engine_progress.execute)
next
  case (lagged j g n)
  then show ?thesis using engine_lag.executor_lags [OF lagged(2) lost_prefix [OF lagged(5,6)]] by (simp add: engine_step_def)
qed (simp add: engine_step_def)

lemma engine_executes_refines:
  "engine_executes E ends answers ss t \<Longrightarrow> engine_reaches (length (strategies E)) (length (executors E)) answers ss (engine t)"
proof (induction rule: engine_executes.induct)
  case spawned
  show ?case by (simp add: spawned_def engine_reaches.begun)
next
  case (collects t t')
  then show ?case using collector_task_refines engine_step_reaches by blast
next
  case (works t t')
  then show ?case using strategy_task_refines executor_task_refines engine_step_reaches unfolding task_works_def by blast
qed

section \<open>Tasks that have returned\<close>

text \<open>Tasks return in the order of the pipeline, and with nothing left to do.\<close>

definition orderly :: "nat \<Rightarrow> nat \<Rightarrow> nat \<Rightarrow> ('e, 'a, 's) engine_tasks \<Rightarrow> bool" where
  "orderly nc ns nx t \<longleftrightarrow>
     (\<forall>i < ns. \<not> strategy_live t i \<longrightarrow> events_closed nc t \<and> inbox (engine t) i = [] \<and> outbox (engine t) i = []) \<and>
     (\<forall>j < nx. \<not> executor_live t j \<longrightarrow> actions_closed ns t \<and> todo (engine t) j = [])"

lemma collector_task_orderly: "collector_task ends nc ns t t' \<Longrightarrow> orderly nc ns nx t \<Longrightarrow> orderly nc ns nx t'"
  by (erule collector_task.cases) (auto simp: orderly_def events_closed_def actions_closed_def)

lemma strategy_task_orderly:
  "strategy_task capacity nc ns nx answers t t' \<Longrightarrow> orderly nc ns nx t \<Longrightarrow> orderly nc ns nx t'"
  by (erule strategy_task.cases) (auto simp: orderly_def events_closed_def actions_closed_def)

lemma executor_task_orderly: "executor_task capacity ns nx t t' \<Longrightarrow> orderly nc ns nx t \<Longrightarrow> orderly nc ns nx t'"
  by (erule executor_task.cases) (auto simp: orderly_def events_closed_def actions_closed_def)

lemma returned_collector_ended: "engine_executes E ends answers ss t \<Longrightarrow> \<not> collector_live t c \<Longrightarrow> ends c"
proof (induction rule: engine_executes.induct)
  case (collects t t')
  from collects.hyps(2) show ?case
    by cases (use collects in \<open>auto split: if_splits\<close>)
next
  case (works t t')
  have "collector_live t' = collector_live t"
    using works.hyps(2) unfolding task_works_def by (auto elim!: strategy_task.cases executor_task.cases)
  then show ?case using works by simp
qed (simp add: spawned_def)

section \<open>What was lost\<close>

text \<open>The entries a subscriber has neither taken nor still waiting.\<close>

definition missed :: "nat \<Rightarrow> 'x list \<Rightarrow> (nat \<Rightarrow> 'x list) \<Rightarrow> (nat \<Rightarrow> 'x list) \<Rightarrow> nat" where
  "missed n sent past queue = (\<Sum>i < n. length sent - (length (past i) + length (queue i)))"

lemma missed_cong:
  "(\<And>i. i < n \<Longrightarrow> length (past' i) + length (queue' i) = length (past i) + length (queue i)) \<Longrightarrow>
   missed n sent past' queue' = missed n sent past queue"
  by (simp add: missed_def)

lemma missed_broadcast:
  "missed n (sent @ [x]) past (\<lambda>i. if i < n then queue i @ [x] else queue i) = missed n sent past queue"
  by (simp add: missed_def)

lemma missed_lost:
  assumes "i < n" "length (past i) + length (queue i) \<le> length sent" "k \<le> length (queue i)"
  shows "missed n sent past (queue(i := drop k (queue i))) = missed n sent past queue + k"
proof -
  have "missed n sent past (queue(i := drop k (queue i))) =
      (length sent - (length (past i) + (length (queue i) - k))) +
      (\<Sum>j \<in> {..<n} - {i}. length sent - (length (past j) + length (queue j)))"
    using assms(1) by (simp add: missed_def sum.remove [of _ i])
  moreover have "missed n sent past queue = (length sent - (length (past i) + length (queue i))) +
      (\<Sum>j \<in> {..<n} - {i}. length sent - (length (past j) + length (queue j)))"
    using assms(1) by (simp add: missed_def sum.remove [of _ i])
  ultimately show ?thesis using assms(2,3) by simp
qed

lemma missed_0D:
  assumes "missed n sent past queue = 0" "i < n" "subseq (past i @ queue i) sent"
  shows "past i @ queue i = sent"
proof -
  have "length sent \<le> length (past i @ queue i)" using assms(1,2) by (simp add: missed_def)
  then show ?thesis using assms(3) by (metis list_emb_length order_antisym subseq_same_length)
qed

definition accounted :: "nat \<Rightarrow> nat \<Rightarrow> ('e, 'a, 's) engine_tasks \<Rightarrow> bool" where
  "accounted ns nx t \<longleftrightarrow>
     strategy_lagged_events_total t =
       of_nat (missed ns (collected (engine t)) (handled (engine t)) (inbox (engine t))) \<and>
     executor_lagged_actions_total t =
       of_nat (missed nx (sent_actions (engine t)) (executed (engine t)) (todo (engine t)))"

lemma collector_task_accounted: "collector_task ends nc ns t t' \<Longrightarrow> accounted ns nx t \<Longrightarrow> accounted ns nx t'"
  by (erule collector_task.cases) (simp_all add: accounted_def missed_broadcast)

lemma strategy_task_accounted:
  assumes "strategy_task capacity nc ns nx answers t t'" "in_order ns nx (engine t)" "accounted ns nx t"
  shows "accounted ns nx t'"
  using assms(1)
proof cases
  case (received i g e es as s')
  then have "missed ns (collected g) ((handled g)(i := handled g i @ [e])) ((inbox g)(i := es)) =
      missed ns (collected g) (handled g) (inbox g)" by (intro missed_cong) simp
  then show ?thesis using received assms(3) by (simp add: accounted_def)
next
  case (sends i g a as)
  then show ?thesis using assms(3) by (simp add: accounted_def missed_broadcast)
next
  case (lagged i g n)
  have "subseq (handled g i @ inbox g i) (collected g)" using assms(2) lagged by (simp add: in_order_def)
  from list_emb_length [OF this] have "missed ns (collected g) (handled g) ((inbox g)(i := drop n (inbox g i))) =
      missed ns (collected g) (handled g) (inbox g) + n" using lagged by (intro missed_lost) simp_all
  then show ?thesis using lagged assms(3) by (simp add: accounted_def)
qed (use assms(3) in \<open>simp add: accounted_def\<close>)

lemma executor_task_accounted:
  assumes "executor_task capacity ns nx t t'" "in_order ns nx (engine t)" "accounted ns nx t"
  shows "accounted ns nx t'"
  using assms(1)
proof cases
  case (received j g a as)
  then have "missed nx (sent_actions g) ((executed g)(j := executed g j @ [a])) ((todo g)(j := as)) =
      missed nx (sent_actions g) (executed g) (todo g)" by (intro missed_cong) simp
  then show ?thesis using received assms(3) by (simp add: accounted_def)
next
  case (lagged j g n)
  have "subseq (executed g j @ todo g j) (sent_actions g)" using assms(2) lagged by (simp add: in_order_def)
  from list_emb_length [OF this] have "missed nx (sent_actions g) (executed g) ((todo g)(j := drop n (todo g j))) =
      missed nx (sent_actions g) (executed g) (todo g) + n" using lagged by (intro missed_lost) simp_all
  then show ?thesis using lagged assms(3) by (simp add: accounted_def)
qed (use assms(3) in \<open>simp add: accounted_def\<close>)

lemma engine_executes_invariant:
  fixes E :: "('c, 's, 'x) engine"
  defines "nc \<equiv> length (collectors E)" and "ns \<equiv> length (strategies E)" and "nx \<equiv> length (executors E)"
  assumes "engine_executes E ends answers ss t"
  shows "orderly nc ns nx t \<and> accounted ns nx t"
  using assms(4)
proof induction
  case spawned
  show ?case by (simp add: orderly_def accounted_def spawned_def started_def missed_def)
next
  case (collects t t')
  then show ?case using collector_task_orderly collector_task_accounted unfolding nc_def ns_def nx_def by blast
next
  case (works t t')
  have "in_order ns nx (engine t)"
    using reaches_invariant [OF engine_executes_refines [OF works.hyps(1)]] by (simp add: ns_def nx_def)
  with works show ?case
    using strategy_task_orderly executor_task_orderly strategy_task_accounted executor_task_accounted
    unfolding task_works_def nc_def ns_def nx_def by metis
qed

section \<open>Winding down\<close>

definition pending :: "(nat \<Rightarrow> 'x list) \<Rightarrow> nat \<Rightarrow> nat" where
  "pending q n = (\<Sum>i < n. length (q i))"

lemma pending_less:
  assumes "i < n" "length (q' i) < length (q i)" "\<And>k. k \<noteq> i \<Longrightarrow> q' k = q k"
  shows "pending q' n < pending q n"
  unfolding pending_def
proof (rule sum_strict_mono_ex1)
  show "\<forall>k \<in> {..<n}. length (q' k) \<le> length (q k)" using assms(2,3) by (metis le_less order_refl)
qed (use assms(1,2) in auto)

text \<open>A step of a strategy or an executor makes a queue shorter or ends a task; only the later of these
  grow.\<close>

definition live_tasks :: "(nat \<Rightarrow> bool) \<Rightarrow> nat \<Rightarrow> nat" where
  "live_tasks live n = card {i. i < n \<and> live i}"

lemma live_tasks_less: "i < n \<Longrightarrow> live i \<Longrightarrow> live_tasks (live(i := False)) n < live_tasks live n"
  unfolding live_tasks_def by (rule psubset_card_mono) auto

definition task_measure :: "('c, 's, 'x) engine \<Rightarrow> (('e, 'a, 's) engine_tasks \<times> ('e, 'a, 's) engine_tasks) set" where
  "task_measure E = measures
     [\<lambda>t. pending (inbox (engine t)) (length (strategies E)), \<lambda>t. pending (outbox (engine t)) (length (strategies E)),
      \<lambda>t. pending (todo (engine t)) (length (executors E)), \<lambda>t. live_tasks (strategy_live t) (length (strategies E)),
      \<lambda>t. live_tasks (executor_live t) (length (executors E))]"

lemma strategy_task_decreases:
  assumes "strategy_task capacity nc (length (strategies E)) nx answers t t'"
  shows "(t', t) \<in> task_measure E"
  using assms
proof cases
  case (received i g e es as s')
  then have "pending (inbox (engine t')) (length (strategies E)) < pending (inbox (engine t)) (length (strategies E))"
    by (intro pending_less [of i]) simp_all
  then show ?thesis by (simp add: task_measure_def)
next
  case (sends i g a as)
  then have "pending (outbox (engine t')) (length (strategies E)) < pending (outbox (engine t)) (length (strategies E))"
    by (intro pending_less [of i]) simp_all
  then show ?thesis using sends by (simp add: task_measure_def)
next
  case (lagged i g n)
  then have "pending (inbox (engine t')) (length (strategies E)) < pending (inbox (engine t)) (length (strategies E))"
    by (intro pending_less [of i]) auto
  then show ?thesis by (simp add: task_measure_def)
next
  case (closed i g)
  then show ?thesis using live_tasks_less [of i] by (simp add: task_measure_def)
qed

lemma executor_task_decreases:
  assumes "executor_task capacity ns (length (executors E)) t t'"
  shows "(t', t) \<in> task_measure E"
  using assms
proof cases
  case (received j g a as)
  then have "pending (todo (engine t')) (length (executors E)) < pending (todo (engine t)) (length (executors E))"
    by (intro pending_less [of j]) simp_all
  then show ?thesis using received by (simp add: task_measure_def)
next
  case (lagged j g n)
  then have "pending (todo (engine t')) (length (executors E)) < pending (todo (engine t)) (length (executors E))"
    by (intro pending_less [of j]) auto
  then show ?thesis using lagged by (simp add: task_measure_def)
next
  case (closed j g)
  then show ?thesis using live_tasks_less [of j] by (simp add: task_measure_def)
qed

lemma task_works_wf: "wf {(t', t). task_works E answers t t'}"
proof (rule wf_subset)
  show "wf (task_measure E)" by (simp add: task_measure_def)
  show "{(t', t). task_works E answers t t'} \<subseteq> task_measure E"
    using strategy_task_decreases executor_task_decreases unfolding task_works_def by blast
qed

text \<open>A live task whose queue is not empty can go on, and one whose channel is closed and empty returns.\<close>

lemma strategy_task_enabled:
  assumes "i < ns" "strategy_live t i" "\<exists>as s'. answers i (strats (engine t) i) e as s'"
    and "outbox (engine t) i \<noteq> [] \<or> inbox (engine t) i = e # es \<or> (inbox (engine t) i = [] \<and> events_closed nc t)"
  shows "\<exists>t'. strategy_task capacity nc ns nx answers t t'"
proof (cases "outbox (engine t) i")
  case Nil
  consider (waiting) "inbox (engine t) i = e # es" | (drained) "inbox (engine t) i = []" "events_closed nc t"
    using assms(4) Nil by blast
  then show ?thesis
  proof cases
    case waiting
    show ?thesis
    proof (cases "length (e # es) \<le> capacity")
      case True
      then show ?thesis using strategy_task.received [OF assms(1,2) refl Nil waiting] assms(3) by blast
    next
      case False
      then show ?thesis using strategy_task.lagged [OF assms(1,2) refl Nil refl, of capacity] waiting by auto
    qed
  next
    case drained
    then show ?thesis using strategy_task.closed [OF assms(1,2) refl Nil] by blast
  qed
next
  case (Cons a as)
  then show ?thesis using strategy_task.sends [OF assms(1,2) refl] by blast
qed

lemma executor_task_enabled:
  assumes "j < nx" "executor_live t j" "todo (engine t) j \<noteq> [] \<or> actions_closed ns t"
  shows "\<exists>t'. executor_task capacity ns nx t t'"
proof (cases "todo (engine t) j")
  case Nil
  then show ?thesis using executor_task.closed [OF assms(1,2) refl Nil] assms(3) by blast
next
  case (Cons a as)
  show ?thesis
  proof (cases "length (a # as) \<le> capacity")
    case True
    then show ?thesis using executor_task.received [OF assms(1,2) refl Cons] by blast
  next
    case False
    then show ?thesis using executor_task.lagged [OF assms(1,2) refl refl, of capacity] Cons by auto
  qed
qed

lemma idle_strategy:
  assumes "\<nexists>t'. task_works E answers t t'" "orderly (length (collectors E)) (length (strategies E)) nx t"
    and "\<forall>i < length (strategies E). \<forall>s e. \<exists>as s'. answers i s e as s'" "i < length (strategies E)"
  shows "inbox (engine t) i = [] \<and> outbox (engine t) i = [] \<and>
    (events_closed (length (collectors E)) t \<longrightarrow> \<not> strategy_live t i)"
proof (cases "strategy_live t i")
  case True
  have "\<not> (outbox (engine t) i \<noteq> [] \<or> inbox (engine t) i = e # es \<or>
      (inbox (engine t) i = [] \<and> events_closed (length (collectors E)) t))" for e es
    using strategy_task_enabled [OF assms(4) True, of answers e es "length (collectors E)"] assms(1,3,4)
    unfolding task_works_def by blast
  then show ?thesis by (metis list.exhaust)
next
  case False
  then show ?thesis using assms(2,4) by (simp add: orderly_def)
qed

lemma idle_executor:
  assumes "\<nexists>t'. task_works E answers t t'" "orderly nc (length (strategies E)) (length (executors E)) t"
    and "j < length (executors E)"
  shows "todo (engine t) j = [] \<and> (actions_closed (length (strategies E)) t \<longrightarrow> \<not> executor_live t j)"
proof (cases "executor_live t j")
  case True
  have "\<not> (todo (engine t) j \<noteq> [] \<or> actions_closed (length (strategies E)) t)"
    using executor_task_enabled [OF assms(3) True] assms(1) unfolding task_works_def by blast
  then show ?thesis by blast
next
  case False
  then show ?thesis using assms(2,3) by (simp add: orderly_def)
qed

section \<open>One shift\<close>

text \<open>An engine of one collector, one strategy that echoes events and one executor: an event is collected,
  the stream ends, and the tasks work off what is there and return.\<close>

definition echo_engine :: "(unit, unit, unit) engine" where
  "echo_engine = add_executor () (add_collector () (add_strategy () engine_new))"

lemma echo_engine_simps:
  "length (collectors echo_engine) = 1" "length (strategies echo_engine) = 1" "length (executors echo_engine) = 1"
  "event_channel_capacity echo_engine = 1024" "action_channel_capacity echo_engine = 1024"
  by (simp_all add: echo_engine_def add_executor_def add_collector_def add_strategy_def engine_new_def
      DEFAULT_CHANNEL_CAPACITY_def)

lemma no_live_task_idle:
  assumes "\<forall>i < length (strategies E). \<not> strategy_live t i" "\<forall>j < length (executors E). \<not> executor_live t j"
  shows "\<not> task_works E answers t t'"
  using assms unfolding task_works_def by (auto elim!: strategy_task.cases executor_task.cases)

lemma one_shift:
  "\<exists>t. engine_executes echo_engine (\<lambda>c. True) echo [()] t \<and> collected (engine t) = [7] \<and> sent_actions (engine t) = [7] \<and>
     handled (engine t) 0 = [7] \<and> executed (engine t) 0 = [7] \<and> inbox (engine t) 0 = [] \<and> todo (engine t) 0 = [] \<and>
     \<not> collector_live t 0 \<and> \<not> strategy_live t 0 \<and> \<not> executor_live t 0"
proof -
  let ?run = "engine_executes echo_engine (\<lambda>c. True) echo [()]"
  let ?g = "started [()] :: (nat, nat, unit) running_engine"
  let ?g1 = "?g\<lparr>inbox := (\<lambda>i. if i < 1 then inbox ?g i @ [7] else inbox ?g i), collected := collected ?g @ [7]\<rparr>"
  let ?t1 = "(spawned ?g)\<lparr>engine := ?g1\<rparr>"
  let ?t2 = "?t1\<lparr>collector_live := (collector_live ?t1)(0 := False)\<rparr>"
  let ?g3 = "?g1\<lparr>strats := (strats ?g1)(0 := ()), inbox := (inbox ?g1)(0 := []), outbox := (outbox ?g1)(0 := [7]),
    handled := (handled ?g1)(0 := handled ?g1 0 @ [7])\<rparr>"
  let ?g4 = "?g3\<lparr>outbox := (outbox ?g3)(0 := []), todo := (\<lambda>j. if j < 1 then todo ?g3 j @ [7] else todo ?g3 j),
    sent_actions := sent_actions ?g3 @ [7]\<rparr>"
  let ?t4 = "?t2\<lparr>engine := ?g3\<rparr>\<lparr>engine := ?g4\<rparr>"
  let ?t5 = "?t4\<lparr>strategy_live := (strategy_live ?t4)(0 := False)\<rparr>"
  let ?t6 = "?t5\<lparr>engine := ?g4\<lparr>todo := (todo ?g4)(0 := []), executed := (executed ?g4)(0 := executed ?g4 0 @ [7])\<rparr>\<rparr>"
  let ?t7 = "?t6\<lparr>executor_live := (executor_live ?t6)(0 := False)\<rparr>"
  note defs = started_def spawned_def echo_def events_closed_def actions_closed_def
  note works = engine_executes.works [of echo_engine "\<lambda>c. True" echo "[()]", unfolded task_works_def echo_engine_simps]
  note collects = engine_executes.collects [of echo_engine "\<lambda>c. True" echo "[()]", unfolded echo_engine_simps]
  have 1: "?run ?t1"
    by (rule collects [OF engine_executes.spawned collector_task.broadcast]) (simp_all add: defs)
  have 2: "?run ?t2"
    by (rule collects [OF 1 collector_task.stream_ended]) (simp_all add: defs)
  have 3: "?run (?t2\<lparr>engine := ?g3\<rparr>)"
    by (rule works [OF 2 disjI1 [OF strategy_task.received]]) (simp_all add: defs)
  have 4: "?run ?t4"
    by (rule works [OF 3 disjI1 [OF strategy_task.sends]]) (simp_all add: defs)
  have 5: "?run ?t5"
    by (rule works [OF 4 disjI1 [OF strategy_task.closed [of 0 _ ?t4 "engine ?t4"]]]) (simp_all add: defs)
  have 6: "?run ?t6"
    by (rule works [OF 5 disjI2 [OF executor_task.received]]) (simp_all add: defs)
  have 7: "?run ?t7"
    by (rule works [OF 6 disjI2 [OF executor_task.closed [of 0 _ ?t6 "engine ?t6"]]]) (simp_all add: defs)
  show ?thesis by (rule exI [of _ ?t7]) (use 7 in \<open>simp add: defs\<close>)
qed

section \<open>Properties\<close>



text \<open>C28. The engine catches up and winds down: between two events of the collectors the other tasks take only
  finitely many steps, in whatever order they are scheduled.  When no step is left, although every
  strategy answers every event, no queue holds anything; if the collectors have all returned, so have
  the strategies and the executors; and if nothing was lost, every strategy has handled exactly the
  collected events and every executor exactly the sent actions, in order.\<close>

theorem engine_winds_down:
  "wf {(t', t). task_works E answers t t'} \<and>
   (engine_executes E ends answers ss t \<and> (\<forall>i < length (strategies E). \<forall>s e. \<exists>as s'. answers i s e as s') \<and>
      (\<nexists>t'. task_works E answers t t') \<longrightarrow>
    (\<forall>i < length (strategies E). inbox (engine t) i = [] \<and> outbox (engine t) i = []) \<and>
    (\<forall>j < length (executors E). todo (engine t) j = []) \<and>
    (events_closed (length (collectors E)) t \<longrightarrow>
       (\<forall>i < length (strategies E). \<not> strategy_live t i) \<and> (\<forall>j < length (executors E). \<not> executor_live t j)) \<and>
    (lossless (length (strategies E)) (length (executors E)) (engine t) \<longrightarrow>
       (\<forall>i < length (strategies E). handled (engine t) i = collected (engine t)) \<and>
       (\<forall>j < length (executors E). executed (engine t) j = sent_actions (engine t))))"
proof (intro conjI impI)
  show "wf {(t', t). task_works E answers t t'}" by (rule task_works_wf)
next
  assume *: "engine_executes E ends answers ss t \<and> (\<forall>i < length (strategies E). \<forall>s e. \<exists>as s'. answers i s e as s') \<and>
      (\<nexists>t'. task_works E answers t t')"
  then have o: "orderly (length (collectors E)) (length (strategies E)) (length (executors E)) t"
    using engine_executes_invariant by blast
  note idle = idle_strategy [OF _ o, of answers] idle_executor [OF _ o, of answers]
  show i: "\<forall>i < length (strategies E). inbox (engine t) i = [] \<and> outbox (engine t) i = []" using * idle(1) by blast
  show x: "\<forall>j < length (executors E). todo (engine t) j = []" using * idle(2) by blast
  { assume "events_closed (length (collectors E)) t"
    then show s: "\<forall>i < length (strategies E). \<not> strategy_live t i" using * idle(1) by blast
    then show "\<forall>j < length (executors E). \<not> executor_live t j" using * idle(2) by (simp add: actions_closed_def) }
  { assume "lossless (length (strategies E)) (length (executors E)) (engine t)"
    then show "\<forall>i < length (strategies E). handled (engine t) i = collected (engine t)"
      and "\<forall>j < length (executors E). executed (engine t) j = sent_actions (engine t)"
      using i x unfolding lossless_def by (metis append_Nil2)+ }
qed

theorem engine_winds_down_witness:
  "\<exists>t. engine_executes echo_engine (\<lambda>c. True) echo [()] t \<and> (\<nexists>t'. task_works echo_engine echo t t') \<and>
     collected (engine t) = [7] \<and> handled (engine t) 0 = [7] \<and> executed (engine t) 0 = [7] \<and>
     inbox (engine t) 0 = [] \<and> \<not> strategy_live t 0 \<and> \<not> executor_live t 0"
proof -
  obtain t where t: "engine_executes echo_engine (\<lambda>c. True) echo [()] t" "collected (engine t) = [7]"
    "handled (engine t) 0 = [7]" "executed (engine t) 0 = [7]" "\<not> collector_live t 0" "\<not> strategy_live t 0"
    "\<not> executor_live t 0" using one_shift by blast
  have "\<nexists>t'. task_works echo_engine echo t t'" using no_live_task_idle [of echo_engine t] t by (simp add: echo_engine_simps)
  with engine_winds_down [of echo_engine echo "\<lambda>c. True" "[()]" t] t show ?thesis
    by (intro exI [of _ t]) (simp add: echo_engine_simps echo_def events_closed_def)
qed

end
