(* ===== verification/Metrics.thy ===== *)
theory Metrics
  imports Executor
begin

text \<open>
  \<^verbatim>\<open>keeper/src/metrics\<close>: the registry of series, the vocabulary of outcomes, the emitters of
  \<^verbatim>\<open>catalog.rs\<close> and the readiness probe of \<^verbatim>\<open>mod.rs\<close>.  The recorder and the floating-point type are
  outside: a registry keeps counters of 64 bits, gauges and histograms, and \<open>F\<close> is the cast of an
  integer to \<open>f64\<close>.  What a market scan and a settled action report is stated over the operations that
  report it.
\<close>

section \<open>The registry\<close>

type_synonym series = "string \<times> (string \<times> string) list"

record 'f registry =
  counters :: "series \<Rightarrow> 64 word"
  gauges :: "series \<Rightarrow> 'f option"
  histograms :: "series \<Rightarrow> 'f list"
  last_scan_tick_unix :: int

definition increment :: "series \<Rightarrow> 64 word \<Rightarrow> 'f registry \<Rightarrow> 'f registry" where
  "increment k n reg = reg\<lparr>counters := (counters reg)(k := counters reg k + n)\<rparr>"

definition set_gauge :: "series \<Rightarrow> 'f \<Rightarrow> 'f registry \<Rightarrow> 'f registry" where
  "set_gauge k v reg = reg\<lparr>gauges := (gauges reg)(k \<mapsto> v)\<rparr>"

definition observe :: "series \<Rightarrow> 'f \<Rightarrow> 'f registry \<Rightarrow> 'f registry" where
  "observe k v reg = reg\<lparr>histograms := (histograms reg)(k := histograms reg k @ [v])\<rparr>"

section \<open>The vocabulary\<close>

datatype tx_submit_outcome = SubmittedOk | SubmittedSimEmpty | SubmittedSeqFetchFailed | SubmittedRetryExhausted

fun tx_submit_as_str :: "tx_submit_outcome \<Rightarrow> string" where
  "tx_submit_as_str SubmittedOk = ''ok''"
| "tx_submit_as_str SubmittedSimEmpty = ''sim_empty''"
| "tx_submit_as_str SubmittedSeqFetchFailed = ''seq_fetch_failed''"
| "tx_submit_as_str SubmittedRetryExhausted = ''retry_exhausted''"

fun tx_confirm_as_str :: "tx_confirm_outcome \<Rightarrow> string" where
  "tx_confirm_as_str Confirmed = ''confirmed''"
| "tx_confirm_as_str HashDecodeFailed = ''hash_decode_failed''"
| "tx_confirm_as_str FailedOnChain = ''failed_on_chain''"
| "tx_confirm_as_str ConfirmTimeout = ''submission_timeout''"
| "tx_confirm_as_str ConfirmUnexpectedStatus = ''unexpected_status''"
| "tx_confirm_as_str TransportError = ''transport_error''"

datatype simulation_call = CallLiquidate | CallBatch

fun simulation_call_as_str :: "simulation_call \<Rightarrow> string" where
  "simulation_call_as_str CallLiquidate = ''liquidate''"
| "simulation_call_as_str CallBatch = ''batch''"

datatype simulation_outcome = SimulationOk | SimulationNotLiquidatable | SimulationError | SimulationFailed

fun simulation_as_str :: "simulation_outcome \<Rightarrow> string" where
  "simulation_as_str SimulationOk = ''ok''"
| "simulation_as_str SimulationNotLiquidatable = ''not_liquidatable''"
| "simulation_as_str SimulationError = ''error''"
| "simulation_as_str SimulationFailed = ''failed''"

datatype simulate_outcome = SimulateOk | SimulateTransportError

fun simulate_as_str :: "simulate_outcome \<Rightarrow> string" where
  "simulate_as_str SimulateOk = ''ok''"
| "simulate_as_str SimulateTransportError = ''transport_error''"

datatype simulate_failure_kind = FailTransport | FailSimError

fun simulate_failure_as_str :: "simulate_failure_kind \<Rightarrow> string" where
  "simulate_failure_as_str FailTransport = ''transport''"
| "simulate_failure_as_str FailSimError = ''sim_error''"

datatype scan_outcome = ScanOk | ScanNoMarketData | ScanStaleMarketData | ScanNoObligations

fun scan_as_str :: "scan_outcome \<Rightarrow> string" where
  "scan_as_str ScanOk = ''ok''"
| "scan_as_str ScanNoMarketData = ''no_market_data''"
| "scan_as_str ScanStaleMarketData = ''stale_market_data''"
| "scan_as_str ScanNoObligations = ''no_obligations''"

datatype skip_reason =
    BelowCollateralThreshold | BalanceQueryFailed | UnprofitableSeizeZero | BatchSimFailed | FlashSwapShortfall
  | InsufficientBalanceAfterReservations | OpBuildFailed | UnpricedPool | InsolvencyCheckFailed | LeavesDust

fun skip_as_str :: "skip_reason \<Rightarrow> string" where
  "skip_as_str BelowCollateralThreshold = ''below_collateral_threshold''"
| "skip_as_str BalanceQueryFailed = ''balance_query_failed''"
| "skip_as_str UnprofitableSeizeZero = ''unprofitable_seize_zero''"
| "skip_as_str BatchSimFailed = ''batch_sim_failed''"
| "skip_as_str FlashSwapShortfall = ''flash_swap_shortfall''"
| "skip_as_str InsufficientBalanceAfterReservations = ''insufficient_balance_after_reservations''"
| "skip_as_str OpBuildFailed = ''op_build_failed''"
| "skip_as_str UnpricedPool = ''unpriced_pool''"
| "skip_as_str InsolvencyCheckFailed = ''insolvency_check_failed''"
| "skip_as_str LeavesDust = ''leaves_dust''"

datatype liquidation_kind = KindDirect | KindPreSwap | KindFlash

fun liquidation_kind_as_str :: "liquidation_kind \<Rightarrow> string" where
  "liquidation_kind_as_str KindDirect = ''direct''"
| "liquidation_kind_as_str KindPreSwap = ''preswap''"
| "liquidation_kind_as_str KindFlash = ''flash''"

datatype bad_debt_outcome =
    BdEligibilityError | BdIneligible | BdDispatched | BdBuildFailed | BdDecodeOpError | BdParseError | BdObligationCleared

fun bad_debt_as_str :: "bad_debt_outcome \<Rightarrow> string" where
  "bad_debt_as_str BdEligibilityError = ''eligibility_error''"
| "bad_debt_as_str BdIneligible = ''ineligible''"
| "bad_debt_as_str BdDispatched = ''dispatched''"
| "bad_debt_as_str BdBuildFailed = ''build_failed''"
| "bad_debt_as_str BdDecodeOpError = ''decode_op_error''"
| "bad_debt_as_str BdParseError = ''parse_error''"
| "bad_debt_as_str BdObligationCleared = ''obligation_cleared''"

datatype balancer_outcome =
    BlEvaluationError | BlNothingToSwap | BlBadOraclePrice | BlNoViableProvider | BlBelowDust | BlReservationLost | BlDispatched

fun balancer_as_str :: "balancer_outcome \<Rightarrow> string" where
  "balancer_as_str BlEvaluationError = ''evaluation_error''"
| "balancer_as_str BlNothingToSwap = ''nothing_to_swap''"
| "balancer_as_str BlBadOraclePrice = ''bad_oracle_price''"
| "balancer_as_str BlNoViableProvider = ''no_viable_provider''"
| "balancer_as_str BlBelowDust = ''below_dust''"
| "balancer_as_str BlReservationLost = ''reservation_lost''"
| "balancer_as_str BlDispatched = ''dispatched''"

datatype withdrawer_outcome =
    WdNoMarketData | WdPoolMissing | WdMaxWithdrawalError | WdPoolAtCapacity | WdConversionError | WdEmptyPosition
  | WdDispatched | WdBuildError | WdBelowThreshold

fun withdrawer_as_str :: "withdrawer_outcome \<Rightarrow> string" where
  "withdrawer_as_str WdNoMarketData = ''no_market_data''"
| "withdrawer_as_str WdPoolMissing = ''pool_missing''"
| "withdrawer_as_str WdMaxWithdrawalError = ''max_withdrawal_error''"
| "withdrawer_as_str WdPoolAtCapacity = ''pool_at_capacity''"
| "withdrawer_as_str WdConversionError = ''conversion_error''"
| "withdrawer_as_str WdEmptyPosition = ''empty_position''"
| "withdrawer_as_str WdDispatched = ''dispatched''"
| "withdrawer_as_str WdBuildError = ''build_error''"
| "withdrawer_as_str WdBelowThreshold = ''below_threshold''"

datatype cursor_source = LiquidatorEventCursor | EventCollectorCursor

fun cursor_as_str :: "cursor_source \<Rightarrow> string" where
  "cursor_as_str LiquidatorEventCursor = ''liquidator_event_cursor''"
| "cursor_as_str EventCollectorCursor = ''event_collector_cursor''"

section \<open>The emitters\<close>

definition record_tx_submit :: "tx_submit_outcome \<Rightarrow> 'f registry \<Rightarrow> 'f registry" where
  "record_tx_submit o' = increment (''keeper_tx_submitted_total'', [(''outcome'', tx_submit_as_str o')]) 1"

definition record_tx_confirm :: "tx_confirm_outcome \<Rightarrow> 'f registry \<Rightarrow> 'f registry" where
  "record_tx_confirm o' = increment (''keeper_tx_confirmed_total'', [(''outcome'', tx_confirm_as_str o')]) 1"

definition record_skip :: "skip_reason \<Rightarrow> 'f registry \<Rightarrow> 'f registry" where
  "record_skip r = increment (''liquidator_skip_total'', [(''reason'', skip_as_str r)]) 1"

definition record_unpriced_pool_skip :: "string \<Rightarrow> string \<Rightarrow> 'f registry \<Rightarrow> 'f registry" where
  "record_unpriced_pool_skip market pool =
     increment (''liquidator_unpriced_pool_skips_total'', [(''market'', market), (''pool_address'', pool)]) 1"

definition set_snapshot_unavailable_pools :: "(int \<Rightarrow> 'f) \<Rightarrow> string \<Rightarrow> nat \<Rightarrow> 'f registry \<Rightarrow> 'f registry" where
  "set_snapshot_unavailable_pools F market count =
     set_gauge (''liquidator_snapshot_unavailable_pools'', [(''market'', market)]) (F (int count))"

definition record_bad_debt :: "bad_debt_outcome \<Rightarrow> 'f registry \<Rightarrow> 'f registry" where
  "record_bad_debt o' = increment (''bad_debt_outcome_total'', [(''outcome'', bad_debt_as_str o')]) 1"

definition record_balancer :: "balancer_outcome \<Rightarrow> 'f registry \<Rightarrow> 'f registry" where
  "record_balancer o' = increment (''balancer_outcome_total'', [(''outcome'', balancer_as_str o')]) 1"

definition record_withdrawer :: "withdrawer_outcome \<Rightarrow> 'f registry \<Rightarrow> 'f registry" where
  "record_withdrawer o' = increment (''withdrawer_outcome_total'', [(''outcome'', withdrawer_as_str o')]) 1"

definition record_cursor_failure :: "cursor_source \<Rightarrow> 'f registry \<Rightarrow> 'f registry" where
  "record_cursor_failure src = increment (''keeper_cursor_save_failures_total'', [(''source'', cursor_as_str src)]) 1"

definition record_tx_bad_seq_retry :: "'f registry \<Rightarrow> 'f registry" where
  "record_tx_bad_seq_retry = increment (''keeper_tx_bad_seq_retries_total'', []) 1"

definition record_collector_lag :: "string \<Rightarrow> 64 word \<Rightarrow> 'f registry \<Rightarrow> 'f registry" where
  "record_collector_lag collector dropped =
     increment (''keeper_collector_lagged_events_total'', [(''collector'', collector)]) dropped"

definition record_simulation :: "simulation_call \<Rightarrow> simulation_outcome \<Rightarrow> 'f registry \<Rightarrow> 'f registry" where
  "record_simulation call' o' =
     increment (''keeper_simulation_total'',
       [(''call'', simulation_call_as_str call'), (''outcome'', simulation_as_str o')]) 1"

definition record_rpc_simulate_duration :: "string \<Rightarrow> simulate_outcome \<Rightarrow> 'f \<Rightarrow> 'f registry \<Rightarrow> 'f registry" where
  "record_rpc_simulate_duration name o' secs =
     observe (''keeper_rpc_simulate_duration_seconds'', [(''function'', name), (''outcome'', simulate_as_str o')]) secs"

definition record_rpc_simulate_failure :: "string \<Rightarrow> simulate_failure_kind \<Rightarrow> 'f registry \<Rightarrow> 'f registry" where
  "record_rpc_simulate_failure name kind =
     increment (''keeper_rpc_simulate_failures_total'', [(''function'', name), (''kind'', simulate_failure_as_str kind)]) 1"

text \<open>\<open>as_secs() as i64\<close> keeps the low 64 bits.\<close>

definition as_i64 :: "nat \<Rightarrow> int" where
  "as_i64 n = sint (word_of_nat n :: 64 word)"

definition mark_tick :: "int \<Rightarrow> 'f registry \<Rightarrow> 'f registry" where
  "mark_tick now reg = reg\<lparr>last_scan_tick_unix := now\<rparr>"

text \<open>\<open>None\<close>: the system clock stands before the epoch.\<close>

definition record_scan ::
  "(int \<Rightarrow> 'f) \<Rightarrow> nat option \<Rightarrow> string \<Rightarrow> scan_outcome \<Rightarrow> 'f \<Rightarrow> 'f registry \<Rightarrow> 'f registry" where
  "record_scan F clock market o' secs reg =
     (let labels = [(''market'', market), (''outcome'', scan_as_str o')];
          reg1 = increment (''liquidator_scan_completed_total'', labels) 1 reg;
          reg2 = observe (''liquidator_market_scan_duration_seconds'', labels) secs reg1 in
      case clock of
        None \<Rightarrow> reg2
      | Some now \<Rightarrow>
          let reg3 = mark_tick (as_i64 now) reg2 in
          if o' = ScanOk
          then set_gauge (''liquidator_last_successful_scan_timestamp_seconds'', [(''market'', market)])
                 (F (as_i64 now)) reg3
          else reg3)"

definition set_scan_counts :: "(int \<Rightarrow> 'f) \<Rightarrow> string \<Rightarrow> nat \<Rightarrow> nat \<Rightarrow> 'f registry \<Rightarrow> 'f registry" where
  "set_scan_counts F market checked liquidatable reg =
     set_gauge (''liquidator_liquidatable_positions'', [(''market'', market)]) (F (int liquidatable))
       (set_gauge (''liquidator_obligations_total'', [(''market'', market)]) (F (int checked)) reg)"

definition record_plan_dispatched :: "string \<Rightarrow> liquidation_kind \<Rightarrow> 'f registry \<Rightarrow> 'f registry" where
  "record_plan_dispatched market kind =
     increment (''liquidator_liquidation_plans_dispatched_total'',
       [(''market'', market), (''type'', liquidation_kind_as_str kind)]) 1"

text \<open>\<open>v as u64\<close> keeps the low 64 bits.\<close>

definition record_expected_profit :: "(int \<Rightarrow> 'f) \<Rightarrow> string \<Rightarrow> i128 \<Rightarrow> 'f registry \<Rightarrow> 'f registry" where
  "record_expected_profit F market net reg =
     (let v = max net 0 in
      increment (''liquidator_plan_expected_net_profit_oracle_units_total'', [(''market'', market)]) (word_of_int v)
        (observe (''liquidator_plan_expected_net_profit_oracle_units'', [(''market'', market)]) (F v) reg))"

definition record_realised_profit :: "(int \<Rightarrow> 'f) \<Rightarrow> string \<Rightarrow> i128 \<Rightarrow> 'f registry \<Rightarrow> 'f registry" where
  "record_realised_profit F market net reg =
     (let v = max net 0 in
      increment (''liquidator_plan_realised_net_profit_oracle_units_total'', [(''market'', market)]) (word_of_int v)
        (observe (''liquidator_plan_realised_net_profit_oracle_units'', [(''market'', market)]) (F v) reg))"

definition set_asset_balance :: "(int \<Rightarrow> 'f) \<Rightarrow> string \<Rightarrow> i128 \<Rightarrow> 'f registry \<Rightarrow> 'f registry" where
  "set_asset_balance F token amount = set_gauge (''liquidator_asset_balance'', [(''token_address'', token)]) (F amount)"

definition set_xlm_balance :: "(int \<Rightarrow> 'f) \<Rightarrow> i128 \<Rightarrow> 'f registry \<Rightarrow> 'f registry" where
  "set_xlm_balance F stroops = set_gauge (''liquidator_xlm_balance_stroops'', []) (F stroops)"

definition set_xlm_safety_margin :: "(int \<Rightarrow> 'f) \<Rightarrow> i128 \<Rightarrow> 'f registry \<Rightarrow> 'f registry" where
  "set_xlm_safety_margin F stroops = set_gauge (''liquidator_xlm_safety_margin_stroops'', []) (F stroops)"

definition position_labels :: "string \<Rightarrow> string \<Rightarrow> string \<Rightarrow> (string \<times> string) list" where
  "position_labels market pool symbol = [(''market'', market), (''pool_address'', pool), (''token_symbol'', symbol)]"

definition set_keeper_deposit ::
  "(int \<Rightarrow> 'f) \<Rightarrow> string \<Rightarrow> string \<Rightarrow> string \<Rightarrow> i128 \<Rightarrow> i128 \<Rightarrow> i128 \<Rightarrow> 'f registry \<Rightarrow> 'f registry" where
  "set_keeper_deposit F market pool symbol shares plain underlying reg =
     (let labels = position_labels market pool symbol in
      set_gauge (''liquidator_self_j_tokens_underlying'', labels) (F underlying)
        (set_gauge (''liquidator_self_plain_collateral'', labels) (F plain)
          (set_gauge (''liquidator_self_j_tokens'', labels) (F shares) reg)))"

definition set_keeper_borrow ::
  "(int \<Rightarrow> 'f) \<Rightarrow> string \<Rightarrow> string \<Rightarrow> string \<Rightarrow> i128 \<Rightarrow> i128 \<Rightarrow> 'f registry \<Rightarrow> 'f registry" where
  "set_keeper_borrow F market pool symbol shares underlying reg =
     (let labels = position_labels market pool symbol in
      set_gauge (''liquidator_self_d_tokens_underlying'', labels) (F underlying)
        (set_gauge (''liquidator_self_d_tokens'', labels) (F shares) reg))"

text \<open>\<open>emit_keeper_position_metrics\<close> of \<^verbatim>\<open>liquidator.rs\<close>: a position in a pool the snapshot does not price
  is passed over, and a conversion that fails is published as zero.\<close>

fun emit_keeper_deposits ::
  "(int \<Rightarrow> 'f) \<Rightarrow> string \<Rightarrow> pool_data list \<Rightarrow> deposit_position list \<Rightarrow> 'f registry \<Rightarrow> (unit, 'f registry) outcome" where
  "emit_keeper_deposits F market ps [] reg = Ok reg"
| "emit_keeper_deposits F market ps (dep # ds) reg =
     (case find_pool ps (dp_pool_address dep) of
        None \<Rightarrow> emit_keeper_deposits F market ps ds reg
      | Some pool \<Rightarrow>
          bindr (or_default 0 (j_tokens_to_tokens_floor pool (j_tokens dep))) (\<lambda>underlying.
          emit_keeper_deposits F market ps ds
            (set_keeper_deposit F market (pool_address pool) (token_symbol pool) (j_tokens dep) (collateral dep)
              underlying reg)))"

fun emit_keeper_borrows ::
  "(int \<Rightarrow> 'f) \<Rightarrow> string \<Rightarrow> pool_data list \<Rightarrow> borrow_position list \<Rightarrow> 'f registry \<Rightarrow> (unit, 'f registry) outcome" where
  "emit_keeper_borrows F market ps [] reg = Ok reg"
| "emit_keeper_borrows F market ps (b # bs) reg =
     (case find_pool ps (bp_pool_address b) of
        None \<Rightarrow> emit_keeper_borrows F market ps bs reg
      | Some pool \<Rightarrow>
          bindr (or_default 0 (d_tokens_to_tokens_ceil pool (d_tokens b))) (\<lambda>underlying.
          emit_keeper_borrows F market ps bs
            (set_keeper_borrow F market (pool_address pool) (token_symbol pool) (d_tokens b)
              underlying reg)))"

definition emit_keeper_position_metrics ::
  "(int \<Rightarrow> 'f) \<Rightarrow> string \<Rightarrow> obligation \<Rightarrow> market_data \<Rightarrow> 'f registry \<Rightarrow> (unit, 'f registry) outcome" where
  "emit_keeper_position_metrics F market ob md reg =
     bindr (emit_keeper_deposits F market (pools_data md) (deposits ob) reg)
       (emit_keeper_borrows F market (pools_data md) (borrows ob))"

definition record_balancer_dispatched_value :: "(int \<Rightarrow> 'f) \<Rightarrow> i128 \<Rightarrow> 'f registry \<Rightarrow> 'f registry" where
  "record_balancer_dispatched_value F cents = observe (''balancer_dispatched_swap_value_cents'', []) (F (max cents 0))"

definition record_balancer_realised_price :: "(int \<Rightarrow> 'f) \<Rightarrow> string \<Rightarrow> i128 \<Rightarrow> 'f registry \<Rightarrow> 'f registry" where
  "record_balancer_realised_price F asset price =
     observe (''balancer_realised_swap_price_scaled'', [(''asset'', asset)]) (F price)"

definition record_balancer_price_impact :: "(int \<Rightarrow> 'f) \<Rightarrow> string \<Rightarrow> bool \<Rightarrow> i128 \<Rightarrow> 'f registry \<Rightarrow> 'f registry" where
  "record_balancer_price_impact F asset admitted bps =
     observe (''balancer_swap_price_impact_bps'',
       [(''asset'', asset), (''admitted'', if admitted then ''true'' else ''false'')]) (F bps)"

definition emit_build_info :: "(int \<Rightarrow> 'f) \<Rightarrow> string \<Rightarrow> string \<Rightarrow> 'f \<Rightarrow> 'f registry \<Rightarrow> 'f registry" where
  "emit_build_info F version sha start reg =
     set_gauge (''keeper_start_time_seconds'', []) start
       (set_gauge (''keeper_build_info'', [(''version'', version), (''commit'', sha)]) (F 1) reg)"

section \<open>Readiness\<close>

datatype readiness = Warming | Ready | Stalled

definition saturating_sub_i64 :: "int \<Rightarrow> int \<Rightarrow> int" where
  "saturating_sub_i64 a b = max (- (2 ^ 63)) (min (2 ^ 63 - 1) (a - b))"

definition readiness_state :: "int \<Rightarrow> int \<Rightarrow> int \<Rightarrow> readiness" where
  "readiness_state last_tick now budget =
     (if last_tick = 0 then Warming
      else if saturating_sub_i64 now last_tick \<le> budget then Ready
      else Stalled)"

text \<open>\<open>serve\<close>: \<open>ready_budget_secs.try_into().unwrap_or(i64::MAX)\<close>.\<close>

definition ready_budget :: "nat \<Rightarrow> int" where
  "ready_budget n = (if int n < 2 ^ 63 then int n else 2 ^ 63 - 1)"

definition healthz_handler :: string where
  "healthz_handler = ''ok''"

definition readyz_handler :: "nat \<Rightarrow> nat option \<Rightarrow> 'f registry \<Rightarrow> nat \<times> string" where
  "readyz_handler budget clock reg =
     (let last_tick = last_scan_tick_unix reg;
          now = (case clock of Some n \<Rightarrow> as_i64 n | None \<Rightarrow> last_tick) in
      case readiness_state last_tick now (ready_budget budget) of
        Warming \<Rightarrow> (503, ''warming up: no scan completed yet'')
      | Ready \<Rightarrow> (200, ''ready'')
      | Stalled \<Rightarrow> (503, ''scan loop stalled''))"

section \<open>What is reported\<close>

text \<open>The reports of \<open>evaulate_market\<close>: how the scan of a market ended, and on the way that judges
  obligations how many were judged and how many of them were found liquidatable.\<close>

definition scan_outcome_of :: "liquidator \<Rightarrow> nat \<Rightarrow> string \<Rightarrow> scan_outcome" where
  "scan_outcome_of s now market =
     (case hm_get (lq_market_data s) market of
        None \<Rightarrow> ScanNoMarketData
      | Some snapshot \<Rightarrow>
          if snapshot_age snapshot now > max_market_data_age (lq_config s) then ScanStaleMarketData
          else (case hm_get (lq_obligations s) market of
                  None \<Rightarrow> ScanNoObligations
                | Some obs \<Rightarrow> if obs = [] then ScanNoObligations else ScanOk))"

definition judged :: "liquidator \<Rightarrow> market_data \<Rightarrow> obligation_key \<times> obligation \<Rightarrow> bool" where
  "judged s md e \<longleftrightarrow> user (fst e) \<noteq> lq_pkey s \<and> unpriced_pools_touched (snd e) md = []"

definition found_liquidatable :: "liquidator \<Rightarrow> market_data \<Rightarrow> obligation_key \<times> obligation \<Rightarrow> bool" where
  "found_liquidatable s md e \<longleftrightarrow>
     judged s md e \<and> compute_is_liquidatable (snd e) md (cfg_dust_rules (lq_config s)) = Ok True"

definition scan_counts :: "liquidator \<Rightarrow> string \<Rightarrow> nat \<times> nat" where
  "scan_counts s market =
     (case (hm_get (lq_market_data s) market, hm_get (lq_obligations s) market) of
        (Some snapshot, Some obs) \<Rightarrow>
          (length (filter (judged s (snap_data snapshot)) obs),
           length (filter (found_liquidatable s (snap_data snapshot)) obs))
      | _ \<Rightarrow> (0, 0))"

definition report_scan ::
  "(int \<Rightarrow> 'f) \<Rightarrow> nat option \<Rightarrow> liquidator \<Rightarrow> nat \<Rightarrow> string \<Rightarrow> 'f \<Rightarrow> 'f registry \<Rightarrow> 'f registry" where
  "report_scan F clock s now market secs reg =
     (let o' = scan_outcome_of s now market; (checked, liquidatable) = scan_counts s market in
      record_scan F clock market o' secs
        (if o' = ScanOk then set_scan_counts F market checked liquidatable reg else reg))"

text \<open>The reports of the executor and of its confirmation task; the profit of a liquidation is booked when
  its transaction is confirmed.\<close>

fun submit_metric :: "submit_outcome \<Rightarrow> tx_submit_outcome" where
  "submit_metric (Success hash_hex) = SubmittedOk"
| "submit_metric SimEmpty = SubmittedSimEmpty"
| "submit_metric (SeqFetchFailed e) = SubmittedSeqFetchFailed"
| "submit_metric (RetryExhausted e) = SubmittedRetryExhausted"

definition report_submit :: "submit_outcome \<Rightarrow> 'f registry \<Rightarrow> 'f registry" where
  "report_submit o' = record_tx_submit (submit_metric o')"

definition report_confirm ::
  "(int \<Rightarrow> 'f) \<Rightarrow> tx_confirm_outcome \<Rightarrow> settle_hook option \<Rightarrow> 'f registry \<Rightarrow> 'f registry" where
  "report_confirm F o' hook reg =
     (let reg1 = record_tx_confirm o' reg in
      if o' = Confirmed then
        (case hook of
           None \<Rightarrow> reg1
         | Some h \<Rightarrow>
             (case liquidation_outcome h of
                None \<Rightarrow> reg1
              | Some (market, net) \<Rightarrow> record_realised_profit F market net reg1))
      else reg1)"

section \<open>Counters tell outcomes apart\<close>

text \<open>A counter with one label whose value is the name of an outcome.\<close>

locale outcome_counter =
  fixes name :: string and label :: string and as_str :: "'o \<Rightarrow> string"
  assumes names_distinct: "as_str x = as_str y \<Longrightarrow> x = y"
begin

definition series_of :: "'o \<Rightarrow> series" where
  "series_of x = (name, [(label, as_str x)])"

lemma counted:
  "counters (fold (\<lambda>x. increment (series_of x) 1) xs reg) (series_of y) =
     counters reg (series_of y) + of_nat (count_list xs y)"
proof (induction xs arbitrary: reg)
  case (Cons x xs)
  have "series_of x = series_of y \<longleftrightarrow> x = y" using names_distinct by (auto simp: series_of_def)
  then show ?case using Cons.IH by (auto simp: increment_def)
qed simp

end

lemma tx_submit_name_eq [simp]: "tx_submit_as_str x = tx_submit_as_str y \<longleftrightarrow> x = y"
  by (cases x; cases y) simp_all

lemma tx_confirm_name_eq [simp]: "tx_confirm_as_str x = tx_confirm_as_str y \<longleftrightarrow> x = y"
  by (cases x; cases y) simp_all

lemma skip_name_eq [simp]: "skip_as_str x = skip_as_str y \<longleftrightarrow> x = y"
  by (cases x; cases y) simp_all

lemma bad_debt_name_eq [simp]: "bad_debt_as_str x = bad_debt_as_str y \<longleftrightarrow> x = y"
  by (cases x; cases y) simp_all

lemma balancer_name_eq [simp]: "balancer_as_str x = balancer_as_str y \<longleftrightarrow> x = y"
  by (cases x; cases y) simp_all

lemma withdrawer_name_eq [simp]: "withdrawer_as_str x = withdrawer_as_str y \<longleftrightarrow> x = y"
  by (cases x; cases y) simp_all

lemma cursor_name_eq [simp]: "cursor_as_str x = cursor_as_str y \<longleftrightarrow> x = y"
  by (cases x; cases y) simp_all

interpretation submitted: outcome_counter "''keeper_tx_submitted_total''" "''outcome''" tx_submit_as_str
  by unfold_locales simp

interpretation confirmed: outcome_counter "''keeper_tx_confirmed_total''" "''outcome''" tx_confirm_as_str
  by unfold_locales simp

interpretation skipped: outcome_counter "''liquidator_skip_total''" "''reason''" skip_as_str
  by unfold_locales simp

interpretation bad_debts: outcome_counter "''bad_debt_outcome_total''" "''outcome''" bad_debt_as_str
  by unfold_locales simp

interpretation balances: outcome_counter "''balancer_outcome_total''" "''outcome''" balancer_as_str
  by unfold_locales simp

interpretation withdrawals: outcome_counter "''withdrawer_outcome_total''" "''outcome''" withdrawer_as_str
  by unfold_locales simp

interpretation cursors: outcome_counter "''keeper_cursor_save_failures_total''" "''source''" cursor_as_str
  by unfold_locales simp

text \<open>Each skip is counted under its reason and under no other.\<close>

lemma skips_counted:
  "counters (fold record_skip rs reg) (''liquidator_skip_total'', [(''reason'', skip_as_str r)]) =
     counters reg (''liquidator_skip_total'', [(''reason'', skip_as_str r)]) + of_nat (count_list rs r)"
  using skipped.counted [of rs reg r] by (simp add: skipped.series_of_def record_skip_def [abs_def])

section \<open>The keeper's own position\<close>

text \<open>The series of a pool's positions: two pools of one market never share one, whatever their symbols.\<close>

lemma gauges_set_keeper_deposit:
  "gauges (set_keeper_deposit F market pool symbol shares plain underlying reg) (name, position_labels market' pool' symbol') =
     (if market = market' \<and> pool = pool' \<and> symbol = symbol' then
        if name = ''liquidator_self_j_tokens_underlying'' then Some (F underlying)
        else if name = ''liquidator_self_plain_collateral'' then Some (F plain)
        else if name = ''liquidator_self_j_tokens'' then Some (F shares)
        else gauges reg (name, position_labels market' pool' symbol')
      else gauges reg (name, position_labels market' pool' symbol'))"
  by (auto simp: set_keeper_deposit_def set_gauge_def position_labels_def Let_def)

lemma gauges_set_keeper_borrow:
  "gauges (set_keeper_borrow F market pool symbol shares underlying reg) (name, position_labels market' pool' symbol') =
     (if market = market' \<and> pool = pool' \<and> symbol = symbol' then
        if name = ''liquidator_self_d_tokens_underlying'' then Some (F underlying)
        else if name = ''liquidator_self_d_tokens'' then Some (F shares)
        else gauges reg (name, position_labels market' pool' symbol')
      else gauges reg (name, position_labels market' pool' symbol'))"
  by (auto simp: set_keeper_borrow_def set_gauge_def position_labels_def Let_def)

lemmas position_gauges = gauges_set_keeper_deposit gauges_set_keeper_borrow

lemma emit_keeper_deposits_frame:
  "emit_keeper_deposits F market ps ds reg = Ok reg' \<Longrightarrow> pool \<notin> dp_pool_address ` set ds \<Longrightarrow>
   gauges reg' (name, position_labels market pool symbol) = gauges reg (name, position_labels market pool symbol)"
proof (induction ds arbitrary: reg)
  case (Cons dep ds)
  show ?case
  proof (cases "find_pool ps (dp_pool_address dep)")
    case None
    with Cons show ?thesis by simp
  next
    case (Some p)
    then have "pool_address p = dp_pool_address dep" by (blast dest: find_pool_SomeD)
    with Some Cons show ?thesis by (auto simp: bindr_eq_Ok_iff position_gauges)
  qed
qed simp

lemma emit_keeper_borrows_frame:
  "emit_keeper_borrows F market ps bs reg = Ok reg' \<Longrightarrow>
   pool \<notin> bp_pool_address ` set bs \<or>
     name \<notin> {''liquidator_self_d_tokens_underlying'', ''liquidator_self_d_tokens''} \<Longrightarrow>
   gauges reg' (name, position_labels market pool symbol) = gauges reg (name, position_labels market pool symbol)"
proof (induction bs arbitrary: reg)
  case (Cons b bs)
  show ?case
  proof (cases "find_pool ps (bp_pool_address b)")
    case None
    with Cons show ?thesis by auto
  next
    case (Some p)
    then have "pool_address p = bp_pool_address b" by (blast dest: find_pool_SomeD)
    with Some Cons show ?thesis by (auto simp: bindr_eq_Ok_iff position_gauges)
  qed
qed simp

lemma emit_keeper_deposits_published:
  "emit_keeper_deposits F market ps ds reg = Ok reg' \<Longrightarrow> distinct (map dp_pool_address ds) \<Longrightarrow> dep \<in> set ds \<Longrightarrow>
   find_pool ps (dp_pool_address dep) = Some pool \<Longrightarrow>
   j_tokens_to_tokens_floor pool (j_tokens dep) = Ok u \<Longrightarrow>
   (let labels = position_labels market (dp_pool_address dep) (token_symbol pool) in
    gauges reg' (''liquidator_self_j_tokens'', labels) = Some (F (j_tokens dep)) \<and>
    gauges reg' (''liquidator_self_plain_collateral'', labels) = Some (F (collateral dep)) \<and>
    gauges reg' (''liquidator_self_j_tokens_underlying'', labels) = Some (F u))"
proof (induction ds arbitrary: reg)
  case (Cons d ds)
  show ?case
  proof (cases "d = dep")
    case True
    with Cons.prems find_pool_SomeD [OF Cons.prems(4)] show ?thesis
      by (auto simp: Let_def emit_keeper_deposits_frame position_gauges)
  next
    case False
    with Cons show ?thesis by (auto simp: bindr_eq_Ok_iff split: option.splits)
  qed
qed simp

lemma emit_keeper_borrows_published:
  "emit_keeper_borrows F market ps bs reg = Ok reg' \<Longrightarrow> distinct (map bp_pool_address bs) \<Longrightarrow> b \<in> set bs \<Longrightarrow>
   find_pool ps (bp_pool_address b) = Some pool \<Longrightarrow>
   d_tokens_to_tokens_ceil pool (d_tokens b) = Ok u \<Longrightarrow>
   (let labels = position_labels market (bp_pool_address b) (token_symbol pool) in
    gauges reg' (''liquidator_self_d_tokens'', labels) = Some (F (d_tokens b)) \<and>
    gauges reg' (''liquidator_self_d_tokens_underlying'', labels) = Some (F u))"
proof (induction bs arbitrary: reg)
  case (Cons d bs)
  show ?case
  proof (cases "d = b")
    case True
    with Cons.prems find_pool_SomeD [OF Cons.prems(4)] show ?thesis
      by (auto simp: Let_def emit_keeper_borrows_frame position_gauges)
  next
    case False
    with Cons show ?thesis by (auto simp: bindr_eq_Ok_iff split: option.splits)
  qed
qed simp

text \<open>A well-formed pool converts without an abort, so the report of a position never takes the keeper
  down.\<close>

lemma or_default_returns: "m \<noteq> Panic \<Longrightarrow> \<exists>v. or_default d m = Ok v"
  by (cases m) auto

lemma priced_conversions_return:
  assumes "list_all wf_pool ps" "find_pool ps a = Some pool"
  shows "\<exists>v. or_default 0 (j_tokens_to_tokens_floor pool x) = Ok v"
    and "\<exists>v. or_default 0 (d_tokens_to_tokens_ceil pool y) = Ok v"
proof -
  have "wf_pool pool" using assms find_pool_SomeD by (auto simp: list_all_iff)
  then show "\<exists>v. or_default 0 (j_tokens_to_tokens_floor pool x) = Ok v"
    and "\<exists>v. or_default 0 (d_tokens_to_tokens_ceil pool y) = Ok v"
    by (simp_all add: or_default_returns wf_pool_abort_free)
qed

lemma emit_keeper_deposits_returns:
  "list_all wf_pool ps \<Longrightarrow> \<exists>reg'. emit_keeper_deposits F market ps ds reg = Ok reg'"
proof (induction ds arbitrary: reg)
  case (Cons dep ds)
  show ?case
  proof (cases "find_pool ps (dp_pool_address dep)")
    case (Some pool)
    then obtain v where "or_default 0 (j_tokens_to_tokens_floor pool (j_tokens dep)) = (Ok v :: (unit, _) outcome)"
      using priced_conversions_return(1) [OF Cons.prems] by blast
    with Some Cons show ?thesis by simp
  qed (use Cons in simp)
qed simp

lemma emit_keeper_borrows_returns:
  "list_all wf_pool ps \<Longrightarrow> \<exists>reg'. emit_keeper_borrows F market ps bs reg = Ok reg'"
proof (induction bs arbitrary: reg)
  case (Cons b bs)
  show ?case
  proof (cases "find_pool ps (bp_pool_address b)")
    case (Some pool)
    then obtain v where "or_default 0 (d_tokens_to_tokens_ceil pool (d_tokens b)) = (Ok v :: (unit, _) outcome)"
      using priced_conversions_return(2) [OF Cons.prems] by blast
    with Some Cons show ?thesis by simp
  qed (use Cons in simp)
qed simp

text \<open>The report of the keeper's own position returns, and where the obligation holds at most one deposit
  per pool each deposit in a priced pool is published with its shares, its plain collateral and the
  value its shares redeem for.\<close>

lemma keeper_deposits_reported:
  assumes "list_all wf_pool (pools_data md)" "distinct (map dp_pool_address (deposits ob))"
    and "dep \<in> set (deposits ob)" "find_pool (pools_data md) (dp_pool_address dep) = Some pool"
    and "j_tokens_to_tokens_floor pool (j_tokens dep) = Ok u"
  shows "\<exists>reg'. emit_keeper_position_metrics F market ob md reg = Ok reg' \<and>
    (let labels = position_labels market (dp_pool_address dep) (token_symbol pool) in
     gauges reg' (''liquidator_self_j_tokens'', labels) = Some (F (j_tokens dep)) \<and>
     gauges reg' (''liquidator_self_plain_collateral'', labels) = Some (F (collateral dep)) \<and>
     gauges reg' (''liquidator_self_j_tokens_underlying'', labels) = Some (F u))"
proof -
  obtain r1 where r1: "emit_keeper_deposits F market (pools_data md) (deposits ob) reg = Ok r1"
    using emit_keeper_deposits_returns [OF assms(1)] by blast
  obtain r2 where r2: "emit_keeper_borrows F market (pools_data md) (borrows ob) r1 = Ok r2"
    using emit_keeper_borrows_returns [OF assms(1)] by blast
  show ?thesis
    using emit_keeper_deposits_published [OF r1 assms(2-5)] emit_keeper_borrows_frame [OF r2]
    by (simp add: emit_keeper_position_metrics_def r1 r2 Let_def)
qed

lemma keeper_borrows_reported:
  assumes "list_all wf_pool (pools_data md)" "distinct (map bp_pool_address (borrows ob))"
    and "b \<in> set (borrows ob)" "find_pool (pools_data md) (bp_pool_address b) = Some pool"
    and "d_tokens_to_tokens_ceil pool (d_tokens b) = Ok u"
  shows "\<exists>reg'. emit_keeper_position_metrics F market ob md reg = Ok reg' \<and>
    (let labels = position_labels market (bp_pool_address b) (token_symbol pool) in
     gauges reg' (''liquidator_self_d_tokens'', labels) = Some (F (d_tokens b)) \<and>
     gauges reg' (''liquidator_self_d_tokens_underlying'', labels) = Some (F u))"
proof -
  obtain r1 where r1: "emit_keeper_deposits F market (pools_data md) (deposits ob) reg = Ok r1"
    using emit_keeper_deposits_returns [OF assms(1)] by blast
  obtain r2 where r2: "emit_keeper_borrows F market (pools_data md) (borrows ob) r1 = Ok r2"
    using emit_keeper_borrows_returns [OF assms(1)] by blast
  show ?thesis
    using emit_keeper_borrows_published [OF r2 assms(2-5)] by (simp add: emit_keeper_position_metrics_def r1 r2)
qed

section \<open>Reports and what they report on\<close>

lemma as_i64_small: "n < 2 ^ 63 \<Longrightarrow> as_i64 n = int n"
  by (simp add: as_i64_def signed_of_nat signed_take_bit_int_eq_self)

lemma tick_of_report:
  "last_scan_tick_unix (report_scan F (Some n) s now market secs reg) = as_i64 n"
  by (simp add: report_scan_def record_scan_def mark_tick_def set_gauge_def Let_def case_prod_beta)

lemma warranted_liquidatable: "warranted s G market md e a \<Longrightarrow> found_liquidatable s md e"
  by (simp add: warranted_def eligible_def found_liquidatable_def judged_def)

lemma subseq_length_filter:
  assumes "subseq fs obs" "list_all P fs"
  shows "length fs \<le> length (filter P obs)"
proof -
  have "subseq (filter P fs) (filter P obs)" using assms(1) by (rule subseq_filter)
  moreover have "filter P fs = fs" using assms(2) by (simp add: list_all_iff filter_id_conv)
  ultimately show ?thesis by (metis list_emb_length)
qed

lemma scan_length:
  assumes "evaluate_market s L G market w = Some (as, w')"
  shows "length as \<le> snd (scan_counts s market)"
proof (cases "as = []")
  case False
  with assms obtain snapshot obs w1 where
    m: "hm_get (lq_market_data s) market = Some snapshot" "hm_get (lq_obligations s) market = Some obs" and
    sc: "scan_obligations s L G market (snap_data snapshot) obs w1 = Some (as, w')"
    by (auto simp: evaluate_market_def split: option.splits if_splits)
  from scan_obligations_actions [OF sc] obtain fs where
    f: "length fs = length as" "list_all2 (warranted s G market (snap_data snapshot)) fs as" "subseq fs obs" by blast
  have "list_all (found_liquidatable s (snap_data snapshot)) fs"
    using f(2) warranted_liquidatable by (induction rule: list_all2_induct) (simp_all, blast)
  from subseq_length_filter [OF f(3) this] show ?thesis using f(1) m by (simp add: scan_counts_def)
qed simp

lemma scan_counts_le: "snd (scan_counts s market) \<le> fst (scan_counts s market)"
proof -
  have "length (filter (found_liquidatable s md) obs) \<le> length (filter (judged s md) obs)" for md obs
    by (induction obs) (auto simp: found_liquidatable_def)
  then show ?thesis by (simp add: scan_counts_def split: option.splits)
qed

section \<open>Properties\<close>

text \<open>C38. A scan's report is true and keeps the probe alive: a scan reported as anything but ok yields no
  action; it yields at most as many actions as it reports liquidatable obligations, which are at most
  those it reports as judged; and after the report \<open>/readyz\<close> answers ready exactly as long as no more
  than the budget has passed since, also when the clock is set back.\<close>

theorem scan_report_truthful:
  assumes "evaluate_market s L G market w = Some (as, w')"
    and "scan_counts s market = (checked, liquidatable)" "0 < n" "n < 2 ^ 63" "m < 2 ^ 63"
  shows "(scan_outcome_of s (instant w) market \<noteq> ScanOk \<longrightarrow> as = []) \<and>
    length as \<le> liquidatable \<and> liquidatable \<le> checked \<and>
    (readyz_handler budget (Some m) (report_scan F (Some n) s (instant w) market secs reg) = (200, ''ready'') \<longleftrightarrow>
     int m - int n \<le> ready_budget budget)"
proof -
  have "as = []" if "scan_outcome_of s (instant w) market \<noteq> ScanOk"
    using assms(1) that by (auto simp: evaluate_market_def scan_outcome_of_def split: option.splits if_splits)
  moreover have "saturating_sub_i64 (int m) (int n) = int m - int n"
    using assms(4,5) by (simp add: saturating_sub_i64_def)
  then have "readyz_handler budget (Some m) (report_scan F (Some n) s (instant w) market secs reg) = (200, ''ready'') \<longleftrightarrow>
     int m - int n \<le> ready_budget budget"
    using assms(3-5) by (simp add: readyz_handler_def tick_of_report as_i64_small readiness_state_def)
  ultimately show ?thesis
    using scan_length [OF assms(1)] scan_counts_le [of s market] assms(2) by simp
qed

theorem scan_report_truthful_witness:
  "\<exists>w checked liquidatable. evaluate_market example_liquidator example_ledger example_gateway ''M'' example_world =
     Some ([example_action], w) \<and> scan_counts example_liquidator ''M'' = (checked, liquidatable) \<and>
     1 \<le> liquidatable \<and> liquidatable \<le> checked \<and>
     readyz_handler 120 (Some 1120) (report_scan id (Some 1000) example_liquidator (instant example_world) ''M'' 1
       \<lparr>counters = (\<lambda>k. 0), gauges = Map.empty, histograms = (\<lambda>k. []), last_scan_tick_unix = 0\<rparr>) = (200, ''ready'')"
proof -
  obtain w where e: "evaluate_market example_liquidator example_ledger example_gateway ''M'' example_world =
     Some ([example_action], w)" using example_evaluate by blast
  obtain c l where c: "scan_counts example_liquidator ''M'' = (c, l)" by fastforce
  from scan_report_truthful [OF e c, of 1000 1120 120 id 1
      "\<lparr>counters = (\<lambda>k. 0), gauges = Map.empty, histograms = (\<lambda>k. []), last_scan_tick_unix = 0\<rparr>"] e c
  show ?thesis by (simp add: ready_budget_def)
qed

text \<open>C39. Profit is booked exactly when it is realised: by the confirmation of an action the total of a
  market grows by the expected net value of the liquidation, cut at zero and taken modulo \<open>2 ^ 64\<close>, if
  the hash was decoded, the network confirmed it and the action was a liquidation in that market, and
  by nothing otherwise.\<close>

theorem realised_profit_exact:
  "counters (report_confirm F (fst (confirmation_poll net P hash_hex hook w)) hook reg)
      (''liquidator_plan_realised_net_profit_oracle_units_total'', [(''market'', market)]) =
    counters reg (''liquidator_plan_realised_net_profit_oracle_units_total'', [(''market'', market)]) +
    (case hook of
       None \<Rightarrow> 0
     | Some h \<Rightarrow>
         (case liquidation_outcome h of
            None \<Rightarrow> 0
          | Some (m, v) \<Rightarrow>
              if m = market \<and> (\<exists>b u. hex_decode P hash_hex = Inr b \<and> length b = 32 \<and>
                   fst (get_transaction_polling net b w) = Inr u)
              then word_of_int (max v 0) else 0))"
proof -
  have "fst (confirmation_poll net P hash_hex hook w) = Confirmed \<longleftrightarrow> (\<exists>b u. hex_decode P hash_hex = Inr b \<and> length b = 32 \<and>
      fst (get_transaction_polling net b w) = Inr u)"
    by (auto simp: confirmation_poll_def confirm_failure_def split: sum.splits option.splits if_splits prod.splits
        soroban_rpc_error.splits)
  then show ?thesis
    by (auto simp: report_confirm_def record_realised_profit_def record_tx_confirm_def increment_def observe_def Let_def
        split: option.splits)
qed

end
