(* ===== verification/Metrics_Catalog.thy ===== *)
theory Metrics_Catalog
  imports Metrics
begin

text \<open>
  The catalog of \<^verbatim>\<open>keeper/src/metrics/catalog.rs\<close>: the names and label keys it declares, the metadata
  \<open>describe_all\<close> registers, the recorder's buckets and the routes of \<^verbatim>\<open>mod.rs\<close>.  The catalog calls itself the
  single source of truth for every series: what the emitters write is checked against it.
\<close>

section \<open>Names\<close>

definition metric_names :: "string list" where
  "metric_names = [
     ''engine_strategy_lagged_events_total'', ''engine_executor_lagged_actions_total'',
     ''keeper_collector_lagged_events_total'', ''keeper_cursor_save_failures_total'',
     ''keeper_tx_bad_seq_retries_total'', ''keeper_tx_submitted_total'',
     ''keeper_tx_confirmed_total'', ''keeper_simulation_total'',
     ''keeper_rpc_simulate_failures_total'', ''keeper_rpc_simulate_duration_seconds'',
     ''keeper_build_info'', ''keeper_start_time_seconds'',
     ''liquidator_scan_completed_total'', ''liquidator_market_scan_duration_seconds'',
     ''liquidator_skip_total'', ''liquidator_unpriced_pool_skips_total'',
     ''liquidator_snapshot_unavailable_pools'', ''liquidator_liquidation_plans_dispatched_total'',
     ''liquidator_obligations_total'', ''liquidator_liquidatable_positions'',
     ''liquidator_last_successful_scan_timestamp_seconds'', ''liquidator_plan_expected_net_profit_oracle_units'',
     ''liquidator_plan_expected_net_profit_oracle_units_total'', ''liquidator_plan_realised_net_profit_oracle_units'',
     ''liquidator_plan_realised_net_profit_oracle_units_total'', ''liquidator_asset_balance'',
     ''liquidator_xlm_balance_stroops'', ''liquidator_xlm_safety_margin_stroops'',
     ''liquidator_self_j_tokens'', ''liquidator_self_plain_collateral'',
     ''liquidator_self_j_tokens_underlying'', ''liquidator_self_d_tokens'',
     ''liquidator_self_d_tokens_underlying'', ''balancer_outcome_total'',
     ''balancer_dispatched_swap_value_cents'', ''balancer_realised_swap_price_scaled'',
     ''balancer_swap_price_impact_bps'', ''withdrawer_outcome_total'',
     ''bad_debt_outcome_total'']"

definition label_names :: "string list" where
  "label_names = [''outcome'', ''reason'', ''market'', ''call'', ''kind'', ''function'', ''source'', ''collector'', ''type'',
     ''token_address'', ''pool_address'', ''token_symbol'', ''asset'', ''admitted'']"

section \<open>Descriptions\<close>

datatype metric_kind = Counter | Gauge | Histogram

datatype metric_unit = UnitSeconds

record description =
  d_kind :: metric_kind
  d_name :: string
  d_unit :: "metric_unit option"
  d_help :: string

definition describe :: "metric_kind \<Rightarrow> string \<Rightarrow> metric_unit option \<Rightarrow> string \<Rightarrow> description" where
  "describe kind name u help = \<lparr>d_kind = kind, d_name = name, d_unit = u, d_help = help\<rparr>"

definition describe_all :: "description list" where
  "describe_all = [
     describe Counter ''engine_strategy_lagged_events_total'' None
       ''Events dropped because the strategy stage could not keep up with the broadcast channel.'',
     describe Counter ''engine_executor_lagged_actions_total'' None
       ''Actions dropped because the executor stage could not keep up with the broadcast channel.'',
     describe Counter ''keeper_collector_lagged_events_total'' None
       ''Events a collector dropped on its outbound channel to the reactor, by collector.'',
     describe Counter ''keeper_cursor_save_failures_total'' None
       ''Soroban event-cursor writes to SQLite that failed, by source.'',
     describe Counter ''keeper_tx_bad_seq_retries_total'' None
       ''Transaction retries triggered by a stale local sequence number.'',
     describe Counter ''keeper_tx_submitted_total'' None
       ''Transaction submission attempts by terminal outcome.'',
     describe Counter ''keeper_tx_confirmed_total'' None
       ''Submitted transactions by on-chain confirmation outcome.'',
     describe Counter ''keeper_simulation_total'' None
       ''Higher-level contract-call simulations by call and verdict.'',
     describe Counter ''keeper_rpc_simulate_failures_total'' None
       ''Failed RPC simulate_transaction calls by contract function and failure layer.'',
     describe Histogram ''keeper_rpc_simulate_duration_seconds'' (Some UnitSeconds)
       ''RPC simulate_transaction roundtrip latency by function and outcome.'',
     describe Gauge ''keeper_build_info'' None
       ''Build provenance identity series (always 1); version and commit in labels.'',
     describe Gauge ''keeper_start_time_seconds'' (Some UnitSeconds)
       ''Unix time the process started; subtract from time() for uptime.'',
     describe Counter ''liquidator_scan_completed_total'' None
       ''Completed market scans by market and verdict.'',
     describe Histogram ''liquidator_market_scan_duration_seconds'' (Some UnitSeconds)
       ''Wall-clock time to evaluate one market end-to-end, by market and verdict.'',
     describe Counter ''liquidator_skip_total'' None
       ''Liquidation opportunities the strategy declined to act on, by reason.'',
     describe Counter ''liquidator_unpriced_pool_skips_total'' None
       ''Obligation evaluations blocked by a pool the snapshot could not price, by market and pool. One increment per blocking pool, so an obligation touching several is counted once here per pool and once in total on liquidator_skip_total.'',
     describe Gauge ''liquidator_snapshot_unavailable_pools'' None
       ''Pools the market snapshot in use could not read, by market. Non-zero means decisions come from a partial rebuild; obligations touching those pools are skipped.'',
     describe Counter ''liquidator_liquidation_plans_dispatched_total'' None
       ''Liquidation plans handed to the executor, by market and execution mode.'',
     describe Gauge ''liquidator_obligations_total'' None
       ''Borrower obligations modelled per market.'',
     describe Gauge ''liquidator_liquidatable_positions'' None
       ''Obligations currently flagged liquidatable per market.'',
     describe Gauge ''liquidator_last_successful_scan_timestamp_seconds'' (Some UnitSeconds)
       ''Unix time of the last successful scan per market; a liveness gauge.'',
     describe Histogram ''liquidator_plan_expected_net_profit_oracle_units'' None
       ''Modelled net profit per dispatched plan in oracle-price units, by market.'',
     describe Counter ''liquidator_plan_expected_net_profit_oracle_units_total'' None
       ''Running total of modelled net profit in oracle-price units, by market.'',
     describe Histogram ''liquidator_plan_realised_net_profit_oracle_units'' None
       ''Net profit of on-chain-confirmed plans in oracle-price units, by market.'',
     describe Counter ''liquidator_plan_realised_net_profit_oracle_units_total'' None
       ''Running total of realised net profit in oracle-price units, by market.'',
     describe Gauge ''liquidator_asset_balance'' None
       ''On-chain wallet balance held by the keeper, by token address.'',
     describe Gauge ''liquidator_xlm_balance_stroops'' None
       ''Keeper XLM wallet balance in stroops.'',
     describe Gauge ''liquidator_xlm_safety_margin_stroops'' None
       ''Configured XLM safety-margin floor in stroops.'',
     describe Gauge ''liquidator_self_j_tokens'' None
       ''Keeper's own jToken supply, by pool.'',
     describe Gauge ''liquidator_self_plain_collateral'' None
       ''Keeper's own plain collateral, by pool.'',
     describe Gauge ''liquidator_self_j_tokens_underlying'' None
       ''Keeper's own jToken supply valued in underlying, by pool.'',
     describe Gauge ''liquidator_self_d_tokens'' None
       ''Keeper's own dToken borrow, by pool.'',
     describe Gauge ''liquidator_self_d_tokens_underlying'' None
       ''Keeper's own dToken borrow valued in underlying, by pool.'',
     describe Counter ''balancer_outcome_total'' None
       ''Rebalancer per-candidate verdicts.'',
     describe Histogram ''balancer_dispatched_swap_value_cents'' None
       ''USD-cent value of swaps the rebalancer actually emitted.'',
     describe Histogram ''balancer_realised_swap_price_scaled'' None
       ''Realised execution price of a winning swap route (oracle-scaled), by asset.'',
     describe Histogram ''balancer_swap_price_impact_bps'' None
       ''Oracle-vs-DEX price impact per probe in bps, by asset and admission verdict.'',
     describe Counter ''withdrawer_outcome_total'' None
       ''Withdrawer per-position verdicts.'',
     describe Counter ''bad_debt_outcome_total'' None
       ''Bad-debt initiator per-liquidation-event verdicts.'']"

section \<open>The recorder and the server\<close>

text \<open>The buckets in thousandths of a second, and the series they are set for.\<close>

definition LATENCY_BUCKETS :: "nat list" where
  "LATENCY_BUCKETS = [5, 10, 25, 50, 100, 250, 500, 1000, 2500, 5000, 7500, 10000]"

definition buckets_for :: "string \<Rightarrow> nat list option" where
  "buckets_for name = (if suffix ''_seconds'' name then Some LATENCY_BUCKETS else None)"

text \<open>The routes of \<open>serve\<close>; the router answers any other path with 404.  \<open>render\<close> is the exporter.\<close>

definition serve_route ::
  "('f registry \<Rightarrow> string) \<Rightarrow> nat \<Rightarrow> nat option \<Rightarrow> 'f registry \<Rightarrow> string \<Rightarrow> nat \<times> string" where
  "serve_route render budget clock reg path =
     (if path = ''/metrics'' then (200, render reg)
      else if path = ''/healthz'' then (200, healthz_handler)
      else if path = ''/readyz'' then readyz_handler budget clock reg
      else (404, []))"

section \<open>Emission\<close>

text \<open>The two series of the engine, which writes them past the catalog.\<close>

definition record_strategy_lag :: "64 word \<Rightarrow> 'f registry \<Rightarrow> 'f registry" where
  "record_strategy_lag n = increment (''engine_strategy_lagged_events_total'', []) n"

definition record_executor_lag :: "64 word \<Rightarrow> 'f registry \<Rightarrow> 'f registry" where
  "record_executor_lag n = increment (''engine_executor_lagged_actions_total'', []) n"

text \<open>A call of one of the emitters.\<close>

inductive emits :: "(int \<Rightarrow> 'f) \<Rightarrow> 'f registry \<Rightarrow> 'f registry \<Rightarrow> bool" for F where
  "emits F reg (record_strategy_lag n reg)"
| "emits F reg (record_executor_lag n reg)"
| "emits F reg (record_tx_submit ts reg)"
| "emits F reg (record_tx_confirm tc reg)"
| "emits F reg (record_skip reason reg)"
| "emits F reg (record_unpriced_pool_skip market pool reg)"
| "emits F reg (set_snapshot_unavailable_pools F market count reg)"
| "emits F reg (record_bad_debt bd reg)"
| "emits F reg (record_balancer bl reg)"
| "emits F reg (record_withdrawer wd reg)"
| "emits F reg (record_cursor_failure source reg)"
| "emits F reg (record_tx_bad_seq_retry reg)"
| "emits F reg (record_collector_lag collector n reg)"
| "emits F reg (record_simulation called sim reg)"
| "emits F reg (record_rpc_simulate_duration function so secs reg)"
| "emits F reg (record_rpc_simulate_failure function kind reg)"
| "emits F reg (record_scan F clock market scan secs reg)"
| "emits F reg (set_scan_counts F market checked liquidatable reg)"
| "emits F reg (record_plan_dispatched market plan_kind reg)"
| "emits F reg (record_expected_profit F market net reg)"
| "emits F reg (record_realised_profit F market net reg)"
| "emits F reg (set_asset_balance F token amount reg)"
| "emits F reg (set_xlm_balance F stroops reg)"
| "emits F reg (set_xlm_safety_margin F stroops reg)"
| "emits F reg (set_keeper_deposit F market pool symbol shares plain underlying reg)"
| "emits F reg (set_keeper_borrow F market pool symbol shares underlying reg)"
| "emits F reg (record_balancer_dispatched_value F cents reg)"
| "emits F reg (record_balancer_realised_price F asset price reg)"
| "emits F reg (record_balancer_price_impact F asset admitted bps reg)"
| "emits F reg (emit_build_info F version sha start reg)"

definition fresh_registry :: "'f registry" where
  "fresh_registry = \<lparr>counters = (\<lambda>k. 0), gauges = Map.empty, histograms = (\<lambda>k. []), last_scan_tick_unix = 0\<rparr>"

text \<open>The series that have a value.\<close>

definition exposed :: "'f registry \<Rightarrow> metric_kind \<Rightarrow> series \<Rightarrow> bool" where
  "exposed reg kind k \<longleftrightarrow>
     (case kind of
        Counter \<Rightarrow> counters reg k \<noteq> 0
      | Gauge \<Rightarrow> gauges reg k \<noteq> None
      | Histogram \<Rightarrow> histograms reg k \<noteq> [])"

section \<open>The label keys of a series\<close>

definition label_keys :: "((metric_kind \<times> string) \<times> string list) list" where
  "label_keys = [
     ((Counter, ''engine_strategy_lagged_events_total''), []),
     ((Counter, ''engine_executor_lagged_actions_total''), []),
     ((Counter, ''keeper_collector_lagged_events_total''), [''collector'']),
     ((Counter, ''keeper_cursor_save_failures_total''), [''source'']),
     ((Counter, ''keeper_tx_bad_seq_retries_total''), []),
     ((Counter, ''keeper_tx_submitted_total''), [''outcome'']),
     ((Counter, ''keeper_tx_confirmed_total''), [''outcome'']),
     ((Counter, ''keeper_simulation_total''), [''call'', ''outcome'']),
     ((Counter, ''keeper_rpc_simulate_failures_total''), [''function'', ''kind'']),
     ((Histogram, ''keeper_rpc_simulate_duration_seconds''), [''function'', ''outcome'']),
     ((Gauge, ''keeper_build_info''), [''version'', ''commit'']),
     ((Gauge, ''keeper_start_time_seconds''), []),
     ((Counter, ''liquidator_scan_completed_total''), [''market'', ''outcome'']),
     ((Histogram, ''liquidator_market_scan_duration_seconds''), [''market'', ''outcome'']),
     ((Counter, ''liquidator_skip_total''), [''reason'']),
     ((Counter, ''liquidator_unpriced_pool_skips_total''), [''market'', ''pool_address'']),
     ((Gauge, ''liquidator_snapshot_unavailable_pools''), [''market'']),
     ((Counter, ''liquidator_liquidation_plans_dispatched_total''), [''market'', ''type'']),
     ((Gauge, ''liquidator_obligations_total''), [''market'']),
     ((Gauge, ''liquidator_liquidatable_positions''), [''market'']),
     ((Gauge, ''liquidator_last_successful_scan_timestamp_seconds''), [''market'']),
     ((Histogram, ''liquidator_plan_expected_net_profit_oracle_units''), [''market'']),
     ((Counter, ''liquidator_plan_expected_net_profit_oracle_units_total''), [''market'']),
     ((Histogram, ''liquidator_plan_realised_net_profit_oracle_units''), [''market'']),
     ((Counter, ''liquidator_plan_realised_net_profit_oracle_units_total''), [''market'']),
     ((Gauge, ''liquidator_asset_balance''), [''token_address'']),
     ((Gauge, ''liquidator_xlm_balance_stroops''), []),
     ((Gauge, ''liquidator_xlm_safety_margin_stroops''), []),
     ((Gauge, ''liquidator_self_j_tokens''), [''market'', ''pool_address'', ''token_symbol'']),
     ((Gauge, ''liquidator_self_plain_collateral''), [''market'', ''pool_address'', ''token_symbol'']),
     ((Gauge, ''liquidator_self_j_tokens_underlying''), [''market'', ''pool_address'', ''token_symbol'']),
     ((Gauge, ''liquidator_self_d_tokens''), [''market'', ''pool_address'', ''token_symbol'']),
     ((Gauge, ''liquidator_self_d_tokens_underlying''), [''market'', ''pool_address'', ''token_symbol'']),
     ((Counter, ''balancer_outcome_total''), [''outcome'']),
     ((Histogram, ''balancer_dispatched_swap_value_cents''), []),
     ((Histogram, ''balancer_realised_swap_price_scaled''), [''asset'']),
     ((Histogram, ''balancer_swap_price_impact_bps''), [''asset'', ''admitted'']),
     ((Counter, ''withdrawer_outcome_total''), [''outcome'']),
     ((Counter, ''bad_debt_outcome_total''), [''outcome''])]"

definition fits :: "metric_kind \<Rightarrow> series \<Rightarrow> bool" where
  "fits kind k \<longleftrightarrow> map_of label_keys (kind, fst k) = Some (map fst (snd k))"

definition catalogued :: "'f registry \<Rightarrow> bool" where
  "catalogued reg \<longleftrightarrow> (\<forall>kind k. exposed reg kind k \<longrightarrow> fits kind k)"

lemma catalogued_fresh: "catalogued fresh_registry"
  by (auto simp: catalogued_def exposed_def fresh_registry_def split: metric_kind.splits)

lemma catalogued_increment: "catalogued reg \<Longrightarrow> fits Counter k \<Longrightarrow> catalogued (increment k n reg)"
  by (auto simp: catalogued_def exposed_def increment_def split: metric_kind.splits if_splits)

lemma catalogued_set_gauge: "catalogued reg \<Longrightarrow> fits Gauge k \<Longrightarrow> catalogued (set_gauge k v reg)"
  by (auto simp: catalogued_def exposed_def set_gauge_def split: metric_kind.splits if_splits)

lemma catalogued_observe: "catalogued reg \<Longrightarrow> fits Histogram k \<Longrightarrow> catalogued (observe k v reg)"
  by (auto simp: catalogued_def exposed_def observe_def split: metric_kind.splits if_splits)

lemma catalogued_mark_tick: "catalogued reg \<Longrightarrow> catalogued (mark_tick now reg)"
  by (simp add: catalogued_def exposed_def mark_tick_def cong: metric_kind.case_cong)

lemmas catalogued_writes = catalogued_increment catalogued_set_gauge catalogued_observe catalogued_mark_tick

lemmas emitter_defs = record_strategy_lag_def record_executor_lag_def record_tx_submit_def record_tx_confirm_def
  record_skip_def record_unpriced_pool_skip_def set_snapshot_unavailable_pools_def record_bad_debt_def
  record_balancer_def record_withdrawer_def record_cursor_failure_def record_tx_bad_seq_retry_def
  record_collector_lag_def record_simulation_def record_rpc_simulate_duration_def record_rpc_simulate_failure_def
  record_scan_def set_scan_counts_def record_plan_dispatched_def record_expected_profit_def
  record_realised_profit_def set_asset_balance_def set_xlm_balance_def set_xlm_safety_margin_def
  set_keeper_deposit_def set_keeper_borrow_def record_balancer_dispatched_value_def
  record_balancer_realised_price_def record_balancer_price_impact_def emit_build_info_def position_labels_def Let_def

lemma catalogued_emits:
  assumes "emits F reg reg'" "catalogued reg"
  shows "catalogued reg'"
  using assms
  by cases (simp_all add: emitter_defs catalogued_writes fits_def label_keys_def split: option.split)

lemma catalogued_emitted: "(emits F)\<^sup>*\<^sup>* fresh_registry reg \<Longrightarrow> catalogued reg"
  by (induction rule: rtranclp_induct) (simp_all add: catalogued_fresh catalogued_emits)

text \<open>The catalog against the keys.\<close>

lemma described_names:
  "map d_name describe_all = metric_names" "map (\<lambda>d. (d_kind d, d_name d)) describe_all = map fst label_keys"
  "distinct metric_names"
  by code_simp+

text \<open>All label keys are declared ones but the two of the build information.\<close>

lemma label_keys_declared:
  "list_all (\<lambda>(k, keys). list_all (\<lambda>key. key \<in> set label_names \<or> snd k = ''keeper_build_info'') keys) label_keys"
  by code_simp

lemma fits_described:
  assumes "fits kind k"
  shows "\<exists>d \<in> set describe_all. d_kind d = kind \<and> d_name d = fst k"
proof -
  have "(kind, fst k) \<in> set (map fst label_keys)"
    using assms by (auto simp: fits_def dest!: map_of_SomeD intro: rev_image_eqI)
  then show ?thesis unfolding described_names(2) [symmetric] by auto
qed

lemma fits_same_keys: "fits kind k \<Longrightarrow> fits kind k' \<Longrightarrow> fst k = fst k' \<Longrightarrow> map fst (snd k) = map fst (snd k')"
  by (simp add: fits_def)

section \<open>Properties\<close>

text \<open>C40. The catalog is the single source of truth: whatever sequence of emitters has run since the recorder
  was installed, every series with a value is described, under its name and its kind, exactly once;
  two series of one name carry the same label keys; every declared name is described; and latency
  buckets are set for exactly the histograms measured in seconds.\<close>

theorem exposed_series_described:
  assumes "(emits F)\<^sup>*\<^sup>* fresh_registry reg"
  shows "(\<forall>kind k. exposed reg kind k \<longrightarrow> (\<exists>!d. d \<in> set describe_all \<and> d_name d = fst k \<and> d_kind d = kind)) \<and>
    (\<forall>kind kind' k k'. exposed reg kind k \<and> exposed reg kind' k' \<and> fst k = fst k' \<longrightarrow>
       kind = kind' \<and> map fst (snd k) = map fst (snd k')) \<and>
    map d_name describe_all = metric_names \<and> distinct metric_names \<and>
    (\<forall>d \<in> set describe_all. d_kind d = Histogram \<longrightarrow>
       (buckets_for (d_name d) = Some LATENCY_BUCKETS \<longleftrightarrow> d_unit d = Some UnitSeconds))"
proof -
  have c: "fits kind k" if "exposed reg kind k" for kind k
    using catalogued_emitted [OF assms] that unfolding catalogued_def by blast
  have u: "d = d'" if "d \<in> set describe_all" "d' \<in> set describe_all" "d_name d = d_name d'" for d d'
    using that described_names(1,3) distinct_map [of d_name describe_all] by (metis inj_onD)
  have k: "kind = kind'" if "fits kind k" "fits kind' k'" "fst k = fst k'" for kind kind' k k'
    using fits_described [OF that(1)] fits_described [OF that(2)] that(3) u by metis
  have b: "list_all (\<lambda>d. d_kind d = Histogram \<longrightarrow>
      (buckets_for (d_name d) = Some LATENCY_BUCKETS \<longleftrightarrow> d_unit d = Some UnitSeconds)) describe_all" by code_simp
  have "\<exists>!d. d \<in> set describe_all \<and> d_name d = fst k \<and> d_kind d = kind" if e: "exposed reg kind k" for kind k
  proof -
    obtain d where d: "d \<in> set describe_all" "d_kind d = kind" "d_name d = fst k"
      using fits_described [OF c [OF e]] by blast
    show ?thesis
    proof (rule ex1I [of _ d])
      fix d' assume "d' \<in> set describe_all \<and> d_name d' = fst k \<and> d_kind d' = kind"
      then show "d' = d" by (intro u) (simp_all add: d)
    qed (simp add: d)
  qed
  moreover have "kind = kind' \<and> map fst (snd k) = map fst (snd k')"
    if "exposed reg kind k" "exposed reg kind' k'" "fst k = fst k'" for kind kind' k k'
    using k [OF c [OF that(1)] c [OF that(2)] that(3)] fits_same_keys [OF c [OF that(1)] _ that(3)] c [OF that(2)] by simp
  ultimately show ?thesis using described_names(1,3) b unfolding list_all_iff by blast
qed

theorem exposed_series_described_witness:
  "exposed (record_tx_submit SubmittedOk (fresh_registry :: int registry)) Counter
     (''keeper_tx_submitted_total'', [(''outcome'', ''ok'')]) \<and>
   (\<exists>!d. d \<in> set describe_all \<and> d_name d = ''keeper_tx_submitted_total'' \<and> d_kind d = Counter)"
proof -
  let ?reg = "record_tx_submit SubmittedOk (fresh_registry :: int registry)"
  have e: "exposed ?reg Counter (''keeper_tx_submitted_total'', [(''outcome'', ''ok'')])"
    by (simp add: exposed_def record_tx_submit_def increment_def fresh_registry_def)
  have "(emits id)\<^sup>*\<^sup>* fresh_registry ?reg" by (rule r_into_rtranclp) (rule emits.intros)
  from exposed_series_described [OF this] e show ?thesis by fastforce
qed

end
