(* ===== verification/Keeper_Process.thy ===== *)
theory Keeper_Process
  imports Keeper_System Engine_Tasks Metrics_Catalog
begin

text \<open>
  The process of \<^verbatim>\<open>keeper/src/main.rs\<close>: \<open>main\<close> runs the engine, the metrics server and the wait for a
  signal side by side and returns with the first of them that ends.  The tasks of the engine are those of
  theory \<open>Engine_Tasks\<close>, with the collectors and strategies the keeper registers.
\<close>

section \<open>The tasks of the keeper\<close>

text \<open>When the stream of a registered collector may end; each collector builds an RPC client of its own.\<close>

definition keeper_stream_ends ::
  "(nat \<Rightarrow> rpc_error + 'client) \<Rightarrow> 'w event_source \<Rightarrow> 'w store \<Rightarrow> keeper_engine \<Rightarrow> nat \<Rightarrow> bool" where
  "keeper_stream_ends clients S R E c \<longleftrightarrow> c < length (collectors E) \<and>
     (case collectors E ! c of
        EventPoll ids ec \<Rightarrow> \<exists>evs. event_stream_ends (clients c) S R ec evs
      | LedgerPoll lc \<Rightarrow> \<exists>evs. ledger_stream_ends (clients c) S lc evs)"

definition keeper_executes ::
  "'w ledger_reader \<Rightarrow> ('w, 'r, 'op) gateway \<Rightarrow> event_codec \<Rightarrow> 'w store \<Rightarrow> (nat \<Rightarrow> rpc_error + 'client) \<Rightarrow>
     'w event_source \<Rightarrow> keeper_engine \<Rightarrow> (keeper_event, 'op action, keeper_strategy) engine_tasks \<Rightarrow> bool" where
  "keeper_executes L G C R clients S E t \<longleftrightarrow>
     (\<exists>w ss w'. sync_strategies (keeper_sync L R) (strategies E) w = (Inr ss, w') \<and>
        engine_executes E (keeper_stream_ends clients S R E) (\<lambda>i. keeper_replies L G C R) ss t)"

section \<open>The end of the process\<close>

text \<open>\<open>run_engine\<close>: over when the engine could not be started, or when the first of its tasks is joined.\<close>

definition task_returned :: "('c, 's, 'x) engine \<Rightarrow> ('e, 'a, 's) engine_tasks \<Rightarrow> bool" where
  "task_returned E t \<longleftrightarrow>
     list_ex (\<lambda>c. \<not> collector_live t c) [0..<length (collectors E)] \<or>
     list_ex (\<lambda>i. \<not> strategy_live t i) [0..<length (strategies E)] \<or>
     list_ex (\<lambda>j. \<not> executor_live t j) [0..<length (executors E)]"

definition run_engine :: "('c, 's, 'x) engine \<Rightarrow> string + ('e, 'a, 's) engine_tasks \<Rightarrow> bool" where
  "run_engine E started_tasks \<longleftrightarrow>
     (case started_tasks of
        Inl e \<Rightarrow> True
      | Inr t \<Rightarrow> length (collectors E) + length (strategies E) + length (executors E) = 0 \<or> task_returned E t)"

text \<open>\<open>shutdown_future\<close>: Ctrl-C or SIGTERM.\<close>

definition shutdown_future :: "bool \<Rightarrow> bool \<Rightarrow> bool" where
  "shutdown_future ctrl_c terminate \<longleftrightarrow> ctrl_c \<or> terminate"

text \<open>What \<open>main\<close> waits for: \<open>server\<close> is the result of \<open>serve\<close> once there is one.\<close>

record ('e, 'a, 's) main_state =
  run_tasks :: "string + ('e, 'a, 's) engine_tasks"
  server :: "(string + unit) option"
  ctrl_c :: bool
  terminate :: bool

definition main_returns :: "('c, 's, 'x) engine \<Rightarrow> ('e, 'a, 's) main_state \<Rightarrow> bool" where
  "main_returns E p \<longleftrightarrow>
     run_engine E (run_tasks p) \<or> server p \<noteq> None \<or> shutdown_future (ctrl_c p) (terminate p)"

text \<open>What the registry holds when the engine starts.\<close>

definition startup_registry :: "(int \<Rightarrow> 'f) \<Rightarrow> string \<Rightarrow> string \<Rightarrow> 'f \<Rightarrow> cli_config \<Rightarrow> 'f registry" where
  "startup_registry F version sha start c =
     set_xlm_safety_margin F (cli_xlm_safety_margin c) (emit_build_info F version sha start fresh_registry)"

section \<open>Lemmas\<close>

lemma startup_emitted: "(emits F)\<^sup>*\<^sup>* fresh_registry (startup_registry F version sha start c)"
  unfolding startup_registry_def by (rule rtranclp.rtrancl_into_rtrancl [OF r_into_rtranclp]) (rule emits.intros)+

lemma keeper_executes_reaches: "keeper_executes L G C R clients S E t \<Longrightarrow> keeper_reaches L G C R E (engine t)"
  unfolding keeper_executes_def keeper_reaches_def using engine_executes_refines by blast

text \<open>The first task to return is a collector.\<close>

lemma first_returned_is_collector:
  assumes "engine_executes E ends answers ss t" "0 < length (collectors E)" "0 < length (strategies E)"
  shows "task_returned E t \<longleftrightarrow> (\<exists>c < length (collectors E). \<not> collector_live t c)"
proof -
  have o: "orderly (length (collectors E)) (length (strategies E)) (length (executors E)) t"
    using engine_executes_invariant [OF assms(1)] by blast
  then have s: "\<exists>c < length (collectors E). \<not> collector_live t c" if "i < length (strategies E)" "\<not> strategy_live t i" for i
    using that assms(2) unfolding orderly_def events_closed_def by blast
  moreover have "\<exists>c < length (collectors E). \<not> collector_live t c" if "j < length (executors E)" "\<not> executor_live t j" for j
    using o that s [OF assms(3)] assms(3) unfolding orderly_def actions_closed_def by blast
  ultimately show ?thesis by (auto simp: task_returned_def list_ex_iff)
qed

lemma keeper_stream_ends_assembled:
  assumes "\<forall>c < 2. \<exists>client. clients c = Inr client" "received_by_engine S"
    and "keeper_stream_ends clients S R (keeper_assemble pkey skey cli bl events) c"
  shows "c = 0 \<and> (\<exists>w e w1. get_events S (start_of events) w = (Inl e, w1) \<and> is_terminal_cursor_error e)"
proof -
  from assms(3) have "c < 2" by (simp add: keeper_stream_ends_def keeper_assemble_parts)
  then obtain client where k: "clients c = Inr client" using assms(1) by blast
  from \<open>c < 2\<close> consider "c = 0" | "c = 1" by linarith
  then show ?thesis
  proof cases
    case 1
    then obtain evs where "event_stream_ends (clients c) S R events evs"
      using assms(3) by (auto simp: keeper_stream_ends_def keeper_assemble_parts)
    then show ?thesis using event_stream_persists [OF assms(2)] 1 k by fastforce
  next
    case 2
    then show ?thesis
      using assms(3) k by (auto simp: keeper_stream_ends_def keeper_assemble_parts ledger_stream_persists [OF assms(2)])
  qed
qed

section \<open>Properties\<close>

text \<open>C30. The keeper stays up: once assembled, with an RPC client for each collector, \<open>main\<close> returns only when the
  metrics server has stopped, a signal has come, or the stream of contract events has ended, and the
  latter only because the very first request for events was refused for good.  Short of an abort, no
  later error of the network, of a strategy or of an execution takes it down.\<close>

theorem keeper_stays_up:
  assumes "keeper_main sources keys open_fault existing client cursor_fault = Ok (cap, E)"
    and "keeper_executes L G C R clients S E t" "received_by_engine S" "\<forall>c < 2. \<exists>client. clients c = Inr client"
  shows "\<exists>ids events. collectors E ! 0 = EventPoll ids events \<and>
    (main_returns E \<lparr>run_tasks = Inr t, server = sv, ctrl_c = ctrl, terminate = sigterm\<rparr> \<longleftrightarrow>
       sv \<noteq> None \<or> ctrl \<or> sigterm \<or> \<not> collector_live t 0) \<and>
    (\<not> collector_live t 0 \<longrightarrow>
       (\<exists>w e w1. get_events S (start_of events) w = (Inl e, w1) \<and> is_terminal_cursor_error e))"
proof -
  from keeper_main_Ok [OF assms(1)] obtain cli pkey skey bl events where
    E: "E = keeper_assemble pkey skey cli bl events" by blast
  from assms(2) obtain ss where
    x: "engine_executes E (keeper_stream_ends clients S R E) (\<lambda>i. keeper_replies L G C R) ss t"
    by (auto simp: keeper_executes_def)
  have n: "length (collectors E) = 2" "length (strategies E) = 4" "length (executors E) = 1"
    by (simp_all add: E keeper_assemble_parts)
  have r: "c = 0 \<and> (\<exists>w e w1. get_events S (start_of events) w = (Inl e, w1) \<and> is_terminal_cursor_error e)"
    if "\<not> collector_live t c" for c
    using keeper_stream_ends_assembled [OF assms(4,3)] returned_collector_ended [OF x that] E by blast
  have "task_returned E t \<longleftrightarrow> \<not> collector_live t 0"
    using first_returned_is_collector [OF x] r n by (metis zero_less_numeral)
  then have "main_returns E \<lparr>run_tasks = Inr t, server = sv, ctrl_c = ctrl, terminate = sigterm\<rparr> \<longleftrightarrow>
      sv \<noteq> None \<or> ctrl \<or> sigterm \<or> \<not> collector_live t 0"
    using n by (auto simp: main_returns_def run_engine_def shutdown_future_def)
  then show ?thesis using r [of 0] by (intro exI [of _ "cli_markets cli"] exI [of _ events]) (simp add: E keeper_assemble_parts)
qed

text \<open>A keeper that has just started.\<close>

lemma example_executes:
  "\<exists>t. keeper_executes L G C R clients S example_engine t \<and> collector_live t 0"
proof -
  obtain w ss w' where s: "sync_strategies (keeper_sync L R) (strategies example_engine) w = (Inr ss, w')"
    using sync_strategies_total by blast
  have "engine_executes example_engine (keeper_stream_ends clients S R example_engine) (\<lambda>i. keeper_replies L G C R) ss
      (spawned (started ss))" by (rule engine_executes.spawned)
  then show ?thesis using s by (intro exI [of _ "spawned (started ss)"]) (auto simp: keeper_executes_def, simp add: spawned_def)
qed

theorem keeper_stays_up_witness:
  "\<exists>t. keeper_executes bare_ledger example_gateway example_codec bare_store (\<lambda>c. Inr ()) example_source example_engine t \<and>
     \<not> main_returns example_engine \<lparr>run_tasks = Inr t, server = None, ctrl_c = False, terminate = False\<rparr> \<and>
     main_returns example_engine \<lparr>run_tasks = Inr t, server = None, ctrl_c = False, terminate = True\<rparr>"
proof -
  obtain t where t: "keeper_executes bare_ledger example_gateway example_codec bare_store (\<lambda>c. Inr () :: rpc_error + unit)
      example_source example_engine t" "collector_live t 0" using example_executes by blast
  have "received_by_engine example_source" by (simp add: received_by_engine_def example_source_def)
  have "\<forall>c < 2. \<exists>client. (\<lambda>c :: nat. Inr () :: rpc_error + unit) c = Inr client" by simp
  note up = keeper_stays_up [OF example_main t(1) \<open>received_by_engine example_source\<close> this]
  show ?thesis using up [of None False False] up [of None False True] t by blast
qed

end
