(* ===== verification/Spec2Isabelle.thy ===== *)
theory Spec2Isabelle
  imports Keeper_Wire Keeper_Process
begin

text \<open>
  Verification of the keeper of the Alula lending protocol (a liquidation bot for lending pools on
  Soroban).  The sources are two crates: \<^verbatim>\<open>engine\<close> (the lending model and a generic reactor) and
  \<^verbatim>\<open>keeper\<close> (the strategies, the Stellar adapter, storage and the binary).

  \<^bold>\<open>The program.\<close>  Two collectors poll the RPC for contract events and new ledgers.  The reactor
  broadcasts them to four strategies: the liquidator (caches obligations, judges them against market
  snapshots, plans and dispatches liquidations), the withdrawer (takes the keeper's deposits out of
  pools that can spare them), the bad-debt initiator (asks the market to cover debts without
  collateral) and the balancer (swaps seized assets into those to be held).  Their actions go to one
  executor, which builds, simulates, signs and submits a transaction and polls for its confirmation.
  Liquidator and balancer share a ledger of capital reservations; liquidator and collector share a
  SQLite database.

  \<^bold>\<open>The theories\<close>, from the bottom up:
  \<^item> \<open>Keeper_Prelude\<close>: checked, saturating and panicking 128-bit arithmetic, outcomes (\<open>Ok\<close>, \<open>Err\<close>,
    \<open>Panic\<close>) and results with their elimination rules.  \<open>Hash_Map\<close>: hash maps as lists of entries,
    locale \<open>key_value\<close>.
  \<^item> Lending model (\<^verbatim>\<open>engine/src/lending_model\<close>): \<open>Amount\<close> (\<^verbatim>\<open>amount.rs\<close>, \<^verbatim>\<open>error.rs\<close>), \<open>Obligation\<close>, \<open>Pool\<close>
    (\<^verbatim>\<open>pool.rs\<close>, \<^verbatim>\<open>market.rs\<close>; locale \<open>share_conversion\<close> for the two kinds of shares), \<open>Profitability\<close>,
    and for \<^verbatim>\<open>liquidation.rs\<close> \<open>Valuation\<close> (health, insolvency, seizable amounts), \<open>Liquidation_Pair\<close>
    (the dust rules of a market, quotes and the searches for acceptable repays, with the locales
    \<open>monotone_search\<close> and \<open>antitone_search\<close> of binary search) and \<open>Liquidation\<close>.
  \<^item> \<open>Capital\<close> (\<^verbatim>\<open>keeper/src/liquidator_capital.rs\<close>): balances, reservations and their expiry as steps of
    a shared ledger.  \<open>World\<close>: the shared world, the ports (\<^verbatim>\<open>engine/src/ports\<close>) as records of
    operations, events, actions, and tasks that call ports.  \<open>Example_Ports\<close>: ports of the examples.
  \<^item> The liquidator (\<^verbatim>\<open>strategy/liquidator.rs\<close>): \<open>Liquidator_Plan\<close> (the plan of a pair: direct, pre-swap
    or flash; locale \<open>provider_choice\<close>), \<open>Liquidator\<close> (scan, dispatch, caches, handlers),
    \<open>Liquidator_Correct\<close> (its properties).  The other strategies: \<open>Withdrawer\<close>, \<open>Bad_Debt\<close>, \<open>Balancer\<close>.
  \<^item> The Stellar adapter (\<^verbatim>\<open>keeper/src/stellar\<close>): \<open>Errors\<close> (\<^verbatim>\<open>errors.rs\<close>), \<open>Rpc\<close> (the RPC client),
    \<open>Xdr_Codec\<close>, \<open>Tx_Builder\<close>, \<open>Event_Decode\<close> (the codecs), \<open>Simulation\<close> (\<^verbatim>\<open>client.rs\<close>, \<^verbatim>\<open>simulation.rs\<close>).
    \<open>Executor\<close> (\<^verbatim>\<open>execute/stellar_tx.rs\<close>): submission with retries, signing, confirmation, settlement.
  \<^item> \<open>Storage\<close> (\<^verbatim>\<open>keeper/src/storage\<close>; locale \<open>obligation_repo\<close>), \<open>Collectors\<close> (\<^verbatim>\<open>keeper/src/collect\<close>),
    \<open>Reactor\<close> (\<^verbatim>\<open>engine/src/reactor\<close>; locale \<open>strategy_contract\<close>): the engine as a step relation in which
    entries may be lost at any moment.  \<open>Engine_Tasks\<close> (\<^verbatim>\<open>reactor/mod.rs\<close>, \<open>Engine::run\<close>): the spawned tasks on
    bounded channels, a refinement of it, with lag, its counters, and closing.
  \<^item> \<open>Config\<close> (\<^verbatim>\<open>config.rs\<close> and the distribution of the configuration in \<^verbatim>\<open>main.rs\<close>), \<open>Keeper_System\<close>
    (\<^verbatim>\<open>main.rs\<close>: the assembled keeper), \<open>Keeper_Wire\<close> (the keeper on the Stellar gateway), \<open>Keeper_Process\<close>
    (\<^verbatim>\<open>main.rs\<close>: what the process waits for and when it returns).
  \<^item> \<open>Metrics\<close> (\<^verbatim>\<open>keeper/src/metrics\<close>; locale \<open>outcome_counter\<close>): the vocabulary of outcomes, the emitters over
    an abstract registry, the readiness probe, and what a scan, a confirmation and the keeper's own position
    report; the report of the position returns whenever the pools are well formed, which is why
    the handlers of the liquidator are modelled without it.  \<open>Metrics_Catalog\<close> (\<^verbatim>\<open>catalog.rs\<close>): the declared
    names, the descriptions, the latency buckets and the routes of the server.

  \<^bold>\<open>Correspondence.\<close>  A struct is a record, an enum a datatype, an \<open>i128\<close> an \<open>int\<close> with its range checks
  written out in every operation, a \<open>u32\<close> or \<open>u64\<close> of small values a \<open>nat\<close>, an identifier a 64-bit word.
  \<open>?\<close> is a bind; an \<open>unwrap\<close>, an index or an unchecked operation that aborts is \<open>Panic\<close>, and a task that
  aborts has no result.  An \<open>await\<close> on a port is a call that takes the whole shared world to an arbitrary
  next one, so that every statement over ports holds for all interleavings with other tasks unless a
  hypothesis (\<open>quiet_ports\<close>, \<open>quiet_rpc\<close>) says that nobody else moves.  Code outside the repository is a
  parameter: the RPC client, the strkey, hex and XDR primitives (\<open>canonical\<close> states what is relied on),
  the JSON encoding, the cryptographic primitives, the configuration sources.

  \<^bold>\<open>What is shown.\<close>
  \<^item> Lending model: health and insolvency compare exact values; quotes respect the close factor, the
    debt and the position and never worsen a partly liquidated obligation; the binary searches return
    the least and the largest acceptable repays; share conversions lose nothing by a round trip.
  \<^item> Capital: reservations never exceed what was told to be available, in every interleaving.
  \<^item> Strategies: every action is warranted by the data it was judged on; plans are sound, funded and
    reserved; nothing undispatched keeps a reservation; caches follow the announced obligations.
  \<^item> Adapter: numbers and keys survive the wire, snapshots are typed and complete, error codes reach the
    strategies; what is sent is signed and is the action.
  \<^item> Storage and collectors: a restart restores the cache and the place in the event log; events are
    delivered once and in order.
  \<^item> The whole keeper: everything it executes is warranted, signed, bounded in its submissions and
    addressed to a configured market; what it reports of its scans is true, and every series it exposes
    is described; the reactor keeps order, counts what it loses, catches up and winds down; settlement gives
    back the capital of a dispatched plan; the process ends only with its server, by a signal, or because the
    first request for events was refused for good.

  \<^bold>\<open>Termination and fuel.\<close>  No definition uses fuel: loops over lists are structural recursions, the
  binary searches and the submission loop are functions with a measure.  The endless loops of the
  collectors and the reactor are modelled by their iterations and steps.

  \<^bold>\<open>Not modelled.\<close>  The call sites of the metrics inside the strategies, beyond the reports of a scan and of
  a confirmation, and log output: no decision reads them; the Prometheus recorder, its rendering and the
  HTTP server, which are third-party crates, and the floating-point numbers they show; argument parsing
  and tracing in \<^verbatim>\<open>main.rs\<close>; the compiled form of asynchronous tasks, beyond their interleaving at
  calls; unit tests.
\<close>

end
